(* ===== verification/Prelude.thy ===== *)
theory Prelude
  imports Main
begin

text \<open>
  Prelude of the development: the theorem collections the component proofs share, the
  exception-and-state monad in which one database transaction is written, the reading of
  single SQL statements over a table kept as a list of rows, and the few string operations
  of the JavaScript standard library the sources use.
\<close>

named_theorems keeps_intro \<open>rules that push an invariant through a transaction\<close>
named_theorems row_simps \<open>how a single SQL statement changes a table\<close>
named_theorems tx_simps \<open>evaluation of transactions\<close>

section \<open>Transactions: state with exceptions and rollback\<close>

text \<open>
  A transaction maps the store to an error (the transaction is rolled back, so there is no
  new store) or to a result and the new store. This is the reading of \<open>transaction\<close> of
  \<open>apps/api/src/db.ts\<close>: BEGIN, run the body, COMMIT, and on a throw ROLLBACK and rethrow.
\<close>

type_synonym ('s, 'e, 'a) tx = "'s \<Rightarrow> 'e + ('a \<times> 's)"

definition returnT :: "'a \<Rightarrow> ('s, 'e, 'a) tx" where
  "returnT a = (\<lambda>s. Inr (a, s))"

definition throwT :: "'e \<Rightarrow> ('s, 'e, 'a) tx" where
  "throwT e = (\<lambda>s. Inl e)"

definition bindT :: "('s, 'e, 'a) tx \<Rightarrow> ('a \<Rightarrow> ('s, 'e, 'b) tx) \<Rightarrow> ('s, 'e, 'b) tx" where
  "bindT m f = (\<lambda>s. case m s of Inl e \<Rightarrow> Inl e | Inr (a, s') \<Rightarrow> f a s')"

definition getsT :: "('s \<Rightarrow> 'a) \<Rightarrow> ('s, 'e, 'a) tx" where
  "getsT f = (\<lambda>s. Inr (f s, s))"

definition modifyT :: "('s \<Rightarrow> 's) \<Rightarrow> ('s, 'e, unit) tx" where
  "modifyT f = (\<lambda>s. Inr ((), f s))"

definition seqT :: "('s, 'e, 'a) tx \<Rightarrow> ('s, 'e, 'b) tx \<Rightarrow> ('s, 'e, 'b) tx" where
  "seqT m n = bindT m (\<lambda>_. n)"

definition requireT :: "bool \<Rightarrow> 'e \<Rightarrow> ('s, 'e, unit) tx" where
  "requireT b e = (if b then returnT () else throwT e)"

definition whenT :: "bool \<Rightarrow> ('s, 'e, unit) tx \<Rightarrow> ('s, 'e, unit) tx" where
  "whenT b m = (if b then m else returnT ())"

text \<open>\<open>x ?? throw e\<close>: the value, or the exception when it is null.\<close>

definition someT :: "'a option \<Rightarrow> 'e \<Rightarrow> ('s, 'e, 'a) tx" where
  "someT x e = (case x of None \<Rightarrow> throwT e | Some a \<Rightarrow> returnT a)"

lemmas tx_defs =
  returnT_def throwT_def bindT_def getsT_def modifyT_def seqT_def requireT_def whenT_def someT_def

lemma returnT_apply [tx_simps]: "returnT a s = Inr (a, s)"
  and throwT_apply [tx_simps]: "throwT e s = Inl e"
  and getsT_apply [tx_simps]: "getsT f s = Inr (f s, s)"
  and modifyT_apply [tx_simps]: "modifyT g s = Inr ((), g s)"
  by (simp_all add: tx_defs)

lemma bindT_Inr_iff:
  "bindT m f s = Inr (b, t) \<longleftrightarrow> (\<exists>a s'. m s = Inr (a, s') \<and> f a s' = Inr (b, t))"
  by (auto simp: bindT_def split: sum.splits prod.splits)

lemma bindT_Inr [tx_simps]: "m s = Inr (a, s') \<Longrightarrow> bindT m f s = f a s'"
  and bindT_Inl [tx_simps]: "m s = Inl e \<Longrightarrow> bindT m f s = Inl e"
  by (simp_all add: bindT_def)

lemma seqT_Inr_iff:
  "seqT m n s = Inr (b, t) \<longleftrightarrow> (\<exists>a s'. m s = Inr (a, s') \<and> n s' = Inr (b, t))"
  by (simp add: seqT_def bindT_Inr_iff)

lemma requireT_Inr_iff [tx_simps]: "requireT b e s = Inr (u, t) \<longleftrightarrow> b \<and> t = s"
  by (auto simp: tx_defs)

lemma someT_Inr_iff [tx_simps]: "someT x e s = Inr (a, t) \<longleftrightarrow> x = Some a \<and> t = s"
  by (auto simp: tx_defs split: option.splits)

lemma bindT_return [simp]: "bindT (returnT a) f = f a"
  and bindT_throw [simp]: "bindT (throwT e) f = throwT e"
  and bindT_assoc: "bindT (bindT m f) g = bindT m (\<lambda>a. bindT (f a) g)"
  by (auto simp: tx_defs fun_eq_iff split: sum.splits)

section \<open>Invariants of transactions\<close>

text \<open>
  \<open>keeps I m\<close>: whenever \<open>m\<close> commits from a store with \<open>I\<close>, the new store has \<open>I\<close>
  (a rolled-back transaction leaves the store alone). \<open>ensures P m Q\<close> is the Hoare triple
  over committing runs.
\<close>

definition keeps :: "('s \<Rightarrow> bool) \<Rightarrow> ('s, 'e, 'a) tx \<Rightarrow> bool" where
  "keeps I m \<longleftrightarrow> (\<forall>s a t. I s \<longrightarrow> m s = Inr (a, t) \<longrightarrow> I t)"

definition ensures :: "('s \<Rightarrow> bool) \<Rightarrow> ('s, 'e, 'a) tx \<Rightarrow> ('a \<Rightarrow> 's \<Rightarrow> bool) \<Rightarrow> bool" where
  "ensures P m Q \<longleftrightarrow> (\<forall>s a t. P s \<longrightarrow> m s = Inr (a, t) \<longrightarrow> Q a t)"

lemma keepsD: "keeps I m \<Longrightarrow> I s \<Longrightarrow> m s = Inr (a, t) \<Longrightarrow> I t"
  by (auto simp: keeps_def)

lemma keepsI: "(\<And>s a t. I s \<Longrightarrow> m s = Inr (a, t) \<Longrightarrow> I t) \<Longrightarrow> keeps I m"
  by (auto simp: keeps_def)

lemma keeps_return [keeps_intro]: "keeps I (returnT a)"
  and keeps_throw [keeps_intro]: "keeps I (throwT e)"
  and keeps_gets [keeps_intro]: "keeps I (getsT f)"
  and keeps_require [keeps_intro]: "keeps I (requireT b e)"
  and keeps_some [keeps_intro]: "keeps I (someT x e)"
  by (auto simp: keeps_def tx_defs split: option.splits if_splits)

lemma keeps_bind [keeps_intro]: "keeps I m \<Longrightarrow> (\<And>a. keeps I (f a)) \<Longrightarrow> keeps I (bindT m f)"
  unfolding keeps_def bindT_Inr_iff by blast

lemma keeps_seq [keeps_intro]: "keeps I m \<Longrightarrow> keeps I n \<Longrightarrow> keeps I (seqT m n)"
  unfolding keeps_def seqT_Inr_iff by blast

lemma keeps_when [keeps_intro]: "(b \<Longrightarrow> keeps I m) \<Longrightarrow> keeps I (whenT b m)"
  by (auto simp: whenT_def keeps_return)

lemma keeps_if [keeps_intro]:
  "(b \<Longrightarrow> keeps I m) \<Longrightarrow> (\<not> b \<Longrightarrow> keeps I n) \<Longrightarrow> keeps I (if b then m else n)"
  by simp

lemma keeps_option [keeps_intro]:
  "(x = None \<Longrightarrow> keeps I m) \<Longrightarrow> (\<And>a. x = Some a \<Longrightarrow> keeps I (f a)) \<Longrightarrow>
   keeps I (case x of None \<Rightarrow> m | Some a \<Rightarrow> f a)"
  by (cases x) auto

lemma keeps_list [keeps_intro]:
  "(xs = [] \<Longrightarrow> keeps I m) \<Longrightarrow> (\<And>a as. xs = a # as \<Longrightarrow> keeps I (f a as)) \<Longrightarrow>
   keeps I (case xs of [] \<Rightarrow> m | a # as \<Rightarrow> f a as)"
  by (cases xs) auto

lemma keeps_prod [keeps_intro]:
  "(\<And>a b. p = (a, b) \<Longrightarrow> keeps I (f a b)) \<Longrightarrow> keeps I (case p of (a, b) \<Rightarrow> f a b)"
  by (cases p) auto

lemma keeps_let [keeps_intro]: "(\<And>x. x = e \<Longrightarrow> keeps I (f x)) \<Longrightarrow> keeps I (let x = e in f x)"
  by (simp add: Let_def)

lemma keeps_modify: "(\<And>s. I s \<Longrightarrow> I (g s)) \<Longrightarrow> keeps I (modifyT g)"
  by (auto simp: keeps_def tx_defs)

lemma keeps_conj: "keeps I m \<Longrightarrow> keeps J m \<Longrightarrow> keeps (\<lambda>s. I s \<and> J s) m"
  by (auto simp: keeps_def)

lemma keeps_all: "(\<And>x. keeps (I x) m) \<Longrightarrow> keeps (\<lambda>s. \<forall>x. I x s) m"
  by (fastforce simp: keeps_def)

lemma ensuresD: "ensures P m Q \<Longrightarrow> P s \<Longrightarrow> m s = Inr (a, t) \<Longrightarrow> Q a t"
  by (auto simp: ensures_def)

lemma ensures_bind:
  "ensures P m R \<Longrightarrow> (\<And>a. ensures (R a) (f a) Q) \<Longrightarrow> ensures P (bindT m f) Q"
  unfolding ensures_def bindT_Inr_iff by blast

section \<open>Single SQL statements over a table\<close>

text \<open>
  A table is the list of its rows, oldest first. \<open>SELECT ... WHERE\<close> is \<open>filter\<close>, the
  node-postgres expression \<open>rows[0]\<close> is \<open>first_row\<close>, and \<open>UPDATE ... SET ... WHERE\<close>
  changes the rows that satisfy the condition; \<open>rowCount\<close> is their number.
\<close>

definition first_row :: "'r list \<Rightarrow> 'r option" where
  "first_row rs = (case rs of [] \<Rightarrow> None | r # _ \<Rightarrow> Some r)"

definition update_rows :: "('r \<Rightarrow> bool) \<Rightarrow> ('r \<Rightarrow> 'r) \<Rightarrow> 'r list \<Rightarrow> 'r list" where
  "update_rows P f rs = map (\<lambda>r. if P r then f r else r) rs"

definition count_rows :: "('r \<Rightarrow> bool) \<Rightarrow> 'r list \<Rightarrow> nat" where
  "count_rows P rs = length (filter P rs)"

lemma first_row_simps [simp]: "first_row [] = None" "first_row (r # rs) = Some r"
  by (simp_all add: first_row_def)

lemma first_row_Some: "first_row rs = Some r \<Longrightarrow> r \<in> set rs"
  by (auto simp: first_row_def split: list.splits)

lemma first_row_filter_Some: "first_row (filter P rs) = Some r \<Longrightarrow> r \<in> set rs \<and> P r"
  by (auto dest!: first_row_Some)

lemma first_row_None [simp]: "first_row rs = None \<longleftrightarrow> rs = []"
  by (auto simp: first_row_def split: list.splits)

lemma update_rows_simps [row_simps]:
  "update_rows P f [] = []"
  "update_rows P f (r # rs) = (if P r then f r else r) # update_rows P f rs"
  by (simp_all add: update_rows_def)

lemma length_update_rows [simp]: "length (update_rows P f rs) = length rs"
  by (simp add: update_rows_def)

lemma in_update_rows:
  "r \<in> set (update_rows P f rs) \<longleftrightarrow> (\<exists>q \<in> set rs. r = (if P q then f q else q))"
  by (auto simp: update_rows_def)

lemma bex_update_rows:
  "(\<And>r. P r \<Longrightarrow> Q (f r) = Q r) \<Longrightarrow> (\<exists>r \<in> set (update_rows P f rs). Q r) \<longleftrightarrow> (\<exists>r \<in> set rs. Q r)"
  and ball_update_rows:
  "(\<And>r. r \<in> set rs \<Longrightarrow> P r \<Longrightarrow> Q r \<Longrightarrow> Q (f r)) \<Longrightarrow> (\<forall>r \<in> set rs. Q r) \<Longrightarrow>
   (\<forall>r \<in> set (update_rows P f rs). Q r)"
  by (auto simp: update_rows_def)

lemma map_update_rows:
  "(\<And>r. r \<in> set rs \<Longrightarrow> P r \<Longrightarrow> k (f r) = k r) \<Longrightarrow> map k (update_rows P f rs) = map k rs"
  by (simp add: update_rows_def)

lemma count_update_rows_same:
  "(\<And>r. r \<in> set rs \<Longrightarrow> P r \<Longrightarrow> Q (f r) = Q r) \<Longrightarrow>
   count_rows Q (update_rows P f rs) = count_rows Q rs"
  by (induction rs) (auto simp: count_rows_def row_simps)

lemma count_update_rows_le:
  "(\<And>r. r \<in> set rs \<Longrightarrow> P r \<Longrightarrow> Q (f r) \<Longrightarrow> Q r) \<Longrightarrow>
   count_rows Q (update_rows P f rs) \<le> count_rows Q rs"
proof (induction rs)
  case (Cons r rs)
  then have "count_rows Q (update_rows P f rs) \<le> count_rows Q rs" by simp
  with Cons.prems show ?case by (auto simp: count_rows_def row_simps)
qed (simp add: count_rows_def row_simps)

lemma count_rows_append [simp]: "count_rows Q (rs @ qs) = count_rows Q rs + count_rows Q qs"
  by (simp add: count_rows_def)

lemma count_rows_Cons: "count_rows Q (r # rs) = (if Q r then 1 else 0) + count_rows Q rs"
  by (simp add: count_rows_def)

lemma count_rows_Nil [simp]: "count_rows Q [] = 0"
  by (simp add: count_rows_def)

lemma count_rows_zero: "count_rows Q rs = 0 \<longleftrightarrow> (\<forall>r \<in> set rs. \<not> Q r)"
  by (simp add: count_rows_def filter_empty_conv)

lemma count_rows_pos: "0 < count_rows Q rs \<longleftrightarrow> (\<exists>r \<in> set rs. Q r)"
  using count_rows_zero [of Q rs] by (simp add: neq0_conv [symmetric] del: neq0_conv)

lemma count_rows_mono: "(\<And>r. r \<in> set rs \<Longrightarrow> P r \<Longrightarrow> Q r) \<Longrightarrow> count_rows P rs \<le> count_rows Q rs"
  by (induction rs) (auto simp: count_rows_def intro: le_SucI)

lemma count_rows_unique:
  "count_rows Q rs \<le> 1 \<Longrightarrow> r \<in> set rs \<Longrightarrow> Q r \<Longrightarrow> q \<in> set rs \<Longrightarrow> Q q \<Longrightarrow> r = q"
proof (induction rs)
  case (Cons a rs)
  show ?case
  proof (cases "Q a")
    case True
    with Cons.prems(1) have "\<forall>r \<in> set rs. \<not> Q r"
      using count_rows_zero [of Q rs] by (simp add: count_rows_Cons)
    with Cons.prems show ?thesis by auto
  next
    case False
    with Cons show ?thesis by (auto simp: count_rows_Cons)
  qed
qed simp

lemma filter_key_unique:
  "distinct (map f xs) \<Longrightarrow> x \<in> set xs \<Longrightarrow> filter (\<lambda>y. f y = f x) xs = [x]"
proof (induction xs)
  case (Cons a xs)
  show ?case
  proof (cases "a = x")
    case True
    with Cons.prems(1) have "\<forall>y \<in> set xs. f y \<noteq> f x" by (auto simp: image_iff)
    with True show ?thesis by (simp add: filter_empty_conv)
  next
    case False
    with Cons show ?thesis by auto
  qed
qed simp

lemma key_unique: "distinct (map f xs) \<Longrightarrow> x \<in> set xs \<Longrightarrow> y \<in> set xs \<Longrightarrow> f x = f y \<Longrightarrow> x = y"
  by (auto simp: distinct_map dest: inj_onD)

lemma update_rows_none: "filter P rs = [] \<Longrightarrow> update_rows P f rs = rs"
  by (auto simp: update_rows_def filter_empty_conv intro!: map_idI)

lemma first_row_map: "first_row (map f rs) = map_option f (first_row rs)"
  by (cases rs) simp_all

lemma first_row_sort_key_Some:
  assumes "first_row (sort_key f rs) = Some r"
  shows "r \<in> set rs \<and> (\<forall>q \<in> set rs. f r \<le> f q)"
proof -
  from assms obtain qs where qs: "sort_key f rs = r # qs"
    by (auto simp: first_row_def split: list.splits)
  have "sorted (map f (sort_key f rs))" by simp
  moreover have "set (sort_key f rs) = set rs" by simp
  ultimately show ?thesis unfolding qs by auto
qed

lemma sort_key_Nil_iff [simp]: "sort_key f rs = [] \<longleftrightarrow> rs = []"
  by (metis set_empty set_sort)

text \<open>\<open>[...new Set(xs)]\<close>: the first occurrence of each element, in order.\<close>

fun dedupe :: "'a list \<Rightarrow> 'a list" where
  "dedupe [] = []"
| "dedupe (x # xs) = x # filter (\<lambda>y. y \<noteq> x) (dedupe xs)"

lemma set_dedupe [simp]: "set (dedupe xs) = set xs"
  by (induction xs) auto

lemma distinct_dedupe [simp]: "distinct (dedupe xs)"
  by (induction xs) simp_all

lemma dedupe_id: "distinct xs \<Longrightarrow> dedupe xs = xs"
  by (induction xs) (auto simp: filter_id_conv)

lemma dedupe_idem [simp]: "dedupe (dedupe xs) = dedupe xs"
  by (simp add: dedupe_id)

section \<open>Optional values\<close>

text \<open>\<open>a ?? b\<close> with a nullable and with a total default, and \<open>Boolean(s)\<close> of a nullable string.\<close>

definition coalesce :: "'a option \<Rightarrow> 'a option \<Rightarrow> 'a option" where
  "coalesce a b = (case a of None \<Rightarrow> b | Some x \<Rightarrow> Some x)"

definition or_else :: "'a option \<Rightarrow> 'a \<Rightarrow> 'a" where
  "or_else x d = (case x of None \<Rightarrow> d | Some a \<Rightarrow> a)"

definition truthy :: "string option \<Rightarrow> bool" where
  "truthy k \<longleftrightarrow> k \<noteq> None \<and> k \<noteq> Some []"

section \<open>Strings\<close>

text \<open>
  A JavaScript string is the list of its characters; the model covers the Latin-1 range
  (code units 0 to 255), on which \<open>toLowerCase\<close> and \<open>trim\<close> are written out below.
  \<open>toUpperCase\<close> is written for ASCII letters only.
\<close>

definition js_space :: "char \<Rightarrow> bool" where
  "js_space c \<longleftrightarrow> (let n = of_char c :: nat in (9 \<le> n \<and> n \<le> 13) \<or> n = 32 \<or> n = 160)"

definition lower_char :: "char \<Rightarrow> char" where
  "lower_char c = (let n = of_char c :: nat in
     if (65 \<le> n \<and> n \<le> 90) \<or> (192 \<le> n \<and> n \<le> 222 \<and> n \<noteq> 215) then char_of (n + 32) else c)"

definition upper_char :: "char \<Rightarrow> char" where
  "upper_char c = (let n = of_char c :: nat in if 97 \<le> n \<and> n \<le> 122 then char_of (n - 32) else c)"

definition to_lower :: "string \<Rightarrow> string" where
  "to_lower s = map lower_char s"

definition to_upper :: "string \<Rightarrow> string" where
  "to_upper s = map upper_char s"

definition trim :: "string \<Rightarrow> string" where
  "trim s = rev (dropWhile js_space (rev (dropWhile js_space s)))"

definition starts_with :: "string \<Rightarrow> string \<Rightarrow> bool" where
  "starts_with p s \<longleftrightarrow> take (length p) s = p"

definition ends_with :: "string \<Rightarrow> string \<Rightarrow> bool" where
  "ends_with p s \<longleftrightarrow> starts_with (rev p) (rev s)"

fun includes_str :: "string \<Rightarrow> string \<Rightarrow> bool" where
  "includes_str [] p = (p = [])"
| "includes_str (c # s) p = (starts_with p (c # s) \<or> includes_str s p)"

text \<open>\<open>s.split(c)\<close> for a one-character separator.\<close>

fun split_on :: "char \<Rightarrow> string \<Rightarrow> string list" where
  "split_on d [] = [[]]"
| "split_on d (c # s) =
     (if c = d then [] # split_on d s
      else (case split_on d s of [] \<Rightarrow> [[c]] | w # ws \<Rightarrow> (c # w) # ws))"

definition is_lower :: "char \<Rightarrow> bool" where
  "is_lower c \<longleftrightarrow> (let n = of_char c :: nat in 97 \<le> n \<and> n \<le> 122)"

definition is_upper :: "char \<Rightarrow> bool" where
  "is_upper c \<longleftrightarrow> (let n = of_char c :: nat in 65 \<le> n \<and> n \<le> 90)"

definition is_digit :: "char \<Rightarrow> bool" where
  "is_digit c \<longleftrightarrow> (let n = of_char c :: nat in 48 \<le> n \<and> n \<le> 57)"

text \<open>\<open>/^[a-z0-9](?:[a-z0-9-]{0,61}[a-z0-9])?$/\<close>: a DNS label.\<close>

definition alnum :: "char \<Rightarrow> bool" where
  "alnum c \<longleftrightarrow> is_lower c \<or> is_digit c"

definition dns_label :: "string \<Rightarrow> bool" where
  "dns_label w \<longleftrightarrow> w \<noteq> [] \<and> alnum (hd w) \<and> alnum (last w) \<and> length w \<le> 63 \<and>
     (\<forall>c \<in> set w. alnum c \<or> c = CHR ''-'')"

text \<open>\<open>ws.join(c)\<close> for a one-character separator.\<close>

fun join_with :: "char \<Rightarrow> string list \<Rightarrow> string" where
  "join_with c [] = []"
| "join_with c [w] = w"
| "join_with c (w # ws) = w @ c # join_with c ws"

text \<open>Template-literal rendering of an integer.\<close>

fun nat_str :: "nat \<Rightarrow> string" where
  "nat_str n = (if n < 10 then [char_of (48 + n)] else nat_str (n div 10) @ [char_of (48 + n mod 10)])"

declare nat_str.simps [simp del]

definition show_int :: "int \<Rightarrow> string" where
  "show_int i = (if i < 0 then CHR ''-'' # nat_str (nat (- i)) else nat_str (nat i))"

lemma split_on_nonempty [simp]: "split_on d s \<noteq> []"
  by (cases "(d, s)" rule: split_on.cases) (auto split: list.splits)

lemma split_on_no_sep: "c \<notin> set w \<Longrightarrow> split_on c w = [w]"
  by (induction w) auto

lemma split_on_append: "c \<notin> set w \<Longrightarrow> split_on c (w @ c # s) = w # split_on c s"
  by (induction w) auto

lemma split_join: "ws \<noteq> [] \<Longrightarrow> \<forall>w \<in> set ws. c \<notin> set w \<Longrightarrow> split_on c (join_with c ws) = ws"
  by (induction c ws rule: join_with.induct) (simp_all add: split_on_no_sep split_on_append)

lemma starts_with_iff: "starts_with p s \<longleftrightarrow> (\<exists>r. s = p @ r)"
  by (auto simp: starts_with_def) (metis append_take_drop_id)

lemma ends_with_iff: "ends_with p s \<longleftrightarrow> (\<exists>r. s = r @ p)"
  unfolding ends_with_def starts_with_iff
  by (metis rev_append rev_rev_ident)

lemma length_to_lower [simp]: "length (to_lower s) = length s"
  by (simp add: to_lower_def)

lemma char_of_char_nat: "n < 256 \<Longrightarrow> of_char (char_of n :: char) = (n :: nat)"
  by (simp add: of_char_of)

lemma of_char_less_256: "of_char c < (256 :: nat)"
  by (metis of_char_mod_256 mod_less_divisor zero_less_numeral)

lemma lower_char_idem [simp]: "lower_char (lower_char c) = lower_char c"
  using of_char_less_256 [of c]
  by (auto simp: lower_char_def Let_def char_of_char_nat)

lemma to_lower_idem [simp]: "to_lower (to_lower s) = to_lower s"
  by (simp add: to_lower_def)

lemma js_space_lower [simp]: "js_space (lower_char c) = js_space c"
  using of_char_less_256 [of c]
  by (auto simp: lower_char_def js_space_def Let_def char_of_char_nat)

lemma dropWhile_space_lower: "dropWhile js_space (map lower_char s) = map lower_char (dropWhile js_space s)"
  by (simp add: dropWhile_map comp_def)

lemma trim_to_lower: "trim (to_lower s) = to_lower (trim s)"
  by (simp add: trim_def to_lower_def dropWhile_space_lower rev_map)

lemma dropWhile_ends:
  assumes "s = [] \<or> \<not> js_space (hd s)"
  shows "dropWhile js_space s = s"
  using assms by (cases s) auto

lemma trim_hd_last:
  "trim s = [] \<or> (\<not> js_space (hd (trim s)) \<and> \<not> js_space (last (trim s)))"
proof -
  define a where "a = dropWhile js_space s"
  define b where "b = dropWhile js_space (rev a)"
  have t: "trim s = rev b" by (simp add: trim_def a_def b_def)
  show ?thesis
  proof (cases "b = []")
    case False
    then have l: "\<not> js_space (hd b)" unfolding b_def using hd_dropWhile by blast
    have "\<exists>p. rev a = p @ b" unfolding b_def by (metis takeWhile_dropWhile_id)
    then obtain p where "rev a = p @ b" by blast
    then have "a = rev b @ rev p" by (metis rev_append rev_rev_ident)
    then have "hd (rev b) = hd a" "a \<noteq> []" using False by auto
    moreover from \<open>a \<noteq> []\<close> have "\<not> js_space (hd a)" unfolding a_def using hd_dropWhile by blast
    ultimately have "\<not> js_space (hd (rev b))" by simp
    with l False show ?thesis by (simp add: t last_rev)
  qed (simp add: t)
qed

lemma trim_idem [simp]: "trim (trim s) = trim s"
proof (cases "trim s = []")
  case False
  with trim_hd_last [of s] have h: "\<not> js_space (hd (trim s))" "\<not> js_space (last (trim s))" by auto
  then have "dropWhile js_space (trim s) = trim s" by (simp add: dropWhile_ends)
  moreover have "dropWhile js_space (rev (trim s)) = rev (trim s)"
    using h False by (simp add: dropWhile_ends hd_rev)
  ultimately show ?thesis using trim_def [of "trim s"] by simp
next
  case True
  have "trim [] = []" by (simp add: trim_def)
  with True show ?thesis by simp
qed

end
