(* ===== verification/Json.thy ===== *)
theory Json
  imports Prelude "HOL-Library.Char_ord" "HOL-Library.List_Lexorder"
begin

text \<open>
  JavaScript values as the control plane keeps them in JSON columns (the \<open>request\<close> and
  \<open>result\<close> of an operation, the \<open>context\<close> of a runtime effect) and hashes them in the
  create-intent fingerprint. Objects are association lists in insertion order; numbers are
  integers (no column of the modelled code holds a fraction). \<open>Undefined\<close> is JavaScript's
  undefined, which JSON cannot carry.
\<close>

datatype js =
    Undefined
  | JNull
  | JBool bool
  | JNum int
  | JStr string
  | JArr "js list"
  | JObj "(string \<times> js) list"

type_synonym obj = "(string \<times> js) list"

text \<open>\<open>o.k\<close>: the value of a key, undefined when the key is absent.\<close>

definition field :: "obj \<Rightarrow> string \<Rightarrow> js" where
  "field m k = (case map_of m k of None \<Rightarrow> Undefined | Some v \<Rightarrow> v)"

text \<open>
  The test \<open>(o->>'k') = t\<close> for \<open>t\<close> one of the texts 'true' and 'false': \<open>->>\<close> gives a
  string as it is and a boolean as its literal, and SQL null (never equal) when the key is
  absent or null; no number, array or object prints as one of these two words.
\<close>

definition field_text_is :: "obj \<Rightarrow> string \<Rightarrow> string \<Rightarrow> bool" where
  "field_text_is m k t =
     (case map_of m k of
        Some (JStr s) \<Rightarrow> s = t
      | Some (JBool b) \<Rightarrow> t = (if b then ''true'' else ''false'')
      | _ \<Rightarrow> False)"

definition str_or_null :: "string option \<Rightarrow> js" where
  "str_or_null x = (case x of None \<Rightarrow> JNull | Some s \<Rightarrow> JStr s)"

definition num_or_null :: "int option \<Rightarrow> js" where
  "num_or_null x = (case x of None \<Rightarrow> JNull | Some n \<Rightarrow> JNum n)"

text \<open>\<open>typeof x === "string" ? x : ...\<close> and the same for numbers.\<close>

definition as_string :: "js \<Rightarrow> string option" where
  "as_string v = (case v of JStr s \<Rightarrow> Some s | _ \<Rightarrow> None)"

definition as_number :: "js \<Rightarrow> int option" where
  "as_number v = (case v of JNum n \<Rightarrow> Some n | _ \<Rightarrow> None)"

text \<open>\<open>Boolean(x)\<close>, and \<open>x?.length\<close> as a condition.\<close>

definition js_truthy :: "js \<Rightarrow> bool" where
  "js_truthy v = (case v of JBool b \<Rightarrow> b | JNum n \<Rightarrow> n \<noteq> 0 | JStr s \<Rightarrow> s \<noteq> [] | JArr vs \<Rightarrow> True | JObj es \<Rightarrow> True
     | Undefined \<Rightarrow> False | JNull \<Rightarrow> False)"

definition js_nonempty :: "js \<Rightarrow> bool" where
  "js_nonempty v = (case v of JStr s \<Rightarrow> s \<noteq> [] | JArr vs \<Rightarrow> vs \<noteq> []
     | JObj m \<Rightarrow> js_truthy (field m ''length'') | _ \<Rightarrow> False)"

text \<open>jsonb concatenation \<open>a || b\<close> of two objects: the keys of \<open>b\<close> win.\<close>

definition obj_merge :: "obj \<Rightarrow> obj \<Rightarrow> obj" where
  "obj_merge a b = filter (\<lambda>(k, v). k \<notin> set (map fst b)) a @ b"

lemma field_simps_js [simp]:
  "field [] k = Undefined"
  "field ((k', v) # m) k = (if k' = k then v else field m k)"
  by (simp_all add: field_def)

lemma map_of_filter_key:
  "map_of (filter (\<lambda>(k, v). k \<notin> S) m) k = (if k \<in> S then None else map_of m k)"
  by (induction m) auto

lemma field_obj_merge:
  "field (obj_merge a b) k = (if k \<in> set (map fst b) then field b k else field a k)"
proof (cases "k \<in> set (map fst b)")
  case True
  then obtain v where "map_of b k = Some v" by (metis map_of_eq_None_iff not_None_eq set_map)
  with True show ?thesis by (auto simp: field_def obj_merge_def map_add_def map_of_filter_key)
next
  case False
  then have "map_of b k = None" by (simp add: map_of_eq_None_iff)
  with False show ?thesis
    by (auto simp: field_def obj_merge_def map_add_def map_of_filter_key split: option.splits)
qed

section \<open>Canonical form\<close>

text \<open>
  \<open>canonical\<close> of \<open>services/sandbox-admission.ts\<close>: arrays elementwise, objects without
  their undefined entries, sorted by key. (JavaScript enumerates keys that are decimal array
  indices before the others whatever their insertion order; keys of that shape are outside
  the model.)
\<close>

definition defined :: "js \<Rightarrow> bool" where
  "defined v \<longleftrightarrow> (case v of Undefined \<Rightarrow> False | _ \<Rightarrow> True)"

fun canonical :: "js \<Rightarrow> js" where
  "canonical (JArr vs) = JArr (map canonical vs)"
| "canonical (JObj es) =
     JObj (map (\<lambda>(k, v). (k, canonical v)) (sort_key fst (filter (\<lambda>(k, v). defined v) es)))"
| "canonical v = v"

lemma defined_iff: "defined v \<longleftrightarrow> v \<noteq> Undefined"
  by (cases v) (auto simp: defined_def)

lemma defined_canonical [simp]: "defined (canonical v) = defined v"
  by (cases v) (auto simp: defined_def)

lemma canonical_Undefined [simp]: "canonical v = Undefined \<longleftrightarrow> v = Undefined"
  by (cases v) auto

lemma canonical_idem: "canonical (canonical v) = canonical v"
proof (induction v rule: canonical.induct)
  case (1 vs)
  then show ?case by simp
next
  case (2 es)
  let ?ds = "sort_key fst (filter (\<lambda>(k, v). defined v) es)"
  let ?cs = "map (\<lambda>(k, v). (k, canonical v)) ?ds"
  have "filter (\<lambda>(k, v). defined v) ?cs = ?cs"
    by (rule filter_True) (auto simp: defined_iff split: prod.splits)
  moreover have "map fst ?cs = map fst ?ds" by simp
  then have "sort_key fst ?cs = ?cs"
    by (metis sorted_sort_key sort_key_id_if_sorted)
  moreover have "map (\<lambda>(k, v). (k, canonical v)) ?cs = ?cs"
    using 2 by auto
  ultimately show ?case by simp
qed simp_all

end
