(* ===== verification/Status.thy ===== *)
theory Status
  imports Json
begin

text \<open>
  The shared vocabulary of the control plane (\<open>packages/shared/src/index.ts\<close>): the sandbox,
  snapshot, operation and command states as datatypes with their wire names, the table of
  allowed sandbox transitions, and the normalisation of the states a runtime provider
  reports.
\<close>

section \<open>States and their wire names\<close>

datatype sandbox_status =
  SPending | SRunning | SIdle | SPausing | SPaused | SResuming | SError | STerminated

definition sandboxStatuses :: "sandbox_status list" where
  "sandboxStatuses =
     [SPending, SRunning, SIdle, SPausing, SPaused, SResuming, SError, STerminated]"

fun status_text :: "sandbox_status \<Rightarrow> string" where
  "status_text SPending = ''pending''"
| "status_text SRunning = ''running''"
| "status_text SIdle = ''idle''"
| "status_text SPausing = ''pausing''"
| "status_text SPaused = ''paused''"
| "status_text SResuming = ''resuming''"
| "status_text SError = ''error''"
| "status_text STerminated = ''terminated''"

text \<open>\<open>sandboxStatuses.includes(s) ? s : ...\<close>: the state of that name, if there is one.\<close>

definition status_of_text :: "string \<Rightarrow> sandbox_status option" where
  "status_of_text s = first_row (filter (\<lambda>st. status_text st = s) sandboxStatuses)"

fun sandboxStatusTransitions :: "sandbox_status \<Rightarrow> sandbox_status list" where
  "sandboxStatusTransitions SPending = [SRunning, SError, STerminated]"
| "sandboxStatusTransitions SRunning = [SIdle, SPausing, SError, STerminated]"
| "sandboxStatusTransitions SIdle = [SRunning, SPausing, SError, STerminated]"
| "sandboxStatusTransitions SPausing = [SPaused, SRunning, SError, STerminated]"
| "sandboxStatusTransitions SPaused = [SResuming, SError, STerminated]"
| "sandboxStatusTransitions SResuming = [SRunning, SIdle, SError, STerminated]"
| "sandboxStatusTransitions SError = [SPending, SRunning, STerminated]"
| "sandboxStatusTransitions STerminated = []"

definition canTransitionSandboxStatus :: "sandbox_status \<Rightarrow> sandbox_status \<Rightarrow> bool" where
  "canTransitionSandboxStatus from to \<longleftrightarrow>
     from = to \<or> to \<in> set (sandboxStatusTransitions from)"

datatype operation_kind =
    KProvision | KDelete | KRenew | KPause | KResume | KSnapshot | KSnapshotDelete | KRouteExpose

datatype snapshot_status =
  SnCreating | SnReady | SnFailed | SnDeleting | SnDeleted | SnExpired

definition sandboxSnapshotStatuses :: "snapshot_status list" where
  "sandboxSnapshotStatuses = [SnCreating, SnReady, SnFailed, SnDeleting, SnDeleted, SnExpired]"

fun snapshot_text :: "snapshot_status \<Rightarrow> string" where
  "snapshot_text SnCreating = ''creating''"
| "snapshot_text SnReady = ''ready''"
| "snapshot_text SnFailed = ''failed''"
| "snapshot_text SnDeleting = ''deleting''"
| "snapshot_text SnDeleted = ''deleted''"
| "snapshot_text SnExpired = ''expired''"

definition snapshot_of_text :: "string \<Rightarrow> snapshot_status option" where
  "snapshot_of_text s = first_row (filter (\<lambda>st. snapshot_text st = s) sandboxSnapshotStatuses)"

datatype operation_state = Queued | Running | Succeeded | Failed | Canceled

definition statusLabel :: "sandbox_status \<Rightarrow> sandbox_status" where
  "statusLabel s = (if s = SPending then SRunning else s)"

section \<open>Provider states\<close>

text \<open>
  \<open>normalizeRuntimeState\<close> of \<open>services/sandbox-lease.ts\<close>, in the order of its tests;
  \<open>None\<close> stands for both an absent state and JavaScript's null result.
\<close>

definition normalizeRuntimeState :: "string option \<Rightarrow> sandbox_status option" where
  "normalizeRuntimeState state =
    (let value = to_lower (case state of None \<Rightarrow> [] | Some s \<Rightarrow> s) in
     if includes_str value ''pausing'' then Some SPausing
     else if includes_str value ''paused'' then Some SPaused
     else if includes_str value ''resuming'' then Some SResuming
     else if value = ''idle'' then Some SIdle
     else if includes_str value ''running'' \<or> includes_str value ''ready'' then Some SRunning
     else if includes_str value ''pending'' \<or> includes_str value ''creating'' then Some SPending
     else if includes_str value ''fail'' \<or> includes_str value ''error'' then Some SError
     else if value \<in> {''deleted'', ''terminated'', ''stopped''} then Some STerminated
     else None)"

text \<open>
  \<open>.replace(/([a-z])([A-Z])/g, "$1_$2")\<close>: an underscore between a lower-case letter and
  an upper-case one. (A match consumes both letters; the upper-case letter cannot start the
  next match, so consecutive pairs never compete.)
\<close>

fun split_camel :: "string \<Rightarrow> string" where
  "split_camel (a # b # s) =
     (if is_lower a \<and> is_upper b then a # CHR ''_'' # split_camel (b # s)
      else a # split_camel (b # s))"
| "split_camel s = s"

definition normalizeSandboxStatus :: "string \<Rightarrow> sandbox_status" where
  "normalizeSandboxStatus status =
    (let normalized = to_lower (split_camel (trim status)) in
     if normalized = ''stopped'' \<or> normalized = ''deleted'' then STerminated
     else if normalized = ''failed'' then SError
     else (case status_of_text normalized of Some s \<Rightarrow> s | None \<Rightarrow> SError))"

definition normalizeSnapshotStatus :: "string \<Rightarrow> snapshot_status" where
  "normalizeSnapshotStatus status =
    (let normalized = to_lower (split_camel (trim status)) in
     case snapshot_of_text normalized of Some s \<Rightarrow> s | None \<Rightarrow> SnFailed)"

section \<open>Facts\<close>

lemma set_sandboxStatuses [simp]: "s \<in> set sandboxStatuses"
  by (cases s) (simp_all add: sandboxStatuses_def)

lemma status_text_inj [simp]: "status_text a = status_text b \<longleftrightarrow> a = b"
  by (cases a; cases b) simp_all

lemma status_of_text_inverse [simp]: "status_of_text (status_text s) = Some s"
  by (cases s) (simp_all add: status_of_text_def sandboxStatuses_def)

lemma status_of_text_Some: "status_of_text t = Some s \<Longrightarrow> status_text s = t"
  by (auto simp: status_of_text_def dest: first_row_filter_Some)

lemma snapshot_of_text_inverse [simp]: "snapshot_of_text (snapshot_text s) = Some s"
  by (cases s) (simp_all add: snapshot_of_text_def sandboxSnapshotStatuses_def)

text \<open>Terminated is the only state nothing leaves.\<close>

lemma transitions_terminal:
  "canTransitionSandboxStatus s STerminated \<and>
   (canTransitionSandboxStatus STerminated t \<longleftrightarrow> t = STerminated)"
  by (cases s) (auto simp: canTransitionSandboxStatus_def)

lemma runtime_state_of_status:
  "normalizeRuntimeState (Some (status_text s)) = Some s"
  by (cases s; hypsubst; code_simp)

lemma sandbox_status_of_status:
  "normalizeSandboxStatus (status_text s) = s"
  by (cases s; hypsubst; code_simp)

end
