(* ===== verification/Egress.thy ===== *)
theory Egress
  imports Json
begin

text \<open>
  Outbound network policies (\<open>packages/shared/src/index.ts\<close>): checking and normalizing the
  target domains, and compiling a policy as a user writes it into the rules a runtime
  provider enforces.
\<close>

section \<open>Data\<close>

datatype egress_mode = Open | Restricted | Blocked | Custom

datatype egress_action = Allow | Deny

record egress_rule =
  g_action :: egress_action
  g_target :: string

record network_policy =
  p_defaultAction :: egress_action
  p_egress :: "egress_rule list"

text \<open>\<open>EgressPolicyInput\<close>; the identities of presets are checked when it is compiled.\<close>

record policy_input =
  pi_mode :: "egress_mode option"
  pi_presets :: "string list option"
  pi_allow :: "string list option"
  pi_deny :: "string list option"
  pi_defaultAction :: "egress_action option"

datatype rule_source = FromPreset string | FromSandbox

record policy_rule = egress_rule +
  g_source :: rule_source

record policy_summary =
  ps_mode :: egress_mode
  ps_presets :: "string list"
  ps_allow :: "string list"
  ps_deny :: "string list"
  ps_rules :: "policy_rule list"
  ps_compiled :: "network_policy option"

definition egressPresetIds :: "string list" where
  "egressPresetIds =
     [''python-package-install'', ''node-package-install'', ''git-hosting'', ''llm-apis'', ''browser-basic'']"

definition egressPresetCatalog :: "string \<Rightarrow> string list" where
  "egressPresetCatalog i =
    (if i = ''python-package-install'' then
       [''pypi.org'', ''*.pypi.org'', ''files.pythonhosted.org'', ''*.pythonhosted.org'', ''astral.sh'', ''*.astral.sh'']
     else if i = ''node-package-install'' then
       [''registry.npmjs.org'', ''*.npmjs.org'', ''nodejs.org'', ''*.nodejs.org'']
     else if i = ''git-hosting'' then
       [''github.com'', ''api.github.com'', ''raw.githubusercontent.com'', ''objects.githubusercontent.com'',
        ''codeload.github.com'']
     else if i = ''llm-apis'' then [''api.openai.com'', ''api.anthropic.com'', ''opencode.ai'']
     else [])"

definition defaultEgressPolicyInput :: policy_input where
  "defaultEgressPolicyInput =
     \<lparr>pi_mode = Some Open, pi_presets = Some [], pi_allow = Some [], pi_deny = Some [], pi_defaultAction = None\<rparr>"

section \<open>Targets\<close>

text \<open>\<open>.trim().toLowerCase().replace(/\.$/, "")\<close>.\<close>

definition drop_dot :: "string \<Rightarrow> string" where
  "drop_dot s = (if s \<noteq> [] \<and> last s = CHR ''.'' then butlast s else s)"

definition clean_target :: "string \<Rightarrow> string" where
  "clean_target target = drop_dot (to_lower (trim target))"

text \<open>\<open>/^\d{1,3}(?:\.\d{1,3}){3}$/\<close>.\<close>

definition ipv4_shape :: "string \<Rightarrow> bool" where
  "ipv4_shape s \<longleftrightarrow> length (split_on (CHR ''.'') s) = 4 \<and>
     (\<forall>w \<in> set (split_on (CHR ''.'') s). 1 \<le> length w \<and> length w \<le> 3 \<and> (\<forall>c \<in> set w. is_digit c))"

text \<open>\<open>/^[a-z0-9](?:[a-z0-9-]*[a-z0-9])?$/\<close>.\<close>

definition label_chars :: "string \<Rightarrow> bool" where
  "label_chars w \<longleftrightarrow> w \<noteq> [] \<and> alnum (hd w) \<and> alnum (last w) \<and> (\<forall>c \<in> set w. alnum c \<or> c = CHR ''-'')"

definition target_body :: "string \<Rightarrow> string" where
  "target_body s = (if starts_with ''*.'' s then drop 2 s else s)"

definition invalidEgressTargetReason :: "string \<Rightarrow> string option" where
  "invalidEgressTargetReason target =
    (let trimmed = clean_target target; body = target_body trimmed; labels = split_on (CHR ''.'') body in
     if trimmed = [] then Some ''domain is required''
     else if trimmed = ''*'' \<or> trimmed = ''*.'' then Some ''bare wildcards are not supported''
     else if starts_with ''http://'' trimmed \<or> starts_with ''https://'' trimmed then Some ''use a hostname, not a URL''
     else if \<exists>c \<in> set trimmed. c \<in> set ''/?#'' then Some ''paths and query strings are not supported''
     else if \<exists>c \<in> set trimmed. js_space c then Some ''spaces are not supported''
     else if CHR '':'' \<in> set trimmed then Some ''ports and IP literals are not supported''
     else if trimmed = ''localhost'' \<or> ends_with ''.localhost'' trimmed then Some ''localhost is not supported''
     else if trimmed = ''169.254.169.254'' then Some ''metadata endpoints are not supported''
     else if ipv4_shape trimmed then Some ''IP addresses are not supported''
     else if CHR ''.'' \<notin> set body then Some ''use a fully qualified domain name''
     else if \<exists>w \<in> set labels. w = [] \<or> 63 < length w then Some ''domain labels must be 1-63 characters''
     else if \<exists>w \<in> set labels. \<not> label_chars w then Some ''domain labels may contain letters, numbers, and hyphens''
     else None)"

definition normalizeEgressTarget :: "string \<Rightarrow> string + string" where
  "normalizeEgressTarget target =
    (let normalized = clean_target target in
     case invalidEgressTargetReason normalized of
       Some reason \<Rightarrow> Inl (''invalid egress target '' @ CHR 0x22 # target @ CHR 0x22 # '': '' @ reason)
     | None \<Rightarrow> Inr normalized)"

definition isEgressTargetValid :: "string \<Rightarrow> bool" where
  "isEgressTargetValid target \<longleftrightarrow> invalidEgressTargetReason target = None"

text \<open>A list of fallible items, stopping at the first error.\<close>

fun all_of :: "('e + 'a) list \<Rightarrow> 'e + 'a list" where
  "all_of [] = Inr []"
| "all_of (Inl e # xs) = Inl e"
| "all_of (Inr a # xs) = (case all_of xs of Inl e \<Rightarrow> Inl e | Inr bs \<Rightarrow> Inr (a # bs))"

definition uniqueNormalizedTargets :: "string list option \<Rightarrow> string + string list" where
  "uniqueNormalizedTargets values =
    (case all_of (map normalizeEgressTarget (case values of None \<Rightarrow> [] | Some vs \<Rightarrow> vs)) of
       Inl e \<Rightarrow> Inl e | Inr ts \<Rightarrow> Inr (dedupe ts))"

definition normalizePresets :: "string list option \<Rightarrow> string + string list" where
  "normalizePresets presets =
    (let ps = (case presets of None \<Rightarrow> [] | Some ps \<Rightarrow> ps) in
     case first_row (filter (\<lambda>p. p \<notin> set egressPresetIds) ps) of
       Some p \<Rightarrow> Inl (''invalid egress preset '' @ CHR 0x22 # p @ [CHR 0x22])
     | None \<Rightarrow> Inr (dedupe ps))"

section \<open>Compilation\<close>

definition some_items :: "'a list option \<Rightarrow> bool" where
  "some_items xs \<longleftrightarrow> (case xs of None \<Rightarrow> False | Some ys \<Rightarrow> 0 < length ys)"

definition inferEgressMode :: "policy_input option \<Rightarrow> egress_mode" where
  "inferEgressMode input =
    (case input of None \<Rightarrow> Open
     | Some i \<Rightarrow>
        (case pi_mode i of
           Some m \<Rightarrow> m
         | None \<Rightarrow> if some_items (pi_presets i) \<or> some_items (pi_allow i) then Restricted else Open))"

definition rule_of :: "rule_source \<Rightarrow> egress_action \<Rightarrow> string \<Rightarrow> policy_rule" where
  "rule_of src a t = \<lparr>g_action = a, g_target = t, g_source = src\<rparr>"

definition rule_key :: "('b) egress_rule_scheme \<Rightarrow> egress_action \<times> string" where
  "rule_key r = (g_action r, g_target r)"

text \<open>The first rule of each key, in order.\<close>

fun dedupe_key :: "('a \<Rightarrow> 'k) \<Rightarrow> 'a list \<Rightarrow> 'a list" where
  "dedupe_key k [] = []"
| "dedupe_key k (r # rs) = r # filter (\<lambda>q. k q \<noteq> k r) (dedupe_key k rs)"

definition bare_rule :: "policy_rule \<Rightarrow> egress_rule" where
  "bare_rule r = \<lparr>g_action = g_action r, g_target = g_target r\<rparr>"

text \<open>The rules of presets; every domain of the catalog is normalized too.\<close>

definition preset_rules :: "string list \<Rightarrow> string + policy_rule list" where
  "preset_rules presets =
     all_of (concat (map (\<lambda>p. map (\<lambda>t. case normalizeEgressTarget t of
         Inl e \<Rightarrow> Inl e | Inr n \<Rightarrow> Inr (rule_of (FromPreset p) Allow n)) (egressPresetCatalog p)) presets))"

definition summarize ::
    "policy_input option \<Rightarrow> string list \<Rightarrow> policy_rule list \<Rightarrow> string list \<Rightarrow> string list \<Rightarrow> policy_summary" where
  "summarize input presets presetAllowRules explicitAllow explicitDeny =
    (let mode = inferEgressMode input;
         allowRules = presetAllowRules @ map (rule_of FromSandbox Allow) explicitAllow;
         denyRules = map (rule_of FromSandbox Deny) explicitDeny;
         dedupedRules = dedupe_key rule_key (allowRules @ denyRules)
     in
     if mode = Blocked then
       \<lparr>ps_mode = mode, ps_presets = [], ps_allow = [], ps_deny = [], ps_rules = [],
        ps_compiled = Some \<lparr>p_defaultAction = Deny, p_egress = []\<rparr>\<rparr>
     else if mode = Open then
       \<lparr>ps_mode = mode, ps_presets = [], ps_allow = [], ps_deny = explicitDeny, ps_rules = denyRules,
        ps_compiled = (if denyRules \<noteq> [] then Some \<lparr>p_defaultAction = Allow, p_egress = map bare_rule denyRules\<rparr> else None)\<rparr>
     else
       let defaultAction = (if mode = Custom then
             (case Option.bind input pi_defaultAction of
                Some a \<Rightarrow> a
              | None \<Rightarrow> if denyRules \<noteq> [] \<and> allowRules = [] then Allow else Deny) else Deny);
           rules = (if defaultAction = Allow then denyRules else dedupedRules)
       in \<lparr>ps_mode = mode, ps_presets = presets, ps_allow = explicitAllow, ps_deny = explicitDeny, ps_rules = rules,
           ps_compiled = Some \<lparr>p_defaultAction = defaultAction, p_egress = map bare_rule rules\<rparr>\<rparr>)"

definition compileEgressPolicy :: "policy_input option \<Rightarrow> string + policy_summary" where
  "compileEgressPolicy input =
    (case normalizePresets (Option.bind input pi_presets) of Inl e \<Rightarrow> Inl e | Inr presets \<Rightarrow>
     case preset_rules presets of Inl e \<Rightarrow> Inl e | Inr presetAllowRules \<Rightarrow>
     case uniqueNormalizedTargets (Option.bind input pi_allow) of Inl e \<Rightarrow> Inl e | Inr explicitAllow \<Rightarrow>
     case uniqueNormalizedTargets (Option.bind input pi_deny) of Inl e \<Rightarrow> Inl e | Inr explicitDeny \<Rightarrow>
     Inr (summarize input presets presetAllowRules explicitAllow explicitDeny))"

text \<open>The forms the services store and send (\<open>services/egress-policy.ts\<close>).\<close>

definition policyUsesCustomDomains :: "policy_input option \<Rightarrow> bool" where
  "policyUsesCustomDomains policy \<longleftrightarrow>
    (case policy of None \<Rightarrow> False
     | Some p \<Rightarrow> some_items (pi_allow p) \<or> some_items (pi_deny p) \<or> pi_mode p = Some Custom)"

definition policyInputFromSummary :: "policy_summary \<Rightarrow> policy_input" where
  "policyInputFromSummary s = \<lparr>pi_mode = Some (ps_mode s), pi_presets = Some (ps_presets s),
     pi_allow = Some (ps_allow s), pi_deny = Some (ps_deny s), pi_defaultAction = None\<rparr>"

definition runtimeEgressPolicyFromSummary :: "policy_summary \<Rightarrow> network_policy" where
  "runtimeEgressPolicyFromSummary s =
     (case ps_compiled s of None \<Rightarrow> \<lparr>p_defaultAction = Allow, p_egress = []\<rparr> | Some p \<Rightarrow> p)"

section \<open>Properties\<close>

lemma all_of_Inr: "all_of xs = Inr ys \<longleftrightarrow> xs = map Inr ys"
proof (induction xs arbitrary: ys)
  case (Cons x xs)
  then show ?case by (cases x; cases "all_of xs") (auto simp: Cons_eq_map_conv)
qed auto

lemma set_dedupe_key [simp]: "k ` set (dedupe_key k rs) = k ` set rs"
proof (induction rs)
  case (Cons r rs)
  have "k ` {x \<in> A. k x \<noteq> k r} = k ` A - {k r}" for A by auto
  with Cons show ?case by simp
qed simp

lemma dedupe_key_subset: "r \<in> set (dedupe_key k rs) \<Longrightarrow> r \<in> set rs"
  by (induction rs) auto

lemma distinct_map_filter: "distinct (map f xs) \<Longrightarrow> distinct (map f (filter P xs))"
  by (induction xs) auto

lemma distinct_dedupe_key [simp]: "distinct (map k (dedupe_key k rs))"
  by (induction rs) (auto intro: distinct_map_filter)

lemma rule_fields [simp]: "g_action (rule_of src a t) = a" "g_target (rule_of src a t) = t"
  "rule_key (rule_of src a t) = (a, t)" "rule_key (bare_rule r) = rule_key r"
  "g_action (bare_rule r) = g_action r" "g_target (bare_rule r) = g_target r"
  by (simp_all add: rule_of_def rule_key_def bare_rule_def)

text \<open>A target that some normalization produced.\<close>

definition normalized :: "string \<Rightarrow> bool" where
  "normalized t \<longleftrightarrow> (\<exists>v. normalizeEgressTarget v = Inr t)"

lemma uniqueNormalizedTargets_Inr:
  assumes "uniqueNormalizedTargets vs = Inr ts"
  shows "distinct ts" and "set ts = {t. \<exists>v \<in> set (case vs of None \<Rightarrow> [] | Some xs \<Rightarrow> xs). normalizeEgressTarget v = Inr t}"
proof -
  let ?vs = "case vs of None \<Rightarrow> [] | Some xs \<Rightarrow> xs"
  from assms obtain us where us: "map normalizeEgressTarget ?vs = map Inr us" and ts: "ts = dedupe us"
    by (auto simp: uniqueNormalizedTargets_def all_of_Inr split: sum.splits)
  have "set (map normalizeEgressTarget ?vs) = Inr ` set us" unfolding us by simp
  then have "t \<in> set us \<longleftrightarrow> Inr t \<in> normalizeEgressTarget ` set ?vs" for t by (simp add: image_iff)
  then have "t \<in> set us \<longleftrightarrow> (\<exists>v \<in> set ?vs. normalizeEgressTarget v = Inr t)" for t by (metis imageE image_eqI)
  then show "set ts = {t. \<exists>v \<in> set ?vs. normalizeEgressTarget v = Inr t}" by (simp add: ts set_eq_iff del: split_paired_Ex)
  show "distinct ts" by (simp add: ts)
qed

lemma unique_normalized:
  assumes "uniqueNormalizedTargets vs = Inr ts" and "t \<in> set ts"
  shows "normalized t"
  using assms(2) unfolding uniqueNormalizedTargets_Inr(2) [OF assms(1)] normalized_def by blast

lemma preset_rules_Inr:
  assumes "preset_rules ps = Inr rs" and "r \<in> set rs"
  shows "g_action r = Allow" and "normalized (g_target r)"
proof -
  define f :: "string \<Rightarrow> string \<Rightarrow> string + policy_rule" where
    "f = (\<lambda>p t. case normalizeEgressTarget t of Inl e \<Rightarrow> Inl e | Inr n \<Rightarrow> Inr (rule_of (FromPreset p) Allow n))"
  from assms(1) have "concat (map (\<lambda>p. map (f p) (egressPresetCatalog p)) ps) = map Inr rs"
    by (simp add: preset_rules_def all_of_Inr f_def)
  moreover have "(Inr r :: string + policy_rule) \<in> set (map Inr rs)" using assms(2) by simp
  ultimately have "Inr r \<in> set (concat (map (\<lambda>p. map (f p) (egressPresetCatalog p)) ps))" by simp
  then obtain p t where r: "Inr r = f p t" by auto
  then obtain n where "normalizeEgressTarget t = Inr n" "r = rule_of (FromPreset p) Allow n"
    by (cases "normalizeEgressTarget t") (auto simp: f_def)
  then show "g_action r = Allow" "normalized (g_target r)" by (auto simp: normalized_def)
qed

lemma normalizePresets_Inr:
  assumes "normalizePresets ps = Inr qs"
  shows "distinct qs \<and> set qs \<subseteq> set egressPresetIds \<and> normalizePresets (Some qs) = Inr qs"
proof -
  let ?ps = "case ps of None \<Rightarrow> [] | Some ps \<Rightarrow> ps"
  from assms have none: "filter (\<lambda>p. p \<notin> set egressPresetIds) ?ps = []" and qs: "qs = dedupe ?ps"
    by (auto simp: normalizePresets_def Let_def split: option.splits)
  from none have sub: "set ?ps \<subseteq> set egressPresetIds" by (auto simp: filter_empty_conv)
  then have "filter (\<lambda>p. p \<notin> set egressPresetIds) qs = []" by (auto simp: qs filter_empty_conv)
  with sub show ?thesis by (auto simp: qs normalizePresets_def)
qed

lemma compile_Inr:
  assumes "compileEgressPolicy input = Inr s"
  obtains presets rules allows denies where
    "normalizePresets (Option.bind input pi_presets) = Inr presets" "preset_rules presets = Inr rules"
    "uniqueNormalizedTargets (Option.bind input pi_allow) = Inr allows"
    "uniqueNormalizedTargets (Option.bind input pi_deny) = Inr denies"
    "s = summarize input presets rules allows denies"
  using assms by (auto simp: compileEgressPolicy_def split: sum.splits)


lemma summarize_cong:
  assumes "inferEgressMode i = inferEgressMode j" and "Option.bind i pi_defaultAction = Option.bind j pi_defaultAction"
  shows "summarize i ps rs as ds = summarize j ps rs as ds"
  unfolding summarize_def assms by (rule refl)

text \<open>What a policy says again when its stored form is compiled.\<close>

lemma unique_fixed:
  assumes "distinct ts" and "\<forall>t \<in> set ts. normalizeEgressTarget t = Inr t"
  shows "uniqueNormalizedTargets (Some ts) = Inr ts"
proof -
  have "map normalizeEgressTarget ts = map Inr ts" using assms(2) by simp
  then have "all_of (map normalizeEgressTarget ts) = Inr ts" by (simp add: all_of_Inr)
  with assms(1) show ?thesis by (simp add: uniqueNormalizedTargets_def dedupe_id)
qed


text \<open>The hypothesis on the default action is needed: the stored form of a policy drops it.\<close>

definition allow_by_default :: policy_input where
  "allow_by_default = \<lparr>pi_mode = Some Custom, pi_presets = None, pi_allow = Some [''a.io''], pi_deny = Some [''b.io''],
     pi_defaultAction = Some Allow\<rparr>"

text \<open>
  A stored custom policy loses its default action. A custom policy that allows by default
  compiles to a policy that allows by default; the form the services store of it compiles to
  one that denies by default.
\<close>

lemma custom_default_lost:
  "\<exists>s s'. compileEgressPolicy (Some allow_by_default) = Inr s \<and>
     compileEgressPolicy (Some (policyInputFromSummary s)) = Inr s' \<and>
     p_defaultAction (runtimeEgressPolicyFromSummary s) = Allow \<and>
     p_defaultAction (runtimeEgressPolicyFromSummary s') = Deny"
proof -
  have n: "normalizeEgressTarget ''a.io'' = Inr ''a.io''" "normalizeEgressTarget ''b.io'' = Inr ''b.io''"
    by code_simp+
  have u: "uniqueNormalizedTargets (Some [''a.io'']) = Inr [''a.io'']" "uniqueNormalizedTargets (Some [''b.io'']) = Inr [''b.io'']"
    using n by (simp_all add: unique_fixed)
  have e: "normalizePresets None = Inr []" "normalizePresets (Some []) = Inr []" "preset_rules [] = Inr []"
    by (simp_all add: normalizePresets_def preset_rules_def)
  show ?thesis
    by (simp add: compileEgressPolicy_def allow_by_default_def policyInputFromSummary_def u e summarize_def
        inferEgressMode_def runtimeEgressPolicyFromSummary_def Let_def rule_of_def)
qed

text \<open>Normalizing takes away one final dot, checking the result takes away another.\<close>

lemma normalize_twice:
  "normalizeEgressTarget ''a.io..'' = Inr ''a.io.'' \<and> normalizeEgressTarget ''a.io.'' = Inr ''a.io''"
  by code_simp

section \<open>Witnesses\<close>

definition pip_only :: policy_input where
  "pip_only = \<lparr>pi_mode = None, pi_presets = Some [''llm-apis''], pi_allow = Some ['' A.io. ''], pi_deny = Some [''b.io''],
     pi_defaultAction = None\<rparr>"

lemma pip_only_compiles:
  "compileEgressPolicy (Some pip_only) = Inr
     \<lparr>ps_mode = Restricted, ps_presets = [''llm-apis''], ps_allow = [''a.io''], ps_deny = [''b.io''],
      ps_rules = [rule_of (FromPreset ''llm-apis'') Allow ''api.openai.com'',
        rule_of (FromPreset ''llm-apis'') Allow ''api.anthropic.com'', rule_of (FromPreset ''llm-apis'') Allow ''opencode.ai'',
        rule_of FromSandbox Allow ''a.io'', rule_of FromSandbox Deny ''b.io''],
      ps_compiled = Some \<lparr>p_defaultAction = Deny, p_egress =
        [\<lparr>g_action = Allow, g_target = ''api.openai.com''\<rparr>, \<lparr>g_action = Allow, g_target = ''api.anthropic.com''\<rparr>,
         \<lparr>g_action = Allow, g_target = ''opencode.ai''\<rparr>, \<lparr>g_action = Allow, g_target = ''a.io''\<rparr>,
         \<lparr>g_action = Deny, g_target = ''b.io''\<rparr>]\<rparr>\<rparr>"
proof -
  have n: "normalizeEgressTarget ''api.openai.com'' = Inr ''api.openai.com''"
    "normalizeEgressTarget ''api.anthropic.com'' = Inr ''api.anthropic.com''"
    "normalizeEgressTarget ''opencode.ai'' = Inr ''opencode.ai''"
    "normalizeEgressTarget '' A.io. '' = Inr ''a.io''" "normalizeEgressTarget ''b.io'' = Inr ''b.io''"
    by code_simp+
  have "preset_rules [''llm-apis''] = Inr [rule_of (FromPreset ''llm-apis'') Allow ''api.openai.com'',
      rule_of (FromPreset ''llm-apis'') Allow ''api.anthropic.com'', rule_of (FromPreset ''llm-apis'') Allow ''opencode.ai'']"
    by (simp add: preset_rules_def egressPresetCatalog_def n)
  moreover have "normalizePresets (Some [''llm-apis'']) = Inr [''llm-apis'']"
    by (simp add: normalizePresets_def egressPresetIds_def)
  ultimately show ?thesis
    by (simp add: compileEgressPolicy_def pip_only_def uniqueNormalizedTargets_def n summarize_def inferEgressMode_def
        some_items_def bare_rule_def rule_key_def rule_of_def)
qed



end
