(* ===== verification/Store.thy ===== *)
theory Store
  imports Status Egress
begin

text \<open>
  The PostgreSQL store of the control plane as a record of tables (\<open>db/migrations\<close>), the
  exceptions of the service layer, and the single statements the services issue. Timestamps
  are integer milliseconds; the transaction's clock is the field \<open>clock\<close>, and \<open>now()\<close> and
  \<open>clock_timestamp()\<close> both read it because a transaction is one atomic step of the model.
  Values drawn from the system's random source (\<open>randomUUID\<close>, \<open>makeId\<close>) are the stream
  \<open>rand\<close> from position \<open>rand_pos\<close> on.
\<close>

section \<open>Exceptions\<close>

datatype capacity_code =
    CapacityExceeded | CapacityUnavailable | CapacitySettingsConflict
  | TransitionInProgress | IdempotencyConflict

datatype lease_code =
    LeaseNotFound | LeaseNotRunning | LeaseRenewInProgress | LeaseRenewFailed | LeaseIdempotencyConflict

datatype err =
    CapacityError capacity_code string
  | LeaseError lease_code
  | NonRetryable string
  | WorkspaceError string int string
  | AuthorizationError int string string
  | ProviderError string
  | DbError string
  | PlainError string

text \<open>The HTTP status of a \<open>CapacityError\<close>.\<close>

definition capacity_statusCode :: "capacity_code \<Rightarrow> int" where
  "capacity_statusCode c = (if c = CapacityUnavailable then 503 else 409)"

fun lease_code_text :: "lease_code \<Rightarrow> string" where
  "lease_code_text LeaseNotFound = ''sandbox_not_found''"
| "lease_code_text LeaseNotRunning = ''sandbox_not_running''"
| "lease_code_text LeaseRenewInProgress = ''renew_in_progress''"
| "lease_code_text LeaseRenewFailed = ''renew_failed''"
| "lease_code_text LeaseIdempotencyConflict = ''idempotency_conflict''"

text \<open>\<open>error instanceof Error ? error.message : String(error)\<close>.\<close>

fun err_message :: "err \<Rightarrow> string" where
  "err_message (CapacityError c m) = m"
| "err_message (LeaseError c) = lease_code_text c"
| "err_message (NonRetryable m) = m"
| "err_message (WorkspaceError c n m) = m"
| "err_message (AuthorizationError n c m) = m"
| "err_message (ProviderError m) = m"
| "err_message (DbError m) = m"
| "err_message (PlainError m) = m"

section \<open>Tables\<close>

type_synonym time = int

datatype capacity_state = Enforced | Reconciling | Quarantined

record org_row =
  org_id :: string
  max_concurrency :: int
  capacity_state :: capacity_state
  capacity_revision :: int
  org_name :: string
  org_slug :: string
  org_template :: "string option"
  org_idle_ttl :: int
  org_egress :: "policy_input option"
  org_presets :: "string list option"
  org_custom_domains :: "bool option"
  org_max_rules :: "int option"
  org_redact :: "bool option"
  org_updated_at :: time

datatype template_visibility = TPublic | TPrivate | TInternal

text \<open>The columns of \<open>templates\<close> and \<open>template_versions\<close> a runtime template is read from.\<close>

record template_row =
  tp_id :: string
  tp_org :: "string option"
  tp_name :: string
  tp_description :: string
  tp_image :: string
  tp_digest :: "string option"
  tp_icon :: string
  tp_tags :: "string list"
  tp_aliases :: "string list"
  tp_boot_ms :: int
  tp_visibility :: template_visibility
  tp_entrypoint :: "string list"
  tp_cpu :: int
  tp_memory :: int
  tp_workdir :: string
  tp_ports :: "int list"
  tp_family :: string

record version_row =
  tv_id :: string
  tv_image :: "string option"
  tv_digest :: "string option"
  tv_entrypoint :: "string list option"
  tv_cpu :: "int option"
  tv_memory :: "int option"
  tv_workdir :: "string option"
  tv_ports :: "int list option"

record sandbox_row =
  s_id :: string
  s_org :: string
  s_name :: string
  s_policy :: "policy_input option"
  s_egress :: "network_policy option"
  s_owner :: "string option"
  s_owner_label :: string
  s_public_url :: "string option"
  s_source :: "obj option"
  s_workspace :: "string option"
  s_runtime_id :: "string option"
  s_status :: sandbox_status
  s_template :: string
  s_template_version :: "string option"
  s_template_digest :: "string option"
  s_ttl_seconds :: int
  s_expires_at :: "time option"
  s_provider_expires_at :: "time option"
  s_started_at :: "time option"
  s_last_active_at :: "time option"
  s_updated_at :: time

datatype hold_phase = Reserved | Active | Releasing | Uncertain | Released

text \<open>\<open>CapacityHold\<close>: a row of \<open>sandbox_capacity_reservations\<close>.\<close>

record hold =
  h_org :: string
  h_sandbox :: string
  h_generation :: int
  h_operation :: "string option"
  h_phase :: hold_phase
  h_reason :: "string option"
  h_next_check_at :: time
  h_checked_at :: "time option"
  h_created_at :: time
  h_updated_at :: time
  h_released_at :: "time option"

datatype effect_kind = EPrepare | EProvision | EPause | EResume | EDelete | ERenew

text \<open>\<open>RuntimeEffect\<close>: a row of \<open>sandbox_runtime_effects\<close>.\<close>

record effect =
  e_id :: string
  e_org :: string
  e_sandbox :: string
  e_operation :: "string option"
  e_kind :: effect_kind
  e_generation :: int
  e_provider :: "string option"
  e_context :: obj
  e_dispatched_at :: "time option"
  e_acknowledged_at :: "time option"
  e_uncertain_at :: "time option"
  e_settled_at :: "time option"
  e_updated_at :: time

text \<open>\<open>SandboxOperation\<close>: a row of \<open>sandbox_operations\<close>.\<close>

record operation =
  o_id :: string
  o_org :: string
  o_sandbox :: "string option"
  o_kind :: operation_kind
  o_state :: operation_state
  o_key :: "string option"
  o_request :: obj
  o_result :: obj
  o_error :: "string option"
  o_attempts :: int
  o_locked_at :: "time option"
  o_started_at :: "time option"
  o_completed_at :: "time option"
  o_created_at :: time
  o_updated_at :: time

datatype route_state = RProvisioning | RReady | RUnhealthy | RTerminated

datatype route_access = AccessPublic | AccessToken

record route_row =
  r_sandbox :: string
  r_org :: string
  r_port :: int
  r_protocol :: string
  r_key :: "string option"
  r_host :: string
  r_url :: "string option"
  r_target_url :: string
  r_state :: route_state
  r_provider :: string
  r_provider_route :: "string option"
  r_access :: route_access
  r_token_hash :: "string option"
  r_token_hint :: "string option"
  r_header :: "string option"
  r_created_by_user :: "string option"
  r_created_by_label :: "string option"
  r_labels :: "string list"
  r_created_at :: time
  r_last_checked_at :: "time option"
  r_terminated_at :: "time option"
  r_updated_at :: time

record schedule_row =
  c_sandbox :: string
  c_org :: string
  c_kind :: string
  c_run_at :: time
  c_completed_at :: "time option"

datatype attachment_status = APending | AInjected | ARequiresReinjection | ADetached | AFailed

record attachment_row =
  a_sandbox :: string
  a_org :: string
  a_status :: attachment_status
  a_provider_state :: string
  a_detached_at :: "time option"
  a_updated_at :: time

record workspace_row =
  w_id :: string
  w_org :: string
  w_name :: string
  w_provider :: string
  w_volume :: string
  w_storage_class :: "string option"
  w_size :: int
  w_slot :: int
  w_attached :: "string option"
  w_provision_attempted_at :: "time option"
  w_attachment_attempted_at :: "time option"
  w_archived_at :: "time option"
  w_created_at :: time
  w_updated_at :: time

record snapshot_row =
  n_id :: string
  n_org :: string
  n_sandbox :: string
  n_provider :: string
  n_provider_snapshot :: "string option"
  n_name :: "string option"
  n_status :: snapshot_status
  n_status_reason :: "string option"
  n_status_message :: "string option"
  n_template :: string
  n_template_version :: "string option"
  n_template_digest :: "string option"
  n_metadata :: "(string \<times> string) list"
  n_created_by_user :: "string option"
  n_created_by_label :: string
  n_key :: "string option"
  n_expires_at :: "time option"
  n_deleted_at :: "time option"
  n_created_at :: time
  n_updated_at :: time

text \<open>
  A row of \<open>sandbox_operation_secrets\<close>; the box holds what \<open>encryptSecretBox\<close> returns
  (ciphertext, initialisation vector and tag).
\<close>

type_synonym secret_box = "string \<times> string \<times> string"

record secret_row =
  x_operation :: string
  x_name :: string
  x_box :: secret_box

text \<open>
  Rows of \<open>sandbox_events\<close> and \<open>audit_events\<close>, reduced to who and what; their redacted
  messages and metadata are not modelled.
\<close>

record event_row =
  v_org :: string
  v_sandbox :: string
  v_type :: string

record db =
  orgs :: "org_row list"
  templates :: "template_row list"
  template_versions :: "version_row list"
  sandboxes :: "sandbox_row list"
  holds :: "hold list"
  effects :: "effect list"
  operations :: "operation list"
  secrets :: "secret_row list"
  routes :: "route_row list"
  schedules :: "schedule_row list"
  attachments :: "attachment_row list"
  workspaces :: "workspace_row list"
  snapshots :: "snapshot_row list"
  events :: "event_row list"
  audits :: "event_row list"
  clock :: time
  rand :: "nat \<Rightarrow> string"
  rand_pos :: nat

type_synonym 'a dbtx = "(db, err, 'a) tx"

section \<open>Statements\<close>

definition sel_orgs :: "(org_row \<Rightarrow> bool) \<Rightarrow> org_row list dbtx" where
  "sel_orgs P = getsT (\<lambda>d. filter P (orgs d))"

definition sel_sandboxes :: "(sandbox_row \<Rightarrow> bool) \<Rightarrow> sandbox_row list dbtx" where
  "sel_sandboxes P = getsT (\<lambda>d. filter P (sandboxes d))"

definition sel_holds :: "(hold \<Rightarrow> bool) \<Rightarrow> hold list dbtx" where
  "sel_holds P = getsT (\<lambda>d. filter P (holds d))"

definition sel_effects :: "(effect \<Rightarrow> bool) \<Rightarrow> effect list dbtx" where
  "sel_effects P = getsT (\<lambda>d. filter P (effects d))"

definition sel_operations :: "(operation \<Rightarrow> bool) \<Rightarrow> operation list dbtx" where
  "sel_operations P = getsT (\<lambda>d. filter P (operations d))"

text \<open>An UPDATE returns its \<open>rowCount\<close>.\<close>

definition upd_orgs :: "(org_row \<Rightarrow> bool) \<Rightarrow> (org_row \<Rightarrow> org_row) \<Rightarrow> nat dbtx" where
  "upd_orgs P f = bindT (getsT (\<lambda>d. count_rows P (orgs d)))
     (\<lambda>n. bindT (modifyT (\<lambda>d. d\<lparr>orgs := update_rows P f (orgs d)\<rparr>)) (\<lambda>_. returnT n))"

definition upd_sandboxes :: "(sandbox_row \<Rightarrow> bool) \<Rightarrow> (sandbox_row \<Rightarrow> sandbox_row) \<Rightarrow> nat dbtx" where
  "upd_sandboxes P f = bindT (getsT (\<lambda>d. count_rows P (sandboxes d)))
     (\<lambda>n. bindT (modifyT (\<lambda>d. d\<lparr>sandboxes := update_rows P f (sandboxes d)\<rparr>)) (\<lambda>_. returnT n))"

definition upd_holds :: "(hold \<Rightarrow> bool) \<Rightarrow> (hold \<Rightarrow> hold) \<Rightarrow> nat dbtx" where
  "upd_holds P f = bindT (getsT (\<lambda>d. count_rows P (holds d)))
     (\<lambda>n. bindT (modifyT (\<lambda>d. d\<lparr>holds := update_rows P f (holds d)\<rparr>)) (\<lambda>_. returnT n))"

definition upd_effects :: "(effect \<Rightarrow> bool) \<Rightarrow> (effect \<Rightarrow> effect) \<Rightarrow> nat dbtx" where
  "upd_effects P f = bindT (getsT (\<lambda>d. count_rows P (effects d)))
     (\<lambda>n. bindT (modifyT (\<lambda>d. d\<lparr>effects := update_rows P f (effects d)\<rparr>)) (\<lambda>_. returnT n))"

definition upd_operations :: "(operation \<Rightarrow> bool) \<Rightarrow> (operation \<Rightarrow> operation) \<Rightarrow> nat dbtx" where
  "upd_operations P f = bindT (getsT (\<lambda>d. count_rows P (operations d)))
     (\<lambda>n. bindT (modifyT (\<lambda>d. d\<lparr>operations := update_rows P f (operations d)\<rparr>)) (\<lambda>_. returnT n))"

definition upd_routes :: "(route_row \<Rightarrow> bool) \<Rightarrow> (route_row \<Rightarrow> route_row) \<Rightarrow> unit dbtx" where
  "upd_routes P f = modifyT (\<lambda>d. d\<lparr>routes := update_rows P f (routes d)\<rparr>)"

definition upd_schedules :: "(schedule_row \<Rightarrow> bool) \<Rightarrow> (schedule_row \<Rightarrow> schedule_row) \<Rightarrow> unit dbtx" where
  "upd_schedules P f = modifyT (\<lambda>d. d\<lparr>schedules := update_rows P f (schedules d)\<rparr>)"

definition upd_attachments ::
    "(attachment_row \<Rightarrow> bool) \<Rightarrow> (attachment_row \<Rightarrow> attachment_row) \<Rightarrow> nat dbtx" where
  "upd_attachments P f = bindT (getsT (\<lambda>d. count_rows P (attachments d)))
     (\<lambda>n. bindT (modifyT (\<lambda>d. d\<lparr>attachments := update_rows P f (attachments d)\<rparr>)) (\<lambda>_. returnT n))"

definition upd_workspaces ::
    "(workspace_row \<Rightarrow> bool) \<Rightarrow> (workspace_row \<Rightarrow> workspace_row) \<Rightarrow> nat dbtx" where
  "upd_workspaces P f = bindT (getsT (\<lambda>d. count_rows P (workspaces d)))
     (\<lambda>n. bindT (modifyT (\<lambda>d. d\<lparr>workspaces := update_rows P f (workspaces d)\<rparr>)) (\<lambda>_. returnT n))"

definition upd_snapshots ::
    "(snapshot_row \<Rightarrow> bool) \<Rightarrow> (snapshot_row \<Rightarrow> snapshot_row) \<Rightarrow> nat dbtx" where
  "upd_snapshots P f = bindT (getsT (\<lambda>d. count_rows P (snapshots d)))
     (\<lambda>n. bindT (modifyT (\<lambda>d. d\<lparr>snapshots := update_rows P f (snapshots d)\<rparr>)) (\<lambda>_. returnT n))"

text \<open>\<open>getSandbox\<close>: the view of a sandbox is its row.\<close>

definition getSandbox :: "string \<Rightarrow> string \<Rightarrow> sandbox_row option dbtx" where
  "getSandbox org i = bindT (sel_sandboxes (\<lambda>s. s_id s = i \<and> s_org s = org)) (\<lambda>rows. returnT (first_row rows))"

definition now :: "time dbtx" where
  "now = getsT clock"

text \<open>The next value of the random source.\<close>

definition draw :: "string dbtx" where
  "draw = bindT (getsT (\<lambda>d. rand d (rand_pos d)))
     (\<lambda>v. bindT (modifyT (\<lambda>d. d\<lparr>rand_pos := Suc (rand_pos d)\<rparr>)) (\<lambda>_. returnT v))"

definition makeId :: "string \<Rightarrow> string dbtx" where
  "makeId prefix = bindT draw (\<lambda>v. returnT (prefix @ ''_'' @ v))"

definition add_event :: "string \<Rightarrow> string \<Rightarrow> string \<Rightarrow> unit dbtx" where
  "add_event org sbx ty =
     modifyT (\<lambda>d. d\<lparr>events := events d @ [\<lparr>v_org = org, v_sandbox = sbx, v_type = ty\<rparr>]\<rparr>)"

definition add_audit :: "string \<Rightarrow> string \<Rightarrow> string \<Rightarrow> unit dbtx" where
  "add_audit org target ty =
     modifyT (\<lambda>d. d\<lparr>audits := audits d @ [\<lparr>v_org = org, v_sandbox = target, v_type = ty\<rparr>]\<rparr>)"

lemmas sel_defs = sel_orgs_def sel_sandboxes_def sel_holds_def sel_effects_def sel_operations_def

lemmas upd_defs =
  upd_orgs_def upd_sandboxes_def upd_holds_def upd_effects_def upd_operations_def
  upd_routes_def upd_schedules_def upd_attachments_def upd_workspaces_def upd_snapshots_def

lemmas misc_tx_defs = now_def draw_def makeId_def add_event_def add_audit_def

lemma upd_Inr [tx_simps]:
  "upd_orgs P1 f1 d = Inr (count_rows P1 (orgs d), d\<lparr>orgs := update_rows P1 f1 (orgs d)\<rparr>)"
  "upd_sandboxes P2 f2 d =
     Inr (count_rows P2 (sandboxes d), d\<lparr>sandboxes := update_rows P2 f2 (sandboxes d)\<rparr>)"
  "upd_holds P3 f3 d = Inr (count_rows P3 (holds d), d\<lparr>holds := update_rows P3 f3 (holds d)\<rparr>)"
  "upd_effects P4 f4 d =
     Inr (count_rows P4 (effects d), d\<lparr>effects := update_rows P4 f4 (effects d)\<rparr>)"
  "upd_operations P5 f5 d =
     Inr (count_rows P5 (operations d), d\<lparr>operations := update_rows P5 f5 (operations d)\<rparr>)"
  by (simp_all add: upd_defs tx_defs)

lemma sel_Inr [tx_simps]:
  "sel_orgs P1 d = Inr (filter P1 (orgs d), d)"
  "sel_sandboxes P2 d = Inr (filter P2 (sandboxes d), d)"
  "sel_holds P3 d = Inr (filter P3 (holds d), d)"
  "sel_effects P4 d = Inr (filter P4 (effects d), d)"
  "sel_operations P5 d = Inr (filter P5 (operations d), d)"
  by (simp_all add: sel_defs tx_defs)

lemma now_Inr [tx_simps]: "now d = Inr (clock d, d)"
  by (simp add: now_def tx_defs)

lemma makeId_Inr [tx_simps]:
  "makeId prefix d = Inr (prefix @ ''_'' @ rand d (rand_pos d), d\<lparr>rand_pos := Suc (rand_pos d)\<rparr>)"
  by (simp add: makeId_def draw_def tx_defs)

lemma keeps_sel [keeps_intro]:
  "keeps I (sel_orgs P1)" "keeps I (sel_sandboxes P2)" "keeps I (sel_holds P3)"
  "keeps I (sel_effects P4)" "keeps I (sel_operations P5)" "keeps I now"
  by (simp_all add: sel_defs now_def keeps_gets)

section \<open>A small store\<close>

text \<open>The empty store and rows with the tables' defaults, for concrete runs.\<close>

definition empty_db :: db where
  "empty_db = \<lparr>orgs = [], templates = [], template_versions = [], sandboxes = [], holds = [], effects = [], operations = [], secrets = [], routes = [],
     schedules = [], attachments = [], workspaces = [], snapshots = [], events = [], audits = [],
     clock = 0, rand = nat_str, rand_pos = 0\<rparr>"

definition new_org :: "string \<Rightarrow> int \<Rightarrow> org_row" where
  "new_org i n = \<lparr>org_id = i, max_concurrency = n, capacity_state = Enforced, capacity_revision = 1,
     org_name = i, org_slug = i, org_template = None, org_idle_ttl = 3600, org_egress = None, org_presets = None,
     org_custom_domains = None, org_max_rules = None, org_redact = None, org_updated_at = 0\<rparr>"

definition new_sandbox :: "string \<Rightarrow> string \<Rightarrow> string option \<Rightarrow> sandbox_status \<Rightarrow> sandbox_row" where
  "new_sandbox i org rt st = \<lparr>s_id = i, s_org = org, s_name = i, s_policy = None, s_egress = None,
     s_owner = None, s_owner_label = [], s_public_url = None, s_source = None, s_workspace = None, s_runtime_id = rt,
     s_status = st, s_template = ''base'', s_template_version = None, s_template_digest = None,
     s_ttl_seconds = 60, s_expires_at = None, s_provider_expires_at = None, s_started_at = None,
     s_last_active_at = None, s_updated_at = 0\<rparr>"

definition new_operation :: "string \<Rightarrow> string \<Rightarrow> string \<Rightarrow> operation_kind \<Rightarrow> operation" where
  "new_operation i org sbx k = \<lparr>o_id = i, o_org = org, o_sandbox = Some sbx, o_kind = k,
     o_state = Queued, o_key = None, o_request = [(''capacityProtocol'', JNum 1)], o_result = [],
     o_error = None, o_attempts = 0, o_locked_at = None, o_started_at = None, o_completed_at = None,
     o_created_at = 0, o_updated_at = 0\<rparr>"

definition new_hold :: "string \<Rightarrow> string \<Rightarrow> int \<Rightarrow> string option \<Rightarrow> hold_phase \<Rightarrow> hold" where
  "new_hold org sbx g op ph = \<lparr>h_org = org, h_sandbox = sbx, h_generation = g, h_operation = op,
     h_phase = ph, h_reason = None, h_next_check_at = 0, h_checked_at = None, h_created_at = 0,
     h_updated_at = 0, h_released_at = None\<rparr>"

definition new_effect :: "string \<Rightarrow> string \<Rightarrow> string \<Rightarrow> string option \<Rightarrow> effect_kind \<Rightarrow> int \<Rightarrow> effect" where
  "new_effect i org sbx op k g = \<lparr>e_id = i, e_org = org, e_sandbox = sbx, e_operation = op, e_kind = k,
     e_generation = g, e_provider = Some ''rt1'', e_context = [], e_dispatched_at = None,
     e_acknowledged_at = None, e_uncertain_at = None, e_settled_at = None, e_updated_at = 0\<rparr>"

lemmas new_row_defs = empty_db_def new_org_def new_sandbox_def new_operation_def new_hold_def new_effect_def

end
