(* ===== verification/Capacity.thy ===== *)
theory Capacity
  imports Store
begin

text \<open>
  Execution capacity of an organization (\<open>services/organization-capacity.ts\<close> and the tables
  of \<open>db/migrations/038_organization_capacity.sql\<close>): reading the inventory, the admission of
  a new execution slot, and its release.
\<close>

section \<open>The code\<close>

record capacity_breakdown =
  b_reserved :: int
  b_active :: int
  b_releasing :: int
  b_uncertain :: int

text \<open>\<open>OrganizationCapacity\<close>, the answer of \<open>GET /v1/org/capacity\<close>.\<close>

record organization_capacity =
  k_state :: capacity_state
  k_limit :: int
  k_revision :: int
  k_inUse :: "int option"
  k_available :: "int option"
  k_overLimit :: "int option"
  k_breakdown :: "capacity_breakdown option"
  k_observedAt :: time

definition held_row :: "string \<Rightarrow> hold \<Rightarrow> bool" where
  "held_row org h \<longleftrightarrow> h_org h = org \<and> h_released_at h = None"

definition readOrganizationCapacity :: "string \<Rightarrow> organization_capacity dbtx" where
  "readOrganizationCapacity org =
     bindT now (\<lambda>observed_at.
     bindT (sel_orgs (\<lambda>r. org_id r = org)) (\<lambda>result.
     bindT (someT (first_row result)
       (CapacityError CapacityUnavailable ''Organization capacity is unavailable.'')) (\<lambda>row.
     bindT (sel_holds (held_row org)) (\<lambda>rs.
     let reserved = int (count_rows (\<lambda>r. h_phase r = Reserved) rs);
         active = int (count_rows (\<lambda>r. h_phase r = Active) rs);
         releasing = int (count_rows (\<lambda>r. h_phase r = Releasing) rs);
         uncertain = int (count_rows (\<lambda>r. h_phase r = Uncertain) rs);
         limit = max_concurrency row;
         enforced = (capacity_state row = Enforced \<and> 1 \<le> limit \<and> limit \<le> 10000);
         total = reserved + active + releasing + uncertain
     in returnT
       \<lparr>k_state = (if enforced then Enforced
                  else if capacity_state row = Quarantined then Quarantined else Reconciling),
        k_limit = limit, k_revision = capacity_revision row,
        k_inUse = (if enforced then Some total else None),
        k_available = (if enforced then Some (max 0 (limit - total)) else None),
        k_overLimit = (if enforced then Some (max 0 (total - limit)) else None),
        k_breakdown = (if enforced then Some \<lparr>b_reserved = reserved, b_active = active,
          b_releasing = releasing, b_uncertain = uncertain\<rparr> else None),
        k_observedAt = observed_at\<rparr>))))"

text \<open>
  \<open>SELECT ... FOR NO KEY UPDATE\<close> on the organization's row: the transactions of one
  organization follow one another, which is why each is one atomic step here; what is left
  is that the row must exist.
\<close>

definition lockOrganizationCapacity :: "string \<Rightarrow> unit dbtx" where
  "lockOrganizationCapacity org =
     bindT (sel_orgs (\<lambda>r. org_id r = org)) (\<lambda>result.
     requireT (result \<noteq> [])
       (CapacityError CapacityUnavailable ''Organization capacity is unavailable.''))"

text \<open>
  INSERT INTO \<open>sandbox_capacity_reservations\<close> with the constraints of the table: the
  primary key, the partial unique index \<open>sandbox_capacity_one_hold\<close>, the check that
  generations are positive, the foreign keys, and the column defaults.
\<close>

definition insert_hold ::
    "string \<Rightarrow> string \<Rightarrow> int \<Rightarrow> string option \<Rightarrow> hold_phase \<Rightarrow> string option \<Rightarrow> hold dbtx" where
  "insert_hold org sbx generation operation phase reason =
     bindT now (\<lambda>t.
     bindT (getsT id) (\<lambda>d.
     if (\<exists>h \<in> set (holds d). h_sandbox h = sbx \<and>
          (h_generation h = generation \<or> h_released_at h = None))
     then throwT (DbError ''duplicate key value violates unique constraint'')
     else if generation \<le> 0 then throwT (DbError ''violates check constraint'')
     else if \<not> (\<exists>s \<in> set (sandboxes d). s_org s = org \<and> s_id s = sbx) \<or>
        (case operation of None \<Rightarrow> False | Some i \<Rightarrow>
           \<not> (\<exists>p \<in> set (operations d). o_org p = org \<and> o_sandbox p = Some sbx \<and> o_id p = i))
     then throwT (DbError ''violates foreign key constraint'')
     else
       let row = \<lparr>h_org = org, h_sandbox = sbx, h_generation = generation, h_operation = operation,
             h_phase = phase, h_reason = reason, h_next_check_at = t, h_checked_at = None,
             h_created_at = t, h_updated_at = t, h_released_at = None\<rparr>
       in bindT (modifyT (\<lambda>d. d\<lparr>holds := holds d @ [row]\<rparr>)) (\<lambda>_. returnT row)))"

definition max_generation :: "string \<Rightarrow> hold list \<Rightarrow> int" where
  "max_generation sbx hs = fold (\<lambda>h m. if h_sandbox h = sbx then max (h_generation h) m else m) hs 0"

definition reserveSandboxCapacity :: "string \<Rightarrow> string \<Rightarrow> string \<Rightarrow> hold dbtx" where
  "reserveSandboxCapacity org sbx operationId =
     bindT (lockOrganizationCapacity org) (\<lambda>_.
     bindT (sel_holds (\<lambda>h. h_sandbox h = sbx \<and> h_org h = org \<and> h_released_at h = None)) (\<lambda>existing.
     case first_row existing of
       Some h \<Rightarrow>
         if h_operation h = Some operationId then returnT h
         else throwT (CapacityError TransitionInProgress
           ''This sandbox already has an execution reservation.'')
     | None \<Rightarrow>
         bindT (readOrganizationCapacity org) (\<lambda>capacity.
         if k_state capacity \<noteq> Enforced then
           throwT (CapacityError CapacityUnavailable
             ''Capacity inventory is being reconciled. No new execution was admitted.'')
         else if k_available capacity = Some 0 then
           throwT (CapacityError CapacityExceeded
             (''All '' @ show_int (k_limit capacity) @ '' execution slots are in use. Stop a sandbox or ask an administrator to raise the limit.''))
         else
           bindT (getsT (\<lambda>d. max_generation sbx (holds d))) (\<lambda>g.
           insert_hold org sbx (g + 1) (Some operationId) Reserved None))))"

datatype release_reason = ProviderAbsent | ProviderSuspended | CanceledBeforeDispatch

fun release_reason_text :: "release_reason \<Rightarrow> string" where
  "release_reason_text ProviderAbsent = ''provider_absent''"
| "release_reason_text ProviderSuspended = ''provider_suspended''"
| "release_reason_text CanceledBeforeDispatch = ''canceled_before_dispatch''"

definition unsettled_on :: "string \<Rightarrow> effect \<Rightarrow> bool" where
  "unsettled_on sbx e \<longleftrightarrow> e_sandbox e = sbx \<and> e_settled_at e = None"

definition release_cond :: "string \<Rightarrow> string \<Rightarrow> int \<Rightarrow> effect list \<Rightarrow> hold \<Rightarrow> bool" where
  "release_cond org sbx generation es r \<longleftrightarrow>
     h_org r = org \<and> h_sandbox r = sbx \<and> h_generation r = generation \<and> h_released_at r = None \<and>
     \<not> (\<exists>e \<in> set es. unsettled_on (h_sandbox r) e)"

definition mark_released :: "time \<Rightarrow> release_reason \<Rightarrow> hold \<Rightarrow> hold" where
  "mark_released t reason r = r\<lparr>h_phase := Released, h_released_at := Some t,
     h_reason := Some (release_reason_text reason), h_updated_at := t\<rparr>"

definition releaseSandboxCapacity :: "string \<Rightarrow> string \<Rightarrow> int \<Rightarrow> release_reason \<Rightarrow> bool dbtx" where
  "releaseSandboxCapacity org sbx generation reason =
     bindT (lockOrganizationCapacity org) (\<lambda>_.
     bindT now (\<lambda>t.
     bindT (getsT effects) (\<lambda>es.
     bindT (upd_holds (release_cond org sbx generation es) (mark_released t reason)) (\<lambda>rowCount.
     returnT (rowCount \<noteq> 0)))))"

section \<open>Specification\<close>

text \<open>The slots an organization occupies: its reservations that are not released.\<close>

definition held :: "db \<Rightarrow> string \<Rightarrow> nat" where
  "held d org = count_rows (held_row org) (holds d)"

definition org_of :: "db \<Rightarrow> string \<Rightarrow> org_row option" where
  "org_of d org = first_row (filter (\<lambda>r. org_id r = org) (orgs d))"

text \<open>
  Well-formed reservations: at most one unreleased reservation per sandbox (the partial
  unique index), no two of the same generation (the primary key), positive generations, and
  the CHECK that a reservation is in phase released exactly when it has a release time.
\<close>

definition one_hold :: "db \<Rightarrow> bool" where
  "one_hold d \<longleftrightarrow> (\<forall>sbx. count_rows (\<lambda>h. h_sandbox h = sbx \<and> h_released_at h = None) (holds d) \<le> 1)"

definition generations_ok :: "db \<Rightarrow> bool" where
  "generations_ok d \<longleftrightarrow>
     distinct (map (\<lambda>h. (h_sandbox h, h_generation h)) (holds d)) \<and>
     (\<forall>h \<in> set (holds d). 0 < h_generation h)"

definition phases_ok :: "db \<Rightarrow> bool" where
  "phases_ok d \<longleftrightarrow> (\<forall>h \<in> set (holds d). h_phase h = Released \<longleftrightarrow> h_released_at h \<noteq> None)"

definition holds_ok :: "db \<Rightarrow> bool" where
  "holds_ok d \<longleftrightarrow> one_hold d \<and> generations_ok d \<and> phases_ok d"

text \<open>At most \<open>N\<close> slots in use, under a configured limit of at most \<open>N\<close>.\<close>

definition within_limit :: "string \<Rightarrow> nat \<Rightarrow> db \<Rightarrow> bool" where
  "within_limit org N d \<longleftrightarrow>
     held d org \<le> N \<and> (\<forall>r \<in> set (orgs d). org_id r = org \<longrightarrow> max_concurrency r \<le> int N)"

section \<open>Lemmas\<close>

lemma count_phases:
  "(\<And>h. h \<in> set hs \<Longrightarrow> h_phase h \<noteq> Released) \<Longrightarrow>
   count_rows (\<lambda>r. h_phase r = Reserved) hs + count_rows (\<lambda>r. h_phase r = Active) hs +
   count_rows (\<lambda>r. h_phase r = Releasing) hs + count_rows (\<lambda>r. h_phase r = Uncertain) hs = length hs"
proof (induction hs)
  case (Cons h hs)
  then have "h_phase h \<noteq> Released" by simp
  then show ?case using Cons by (cases "h_phase h") (auto simp: count_rows_Cons)
qed simp

lemma org_of_Some: "org_of d org = Some row \<Longrightarrow> row \<in> set (orgs d) \<and> org_id row = org"
  unfolding org_of_def by (drule first_row_filter_Some) simp

lemma lockOrganizationCapacity_iff:
  "lockOrganizationCapacity org d = Inr (u, d') \<longleftrightarrow> org_of d org \<noteq> None \<and> d' = d"
  by (auto simp: lockOrganizationCapacity_def bindT_Inr_iff tx_simps org_of_def)

lemma lockOrganizationCapacity_Inl:
  "org_of d org = None \<Longrightarrow> lockOrganizationCapacity org d =
     Inl (CapacityError CapacityUnavailable ''Organization capacity is unavailable.'')"
  by (auto simp: lockOrganizationCapacity_def tx_defs sel_defs org_of_def)

lemma keeps_lock [keeps_intro]: "keeps I (lockOrganizationCapacity org)"
  unfolding lockOrganizationCapacity_def by (intro keeps_intro)

lemma readOrganizationCapacity_same: "readOrganizationCapacity org d = Inr (k, d') \<Longrightarrow> d' = d"
  by (auto simp: readOrganizationCapacity_def bindT_Inr_iff now_Inr sel_Inr someT_Inr_iff returnT_apply Let_def)

lemma held_phases:
  assumes "phases_ok d"
  shows "int (count_rows (\<lambda>r. h_phase r = Reserved) (filter (held_row org) (holds d))) +
         int (count_rows (\<lambda>r. h_phase r = Active) (filter (held_row org) (holds d))) +
         int (count_rows (\<lambda>r. h_phase r = Releasing) (filter (held_row org) (holds d))) +
         int (count_rows (\<lambda>r. h_phase r = Uncertain) (filter (held_row org) (holds d))) = int (held d org)"
proof -
  let ?hs = "filter (held_row org) (holds d)"
  have open_phase: "h_phase h \<noteq> Released" if "h \<in> set ?hs" for h
    using assms that by (auto simp: phases_ok_def held_row_def)
  have "length ?hs = held d org" by (simp add: held_def count_rows_def)
  with count_phases [of ?hs, OF open_phase] show ?thesis by (metis of_nat_add)
qed

text \<open>What the capacity summary reads, for well-formed reservations.\<close>

lemma readOrganizationCapacity_eq:
  assumes "phases_ok d" and "org_of d org = Some row"
  shows "readOrganizationCapacity org d = Inr (
      (let enforced = (capacity_state row = Enforced \<and> 1 \<le> max_concurrency row \<and> max_concurrency row \<le> 10000);
           hs = filter (held_row org) (holds d); total = int (held d org); limit = max_concurrency row
       in \<lparr>k_state = (if enforced then Enforced
                    else if capacity_state row = Quarantined then Quarantined else Reconciling),
          k_limit = limit, k_revision = capacity_revision row,
          k_inUse = (if enforced then Some total else None),
          k_available = (if enforced then Some (max 0 (limit - total)) else None),
          k_overLimit = (if enforced then Some (max 0 (total - limit)) else None),
          k_breakdown = (if enforced then Some
            \<lparr>b_reserved = int (count_rows (\<lambda>r. h_phase r = Reserved) hs),
             b_active = int (count_rows (\<lambda>r. h_phase r = Active) hs),
             b_releasing = int (count_rows (\<lambda>r. h_phase r = Releasing) hs),
             b_uncertain = int (count_rows (\<lambda>r. h_phase r = Uncertain) hs)\<rparr> else None),
          k_observedAt = clock d\<rparr>), d)"
proof -
  note held_phases [OF assms(1), of org]
  moreover have "first_row (filter (\<lambda>r. org_id r = org) (orgs d)) = Some row"
    using assms(2) by (simp add: org_of_def)
  ultimately show ?thesis
    by (simp add: readOrganizationCapacity_def bindT_def sel_Inr now_Inr someT_def returnT_def Let_def)
qed

text \<open>The admission decision in one equation: each guard of the code, in its order.\<close>

definition own_hold :: "db \<Rightarrow> string \<Rightarrow> string \<Rightarrow> hold option" where
  "own_hold d org sbx =
     first_row (filter (\<lambda>h. h_sandbox h = sbx \<and> h_org h = org \<and> h_released_at h = None) (holds d))"

definition admits :: "org_row \<Rightarrow> bool" where
  "admits row \<longleftrightarrow>
     capacity_state row = Enforced \<and> 1 \<le> max_concurrency row \<and> max_concurrency row \<le> 10000"

lemma reserveSandboxCapacity_eq:
  assumes "phases_ok d"
  shows "reserveSandboxCapacity org sbx op d =
    (case org_of d org of
       None \<Rightarrow> Inl (CapacityError CapacityUnavailable ''Organization capacity is unavailable.'')
     | Some row \<Rightarrow>
        (case own_hold d org sbx of
           Some h \<Rightarrow> if h_operation h = Some op then Inr (h, d)
                     else Inl (CapacityError TransitionInProgress
                       ''This sandbox already has an execution reservation.'')
         | None \<Rightarrow>
             if \<not> admits row then Inl (CapacityError CapacityUnavailable
                  ''Capacity inventory is being reconciled. No new execution was admitted.'')
             else if max_concurrency row \<le> int (held d org) then Inl (CapacityError CapacityExceeded
                  (''All '' @ show_int (max_concurrency row) @ '' execution slots are in use. Stop a sandbox or ask an administrator to raise the limit.''))
             else insert_hold org sbx (max_generation sbx (holds d) + 1) (Some op) Reserved None d))"
proof (cases "org_of d org")
  case None
  then show ?thesis
    by (simp add: reserveSandboxCapacity_def lockOrganizationCapacity_Inl bindT_Inl)
next
  case (Some row)
  then have lock: "lockOrganizationCapacity org d = Inr ((), d)"
    by (simp add: lockOrganizationCapacity_iff)
  show ?thesis
  proof (cases "own_hold d org sbx")
    case None
    with Some lock assms show ?thesis
      by (simp add: reserveSandboxCapacity_def bindT_Inr sel_Inr own_hold_def [symmetric]
          readOrganizationCapacity_eq Let_def admits_def throwT_apply getsT_apply max_def)
  next
    case (Some h)
    with \<open>org_of d org = Some row\<close> lock show ?thesis
      by (simp add: reserveSandboxCapacity_def bindT_Inr sel_Inr own_hold_def [symmetric]
          throwT_apply returnT_apply)
  qed
qed

lemma insert_hold_Inr:
  "insert_hold org sbx g op ph reason d = Inr (h, d') \<Longrightarrow>
   h = \<lparr>h_org = org, h_sandbox = sbx, h_generation = g, h_operation = op, h_phase = ph,
        h_reason = reason, h_next_check_at = clock d, h_checked_at = None, h_created_at = clock d,
        h_updated_at = clock d, h_released_at = None\<rparr> \<and>
   d' = d\<lparr>holds := holds d @ [h]\<rparr> \<and> 0 < g \<and>
   (\<forall>r \<in> set (holds d). h_sandbox r = sbx \<longrightarrow> h_generation r \<noteq> g \<and> h_released_at r \<noteq> None) \<and>
   (\<exists>s \<in> set (sandboxes d). s_org s = org \<and> s_id s = sbx)"
  by (auto simp: insert_hold_def bindT_def now_Inr tx_defs Let_def split: if_splits option.splits)

lemma insert_hold_ok:
  assumes "0 < g" and "\<And>r. r \<in> set (holds d) \<Longrightarrow> h_sandbox r = sbx \<Longrightarrow> h_generation r \<noteq> g \<and> h_released_at r \<noteq> None"
    and "\<exists>s \<in> set (sandboxes d). s_org s = org \<and> s_id s = sbx"
    and "\<exists>p \<in> set (operations d). o_org p = org \<and> o_sandbox p = Some sbx \<and> o_id p = op"
  shows "\<exists>h d'. insert_hold org sbx g (Some op) ph reason d = Inr (h, d')"
  using assms by (auto simp: insert_hold_def bindT_def now_Inr tx_defs Let_def)

lemma max_generation_ge:
  "h \<in> set hs \<Longrightarrow> h_sandbox h = sbx \<Longrightarrow> h_generation h \<le> max_generation sbx hs"
  and max_generation_nonneg: "0 \<le> max_generation sbx hs"
proof -
  let ?f = "\<lambda>h m. if h_sandbox h = sbx then max (h_generation h) m else m"
  have mono: "m \<le> fold ?f hs m" for hs and m :: int
  proof (induction hs arbitrary: m)
    case (Cons a hs)
    have "m \<le> ?f a m" by simp
    also have "\<dots> \<le> fold ?f hs (?f a m)" by (rule Cons)
    finally show ?case by simp
  qed simp
  have "h \<in> set hs \<Longrightarrow> h_sandbox h = sbx \<Longrightarrow> h_generation h \<le> fold ?f hs m" for m
  proof (induction hs arbitrary: m)
    case (Cons a hs)
    show ?case
    proof (cases "h = a")
      case True
      with Cons.prems have "h_generation h \<le> ?f a m" by simp
      also have "\<dots> \<le> fold ?f hs (?f a m)" by (rule mono)
      finally show ?thesis by simp
    next
      case False
      with Cons show ?thesis by simp
    qed
  qed simp
  then show "h \<in> set hs \<Longrightarrow> h_sandbox h = sbx \<Longrightarrow> h_generation h \<le> max_generation sbx hs"
    by (simp add: max_generation_def)
  show "0 \<le> max_generation sbx hs" by (simp add: max_generation_def mono)
qed

lemma held_insert: "held (d\<lparr>holds := holds d @ [h]\<rparr>) org = held d org + (if held_row org h then 1 else 0)"
  by (simp add: held_def count_rows_Cons)

lemma own_hold_Some:
  "own_hold d org sbx = Some h \<Longrightarrow>
   h \<in> set (holds d) \<and> h_sandbox h = sbx \<and> h_org h = org \<and> h_released_at h = None"
  unfolding own_hold_def by (drule first_row_filter_Some) simp

lemma own_hold_None:
  "own_hold d org sbx = None \<longleftrightarrow>
   (\<forall>h \<in> set (holds d). \<not> (h_sandbox h = sbx \<and> h_org h = org \<and> h_released_at h = None))"
  by (auto simp: own_hold_def filter_empty_conv)

lemma held_release:
  assumes "one_hold d" and "h \<in> set (holds d)" and "P h" and "held_row org h"
    and "\<And>r. P r \<Longrightarrow> h_sandbox r = h_sandbox h \<and> h_released_at r = None"
    and "\<And>r. P r \<Longrightarrow> h_released_at (f r) \<noteq> None"
  shows "count_rows (held_row org) (update_rows P f (holds d)) + 1 = held d org"
proof -
  let ?u = "\<lambda>r. h_sandbox r = h_sandbox h \<and> h_released_at r = None"
  have uniq: "count_rows ?u (holds d) \<le> 1" using assms(1) by (simp add: one_hold_def)
  have only: "r = h" if "r \<in> set (holds d)" and "P r" for r
    by (rule count_rows_unique [OF uniq])
      (use that assms(2,4) assms(5) [OF that(2)] in \<open>simp_all add: held_row_def\<close>)
  have "count_rows (held_row org) rs = count_rows (held_row org) (update_rows P f rs) + count_rows P rs"
    if "set rs \<subseteq> set (holds d)" for rs
    using that
  proof (induction rs)
    case (Cons r rs)
    then have IH: "count_rows (held_row org) rs =
        count_rows (held_row org) (update_rows P f rs) + count_rows P rs" by simp
    show ?case
    proof (cases "P r")
      case True
      with Cons.prems only have "r = h" by simp
      moreover have "\<not> held_row org (f h)" using assms(3,6) by (simp add: held_row_def)
      ultimately show ?thesis using True IH assms(4) by (simp add: count_rows_Cons row_simps)
    qed (use IH in \<open>simp add: count_rows_Cons row_simps\<close>)
  qed (simp add: row_simps)
  moreover have "count_rows P (holds d) = 1"
  proof -
    have "count_rows P (holds d) \<le> count_rows ?u (holds d)"
      by (rule count_rows_mono) (use assms(5) in auto)
    moreover have "0 < count_rows P (holds d)" using assms(2,3) by (auto simp: count_rows_pos)
    ultimately show ?thesis using uniq by simp
  qed
  ultimately show ?thesis by (simp add: held_def)
qed

lemma releaseSandboxCapacity_Inr:
  "releaseSandboxCapacity org sbx g reason d = Inr (b, d') \<longleftrightarrow>
   org_of d org \<noteq> None \<and>
   (b \<longleftrightarrow> (\<exists>r \<in> set (holds d). release_cond org sbx g (effects d) r)) \<and>
   d' = d\<lparr>holds := update_rows (release_cond org sbx g (effects d)) (mark_released (clock d) reason) (holds d)\<rparr>"
  by (auto simp: releaseSandboxCapacity_def bindT_Inr_iff lockOrganizationCapacity_iff tx_simps
      count_rows_pos)

section \<open>Properties\<close>

text \<open>
  Admission is exact. On well-formed reservations, for an existing sandbox and operation
  with no unreleased reservation, a slot is granted if and only if the inventory is enforced,
  the limit is between 1 and 10000, and fewer slots are held than the limit; otherwise the
  request is refused with the unavailable or the exceeded error and nothing changes.
\<close>

lemma reserve_admission:
  assumes "phases_ok d" and "generations_ok d" and "org_of d org = Some row"
    and "\<forall>h \<in> set (holds d). h_sandbox h = sbx \<longrightarrow> h_released_at h \<noteq> None"
    and "\<exists>s \<in> set (sandboxes d). s_org s = org \<and> s_id s = sbx"
    and "\<exists>p \<in> set (operations d). o_org p = org \<and> o_sandbox p = Some sbx \<and> o_id p = op"
  shows "((\<exists>h d'. reserveSandboxCapacity org sbx op d = Inr (h, d')) \<longleftrightarrow>
           admits row \<and> int (held d org) < max_concurrency row) \<and>
    (\<not> admits row \<longrightarrow>
       (\<exists>m. reserveSandboxCapacity org sbx op d = Inl (CapacityError CapacityUnavailable m))) \<and>
    (admits row \<and> max_concurrency row \<le> int (held d org) \<longrightarrow>
       (\<exists>m. reserveSandboxCapacity org sbx op d = Inl (CapacityError CapacityExceeded m)))"
proof -
  have none: "own_hold d org sbx = None" using assms(4) by (auto simp: own_hold_None)
  have "\<exists>h d'. insert_hold org sbx (max_generation sbx (holds d) + 1) (Some op) Reserved None d = Inr (h, d')"
    using assms(4-6) max_generation_ge [of _ "holds d" sbx] max_generation_nonneg [of sbx "holds d"]
    by (intro insert_hold_ok) force+
  then show ?thesis
    by (auto simp: reserveSandboxCapacity_eq [OF assms(1)] none assms(3) not_le)
qed

text \<open>
  What a granted reservation is. If the reservation commits for a sandbox that held no
  slot, exactly one slot more is held by this organization and none by another, the total is
  within the limit, the new row is the only unreleased one of the sandbox, in phase reserved,
  owned by the operation, and its generation is larger than every earlier one.
\<close>

lemma reserve_effect:
  assumes "phases_ok d" and "org_of d org = Some row" and "own_hold d org sbx = None"
    and "reserveSandboxCapacity org sbx op d = Inr (h, d')"
  shows "held d' org = held d org + 1 \<and> int (held d' org) \<le> max_concurrency row \<and>
    max_concurrency row \<le> 10000 \<and>
    (other \<noteq> org \<longrightarrow> held d' other = held d other) \<and>
    own_hold d' org sbx = Some h \<and> h_phase h = Reserved \<and> h_operation h = Some op \<and>
    (\<forall>r \<in> set (holds d). h_sandbox r = sbx \<longrightarrow> h_generation r < h_generation h) \<and>
    d' = d\<lparr>holds := holds d @ [h]\<rparr>"
proof -
  from assms have adm: "admits row" and room: "int (held d org) < max_concurrency row"
    and ins: "insert_hold org sbx (max_generation sbx (holds d) + 1) (Some op) Reserved None d = Inr (h, d')"
    by (auto simp: reserveSandboxCapacity_eq split: if_splits)
  from insert_hold_Inr [OF ins] have h: "h_org h = org" "h_sandbox h = sbx" "h_released_at h = None"
      "h_phase h = Reserved" "h_operation h = Some op" "h_generation h = max_generation sbx (holds d) + 1"
    and d': "d' = d\<lparr>holds := holds d @ [h]\<rparr>" by auto
  have "own_hold d' org sbx = Some h"
    using assms(3) by (simp add: own_hold_def d' h)
  with h d' adm room show ?thesis
    using max_generation_ge [of _ "holds d" sbx]
    by (force simp: held_insert held_row_def admits_def)
qed

text \<open>
  Reserving is idempotent: repeating a reservation that was granted returns the same
  row and changes nothing, so a retried request never takes a second slot.
\<close>

lemma reserve_idempotent:
  assumes "phases_ok d" and "reserveSandboxCapacity org sbx op d = Inr (h, d')"
  shows "reserveSandboxCapacity org sbx op d' = Inr (h, d')"
proof -
  from assms obtain row where row: "org_of d org = Some row"
    by (auto simp: reserveSandboxCapacity_eq split: option.splits)
  show ?thesis
  proof (cases "own_hold d org sbx")
    case None
    with assms row have "insert_hold org sbx (max_generation sbx (holds d) + 1) (Some op) Reserved None d = Inr (h, d')"
      by (auto simp: reserveSandboxCapacity_eq split: if_splits)
    from insert_hold_Inr [OF this] have h: "h_org h = org" "h_sandbox h = sbx" "h_released_at h = None"
      "h_operation h = Some op" "h_phase h = Reserved" and d': "d' = d\<lparr>holds := holds d @ [h]\<rparr>" by auto
    have "phases_ok d'" using assms(1) h by (auto simp: phases_ok_def d')
    moreover have "own_hold d' org sbx = Some h" using None by (simp add: own_hold_def d' h)
    moreover have "org_of d' org = Some row" using row by (simp add: org_of_def d')
    ultimately show ?thesis using h by (simp add: reserveSandboxCapacity_eq)
  next
    case (Some r)
    with assms row have "d' = d" by (auto simp: reserveSandboxCapacity_eq split: if_splits)
    with assms show ?thesis by simp
  qed
qed

text \<open>
  Releasing is exact. On stores with at most one unreleased reservation per sandbox, a
  release that commits frees one slot of the organization if it reports success and none
  otherwise; it succeeds if and only if that generation of that sandbox is unreleased and no
  runtime effect on the sandbox is unsettled; a failed release leaves every reservation as it
  was, and another organization's slots never change.
\<close>

lemma release_exact:
  assumes "one_hold d" and "releaseSandboxCapacity org sbx g reason d = Inr (b, d')"
  shows "held d org = held d' org + (if b then 1 else 0) \<and>
    (b \<longleftrightarrow> (\<exists>h \<in> set (holds d). held_row org h \<and> h_sandbox h = sbx \<and> h_generation h = g) \<and>
           (\<forall>e \<in> set (effects d). \<not> unsettled_on sbx e)) \<and>
    (\<not> b \<longrightarrow> d' = d) \<and>
    (other \<noteq> org \<longrightarrow> held d' other = held d other)"
proof -
  let ?P = "release_cond org sbx g (effects d)" and ?f = "mark_released (clock d) reason"
  from assms(2) have b: "b \<longleftrightarrow> (\<exists>r \<in> set (holds d). ?P r)"
    and d': "d' = d\<lparr>holds := update_rows ?P ?f (holds d)\<rparr>"
    by (auto simp: releaseSandboxCapacity_Inr)
  have iff: "b \<longleftrightarrow> (\<exists>h \<in> set (holds d). held_row org h \<and> h_sandbox h = sbx \<and> h_generation h = g) \<and>
           (\<forall>e \<in> set (effects d). \<not> unsettled_on sbx e)"
    unfolding b held_row_def release_cond_def by auto
  have same: "d' = d" if "\<not> b"
  proof -
    from that b have "update_rows ?P ?f (holds d) = holds d"
      by (auto simp: update_rows_def intro!: map_idI)
    then show ?thesis by (simp add: d')
  qed
  have other: "held d' other = held d other" if "other \<noteq> org"
    unfolding held_def d'
    by simp (rule count_update_rows_same, use that in \<open>auto simp: held_row_def release_cond_def mark_released_def\<close>)
  have "held d org = held d' org + 1" if b
  proof -
    from that b obtain h where h: "h \<in> set (holds d)" and P: "?P h" by blast
    have "count_rows (held_row org) (update_rows ?P ?f (holds d)) + 1 = held d org"
      by (rule held_release [where P = ?P, OF assms(1) h P])
        (use P in \<open>auto simp: held_row_def release_cond_def mark_released_def\<close>)
    then show ?thesis by (simp add: d' held_def)
  qed
  with iff same other show ?thesis by (cases b) auto
qed

text \<open>
  The summary reads the inventory. For well-formed reservations the capacity summary of
  an existing organization never fails; when the inventory is enforced its used slots are the
  unreleased reservations, the four phases add up to them, and used slots plus available slots
  are the limit plus the overdraft, of which one is zero; otherwise no number is shown.
\<close>

lemma capacity_summary:
  assumes "phases_ok d" and "org_of d org = Some row"
  shows "\<exists>k. readOrganizationCapacity org d = Inr (k, d) \<and> k_limit k = max_concurrency row \<and>
    (k_state k = Enforced \<longleftrightarrow> admits row) \<and>
    (case (k_inUse k, k_available k, k_overLimit k, k_breakdown k) of
       (Some used, Some free, Some over, Some b) \<Rightarrow>
         admits row \<and> used = int (held d org) \<and>
         b_reserved b + b_active b + b_releasing b + b_uncertain b = used \<and>
         used + free = k_limit k + over \<and> (free = 0 \<or> over = 0) \<and> 0 \<le> free \<and> 0 \<le> over
     | (None, None, None, None) \<Rightarrow> \<not> admits row
     | _ \<Rightarrow> False)"
proof -
  let ?hs = "filter (held_row org) (holds d)"
  have "int (count_rows (\<lambda>r. h_phase r = Reserved) ?hs) + int (count_rows (\<lambda>r. h_phase r = Active) ?hs) +
        int (count_rows (\<lambda>r. h_phase r = Releasing) ?hs) + int (count_rows (\<lambda>r. h_phase r = Uncertain) ?hs) =
        int (held d org)"
    by (rule held_phases [OF assms(1)])
  then show ?thesis
    by (simp add: readOrganizationCapacity_eq [OF assms] Let_def admits_def max_def)
qed

section \<open>Witnesses\<close>

definition demo_db :: db where
  "demo_db = empty_db\<lparr>orgs := [new_org ''acme'' 2],
     sandboxes := [new_sandbox ''s1'' ''acme'' None SPending, new_sandbox ''s2'' ''acme'' (Some ''rt1'') SRunning],
     holds := [new_hold ''acme'' ''s2'' 1 None Active],
     operations := [new_operation ''op1'' ''acme'' ''s1'' KProvision]\<rparr>"

lemmas demo_simps = demo_db_def new_row_defs

lemma demo_ok: "phases_ok demo_db" "generations_ok demo_db" "one_hold demo_db"
  "org_of demo_db ''acme'' = Some (new_org ''acme'' 2)" "own_hold demo_db ''acme'' ''s1'' = None"
  by (auto simp: phases_ok_def generations_ok_def one_hold_def org_of_def own_hold_def demo_simps count_rows_def)

lemma demo_held: "held demo_db ''acme'' = 1"
  by (simp add: held_def held_row_def demo_simps count_rows_def)

lemma demo_reserve:
  "\<exists>h d'. reserveSandboxCapacity ''acme'' ''s1'' ''op1'' demo_db = Inr (h, d')"
  using demo_held
  by (auto simp: reserveSandboxCapacity_eq [OF demo_ok(1)] demo_ok admits_def new_org_def
      insert_hold_def bindT_def now_Inr tx_defs Let_def)
    (auto simp: demo_simps max_generation_def)

end
