(* ===== verification/Operations.thy ===== *)
theory Operations
  imports Capacity
begin

text \<open>
  The operation queue (\<open>services/sandbox-operations.ts\<close>): enqueueing with idempotency keys,
  claiming by id and claiming the next operation, lease expiry, and the settling updates a
  worker makes with the attempt number it claimed under.
\<close>

section \<open>The code\<close>

definition by_newest :: "operation list \<Rightarrow> operation list" where
  "by_newest rs = sort_key (\<lambda>r. - o_created_at r) rs"

definition by_oldest :: "operation list \<Rightarrow> operation list" where
  "by_oldest rs = sort_key o_created_at rs"

text \<open>UPDATE ... RETURNING: the changed rows.\<close>

definition upd_operations_returning ::
    "(operation \<Rightarrow> bool) \<Rightarrow> (operation \<Rightarrow> operation) \<Rightarrow> operation list dbtx" where
  "upd_operations_returning P f =
     bindT (sel_operations P) (\<lambda>rs.
     bindT (upd_operations P f) (\<lambda>_. returnT (map f rs)))"

definition same_key :: "string \<Rightarrow> operation_kind \<Rightarrow> string option \<Rightarrow> operation \<Rightarrow> bool" where
  "same_key org kind key r \<longleftrightarrow> o_org r = org \<and> o_kind r = kind \<and> key \<noteq> None \<and> o_key r = key"

text \<open>
  INSERT INTO \<open>sandbox_operations\<close> ... ON CONFLICT DO NOTHING: the conflicts are the primary
  key and the unique index on the idempotency key; the foreign keys name the organization
  and the sandbox.
\<close>

definition insert_operation ::
    "string \<Rightarrow> string \<Rightarrow> string option \<Rightarrow> operation_kind \<Rightarrow> string option \<Rightarrow> obj \<Rightarrow> operation list dbtx" where
  "insert_operation i org sbx kind key request =
     bindT now (\<lambda>t.
     bindT (getsT id) (\<lambda>d.
     if \<not> (\<exists>r \<in> set (orgs d). org_id r = org) \<or>
        (sbx \<noteq> None \<and> \<not> (\<exists>s \<in> set (sandboxes d). sbx = Some (s_id s)))
     then throwT (DbError ''violates foreign key constraint'')
     else if (\<exists>r \<in> set (operations d). o_id r = i \<or> same_key org kind key r) then returnT []
     else
       let row = \<lparr>o_id = i, o_org = org, o_sandbox = sbx, o_kind = kind, o_state = Queued,
             o_key = key, o_request = request, o_result = [], o_error = None, o_attempts = 0,
             o_locked_at = None, o_started_at = None, o_completed_at = None,
             o_created_at = t, o_updated_at = t\<rparr>
       in bindT (modifyT (\<lambda>d. d\<lparr>operations := operations d @ [row]\<rparr>)) (\<lambda>_. returnT [row])))"

text \<open>The operation and whether it was reused.\<close>

definition enqueueSandboxOperation ::
    "string \<Rightarrow> string option \<Rightarrow> operation_kind \<Rightarrow> obj \<Rightarrow> string option \<Rightarrow> (operation \<times> bool) dbtx" where
  "enqueueSandboxOperation org sbx kind request key =
     bindT (if truthy key then sel_operations (same_key org kind key) else returnT []) (\<lambda>existing.
     case first_row (by_newest existing) of
       Some r \<Rightarrow> returnT (r, True)
     | None \<Rightarrow>
         bindT (makeId ''op'') (\<lambda>i.
         bindT (insert_operation i org sbx kind key request) (\<lambda>inserted.
         bindT (if inserted = [] \<and> truthy key then sel_operations (same_key org kind key)
                else returnT []) (\<lambda>again.
         case first_row again of
           Some r \<Rightarrow> returnT (r, True)
         | None \<Rightarrow>
             bindT (someT (first_row inserted)
               (PlainError ''sandbox operation could not be enqueued'')) (\<lambda>r.
             returnT (r, False))))))"

text \<open>
  The secrets of an operation, stored and read through the encryption of \<open>secret-box.ts\<close>,
  whose functions are the parameters \<open>encrypt\<close> and \<open>decrypt\<close>.
\<close>

definition storeSandboxOperationSecret ::
    "(string \<Rightarrow> secret_box) \<Rightarrow> string \<Rightarrow> string \<Rightarrow> string \<Rightarrow> secret_row dbtx" where
  "storeSandboxOperationSecret encrypt op name v =
     bindT (getsT id) (\<lambda>d.
     if \<not> (\<exists>r \<in> set (operations d). o_id r = op) then throwT (DbError ''violates foreign key constraint'')
     else
       let box = encrypt v; mine = (\<lambda>x. x_operation x = op \<and> x_name x = name);
           row = \<lparr>x_operation = op, x_name = name, x_box = box\<rparr>
       in bindT (modifyT (\<lambda>d. d\<lparr>secrets :=
            (if \<exists>x \<in> set (secrets d). mine x then update_rows mine (\<lambda>x. x\<lparr>x_box := box\<rparr>) (secrets d)
             else secrets d @ [row])\<rparr>)) (\<lambda>_. returnT row))"

definition readSandboxOperationSecret ::
    "(secret_box \<Rightarrow> string) \<Rightarrow> string \<Rightarrow> string \<Rightarrow> string option dbtx" where
  "readSandboxOperationSecret decrypt op name =
     bindT (getsT (\<lambda>d. filter (\<lambda>x. x_operation x = op \<and> x_name x = name) (secrets d))) (\<lambda>rows.
     returnT (map_option (\<lambda>x. decrypt (x_box x)) (first_row rows)))"

text \<open>No unsettled runtime effect names the operation (the NOT EXISTS of the claims).\<close>

definition effect_free :: "effect list \<Rightarrow> operation \<Rightarrow> bool" where
  "effect_free es r \<longleftrightarrow> \<not> (\<exists>e \<in> set es. e_operation e = Some (o_id r) \<and> e_settled_at e = None)"

definition kind_in :: "operation_kind list \<Rightarrow> operation \<Rightarrow> bool" where
  "kind_in kinds r \<longleftrightarrow> kinds = [] \<or> o_kind r \<in> set kinds"

definition max_attempts :: "int option \<Rightarrow> int" where
  "max_attempts m = max (case m of None \<Rightarrow> 3 | Some n \<Rightarrow> n) 1"

definition stale_after :: "int option \<Rightarrow> int" where
  "stale_after m = max (case m of None \<Rightarrow> 300000 | Some n \<Rightarrow> n) 1"

definition claimed :: "time \<Rightarrow> operation \<Rightarrow> operation" where
  "claimed t r = r\<lparr>o_state := Running, o_attempts := o_attempts r + 1, o_locked_at := Some t,
     o_started_at := (case o_started_at r of None \<Rightarrow> Some t | Some x \<Rightarrow> Some x),
     o_completed_at := None, o_updated_at := t, o_error := None\<rparr>"

definition claimable_by_id :: "string \<Rightarrow> operation_kind list \<Rightarrow> int \<Rightarrow> effect list \<Rightarrow> operation \<Rightarrow> bool" where
  "claimable_by_id i kinds maxA es r \<longleftrightarrow>
     o_id r = i \<and> (o_state r = Queued \<or> o_state r = Failed) \<and> o_attempts r < maxA \<and>
     \<not> field_text_is (o_request r) ''dispatchReady'' ''false'' \<and> effect_free es r \<and> kind_in kinds r"

definition claimSandboxOperationById ::
    "string \<Rightarrow> operation_kind list \<Rightarrow> int option \<Rightarrow> operation option dbtx" where
  "claimSandboxOperationById i kinds maxAttempts =
     bindT now (\<lambda>t. bindT (getsT effects) (\<lambda>es.
     bindT (upd_operations_returning (claimable_by_id i kinds (max_attempts maxAttempts) es) (claimed t)) (\<lambda>rows.
     returnT (first_row rows))))"

definition startSandboxOperation :: "string \<Rightarrow> operation option dbtx" where
  "startSandboxOperation i = claimSandboxOperationById i [] None"

definition locked_before :: "time \<Rightarrow> operation \<Rightarrow> bool" where
  "locked_before t r \<longleftrightarrow> (case o_locked_at r of None \<Rightarrow> False | Some l \<Rightarrow> l < t)"

definition claimable_next ::
    "time \<Rightarrow> operation_kind list \<Rightarrow> int \<Rightarrow> int \<Rightarrow> effect list \<Rightarrow> operation \<Rightarrow> bool" where
  "claimable_next t kinds maxA stale es r \<longleftrightarrow>
     o_state r = Queued \<and> \<not> field_text_is (o_request r) ''nonReplayable'' ''true'' \<and>
     \<not> field_text_is (o_request r) ''dispatchReady'' ''false'' \<and> effect_free es r \<and>
     o_attempts r < maxA \<and> (o_locked_at r = None \<or> locked_before (t - stale) r) \<and> kind_in kinds r"

definition claimNextSandboxOperation ::
    "operation_kind list \<Rightarrow> int option \<Rightarrow> int option \<Rightarrow> operation option dbtx" where
  "claimNextSandboxOperation kinds maxAttempts staleAfterMs =
     bindT now (\<lambda>t. bindT (getsT effects) (\<lambda>es.
     bindT (sel_operations (claimable_next t kinds (max_attempts maxAttempts) (stale_after staleAfterMs) es)) (\<lambda>rows.
     case first_row (by_oldest rows) of
       None \<Rightarrow> returnT None
     | Some c \<Rightarrow>
         bindT (upd_operations_returning (\<lambda>r. o_id r = o_id c) (claimed t)) (\<lambda>rows.
         returnT (first_row rows)))))"

definition stale_running :: "time \<Rightarrow> operation_kind list \<Rightarrow> int \<Rightarrow> effect list \<Rightarrow> operation \<Rightarrow> bool" where
  "stale_running t kinds stale es r \<longleftrightarrow>
     o_state r = Running \<and> effect_free es r \<and> locked_before (t - stale) r \<and> kind_in kinds r"

definition lock_time :: "operation \<Rightarrow> time" where
  "lock_time r = (case o_locked_at r of None \<Rightarrow> 0 | Some l \<Rightarrow> l)"

definition claimStaleRunningSandboxOperation ::
    "operation_kind list \<Rightarrow> int option \<Rightarrow> operation option dbtx" where
  "claimStaleRunningSandboxOperation kinds staleAfterMs =
     bindT now (\<lambda>t. bindT (getsT effects) (\<lambda>es.
     bindT (sel_operations (stale_running t kinds (stale_after staleAfterMs) es)) (\<lambda>rows.
     case first_row (sort_key lock_time rows) of
       None \<Rightarrow> returnT None
     | Some c \<Rightarrow>
         bindT (upd_operations_returning (\<lambda>r. o_id r = o_id c)
           (\<lambda>r. r\<lparr>o_locked_at := Some t, o_updated_at := t\<rparr>)) (\<lambda>rows.
         returnT (first_row rows)))))"

definition completable :: "string \<Rightarrow> int option \<Rightarrow> bool \<Rightarrow> operation \<Rightarrow> bool" where
  "completable i expected reconciled r \<longleftrightarrow> o_id r = i \<and>
     (case expected of None \<Rightarrow> True
      | Some n \<Rightarrow> (o_state r = Running \<or> (reconciled \<and> o_state r = Failed)) \<and> o_attempts r = n)"

definition completeSandboxOperation ::
    "string \<Rightarrow> obj \<Rightarrow> int option \<Rightarrow> bool \<Rightarrow> operation option dbtx" where
  "completeSandboxOperation i result expected reconciled =
     bindT now (\<lambda>t.
     bindT (upd_operations_returning (completable i expected reconciled)
       (\<lambda>r. r\<lparr>o_state := Succeeded, o_error := None, o_result := result, o_completed_at := Some t,
              o_locked_at := None, o_updated_at := t\<rparr>)) (\<lambda>rows.
     returnT (first_row rows)))"

definition failable :: "string \<Rightarrow> int option \<Rightarrow> operation \<Rightarrow> bool" where
  "failable i expected r \<longleftrightarrow> o_id r = i \<and>
     (case expected of None \<Rightarrow> True | Some n \<Rightarrow> o_state r = Running \<and> o_attempts r = n)"

definition failSandboxOperation ::
    "string \<Rightarrow> string \<Rightarrow> obj \<Rightarrow> int option \<Rightarrow> operation option dbtx" where
  "failSandboxOperation i msg result expected =
     bindT now (\<lambda>t.
     bindT (upd_operations_returning (failable i expected)
       (\<lambda>r. r\<lparr>o_state := Failed, o_error := Some msg, o_result := obj_merge (o_result r) result,
              o_completed_at := Some t, o_locked_at := None, o_updated_at := t\<rparr>)) (\<lambda>rows.
     returnT (first_row rows)))"

definition requeueable :: "string \<Rightarrow> int option \<Rightarrow> effect list \<Rightarrow> operation \<Rightarrow> bool" where
  "requeueable i expected es r \<longleftrightarrow> o_id r = i \<and> o_state r = Running \<and>
     (case expected of None \<Rightarrow> True | Some n \<Rightarrow> o_attempts r = n) \<and> effect_free es r"

definition requeueSandboxOperation ::
    "string \<Rightarrow> string \<Rightarrow> obj \<Rightarrow> int option \<Rightarrow> operation option dbtx" where
  "requeueSandboxOperation i msg result expected =
     bindT now (\<lambda>t. bindT (getsT effects) (\<lambda>es.
     bindT (upd_operations_returning (requeueable i expected es)
       (\<lambda>r. r\<lparr>o_state := Queued, o_error := Some msg, o_result := obj_merge (o_result r) result,
              o_locked_at := None, o_completed_at := None, o_updated_at := t\<rparr>)) (\<lambda>rows.
     returnT (first_row rows))))"

definition or_error :: "string \<Rightarrow> operation \<Rightarrow> string option" where
  "or_error msg r = (case o_error r of None \<Rightarrow> Some msg | Some e \<Rightarrow> Some e)"

text \<open>The numbers of requeued and of failed operations.\<close>

definition cleanupStaleSandboxOperations ::
    "operation_kind list \<Rightarrow> int option \<Rightarrow> int option \<Rightarrow> (nat \<times> nat) dbtx" where
  "cleanupStaleSandboxOperations kinds maxAttempts staleAfterMs =
     bindT now (\<lambda>t. bindT (getsT effects) (\<lambda>es.
     let stale = stale_running t kinds (stale_after staleAfterMs) es; maxA = max_attempts maxAttempts in
     bindT (upd_operations (\<lambda>r. stale r \<and> o_attempts r < maxA)
       (\<lambda>r. r\<lparr>o_state := Queued, o_locked_at := None, o_error := or_error ''operation lease expired'' r,
              o_updated_at := t\<rparr>)) (\<lambda>requeued.
     bindT (upd_operations (\<lambda>r. stale r \<and> maxA \<le> o_attempts r)
       (\<lambda>r. r\<lparr>o_state := Failed, o_locked_at := None, o_completed_at := Some t,
              o_error := or_error ''operation attempt limit exceeded after stale lease'' r,
              o_updated_at := t\<rparr>)) (\<lambda>failed.
     returnT (requeued, failed)))))"

definition listQueuedSandboxOperations :: "operation_kind list \<Rightarrow> int option \<Rightarrow> operation list dbtx" where
  "listQueuedSandboxOperations kinds limit =
     bindT (sel_operations (\<lambda>r. o_state r = Queued \<and> kind_in kinds r)) (\<lambda>rows.
     returnT (take (nat (min (max (case limit of None \<Rightarrow> 20 | Some n \<Rightarrow> n) 1) 100)) (by_oldest rows)))"

section \<open>Lemmas\<close>

lemma upd_operations_returning_Inr [tx_simps]:
  "upd_operations_returning P f d =
     Inr (map f (filter P (operations d)), d\<lparr>operations := update_rows P f (operations d)\<rparr>)"
  by (simp add: upd_operations_returning_def bindT_def tx_simps)

lemma keeps_upd_operations_returning:
  "keeps I (upd_operations P f) \<Longrightarrow> keeps I (upd_operations_returning P f)"
  unfolding upd_operations_returning_def by (intro keeps_intro)

lemma settle_none:
  "\<forall>r \<in> set (operations d). \<not> completable i ex rec r \<Longrightarrow> completeSandboxOperation i res ex rec d = Inr (None, d)"
  "\<forall>r \<in> set (operations d). \<not> failable i ex r \<Longrightarrow> failSandboxOperation i msg res ex d = Inr (None, d)"
  "\<forall>r \<in> set (operations d). \<not> requeueable i ex (effects d) r \<Longrightarrow>
     requeueSandboxOperation i msg res ex d = Inr (None, d)"
  by (simp_all add: completeSandboxOperation_def failSandboxOperation_def requeueSandboxOperation_def
      bindT_def now_Inr getsT_apply returnT_apply upd_operations_returning_Inr update_rows_none)

text \<open>Distinct operation ids, and the unique index on the idempotency key.\<close>

definition ids_ok :: "db \<Rightarrow> bool" where
  "ids_ok d \<longleftrightarrow> distinct (map o_id (operations d))"

definition key_of :: "operation \<Rightarrow> string \<times> operation_kind \<times> string option" where
  "key_of r = (o_org r, o_kind r, o_key r)"

definition keys_ok :: "db \<Rightarrow> bool" where
  "keys_ok d \<longleftrightarrow> distinct (map key_of (filter (\<lambda>r. o_key r \<noteq> None) (operations d)))"

lemma ids_unique: "ids_ok d \<Longrightarrow> r \<in> set (operations d) \<Longrightarrow> q \<in> set (operations d) \<Longrightarrow> o_id r = o_id q \<Longrightarrow> r = q"
  unfolding ids_ok_def by (rule key_unique)

lemma filter_id_unique:
  assumes "ids_ok d" and "r \<in> set (operations d)"
  shows "filter (\<lambda>q. o_id q = o_id r) (operations d) = [r]"
  using assms unfolding ids_ok_def by (rule filter_key_unique)

definition fresh_operation ::
    "time \<Rightarrow> string \<Rightarrow> string \<Rightarrow> string option \<Rightarrow> operation_kind \<Rightarrow> string option \<Rightarrow> obj \<Rightarrow> operation" where
  "fresh_operation t i org sbx kind key request =
     \<lparr>o_id = i, o_org = org, o_sandbox = sbx, o_kind = kind, o_state = Queued,
      o_key = key, o_request = request, o_result = [], o_error = None, o_attempts = 0,
      o_locked_at = None, o_started_at = None, o_completed_at = None,
      o_created_at = t, o_updated_at = t\<rparr>"

lemma fresh_operation_simps [simp]:
  "o_id (fresh_operation t i org sbx kind key request) = i"
  "o_org (fresh_operation t i org sbx kind key request) = org"
  "o_sandbox (fresh_operation t i org sbx kind key request) = sbx"
  "o_kind (fresh_operation t i org sbx kind key request) = kind"
  "o_key (fresh_operation t i org sbx kind key request) = key"
  "o_request (fresh_operation t i org sbx kind key request) = request"
  "o_state (fresh_operation t i org sbx kind key request) = Queued"
  "o_attempts (fresh_operation t i org sbx kind key request) = 0"
  by (simp_all add: fresh_operation_def)

lemma insert_operation_eq:
  "insert_operation i org sbx kind key request d =
    (if \<not> (\<exists>r \<in> set (orgs d). org_id r = org) \<or>
        (sbx \<noteq> None \<and> \<not> (\<exists>s \<in> set (sandboxes d). sbx = Some (s_id s)))
     then Inl (DbError ''violates foreign key constraint'')
     else if (\<exists>r \<in> set (operations d). o_id r = i \<or> same_key org kind key r) then Inr ([], d)
     else (let row = fresh_operation (clock d) i org sbx kind key request
           in Inr ([row], d\<lparr>operations := operations d @ [row]\<rparr>)))"
  by (simp add: insert_operation_def bindT_def now_Inr getsT_apply throwT_apply returnT_apply
      modifyT_apply Let_def fresh_operation_def)

lemma insert_operation_cases:
  assumes "insert_operation i org sbx kind key request d = Inr (rows, d')"
  obtains "rows = []" "d' = d"
  | row where "rows = [row]" "d' = d\<lparr>operations := operations d @ [row]\<rparr>"
      "row = fresh_operation (clock d) i org sbx kind key request"
      "\<forall>r \<in> set (operations d). o_id r \<noteq> i \<and> \<not> same_key org kind key r"
proof -
  have "rows = [] \<and> d' = d \<or>
    rows = [fresh_operation (clock d) i org sbx kind key request] \<and>
    d' = d\<lparr>operations := operations d @ [fresh_operation (clock d) i org sbx kind key request]\<rparr> \<and>
    \<not> (\<exists>r \<in> set (operations d). o_id r = i \<or> same_key org kind key r)"
    using assms by (simp add: insert_operation_eq Let_def split: if_splits) auto
  then show thesis using that by blast
qed

text \<open>The two ways of enqueueing: an operation under the key exists, or a fresh one is added.\<close>

lemma enqueue_cases:
  assumes "enqueueSandboxOperation org sbx kind request key d = Inr ((r, u), d')"
  obtains "u" "truthy key" "r \<in> set (operations d)" "same_key org kind key r"
      "operations d' = operations d" "d' = d \<or> d' = d\<lparr>rand_pos := Suc (rand_pos d)\<rparr>"
      "first_row (by_newest (filter (same_key org kind key) (operations d))) = Some r \<Longrightarrow> d' = d"
  | "\<not> u" "d' = d\<lparr>rand_pos := Suc (rand_pos d), operations := operations d @ [r]\<rparr>"
      "r = fresh_operation (clock d) (''op_'' @ rand d (rand_pos d)) org sbx kind key request"
      "\<forall>q \<in> set (operations d). o_id q \<noteq> o_id r \<and> \<not> same_key org kind key q"
proof -
  let ?mine = "filter (same_key org kind key) (operations d)"
  let ?d = "d\<lparr>rand_pos := Suc (rand_pos d)\<rparr>"
  have sel: "(if b then sel_operations (same_key org kind key) else returnT []) d0 =
      Inr (if b then filter (same_key org kind key) (operations d0) else [], d0)" for b d0
    by (simp add: sel_Inr returnT_apply)
  show ?thesis
  proof (cases "truthy key \<and> ?mine \<noteq> []")
    case True
    then obtain q where q: "first_row (by_newest ?mine) = Some q"
      by (cases "first_row (by_newest ?mine)") (auto simp: by_newest_def)
    then have "q \<in> set ?mine" unfolding by_newest_def by (auto dest: first_row_sort_key_Some)
    moreover from assms True q have "r = q" "d' = d" "u"
      by (simp_all add: enqueueSandboxOperation_def bindT_def sel_Inr returnT_apply)
    ultimately show ?thesis using True by (intro that(1)) auto
  next
    case False
    then have none: "by_newest (if truthy key then ?mine else []) = []" by (simp add: by_newest_def)
    from assms none obtain rows d1 where
      ins: "insert_operation (''op_'' @ rand d (rand_pos d)) org sbx kind key request ?d = Inr (rows, d1)"
      and rest: "(case first_row (if rows = [] \<and> truthy key then filter (same_key org kind key) (operations d1) else []) of
           Some r \<Rightarrow> returnT (r, True)
         | None \<Rightarrow> bindT (someT (first_row rows)
               (PlainError ''sandbox operation could not be enqueued'')) (\<lambda>r. returnT (r, False))) d1 = Inr ((r, u), d')"
      by (auto simp: enqueueSandboxOperation_def bindT_Inr_iff sel makeId_Inr)
    from ins show ?thesis
    proof (cases rule: insert_operation_cases)
      case 1
      with rest False show ?thesis
        by (auto simp: someT_def bindT_def throwT_apply split: option.splits if_splits dest!: first_row_Some)
    next
      case (2 row)
      with rest have "r = row" "\<not> u" "d' = d1" by (auto simp: someT_def bindT_def returnT_apply)
      with 2 show ?thesis by (intro that(2)) auto
    qed
  qed
qed

lemma claimNext_Inr:
  "claimNextSandboxOperation kinds m st d = Inr (res, d') \<longleftrightarrow>
   (let P = claimable_next (clock d) kinds (max_attempts m) (stale_after st) (effects d) in
    case first_row (by_oldest (filter P (operations d))) of
      None \<Rightarrow> res = None \<and> d' = d
    | Some c \<Rightarrow> res = map_option (claimed (clock d)) (first_row (filter (\<lambda>r. o_id r = o_id c) (operations d))) \<and>
        d' = d\<lparr>operations := update_rows (\<lambda>r. o_id r = o_id c) (claimed (clock d)) (operations d)\<rparr>)"
  by (auto simp: claimNextSandboxOperation_def bindT_def now_Inr getsT_apply returnT_apply sel_Inr
      upd_operations_returning_Inr Let_def first_row_map split: option.splits)

lemma claimById_Inr:
  "claimSandboxOperationById i kinds m d = Inr (res, d') \<longleftrightarrow>
   (let P = claimable_by_id i kinds (max_attempts m) (effects d) in
    res = map_option (claimed (clock d)) (first_row (filter P (operations d))) \<and>
    d' = d\<lparr>operations := update_rows P (claimed (clock d)) (operations d)\<rparr>)"
  by (auto simp: claimSandboxOperationById_def bindT_def now_Inr getsT_apply returnT_apply
      upd_operations_returning_Inr Let_def first_row_map)

lemma claimed_simps [simp]:
  "o_id (claimed t r) = o_id r" "o_org (claimed t r) = o_org r" "o_sandbox (claimed t r) = o_sandbox r"
  "o_kind (claimed t r) = o_kind r" "o_key (claimed t r) = o_key r" "o_request (claimed t r) = o_request r"
  "o_state (claimed t r) = Running" "o_attempts (claimed t r) = o_attempts r + 1"
  "o_locked_at (claimed t r) = Some t" "o_created_at (claimed t r) = o_created_at r"
  by (simp_all add: claimed_def)

lemma readSandboxOperationSecret_eq:
  "readSandboxOperationSecret decrypt op name d =
     Inr (map_option (\<lambda>x. decrypt (x_box x))
            (first_row (filter (\<lambda>x. x_operation x = op \<and> x_name x = name) (secrets d))), d)"
  by (simp add: readSandboxOperationSecret_def bindT_def getsT_apply returnT_apply)

lemma claimStale_Inr:
  "claimStaleRunningSandboxOperation kinds st d = Inr (res, d') \<longleftrightarrow>
   (let P = stale_running (clock d) kinds (stale_after st) (effects d);
        f = (\<lambda>r. r\<lparr>o_locked_at := Some (clock d), o_updated_at := clock d\<rparr>) in
    case first_row (sort_key lock_time (filter P (operations d))) of
      None \<Rightarrow> res = None \<and> d' = d
    | Some c \<Rightarrow> res = map_option f (first_row (filter (\<lambda>r. o_id r = o_id c) (operations d))) \<and>
        d' = d\<lparr>operations := update_rows (\<lambda>r. o_id r = o_id c) f (operations d)\<rparr>)"
  by (auto simp: claimStaleRunningSandboxOperation_def bindT_def now_Inr getsT_apply returnT_apply sel_Inr
      upd_operations_returning_Inr Let_def first_row_map split: option.splits)

section \<open>Properties\<close>

text \<open>
  Claiming the next operation. With distinct ids, a worker gets an operation if and only
  if one is claimable; it gets an oldest one, now running under one attempt more and locked
  now; the attempt number stays within the limit; the operation was queued, not marked as
  non-replayable nor as not ready for dispatch, without an unsettled runtime effect; and no
  other operation changes.
\<close>

lemma claim_next_oldest:
  assumes "ids_ok d" and "claimNextSandboxOperation kinds m st d = Inr (res, d')"
  shows "case res of
      None \<Rightarrow> d' = d \<and> (\<forall>q \<in> set (operations d).
        \<not> claimable_next (clock d) kinds (max_attempts m) (stale_after st) (effects d) q)
    | Some r' \<Rightarrow> \<exists>r \<in> set (operations d).
        claimable_next (clock d) kinds (max_attempts m) (stale_after st) (effects d) r \<and>
        (\<forall>q \<in> set (operations d).
           claimable_next (clock d) kinds (max_attempts m) (stale_after st) (effects d) q \<longrightarrow>
           o_created_at r \<le> o_created_at q) \<and>
        r' = claimed (clock d) r \<and> o_attempts r' \<le> max_attempts m \<and>
        o_state r = Queued \<and> effect_free (effects d) r \<and>
        \<not> field_text_is (o_request r) ''nonReplayable'' ''true'' \<and>
        operations d' = update_rows (\<lambda>q. q = r) (\<lambda>_. r') (operations d)"
proof -
  let ?P = "claimable_next (clock d) kinds (max_attempts m) (stale_after st) (effects d)"
  show ?thesis
  proof (cases "first_row (by_oldest (filter ?P (operations d)))")
    case None
    with assms(2) show ?thesis
      by (auto simp: claimNext_Inr Let_def by_oldest_def filter_empty_conv)
  next
    case (Some c)
    then have c: "c \<in> set (filter ?P (operations d))"
      and old: "\<forall>q \<in> set (filter ?P (operations d)). o_created_at c \<le> o_created_at q"
      unfolding by_oldest_def by (auto dest: first_row_sort_key_Some)
    then have "filter (\<lambda>q. o_id q = o_id c) (operations d) = [c]"
      by (intro filter_id_unique [OF assms(1)]) simp
    moreover have "update_rows (\<lambda>q. o_id q = o_id c) (claimed (clock d)) (operations d) =
        update_rows (\<lambda>q. q = c) (\<lambda>_. claimed (clock d) c) (operations d)"
      using c ids_unique [OF assms(1)] by (fastforce simp: update_rows_def)
    ultimately show ?thesis
      using assms(2) Some c old
      by (auto simp: claimNext_Inr Let_def claimable_next_def intro!: bexI [of _ c])
  qed
qed


text \<open>
  An attempt settles at most once. If completing under an attempt number returns the
  operation, its row was running (or failed, for a reconciled completion) under that number
  and is now succeeded; after that, completing, failing and requeueing under any attempt
  number return nothing and change nothing.
\<close>

lemma complete_settles_once:
  assumes "ids_ok d" and "completeSandboxOperation i res (Some n) reconciled d = Inr (Some r', d')"
  shows "(\<exists>r \<in> set (operations d). o_id r = i \<and> o_attempts r = n \<and>
            (o_state r = Running \<or> reconciled \<and> o_state r = Failed)) \<and>
    r' \<in> set (operations d') \<and> o_id r' = i \<and> o_state r' = Succeeded \<and> o_result r' = res \<and>
    completeSandboxOperation i res2 (Some k) rec2 d' = Inr (None, d') \<and>
    failSandboxOperation i msg res2 (Some k) d' = Inr (None, d') \<and>
    requeueSandboxOperation i msg res2 (Some k) d' = Inr (None, d')"
proof -
  let ?P = "completable i (Some n) reconciled"
  let ?f = "\<lambda>r. r\<lparr>o_state := Succeeded, o_error := None, o_result := res, o_completed_at := Some (clock d),
              o_locked_at := None, o_updated_at := clock d\<rparr>"
  from assms(2) have d': "d' = d\<lparr>operations := update_rows ?P ?f (operations d)\<rparr>"
    and first: "first_row (map ?f (filter ?P (operations d))) = Some r'"
    by (auto simp: completeSandboxOperation_def bindT_def now_Inr returnT_apply upd_operations_returning_Inr)
  from first obtain r where fr: "first_row (filter ?P (operations d)) = Some r" and r': "r' = ?f r"
    by (auto simp: first_row_map)
  from first_row_filter_Some [OF fr] have r: "r \<in> set (operations d)" "?P r" by auto
  have settled: "q \<in> set (operations d') \<Longrightarrow> o_id q = i \<Longrightarrow> o_state q = Succeeded" for q
  proof -
    assume q: "q \<in> set (operations d')" "o_id q = i"
    then obtain p where p: "p \<in> set (operations d)" "q = (if ?P p then ?f p else p)"
      by (auto simp: d' in_update_rows)
    with q have "o_id p = i" by (auto split: if_splits)
    with p(1) r ids_unique [OF assms(1)] have "p = r" by (auto simp: completable_def)
    with p(2) r(2) show "o_state q = Succeeded" by simp
  qed
  have "r' \<in> set (operations d')" using r r' by (auto simp: d' in_update_rows)
  moreover have "o_id r' = i" "o_state r' = Succeeded" "o_result r' = res"
    using r(2) by (auto simp: r' completable_def)
  moreover have "completeSandboxOperation i res2 (Some k) rec2 d' = Inr (None, d') \<and>
    failSandboxOperation i msg res2 (Some k) d' = Inr (None, d') \<and>
    requeueSandboxOperation i msg res2 (Some k) d' = Inr (None, d')"
    using settled by (force intro!: settle_none simp: completable_def failable_def requeueable_def)
  ultimately show ?thesis using r by (auto simp: completable_def)
qed

text \<open>
  Enqueueing under an idempotency key is idempotent: once it has returned an operation,
  enqueueing the same kind under the same key for the same organization, whatever the new
  request, returns that operation marked as reused and adds nothing.
\<close>

lemma enqueue_idempotent:
  assumes "truthy key" and "enqueueSandboxOperation org sbx kind request key d = Inr ((r, u), d')"
  shows "o_org r = org \<and> o_kind r = kind \<and> o_key r = key \<and>
    enqueueSandboxOperation org sbx2 kind request2 key d' = Inr ((r, True), d')"
  using assms(2)
proof (cases rule: enqueue_cases)
  case 1
  let ?mine = "filter (same_key org kind key) (operations d)"
  from 1 obtain q where q: "first_row (by_newest ?mine) = Some q"
    by (cases "first_row (by_newest ?mine)") (auto simp: by_newest_def filter_empty_conv)
  with assms have rq: "r = q" "d' = d"
    by (simp_all add: enqueueSandboxOperation_def bindT_def sel_Inr returnT_apply)
  have "enqueueSandboxOperation org sbx2 kind request2 key d = Inr ((q, True), d)"
    using assms(1) q by (simp add: enqueueSandboxOperation_def bindT_def sel_Inr returnT_apply)
  with 1(4) rq show ?thesis by (simp add: same_key_def)
next
  case 2
  then have "same_key org kind key r" using assms(1) by (auto simp: same_key_def truthy_def)
  moreover from 2 have "filter (same_key org kind key) (operations d) = []" by (simp add: filter_empty_conv)
  ultimately show ?thesis using assms(1) 2(2)
    by (simp add: same_key_def [of _ _ _ r] enqueueSandboxOperation_def bindT_def sel_Inr returnT_apply by_newest_def)
qed

text \<open>
  Lease expiry leaves no stale running operation. After a cleanup no operation of the
  given kinds is still running under an expired lease with no unsettled effect; each that was
  is now queued if its attempts were below the limit and failed otherwise, the two numbers
  reported count them, and every other operation is as it was.
\<close>

lemma cleanup_exact:
  assumes "cleanupStaleSandboxOperations kinds m st d = Inr ((requeued, failed), d')"
  shows "(\<forall>q \<in> set (operations d'). \<not> stale_running (clock d) kinds (stale_after st) (effects d) q) \<and>
    requeued = count_rows (\<lambda>r. stale_running (clock d) kinds (stale_after st) (effects d) r \<and>
                 o_attempts r < max_attempts m) (operations d) \<and>
    failed = count_rows (\<lambda>r. stale_running (clock d) kinds (stale_after st) (effects d) r \<and>
                 max_attempts m \<le> o_attempts r) (operations d) \<and>
    list_all2 (\<lambda>r q. if stale_running (clock d) kinds (stale_after st) (effects d) r
        then o_state q = (if o_attempts r < max_attempts m then Queued else Failed) \<and>
             o_locked_at q = None \<and> o_attempts q = o_attempts r \<and> o_id q = o_id r
        else q = r) (operations d) (operations d')"
proof -
  let ?s = "stale_running (clock d) kinds (stale_after st) (effects d)"
  let ?f = "\<lambda>r. r\<lparr>o_state := Queued, o_locked_at := None, o_error := or_error ''operation lease expired'' r,
              o_updated_at := clock d\<rparr>"
  let ?g = "\<lambda>r. r\<lparr>o_state := Failed, o_locked_at := None, o_completed_at := Some (clock d),
              o_error := or_error ''operation attempt limit exceeded after stale lease'' r,
              o_updated_at := clock d\<rparr>"
  let ?ops = "update_rows (\<lambda>r. ?s r \<and> o_attempts r < max_attempts m) ?f (operations d)"
  have fs: "\<not> ?s (?f r)" and gs: "\<not> ?s (?g r)" for r by (simp_all add: stale_running_def)
  let ?A = "\<lambda>r. ?s r \<and> o_attempts r < max_attempts m" and ?B = "\<lambda>r. ?s r \<and> max_attempts m \<le> o_attempts r"
  from assms have d': "operations d' = update_rows ?B ?g ?ops"
    and n: "requeued = count_rows ?A (operations d)" "failed = count_rows ?B ?ops"
    by (auto simp: cleanupStaleSandboxOperations_def bindT_def now_Inr upd_Inr getsT_apply
        returnT_apply Let_def)
  have "failed = count_rows ?B (operations d)"
    unfolding n(2) by (rule count_update_rows_same) (use fs in auto)
  moreover have each: "operations d' = map (\<lambda>r. if ?A r then ?f r else if ?B r then ?g r else r) (operations d)"
    unfolding d' update_rows_def map_map by (rule map_cong [OF refl]) (use fs in auto)
  moreover have "\<forall>q \<in> set (operations d'). \<not> ?s q"
    unfolding each using fs gs by (auto simp: not_less)
  moreover have "list_all2 (\<lambda>r q. if ?s r
        then o_state q = (if o_attempts r < max_attempts m then Queued else Failed) \<and>
             o_locked_at q = None \<and> o_attempts q = o_attempts r \<and> o_id q = o_id r
        else q = r) (operations d) (operations d')"
    unfolding each by (rule list_all2_all_nthI) auto
  ultimately show ?thesis using n(1) by blast
qed

text \<open>
  An operation secret reads back. Given that decryption inverts encryption, a secret
  stored for an operation is the one read for that operation and name afterwards, and the
  secrets of every other operation or name read as before.
\<close>

lemma secret_roundtrip:
  assumes "\<And>v. decrypt (encrypt v) = v" and "storeSandboxOperationSecret encrypt op name v d = Inr (row, d')"
  shows "readSandboxOperationSecret decrypt op name d' = Inr (Some v, d') \<and>
    ((op', name') \<noteq> (op, name) \<longrightarrow>
      (\<exists>x. readSandboxOperationSecret decrypt op' name' d = Inr (x, d) \<and>
           readSandboxOperationSecret decrypt op' name' d' = Inr (x, d')))"
proof -
  let ?mine = "\<lambda>x. x_operation x = op \<and> x_name x = name"
  let ?set = "\<lambda>x. x\<lparr>x_box := encrypt v\<rparr>"
  let ?new = "\<lparr>x_operation = op, x_name = name, x_box = encrypt v\<rparr>"
  from assms(2) have d': "secrets d' = (if \<exists>x \<in> set (secrets d). ?mine x then update_rows ?mine ?set (secrets d)
      else secrets d @ [?new])"
    by (auto simp: storeSandboxOperationSecret_def bindT_def getsT_apply throwT_apply returnT_apply
        modifyT_apply Let_def split: if_splits)
  have mine: "filter ?mine (update_rows ?mine ?set xs) = map ?set (filter ?mine xs)" for xs
    by (induction xs) (simp_all add: row_simps)
  have upd: "filter (\<lambda>x. x_operation x = op' \<and> x_name x = name') (update_rows ?mine ?set xs) =
      filter (\<lambda>x. x_operation x = op' \<and> x_name x = name') xs" if "(op', name') \<noteq> (op, name)" for xs
    using that by (induction xs) (auto simp: row_simps)
  have other: "filter (\<lambda>x. x_operation x = op' \<and> x_name x = name') (secrets d') =
      filter (\<lambda>x. x_operation x = op' \<and> x_name x = name') (secrets d)" if "(op', name') \<noteq> (op, name)"
    using that upd [OF that] by (auto simp: d')
  have "\<exists>x. first_row (filter ?mine (secrets d')) = Some x \<and> x_box x = encrypt v"
  proof (cases "\<exists>x \<in> set (secrets d). ?mine x")
    case True
    then obtain x xs where "filter ?mine (secrets d) = x # xs"
      by (metis (mono_tags, lifting) filter_empty_conv neq_Nil_conv)
    with True show ?thesis by (simp add: d' mine)
  next
    case False
    then have "filter ?mine (secrets d) = []" by (simp add: filter_empty_conv)
    moreover from False have "secrets d' = secrets d @ [?new]" unfolding d' by (simp only: if_False)
    ultimately show ?thesis by simp
  qed
  with other assms(1) show ?thesis by (auto simp: readSandboxOperationSecret_eq)
qed


section \<open>Witnesses\<close>

definition queue_db :: db where
  "queue_db = empty_db\<lparr>orgs := [new_org ''acme'' 2], sandboxes := [new_sandbox ''s1'' ''acme'' None SPending],
     operations := [(new_operation ''op1'' ''acme'' ''s1'' KProvision)\<lparr>o_created_at := 5\<rparr>,
                    (new_operation ''op2'' ''acme'' ''s1'' KRenew)\<lparr>o_created_at := 3\<rparr>,
                    (new_operation ''op3'' ''acme'' ''s1'' KDelete)\<lparr>o_state := Running, o_attempts := 2, o_locked_at := Some 0\<rparr>,
                    (new_operation ''op4'' ''acme'' ''s1'' KPause)\<lparr>o_attempts := 3\<rparr>],
     clock := 1000\<rparr>"

lemmas queue_simps = queue_db_def new_row_defs

lemma queue_ids: "ids_ok queue_db"
  by (simp add: ids_ok_def queue_simps)



end
