(* ===== verification/Effects.thy ===== *)
theory Effects
  imports Operations
begin

text \<open>
  Runtime effects (\<open>services/sandbox-runtime-effects.ts\<close>): the durable record of one call to
  the runtime provider. An effect is begun under the organization's lock with the sandbox's
  reservation, marked dispatched just before the provider call, acknowledged after it, and
  settled exactly once; an unknown outcome marks it and its reservation uncertain.
\<close>

section \<open>The code\<close>

definition lockEffectSandbox :: "string \<Rightarrow> string \<Rightarrow> sandbox_row dbtx" where
  "lockEffectSandbox org sbx =
     bindT (lockOrganizationCapacity org) (\<lambda>_.
     bindT (sel_sandboxes (\<lambda>s. s_id s = sbx \<and> s_org s = org)) (\<lambda>result.
     someT (first_row result) (CapacityError CapacityUnavailable ''Sandbox inventory is unavailable.'')))"

text \<open>The number of effects the sandbox ever had, and whether one is unsettled.\<close>

record runtime_fence =
  f_version :: nat
  f_busy :: bool

definition readRuntimeFence :: "string \<Rightarrow> runtime_fence dbtx" where
  "readRuntimeFence sbx =
     bindT (sel_effects (\<lambda>e. e_sandbox e = sbx)) (\<lambda>es.
     returnT \<lparr>f_version = length es, f_busy = (\<exists>e \<in> set es. e_settled_at e = None)\<rparr>)"

text \<open>\<open>ORDER BY generation DESC LIMIT 1\<close>.\<close>

definition latest :: "hold list \<Rightarrow> hold option" where
  "latest hs = first_row (sort_key (\<lambda>h. - h_generation h) hs)"

text \<open>
  The reservation an effect is fenced by: the latest unreleased one, or the latest of all
  when a paused sandbox (whose slot may be released) is deleted.
\<close>

definition effect_hold :: "string \<Rightarrow> string \<Rightarrow> bool \<Rightarrow> hold \<Rightarrow> bool" where
  "effect_hold org sbx also_released h \<longleftrightarrow>
     h_org h = org \<and> h_sandbox h = sbx \<and> (h_released_at h = None \<or> also_released)"

definition starting :: "effect_kind \<Rightarrow> bool" where
  "starting k \<longleftrightarrow> k = EPrepare \<or> k = EProvision \<or> k = EResume"

text \<open>
  INSERT INTO \<open>sandbox_runtime_effects\<close> with its primary key and the partial unique index
  \<open>sandbox_runtime_one_effect\<close>.
\<close>

definition insert_effect :: "effect \<Rightarrow> effect dbtx" where
  "insert_effect e =
     bindT (getsT effects) (\<lambda>es.
     if \<exists>q \<in> set es. e_id q = e_id e \<or> unsettled_on (e_sandbox e) q
     then throwT (DbError ''duplicate key value violates unique constraint'')
     else bindT (modifyT (\<lambda>d. d\<lparr>effects := effects d @ [e]\<rparr>)) (\<lambda>_. returnT e))"

definition owned_by :: "string \<Rightarrow> string \<Rightarrow> effect_kind \<Rightarrow> operation \<Rightarrow> operation option \<Rightarrow> bool" where
  "owned_by org sbx kind operation current \<longleftrightarrow>
     (case current of None \<Rightarrow> False
      | Some c \<Rightarrow> o_org c = org \<and> o_sandbox c = Some sbx \<and>
          o_state c = (if kind = EPrepare then Queued else Running) \<and>
          o_attempts c = o_attempts operation)"

text \<open>
  \<open>hold.phase !== "reserved" || hold.operation_id !== input.operation?.id\<close>, negated: without
  an operation the right-hand side is undefined, from which every database value differs.
\<close>

definition owns_start :: "operation option \<Rightarrow> hold \<Rightarrow> bool" where
  "owns_start operation hold \<longleftrightarrow> h_phase hold = Reserved \<and>
     (case operation of None \<Rightarrow> False | Some p \<Rightarrow> h_operation hold = Some (o_id p))"

definition beginRuntimeEffect ::
    "string \<Rightarrow> string \<Rightarrow> effect_kind \<Rightarrow> operation option \<Rightarrow> obj \<Rightarrow> effect dbtx" where
  "beginRuntimeEffect org sbx kind operation context =
     bindT (lockEffectSandbox org sbx) (\<lambda>sandbox.
     bindT (case operation of
         None \<Rightarrow> returnT ()
       | Some p \<Rightarrow>
           bindT (sel_operations (\<lambda>r. o_id r = o_id p)) (\<lambda>result.
           requireT (owned_by org sbx kind p (first_row result))
             (CapacityError TransitionInProgress ''The operation is owned by another worker.''))) (\<lambda>_.
     bindT (sel_holds (effect_hold org sbx (kind = EDelete \<and> s_status sandbox = SPaused))) (\<lambda>hs.
     bindT (someT (latest hs)
       (CapacityError CapacityUnavailable ''No execution reservation exists for this sandbox.'')) (\<lambda>hold.
     bindT (requireT (\<not> (starting kind \<and> \<not> owns_start operation hold))
       (CapacityError TransitionInProgress ''This operation does not own a starting reservation.'')) (\<lambda>_.
     bindT (sel_effects (unsettled_on sbx)) (\<lambda>existing.
     bindT (requireT (existing = [])
       (CapacityError TransitionInProgress
         ''A runtime operation is still in progress or its outcome is being checked.'')) (\<lambda>_.
     bindT draw (\<lambda>i.
     bindT now (\<lambda>t.
     insert_effect
       \<lparr>e_id = i, e_org = org, e_sandbox = sbx, e_operation = map_option o_id operation,
        e_kind = kind, e_generation = h_generation hold, e_provider = s_runtime_id sandbox,
        e_context = obj_merge context [(''operationAttempt'', num_or_null (map_option o_attempts operation))],
        e_dispatched_at = None, e_acknowledged_at = None, e_uncertain_at = None,
        e_settled_at = None, e_updated_at = t\<rparr>)))))))))"

definition markRuntimeEffectDispatched :: "effect \<Rightarrow> unit dbtx" where
  "markRuntimeEffectDispatched eff =
     bindT now (\<lambda>t.
     bindT (upd_effects (\<lambda>e. e_id e = e_id eff \<and> e_settled_at e = None \<and> e_dispatched_at e = None)
       (\<lambda>e. e\<lparr>e_dispatched_at := Some t, e_updated_at := t\<rparr>)) (\<lambda>rowCount.
     requireT (rowCount \<noteq> 0)
       (CapacityError TransitionInProgress ''Runtime dispatch was canceled or already started.'')))"

definition acknowledgeRuntimeEffect :: "effect \<Rightarrow> string option \<Rightarrow> unit dbtx" where
  "acknowledgeRuntimeEffect eff providerId =
     bindT now (\<lambda>t.
     bindT (upd_effects (\<lambda>e. e_id e = e_id eff \<and> e_settled_at e = None)
       (\<lambda>e. e\<lparr>e_acknowledged_at := Some t, e_provider := coalesce providerId (e_provider e),
              e_updated_at := t\<rparr>)) (\<lambda>rowCount.
     requireT (rowCount \<noteq> 0)
       (CapacityError TransitionInProgress ''Runtime result belongs to a settled operation.'')))"

text \<open>
  Settle the effect and do \<open>work\<close> in the same transaction: when either throws, neither
  happens.
\<close>

definition settle_effect :: "effect \<Rightarrow> unit dbtx" where
  "settle_effect eff =
     bindT now (\<lambda>t.
     bindT (upd_effects (\<lambda>e. e_id e = e_id eff \<and> e_generation e = e_generation eff \<and> e_settled_at e = None)
       (\<lambda>e. e\<lparr>e_settled_at := Some t, e_updated_at := t\<rparr>)) (\<lambda>rowCount.
     requireT (rowCount \<noteq> 0)
       (CapacityError TransitionInProgress ''Runtime result belongs to a settled operation.'')))"

definition finishRuntimeEffect :: "effect \<Rightarrow> 'a dbtx \<Rightarrow> 'a dbtx" where
  "finishRuntimeEffect eff work =
     bindT (lockEffectSandbox (e_org eff) (e_sandbox eff)) (\<lambda>_.
     bindT (settle_effect eff) (\<lambda>_. work))"

definition markRuntimeEffectUncertain :: "effect \<Rightarrow> string option \<Rightarrow> unit dbtx" where
  "markRuntimeEffectUncertain eff providerId =
     bindT (lockEffectSandbox (e_org eff) (e_sandbox eff)) (\<lambda>_.
     bindT now (\<lambda>t.
     bindT (upd_effects (\<lambda>e. e_id e = e_id eff \<and> e_settled_at e = None)
       (\<lambda>e. e\<lparr>e_uncertain_at := Some t, e_provider := coalesce providerId (e_provider e),
              e_updated_at := t\<rparr>)) (\<lambda>rowCount.
     if rowCount = 0 then returnT ()
     else
       bindT (upd_holds (\<lambda>h. h_sandbox h = e_sandbox eff \<and> h_generation h = e_generation eff \<and>
                             h_released_at h = None)
         (\<lambda>h. h\<lparr>h_phase := Uncertain, h_reason := Some ''runtime_outcome_unknown'', h_updated_at := t\<rparr>)) (\<lambda>_.
       returnT ()))))"

section \<open>Lemmas\<close>

lemma lockEffectSandbox_Inr:
  "lockEffectSandbox org sbx d = Inr (s, d') \<longleftrightarrow>
   org_of d org \<noteq> None \<and> first_row (filter (\<lambda>s. s_id s = sbx \<and> s_org s = org) (sandboxes d)) = Some s \<and> d' = d"
  by (auto simp: lockEffectSandbox_def bindT_Inr_iff lockOrganizationCapacity_iff sel_Inr someT_Inr_iff)

lemma keeps_lockEffectSandbox [keeps_intro]: "keeps I (lockEffectSandbox org sbx)"
  and keeps_readRuntimeFence [keeps_intro]: "keeps I (readRuntimeFence sbx)"
  unfolding lockEffectSandbox_def readRuntimeFence_def by (intro keeps_intro)+

lemma latest_Some: "latest hs = Some h \<Longrightarrow> h \<in> set hs \<and> (\<forall>r \<in> set hs. h_generation r \<le> h_generation h)"
  unfolding latest_def by (drule first_row_sort_key_Some) simp

lemma latest_None [simp]: "latest hs = None \<longleftrightarrow> hs = []"
  by (simp add: latest_def)

lemma draw_Inr [tx_simps]: "draw d = Inr (rand d (rand_pos d), d\<lparr>rand_pos := Suc (rand_pos d)\<rparr>)"
  by (simp add: draw_def tx_defs)

text \<open>Everything a committed \<open>beginRuntimeEffect\<close> has checked and done.\<close>

lemma beginRuntimeEffect_Inr:
  assumes "beginRuntimeEffect org sbx kind operation context d = Inr (e, d')"
  obtains h where "h \<in> set (holds d)" "h_org h = org" "h_sandbox h = sbx"
    "h_released_at h = None \<or> kind = EDelete"
    "starting kind \<Longrightarrow> owns_start operation h"
    "\<forall>q \<in> set (effects d). \<not> unsettled_on sbx q" "\<forall>q \<in> set (effects d). e_id q \<noteq> e_id e"
    "d' = d\<lparr>rand_pos := Suc (rand_pos d), effects := effects d @ [e]\<rparr>"
    "e_org e = org" "e_sandbox e = sbx" "e_kind e = kind" "e_generation e = h_generation h"
    "e_operation e = map_option o_id operation" "e_settled_at e = None" "e_dispatched_at e = None"
    "\<And>p. operation = Some p \<Longrightarrow> owned_by org sbx kind p (first_row (filter (\<lambda>r. o_id r = o_id p) (operations d)))"
proof -
  from assms obtain s h where
    s: "lockEffectSandbox org sbx d = Inr (s, d)"
    and own: "\<And>p. operation = Some p \<Longrightarrow> owned_by org sbx kind p (first_row (filter (\<lambda>r. o_id r = o_id p) (operations d)))"
    and h: "latest (filter (effect_hold org sbx (kind = EDelete \<and> s_status s = SPaused)) (holds d)) = Some h"
    and st: "starting kind \<Longrightarrow> owns_start operation h"
    and free: "filter (unsettled_on sbx) (effects d) = []"
    and ins: "insert_effect \<lparr>e_id = rand d (rand_pos d), e_org = org, e_sandbox = sbx,
        e_operation = map_option o_id operation, e_kind = kind, e_generation = h_generation h,
        e_provider = s_runtime_id s,
        e_context = obj_merge context [(''operationAttempt'', num_or_null (map_option o_attempts operation))],
        e_dispatched_at = None, e_acknowledged_at = None, e_uncertain_at = None,
        e_settled_at = None, e_updated_at = clock d\<rparr> (d\<lparr>rand_pos := Suc (rand_pos d)\<rparr>) = Inr (e, d')"
    unfolding beginRuntimeEffect_def bindT_Inr_iff
    by (cases operation) (auto simp: lockEffectSandbox_Inr bindT_Inr_iff sel_Inr requireT_Inr_iff
        someT_Inr_iff draw_Inr now_Inr returnT_apply)
  from latest_Some [OF h] have h': "h \<in> set (holds d)" "h_org h = org" "h_sandbox h = sbx"
    "h_released_at h = None \<or> kind = EDelete"
    by (auto simp: effect_hold_def)
  from ins have "d' = d\<lparr>rand_pos := Suc (rand_pos d), effects := effects d @ [e]\<rparr>"
    "e_org e = org" "e_sandbox e = sbx" "e_kind e = kind" "e_generation e = h_generation h"
    "e_operation e = map_option o_id operation" "e_settled_at e = None" "e_dispatched_at e = None"
    "\<forall>q \<in> set (effects d). e_id q \<noteq> e_id e"
    by (auto simp: insert_effect_def bindT_def getsT_apply throwT_apply returnT_apply modifyT_apply
        split: if_splits)
  with h' st own free show thesis by (intro that [of h]) (auto simp: filter_empty_conv)
qed

lemma settle_effect_Inr:
  "settle_effect eff d = Inr (u, d') \<longleftrightarrow>
   (let P = (\<lambda>e. e_id e = e_id eff \<and> e_generation e = e_generation eff \<and> e_settled_at e = None) in
    (\<exists>e \<in> set (effects d). P e) \<and>
    d' = d\<lparr>effects := update_rows P (\<lambda>e. e\<lparr>e_settled_at := Some (clock d), e_updated_at := clock d\<rparr>) (effects d)\<rparr>)"
  by (auto simp: settle_effect_def bindT_Inr_iff now_Inr upd_Inr requireT_Inr_iff Let_def count_rows_pos)

lemma finishRuntimeEffect_Inr:
  "finishRuntimeEffect eff work d = Inr (a, d') \<longleftrightarrow>
   (\<exists>s d1. lockEffectSandbox (e_org eff) (e_sandbox eff) d = Inr (s, d) \<and>
      settle_effect eff d = Inr ((), d1) \<and> work d1 = Inr (a, d'))"
  by (auto simp: finishRuntimeEffect_def bindT_Inr_iff lockEffectSandbox_Inr)

end
