(* ===== verification/World.thy ===== *)
theory World
  imports Effects
begin

text \<open>
  Asynchronous services: code that awaits several transactions and provider calls. Between
  two awaited steps anything else may run, so the world carries, beside the store and the
  provider's state, a queue of foreign steps; one of them runs before each transaction of the
  service. A service returns its result or the error it throws, and the world either way (an
  exception does not undo earlier transactions).
\<close>

section \<open>The world and its steps\<close>

text \<open>
  The combinators do not depend on which tables the store has; the services of sandboxes run
  over the store \<open>db\<close>, those of accounts over their own tables.
\<close>

record ('s, 'p) gworld =
  wdb :: 's
  prv :: 'p
  foreign :: "('s \<Rightarrow> 's) list"

type_synonym ('s, 'p, 'a) gproc = "('s, 'p) gworld \<Rightarrow> (err + 'a) \<times> ('s, 'p) gworld"

type_synonym 'p world = "(db, 'p) gworld"
type_synonym ('p, 'a) proc = "(db, 'p, 'a) gproc"

definition retP :: "'a \<Rightarrow> ('s, 'p, 'a) gproc" where
  "retP a = (\<lambda>w. (Inr a, w))"

definition throwP :: "err \<Rightarrow> ('s, 'p, 'a) gproc" where
  "throwP e = (\<lambda>w. (Inl e, w))"

definition bindP :: "('s, 'p, 'a) gproc \<Rightarrow> ('a \<Rightarrow> ('s, 'p, 'b) gproc) \<Rightarrow> ('s, 'p, 'b) gproc" where
  "bindP m f = (\<lambda>w. case m w of (Inl e, w') \<Rightarrow> (Inl e, w') | (Inr a, w') \<Rightarrow> f a w')"

text \<open>\<open>try { m } catch (e) { h(e) }\<close>.\<close>

definition tryP :: "('s, 'p, 'a) gproc \<Rightarrow> (err \<Rightarrow> ('s, 'p, 'a) gproc) \<Rightarrow> ('s, 'p, 'a) gproc" where
  "tryP m h = (\<lambda>w. case m w of (Inl e, w') \<Rightarrow> h e w' | (Inr a, w') \<Rightarrow> (Inr a, w'))"

definition requireP :: "bool \<Rightarrow> err \<Rightarrow> ('s, 'p, unit) gproc" where
  "requireP b e = (if b then retP () else throwP e)"

text \<open>One foreign step, if any is due.\<close>

definition interfere :: "('s, 'p) gworld \<Rightarrow> ('s, 'p) gworld" where
  "interfere w = (case foreign w of [] \<Rightarrow> w | f # fs \<Rightarrow> w\<lparr>wdb := f (wdb w), foreign := fs\<rparr>)"

text \<open>A transaction, or a single statement on the pool, which is its own transaction.\<close>

definition atomic :: "('s, err, 'a) tx \<Rightarrow> ('s, 'p, 'a) gproc" where
  "atomic m = (\<lambda>w. let w' = interfere w in
     case m (wdb w') of Inl e \<Rightarrow> (Inl e, w') | Inr (a, d) \<Rightarrow> (Inr a, w'\<lparr>wdb := d\<rparr>))"

text \<open>A call to the provider: its answer or the message it throws, and its new state.\<close>

definition callP :: "('p \<Rightarrow> (string + 'a) \<times> 'p) \<Rightarrow> ('s, 'p, 'a) gproc" where
  "callP f = (\<lambda>w. let (r, p) = f (prv w) in
     ((case r of Inl m \<Rightarrow> Inl (ProviderError m) | Inr a \<Rightarrow> Inr a), w\<lparr>prv := p\<rparr>))"

text \<open>\<open>Date.now()\<close> of the process; the model has one clock.\<close>

definition dateNow :: "('p, time) proc" where
  "dateNow = (\<lambda>w. (Inr (clock (wdb w)), w))"

definition sleepP :: "int \<Rightarrow> ('p, unit) proc" where
  "sleepP ms = (\<lambda>w. (Inr (), w\<lparr>wdb := (wdb w)\<lparr>clock := clock (wdb w) + max 0 ms\<rparr>\<rparr>))"

lemmas proc_defs = retP_def throwP_def bindP_def tryP_def requireP_def

section \<open>What a service does to the store\<close>

text \<open>
  \<open>follows R m\<close>: when every foreign step is a sequence of \<open>R\<close>-steps, then so is everything
  that happens to the store while \<open>m\<close> runs, whatever the provider answers and whether or not
  \<open>m\<close> throws.
\<close>

definition foreign_ok :: "('s \<Rightarrow> 's \<Rightarrow> bool) \<Rightarrow> ('s, 'p) gworld \<Rightarrow> bool" where
  "foreign_ok R w \<longleftrightarrow> (\<forall>f \<in> set (foreign w). \<forall>d. R\<^sup>*\<^sup>* d (f d))"

definition follows :: "('s \<Rightarrow> 's \<Rightarrow> bool) \<Rightarrow> ('s, 'p, 'a) gproc \<Rightarrow> bool" where
  "follows R m \<longleftrightarrow> (\<forall>w r w'. foreign_ok R w \<longrightarrow> m w = (r, w') \<longrightarrow>
     R\<^sup>*\<^sup>* (wdb w) (wdb w') \<and> foreign_ok R w')"

named_theorems follows_intro \<open>what a service does to the store, construct by construct\<close>

lemma followsD: "follows R m \<Longrightarrow> foreign_ok R w \<Longrightarrow> m w = (r, w') \<Longrightarrow> R\<^sup>*\<^sup>* (wdb w) (wdb w')"
  by (auto simp: follows_def)

lemma follows_ret [follows_intro]: "follows R (retP a)"
  and follows_throw [follows_intro]: "follows R (throwP e)"
  and follows_require [follows_intro]: "follows R (requireP b e)"
  and follows_now [follows_intro]: "follows R dateNow"
  by (auto simp: follows_def proc_defs dateNow_def split: if_splits)

lemma follows_bind [follows_intro]:
  assumes "follows R m" and "\<And>a. follows R (f a)"
  shows "follows R (bindP m f)"
  unfolding follows_def
proof (intro allI impI)
  fix w r w' assume w: "foreign_ok R w" and b: "bindP m f w = (r, w')"
  obtain x w1 where m: "m w = (x, w1)" by (cases "m w")
  from assms(1) w m have 1: "R\<^sup>*\<^sup>* (wdb w) (wdb w1)" "foreign_ok R w1" by (auto simp: follows_def)
  show "R\<^sup>*\<^sup>* (wdb w) (wdb w') \<and> foreign_ok R w'"
  proof (cases x)
    case (Inl e)
    with b m 1 show ?thesis by (auto simp: bindP_def)
  next
    case (Inr a)
    with b m have "f a w1 = (r, w')" by (simp add: bindP_def)
    with assms(2) 1 show ?thesis by (auto simp: follows_def intro: rtranclp_trans)
  qed
qed

lemma follows_try [follows_intro]:
  assumes "follows R m" and "\<And>e. follows R (h e)"
  shows "follows R (tryP m h)"
  unfolding follows_def
proof (intro allI impI)
  fix w r w' assume w: "foreign_ok R w" and b: "tryP m h w = (r, w')"
  obtain x w1 where m: "m w = (x, w1)" by (cases "m w")
  from assms(1) w m have 1: "R\<^sup>*\<^sup>* (wdb w) (wdb w1)" "foreign_ok R w1" by (auto simp: follows_def)
  show "R\<^sup>*\<^sup>* (wdb w) (wdb w') \<and> foreign_ok R w'"
  proof (cases x)
    case (Inl e)
    with b m have "h e w1 = (r, w')" by (simp add: tryP_def)
    with assms(2) 1 show ?thesis by (auto simp: follows_def intro: rtranclp_trans)
  next
    case (Inr a)
    with b m 1 show ?thesis by (auto simp: tryP_def)
  qed
qed

lemma follows_call [follows_intro]: "follows R (callP f)"
  by (auto simp: follows_def callP_def foreign_ok_def split: prod.splits)

lemma interfere_follows: "foreign_ok R w \<Longrightarrow> R\<^sup>*\<^sup>* (wdb w) (wdb (interfere w)) \<and> foreign_ok R (interfere w)"
  by (auto simp: interfere_def foreign_ok_def split: list.splits)

lemma follows_atomic:
  assumes "\<And>d a d'. m d = Inr (a, d') \<Longrightarrow> R\<^sup>*\<^sup>* d d'"
  shows "follows R (atomic m)"
  unfolding follows_def
proof (intro allI impI)
  fix w r w' assume w: "foreign_ok R w" and b: "atomic m w = (r, w')"
  from interfere_follows [OF w] have 1: "R\<^sup>*\<^sup>* (wdb w) (wdb (interfere w))" "foreign_ok R (interfere w)" by auto
  show "R\<^sup>*\<^sup>* (wdb w) (wdb w') \<and> foreign_ok R w'"
  proof (cases "m (wdb (interfere w))")
    case (Inl e)
    with b 1 show ?thesis by (auto simp: atomic_def Let_def)
  next
    case (Inr x)
    then obtain a d where x: "m (wdb (interfere w)) = Inr (a, d)" by (cases x) auto
    from assms [OF x] have "R\<^sup>*\<^sup>* (wdb w) d" using 1(1) by (rule rtranclp_trans [rotated])
    with b 1(2) x show ?thesis by (auto simp: atomic_def Let_def foreign_ok_def)
  qed
qed

lemma follows_option [follows_intro]:
  "(x = None \<Longrightarrow> follows R m) \<Longrightarrow> (\<And>a. x = Some a \<Longrightarrow> follows R (f a)) \<Longrightarrow>
   follows R (case x of None \<Rightarrow> m | Some a \<Rightarrow> f a)"
  by (cases x) auto

lemma follows_sum [follows_intro]:
  "(\<And>a. x = Inl a \<Longrightarrow> follows R (m a)) \<Longrightarrow> (\<And>a. x = Inr a \<Longrightarrow> follows R (f a)) \<Longrightarrow>
   follows R (case x of Inl a \<Rightarrow> m a | Inr a \<Rightarrow> f a)"
  by (cases x) auto

lemma follows_prod [follows_intro]:
  "(\<And>a b. x = (a, b) \<Longrightarrow> follows R (f a b)) \<Longrightarrow> follows R (case x of (a, b) \<Rightarrow> f a b)"
  by (cases x) auto

lemma follows_list [follows_intro]:
  "(x = [] \<Longrightarrow> follows R m) \<Longrightarrow> (\<And>a as. x = a # as \<Longrightarrow> follows R (f a as)) \<Longrightarrow>
   follows R (case x of [] \<Rightarrow> m | a # as \<Rightarrow> f a as)"
  by (cases x) auto

lemma follows_if [follows_intro]:
  "(b \<Longrightarrow> follows R m) \<Longrightarrow> (\<not> b \<Longrightarrow> follows R n) \<Longrightarrow> follows R (if b then m else n)"
  by simp

lemma follows_let [follows_intro]: "(\<And>x. x = e \<Longrightarrow> follows R (f x)) \<Longrightarrow> follows R (let x = e in f x)"
  by (simp add: Let_def)

text \<open>Invariants of the steps are invariants of the service.\<close>

lemma rtranclp_keeps: "R\<^sup>*\<^sup>* d d' \<Longrightarrow> I d \<Longrightarrow> (\<And>d d'. R d d' \<Longrightarrow> I d \<Longrightarrow> I d') \<Longrightarrow> I d'"
  by (induction rule: rtranclp_induct) auto

end
