(* ===== verification/Provider.thy ===== *)
theory Provider
  imports World
begin

text \<open>
  The runtime provider as the services see it (\<open>providers/runtime/provider.ts\<close>): a record of
  functions over the provider's own state, each of which may answer or throw, with the
  optional methods as options; and the operator's deployment policy that removes features
  from a provider (\<open>providers/runtime/deployment-policy.ts\<close>).
\<close>

section \<open>Provider data\<close>

text \<open>Timestamps of the provider are read with \<open>new Date(...)\<close>; \<open>None\<close> is null or unparsable.\<close>

record runtime_summary =
  t_id :: string
  t_state :: string
  t_expires :: "time option"
  t_metadata :: "(string \<times> string) list"

record runtime_created = runtime_summary +
  t_registry_credential :: "string option"
  t_image_auth :: bool

record runtime_snapshot =
  u_id :: string
  u_state :: string
  u_reason :: "string option"
  u_message :: "string option"

text \<open>\<open>RuntimeWorkspaceMount\<close>, without its constant mount path.\<close>

record workspace_mount =
  m_volume :: string
  m_storage_class :: "string option"
  m_size :: int
  m_create :: bool

text \<open>\<open>RuntimeTemplate\<close>, without the status (always ready) and the credential slots.\<close>

datatype owner_scope = OwnPlatform | OwnTeam

record runtime_template =
  rt_id :: string
  rt_name :: string
  rt_description :: string
  rt_image :: string
  rt_digest :: "string option"
  rt_icon :: string
  rt_tags :: "string list"
  rt_aliases :: "string list"
  rt_boot_ms :: int
  rt_visibility :: template_visibility
  rt_owner :: owner_scope
  rt_entrypoint :: "string list"
  rt_cpu :: int
  rt_memory :: int
  rt_workdir :: string
  rt_ports :: "int list"
  rt_family :: string
  rt_version :: "string option"

text \<open>\<open>RuntimeRouteTarget\<close>.\<close>

record route_target =
  k_key :: string
  k_host :: string
  k_url :: string
  k_target_url :: string
  k_provider :: string
  k_provider_route :: "string option"
  k_state :: route_state

text \<open>\<open>RuntimeCreateSandboxInput\<close>.\<close>

record create_input =
  i_workspace :: "workspace_mount option"
  i_template :: runtime_template
  i_ttl :: int
  i_name :: string
  i_organization :: string
  i_snapshot :: "string option"
  i_metadata :: "(string \<times> string) list"
  i_env :: "(string \<times> string) list"
  i_egress :: "network_policy option"

datatype runtime_feature = FEgress | FCredentialVault | FSnapshots | FPauseResume

type_synonym ('p, 'a) call = "'p \<Rightarrow> (string + 'a) \<times> 'p"

record capabilities =
  authoritativeLifecycle :: bool
  pauseStopsExecution :: bool
  cap_egress :: bool
  cap_vault :: bool
  cap_vault_patch :: bool
  cap_vault_read :: bool
  cap_pause :: bool
  cap_resume :: bool
  cap_snapshots :: bool
  cap_workspaces :: bool

record 'p provider =
  kind :: string
  caps :: capabilities
  disabledFeatures :: "runtime_feature list"
  create :: "create_input \<Rightarrow> ('p, runtime_created) call"
  get :: "string \<Rightarrow> ('p, runtime_summary option) call"
  list_all_runtimes :: "('p, runtime_summary list) call"
  delete :: "string \<Rightarrow> ('p, unit) call"
  renew :: "string \<Rightarrow> time \<Rightarrow> ('p, unit) call"
  exposeRoute :: "string \<Rightarrow> int \<Rightarrow> string \<Rightarrow> ('p, route_target) call"
  pause :: "(string \<Rightarrow> ('p, runtime_summary) call) option"
  resume :: "(string \<Rightarrow> ('p, runtime_summary) call) option"
  createSnapshot :: "(string \<Rightarrow> string option \<Rightarrow> (string \<times> string) list \<Rightarrow> ('p, runtime_snapshot) call) option"
  getSnapshot :: "(string \<Rightarrow> ('p, runtime_snapshot option) call) option"
  deleteSnapshot :: "(string \<Rightarrow> ('p, unit) call) option"
  setEgressPolicy :: "(string \<Rightarrow> network_policy \<Rightarrow> ('p, unit) call) option"
  patchEgressRules :: "(string \<Rightarrow> egress_rule list \<Rightarrow> ('p, unit) call) option"
  applyCredentialVault :: "(string \<Rightarrow> obj \<Rightarrow> ('p, unit) call) option"

section \<open>Deployment policy\<close>

definition runtimeFeatures :: "runtime_feature list" where
  "runtimeFeatures = [FEgress, FCredentialVault, FSnapshots, FPauseResume]"

fun feature_text :: "runtime_feature \<Rightarrow> string" where
  "feature_text FEgress = ''egress''"
| "feature_text FCredentialVault = ''credential-vault''"
| "feature_text FSnapshots = ''snapshots''"
| "feature_text FPauseResume = ''pause-resume''"

definition feature_of :: "string \<Rightarrow> runtime_feature option" where
  "feature_of s = first_row (filter (\<lambda>f. feature_text f = s) runtimeFeatures)"

definition parseDisabledRuntimeFeatures :: "string \<Rightarrow> string + runtime_feature list" where
  "parseDisabledRuntimeFeatures v =
    (let features = dedupe (filter (\<lambda>item. item \<noteq> []) (map trim (split_on (CHR '','') v))) in
     if \<exists>f \<in> set features. feature_of f = None
     then Inl ''RUNTIME_DISABLED_FEATURES accepts only: egress, credential-vault, snapshots, pause-resume''
     else
       let fs = map (\<lambda>f. the (feature_of f)) features in
       Inr (if FEgress \<in> set fs \<and> FCredentialVault \<notin> set fs then fs @ [FCredentialVault] else fs))"

definition runtimeFeatureReason :: "runtime_feature \<Rightarrow> string" where
  "runtimeFeatureReason f = ''The operator has disabled '' @ feature_text f @
     '' in this deployment. No weaker runtime fallback is used.''"

definition requireRuntimeFeature :: "'p provider \<Rightarrow> runtime_feature \<Rightarrow> err + unit" where
  "requireRuntimeFeature pr f =
     (if f \<in> set (disabledFeatures pr) then Inl (PlainError (runtimeFeatureReason f)) else Inr ())"

definition requireRuntimeNetworkPolicy :: "'p provider \<Rightarrow> network_policy option \<Rightarrow> err + unit" where
  "requireRuntimeNetworkPolicy pr policy =
     (case policy of
        None \<Rightarrow> Inr ()
      | Some q \<Rightarrow> if p_defaultAction q \<noteq> Allow \<or> 0 < length (p_egress q)
                 then requireRuntimeFeature pr FEgress else Inr ())"

definition requireRuntimeCreate :: "'p provider \<Rightarrow> create_input \<Rightarrow> err + unit" where
  "requireRuntimeCreate pr input =
     (case (if i_snapshot input \<noteq> None then requireRuntimeFeature pr FSnapshots else Inr ()) of
        Inl e \<Rightarrow> Inl e
      | Inr _ \<Rightarrow> requireRuntimeNetworkPolicy pr (i_egress input))"

definition sumP :: "err + 'a \<Rightarrow> ('p, 'a) proc" where
  "sumP r = (case r of Inl e \<Rightarrow> throwP e | Inr a \<Rightarrow> retP a)"

lemma follows_sumP [follows_intro]: "follows R (sumP r)"
  unfolding sumP_def by (intro follows_intro)

definition block_caps :: "runtime_feature list \<Rightarrow> capabilities \<Rightarrow> capabilities" where
  "block_caps fs c = c\<lparr>
     cap_egress := (if FEgress \<in> set fs then False else cap_egress c),
     cap_vault := (if FCredentialVault \<in> set fs then False else cap_vault c),
     cap_vault_patch := (if FCredentialVault \<in> set fs then False else cap_vault_patch c),
     cap_vault_read := (if FCredentialVault \<in> set fs then False else cap_vault_read c),
     cap_snapshots := (if FSnapshots \<in> set fs then False else cap_snapshots c),
     cap_pause := (if FPauseResume \<in> set fs then False else cap_pause c),
     cap_resume := (if FPauseResume \<in> set fs then False else cap_resume c)\<rparr>"

text \<open>
  The proxy: the same provider with the features' methods and capabilities gone, and a
  \<open>create\<close> that first checks the request. A rejection by \<open>create\<close> is thrown with its message.
\<close>

definition without_methods :: "runtime_feature list \<Rightarrow> 'p provider \<Rightarrow> 'p provider" where
  "without_methods fs pr = pr\<lparr>disabledFeatures := fs, caps := block_caps fs (caps pr),
     setEgressPolicy := (if FEgress \<in> set fs then None else setEgressPolicy pr),
     patchEgressRules := (if FEgress \<in> set fs then None else patchEgressRules pr),
     applyCredentialVault := (if FCredentialVault \<in> set fs then None else applyCredentialVault pr),
     createSnapshot := (if FSnapshots \<in> set fs then None else createSnapshot pr),
     pause := (if FPauseResume \<in> set fs then None else pause pr),
     resume := (if FPauseResume \<in> set fs then None else resume pr)\<rparr>"

definition checked_create :: "'p provider \<Rightarrow> 'p provider \<Rightarrow> create_input \<Rightarrow> ('p, runtime_created) call" where
  "checked_create restricted pr input p =
     (case requireRuntimeCreate restricted input of
        Inl e \<Rightarrow> (Inl (err_message e), p)
      | Inr _ \<Rightarrow> create pr (if FEgress \<in> set (disabledFeatures restricted) then input\<lparr>i_egress := None\<rparr> else input) p)"

definition restrictRuntimeProvider :: "'p provider \<Rightarrow> runtime_feature list \<Rightarrow> string + 'p provider" where
  "restrictRuntimeProvider pr disabled =
    (case parseDisabledRuntimeFeatures
        (join_with (CHR '','') (map feature_text (disabledFeatures pr @ disabled))) of
       Inl m \<Rightarrow> Inl m
     | Inr fs \<Rightarrow>
         if fs = [] then Inr pr
         else Inr ((without_methods fs pr)\<lparr>create := checked_create (without_methods fs pr) pr\<rparr>))"

lemma feature_of_text [simp]: "feature_of (feature_text f) = Some f"
  by (cases f) (simp_all add: feature_of_def runtimeFeatures_def)

lemma feature_of_Some: "feature_of s = Some f \<Longrightarrow> feature_text f = s"
  by (auto simp: feature_of_def dest: first_row_filter_Some)

lemma feature_text_trim [simp]: "trim (feature_text f) = feature_text f" "feature_text f \<noteq> []"
  "CHR '','' \<notin> set (feature_text f)"
  by (cases f; hypsubst; code_simp)+

lemma feature_text_inj: "feature_text f = feature_text g \<longleftrightarrow> f = g"
  by (cases f; cases g) simp_all

lemma dedupe_map:
  assumes "inj f"
  shows "dedupe (map f xs) = map f (dedupe xs)"
proof (induction xs)
  case (Cons x xs)
  have "filter (\<lambda>y. y \<noteq> f x) (map f ys) = map f (filter (\<lambda>y. y \<noteq> x) ys)" for ys
    by (induction ys) (auto dest: injD [OF assms])
  with Cons show ?case by simp
qed simp

text \<open>Reading back a printed list of features.\<close>

lemma parse_features_join:
  "parseDisabledRuntimeFeatures (join_with (CHR '','') (map feature_text fs)) =
     Inr (let gs = dedupe fs in if FEgress \<in> set gs \<and> FCredentialVault \<notin> set gs then gs @ [FCredentialVault] else gs)"
proof (cases "fs = []")
  case True
  then show ?thesis by (simp add: parseDisabledRuntimeFeatures_def trim_def)
next
  case False
  have split: "split_on (CHR '','') (join_with (CHR '','') (map feature_text fs)) = map feature_text fs"
    by (rule split_join) (use False in auto)
  have items: "filter (\<lambda>item. item \<noteq> []) (map trim (map feature_text fs)) = map feature_text fs"
    by (induction fs) auto
  have "dedupe (map feature_text fs) = map feature_text (dedupe fs)"
    by (rule dedupe_map) (simp add: inj_def feature_text_inj)
  then show ?thesis
    unfolding parseDisabledRuntimeFeatures_def split items by (simp add: Let_def o_def)
qed

text \<open>
  The list of disabled features fails closed. When the list parses, it names each
  feature at most once, and disabling outbound access always disables the credential vault;
  printing the result and parsing it again gives it back.
\<close>

lemma disabled_features_closed:
  assumes "parseDisabledRuntimeFeatures v = Inr fs"
  shows "distinct fs \<and> (FEgress \<in> set fs \<longrightarrow> FCredentialVault \<in> set fs) \<and>
    parseDisabledRuntimeFeatures (join_with (CHR '','') (map feature_text fs)) = Inr fs"
proof -
  let ?items = "dedupe (filter (\<lambda>item. item \<noteq> []) (map trim (split_on (CHR '','') v)))"
  from assms have known: "\<forall>f \<in> set ?items. feature_of f \<noteq> None"
    and fs: "fs = (let gs = map (\<lambda>f. the (feature_of f)) ?items in
       if FEgress \<in> set gs \<and> FCredentialVault \<notin> set gs then gs @ [FCredentialVault] else gs)"
    by (auto simp: parseDisabledRuntimeFeatures_def Let_def split: if_splits)
  have "inj_on (\<lambda>f. the (feature_of f)) (set ?items)"
    using known by (intro inj_onI) (metis feature_of_Some option.exhaust_sel)
  then have "distinct (map (\<lambda>f. the (feature_of f)) ?items)"
    by (simp add: distinct_map)
  then have "distinct fs" "FEgress \<in> set fs \<longrightarrow> FCredentialVault \<in> set fs"
    unfolding fs Let_def by auto
  then show ?thesis by (auto simp: parse_features_join dedupe_id Let_def)
qed

text \<open>
  A restricted provider offers none of the disabled features. It declares every feature
  asked for, and those the provider had disabled before, as disabled; its methods and
  capabilities for them are gone; creating from a snapshot or under a network policy is
  refused without a call to the provider when the feature is disabled; and everything that
  inspects or cleans up is the provider's own.
\<close>

lemma restricted_provider:
  assumes "restrictRuntimeProvider pr disabled = Inr pr'" and "f \<in> set (disabledFeatures pr @ disabled)"
  shows "f \<in> set (disabledFeatures pr') \<and>
    (f = FEgress \<longrightarrow> setEgressPolicy pr' = None \<and> patchEgressRules pr' = None \<and> \<not> cap_egress (caps pr') \<and>
       applyCredentialVault pr' = None) \<and>
    (f = FCredentialVault \<longrightarrow> applyCredentialVault pr' = None \<and> \<not> cap_vault (caps pr')) \<and>
    (f = FSnapshots \<longrightarrow> createSnapshot pr' = None \<and>
       (i_snapshot input \<noteq> None \<longrightarrow> create pr' input p = (Inl (runtimeFeatureReason FSnapshots), p))) \<and>
    (f = FPauseResume \<longrightarrow> pause pr' = None \<and> resume pr' = None) \<and>
    get pr' = get pr \<and> delete pr' = delete pr \<and> renew pr' = renew pr \<and>
    list_all_runtimes pr' = list_all_runtimes pr \<and> deleteSnapshot pr' = deleteSnapshot pr"
proof -
  obtain fs where parse: "parseDisabledRuntimeFeatures
      (join_with (CHR '','') (map feature_text (disabledFeatures pr @ disabled))) = Inr fs"
    and sub: "set (disabledFeatures pr @ disabled) \<subseteq> set fs" and vault: "FEgress \<in> set fs \<longrightarrow> FCredentialVault \<in> set fs"
  proof
    let ?gs = "dedupe (disabledFeatures pr @ disabled)"
    let ?fs = "if FEgress \<in> set ?gs \<and> FCredentialVault \<notin> set ?gs then ?gs @ [FCredentialVault] else ?gs"
    show "parseDisabledRuntimeFeatures
      (join_with (CHR '','') (map feature_text (disabledFeatures pr @ disabled))) = Inr ?fs"
      by (simp only: parse_features_join Let_def)
    show "set (disabledFeatures pr @ disabled) \<subseteq> set ?fs" "FEgress \<in> set ?fs \<longrightarrow> FCredentialVault \<in> set ?fs"
      by auto
  qed
  from assms(2) sub have f: "f \<in> set fs" by auto
  then have "fs \<noteq> []" by auto
  with assms(1) have pr': "pr' = (without_methods fs pr)\<lparr>create := checked_create (without_methods fs pr) pr\<rparr>"
    by (simp add: restrictRuntimeProvider_def parse del: map_append)
  show ?thesis
    using f vault unfolding pr'
    by (auto simp: without_methods_def checked_create_def block_caps_def requireRuntimeCreate_def
        requireRuntimeFeature_def)
qed

text \<open>A provider that answers without doing anything, with or without support for workspaces.\<close>

definition quiet_provider :: "bool \<Rightarrow> unit provider" where
  "quiet_provider b = \<lparr>kind = ''dev'',
     caps = \<lparr>authoritativeLifecycle = True, pauseStopsExecution = True, cap_egress = True, cap_vault = True,
       cap_vault_patch = True, cap_vault_read = True, cap_pause = True, cap_resume = True,
       cap_snapshots = True, cap_workspaces = b\<rparr>,
     disabledFeatures = [], create = (\<lambda>_ p. (Inl ''no'', p)), get = (\<lambda>_ p. (Inr None, p)),
     list_all_runtimes = (\<lambda>p. (Inr [], p)), delete = (\<lambda>_ p. (Inr (), p)), renew = (\<lambda>_ _ p. (Inr (), p)),
     exposeRoute = (\<lambda>_ _ _ p. (Inl ''no'', p)),
     pause = None, resume = None, createSnapshot = Some (\<lambda>_ _ _ p. (Inl ''no'', p)), getSnapshot = None, deleteSnapshot = None,
     setEgressPolicy = None, patchEgressRules = None, applyCredentialVault = None\<rparr>"

end
