(* ===== verification/Invariants.thy ===== *)
theory Invariants
  imports Effects
begin

text \<open>
  The interface between the tables of the control plane and its services. A service changes
  the capacity, effect and operation tables only through a few kinds of statements; the
  locale \<open>store_invariant\<close> states what an invariant of the store promises for each kind, and
  from there every service transaction keeps the invariant (proved once, in the theory of the
  service). Two further locales extend it: \<open>limit_free\<close> for invariants that also survive the
  inventory's reservations, which are written without asking for a free slot.
\<close>

section \<open>Kinds of statements\<close>

text \<open>
  An update of reservations that leaves each row's identity and release time alone and never
  writes the phase released; an update of effects that leaves their identity alone and never
  unsettles one; an update of operations that leaves their identity and the fingerprint of the
  intent they were accepted for alone.
\<close>

definition slot_patch :: "(hold \<Rightarrow> bool) \<Rightarrow> (hold \<Rightarrow> hold) \<Rightarrow> bool" where
  "slot_patch P f \<longleftrightarrow> (\<forall>h. P h \<longrightarrow>
     h_org (f h) = h_org h \<and> h_sandbox (f h) = h_sandbox h \<and> h_generation (f h) = h_generation h \<and>
     h_released_at (f h) = h_released_at h \<and>
     (h_phase (f h) = h_phase h \<or> h_released_at h = None \<and> h_phase (f h) \<noteq> Released))"

definition effect_patch :: "(effect \<Rightarrow> bool) \<Rightarrow> (effect \<Rightarrow> effect) \<Rightarrow> bool" where
  "effect_patch P f \<longleftrightarrow> (\<forall>e. P e \<longrightarrow>
     e_id (f e) = e_id e \<and> e_org (f e) = e_org e \<and> e_sandbox (f e) = e_sandbox e \<and>
     e_kind (f e) = e_kind e \<and> e_generation (f e) = e_generation e \<and>
     (e_settled_at e \<noteq> None \<longrightarrow> e_settled_at (f e) \<noteq> None) \<and>
     (e_dispatched_at e \<noteq> None \<longrightarrow> e_dispatched_at (f e) \<noteq> None))"

definition operation_patch :: "(operation \<Rightarrow> bool) \<Rightarrow> (operation \<Rightarrow> operation) \<Rightarrow> bool" where
  "operation_patch P f \<longleftrightarrow> (\<forall>r. P r \<longrightarrow>
     o_id (f r) = o_id r \<and> o_org (f r) = o_org r \<and> o_sandbox (f r) = o_sandbox r \<and>
     o_kind (f r) = o_kind r \<and> o_key (f r) = o_key r \<and> o_attempts r \<le> o_attempts (f r) \<and>
     field (o_request (f r)) ''intentFingerprint'' = field (o_request r) ''intentFingerprint'')"

text \<open>A change of an organization other than of its limit.\<close>

definition same_limits :: "(org_row \<Rightarrow> org_row) \<Rightarrow> bool" where
  "same_limits f \<longleftrightarrow> (\<forall>r. org_id (f r) = org_id r \<and> max_concurrency (f r) = max_concurrency r)"

named_theorems patch_simps \<open>recognising the kinds of statements\<close>

lemmas [patch_simps] = slot_patch_def effect_patch_def operation_patch_def same_limits_def

section \<open>The interface\<close>

locale store_invariant =
  fixes I :: "db \<Rightarrow> bool"
  assumes frame: "\<And>d d'. I d \<Longrightarrow> orgs d' = orgs d \<Longrightarrow> holds d' = holds d \<Longrightarrow> effects d' = effects d \<Longrightarrow>
      operations d' = operations d \<Longrightarrow> I d'"
    and patch_holds: "\<And>P f d. slot_patch P f \<Longrightarrow> I d \<Longrightarrow> I (d\<lparr>holds := update_rows P f (holds d)\<rparr>)"
    and patch_effects: "\<And>P f d. effect_patch P f \<Longrightarrow> I d \<Longrightarrow> I (d\<lparr>effects := update_rows P f (effects d)\<rparr>)"
    and patch_operations: "\<And>P f d. operation_patch P f \<Longrightarrow> I d \<Longrightarrow>
      I (d\<lparr>operations := update_rows P f (operations d)\<rparr>)"
    and patch_orgs: "\<And>P f d. same_limits f \<Longrightarrow> I d \<Longrightarrow> I (d\<lparr>orgs := update_rows P f (orgs d)\<rparr>)"
    and insert_operation [keeps_intro]: "\<And>i org sbx k key req. keeps I (insert_operation i org sbx k key req)"
    and reserve [keeps_intro]: "\<And>org sbx op. keeps I (reserveSandboxCapacity org sbx op)"
    and release [keeps_intro]: "\<And>org sbx g reason. keeps I (releaseSandboxCapacity org sbx g reason)"
    and begin_effect [keeps_intro]: "\<And>org sbx k op ctx. keeps I (beginRuntimeEffect org sbx k op ctx)"
begin

lemma upd_holds [keeps_intro]: "slot_patch P f \<Longrightarrow> keeps I (upd_holds P f)"
  by (auto simp: keeps_def upd_Inr intro: patch_holds)

lemma upd_effects [keeps_intro]: "effect_patch P f \<Longrightarrow> keeps I (upd_effects P f)"
  by (auto simp: keeps_def upd_Inr intro: patch_effects)

lemma upd_operations [keeps_intro]: "operation_patch P f \<Longrightarrow> keeps I (upd_operations P f)"
  by (auto simp: keeps_def upd_Inr intro: patch_operations)

lemma upd_operations_ret [keeps_intro]: "operation_patch P f \<Longrightarrow> keeps I (upd_operations_returning P f)"
  by (intro keeps_upd_operations_returning upd_operations)

lemma upd_orgs [keeps_intro]: "same_limits f \<Longrightarrow> keeps I (upd_orgs P f)"
  by (auto simp: keeps_def upd_Inr intro: patch_orgs)

lemma upd_state [keeps_intro]: "keeps I (upd_orgs P (\<lambda>r. r\<lparr>capacity_state := st\<rparr>))"
  by (rule upd_orgs) (simp add: patch_simps)

lemma framed:
  "(\<And>d a d'. m d = Inr (a, d') \<Longrightarrow> orgs d' = orgs d \<and> holds d' = holds d \<and> effects d' = effects d \<and>
      operations d' = operations d) \<Longrightarrow> keeps I m"
  unfolding keeps_def by (blast intro: frame)

lemma framed_statements [keeps_intro]:
  "keeps I (upd_sandboxes P1 f1)" "keeps I (upd_routes P2 f2)" "keeps I (upd_schedules P3 f3)"
  "keeps I (upd_attachments P4 f4)" "keeps I (upd_workspaces P5 f5)" "keeps I (upd_snapshots P6 f6)"
  "keeps I draw" "keeps I (makeId p)" "keeps I (add_event a b c)" "keeps I (add_audit a b c)"
  by (rule framed, auto simp: upd_defs tx_defs misc_tx_defs)+

lemma mark_dispatched [keeps_intro]: "keeps I (markRuntimeEffectDispatched eff)"
  and acknowledge [keeps_intro]: "keeps I (acknowledgeRuntimeEffect eff pid)"
  and settle [keeps_intro]: "keeps I (settle_effect eff)"
  unfolding markRuntimeEffectDispatched_def acknowledgeRuntimeEffect_def settle_effect_def
  by (intro keeps_intro; simp add: patch_simps)+

lemma mark_uncertain [keeps_intro]: "keeps I (markRuntimeEffectUncertain eff pid)"
  unfolding markRuntimeEffectUncertain_def by (intro keeps_intro; simp add: patch_simps)

lemma finish_effect [keeps_intro]: "keeps I work \<Longrightarrow> keeps I (finishRuntimeEffect eff work)"
  unfolding finishRuntimeEffect_def by (intro keeps_intro)

lemma enqueue [keeps_intro]: "keeps I (enqueueSandboxOperation org sbx k req key)"
  unfolding enqueueSandboxOperation_def by (intro keeps_intro)

lemma claim_by_id [keeps_intro]: "keeps I (claimSandboxOperationById i kinds m)"
  unfolding claimSandboxOperationById_def by (intro keeps_intro; simp add: patch_simps claimed_def)

lemma claim_next [keeps_intro]: "keeps I (claimNextSandboxOperation kinds m st)"
  unfolding claimNextSandboxOperation_def by (intro keeps_intro; simp add: patch_simps claimed_def)

lemma claim_stale [keeps_intro]: "keeps I (claimStaleRunningSandboxOperation kinds st)"
  unfolding claimStaleRunningSandboxOperation_def by (intro keeps_intro; simp add: patch_simps)

lemma complete [keeps_intro]: "keeps I (completeSandboxOperation i res ex rec)"
  and fail [keeps_intro]: "keeps I (failSandboxOperation i msg res ex)"
  and requeue [keeps_intro]: "keeps I (requeueSandboxOperation i msg res ex)"
  unfolding completeSandboxOperation_def failSandboxOperation_def requeueSandboxOperation_def
  by (intro keeps_intro; simp add: patch_simps)+

lemma cleanup [keeps_intro]: "keeps I (cleanupStaleSandboxOperations kinds m st)"
  unfolding cleanupStaleSandboxOperations_def Let_def by (intro keeps_intro; simp add: patch_simps)

lemma store_secret [keeps_intro]: "keeps I (storeSandboxOperationSecret enc op name v)"
  by (rule framed)
    (auto simp: storeSandboxOperationSecret_def bindT_def getsT_apply throwT_apply returnT_apply
      modifyT_apply Let_def split: if_splits)

end

locale limit_free = store_invariant +
  assumes insert_uncertain [keeps_intro]:
    "\<And>org sbx g reason. keeps I (insert_hold org sbx g None Uncertain reason)"
    and patch_limits: "\<And>d os. I d \<Longrightarrow> I (d\<lparr>orgs := os\<rparr>)"

section \<open>The invariants\<close>

text \<open>At most one unsettled effect per sandbox, and distinct effect ids.\<close>

definition one_effect :: "db \<Rightarrow> bool" where
  "one_effect d \<longleftrightarrow> (\<forall>sbx. count_rows (unsettled_on sbx) (effects d) \<le> 1)"

definition effect_ids_ok :: "db \<Rightarrow> bool" where
  "effect_ids_ok d \<longleftrightarrow> distinct (map e_id (effects d))"

text \<open>
  A runtime effect other than a deletion that is not settled occupies the slot it was begun
  under: the reservation of its sandbox and generation is not released.
\<close>

definition fenced :: "db \<Rightarrow> bool" where
  "fenced d \<longleftrightarrow> (\<forall>e \<in> set (effects d). e_settled_at e = None \<longrightarrow> e_kind e \<noteq> EDelete \<longrightarrow>
     (\<exists>h \<in> set (holds d). h_org h = e_org e \<and> h_sandbox h = e_sandbox e \<and>
        h_generation h = e_generation e \<and> h_released_at h = None))"

text \<open>Slots within a bound, on reservations whose phases are consistent.\<close>

definition bounded :: "string \<Rightarrow> nat \<Rightarrow> db \<Rightarrow> bool" where
  "bounded org N d \<longleftrightarrow> phases_ok d \<and> within_limit org N d"

section \<open>Each invariant under each kind of statement\<close>

lemma patch_count:
  "slot_patch P f \<Longrightarrow> (\<And>h. P h \<Longrightarrow> Q (f h) = Q h) \<Longrightarrow>
   count_rows Q (update_rows P f hs) = count_rows Q hs"
  by (rule count_update_rows_same) auto

lemma slot_patch_same:
  assumes "slot_patch P f" and "P h"
  shows "h_org (f h) = h_org h" "h_sandbox (f h) = h_sandbox h" "h_generation (f h) = h_generation h"
    "h_released_at (f h) = h_released_at h"
    "h_phase (f h) = h_phase h \<or> h_released_at h = None \<and> h_phase (f h) \<noteq> Released"
  using assms by (auto simp: slot_patch_def)

lemma effect_patch_same:
  assumes "effect_patch P f" and "P e"
  shows "e_id (f e) = e_id e" "e_org (f e) = e_org e" "e_sandbox (f e) = e_sandbox e"
    "e_kind (f e) = e_kind e" "e_generation (f e) = e_generation e"
    "e_settled_at (f e) = None \<Longrightarrow> e_settled_at e = None"
  using assms by (auto simp: effect_patch_def)

lemma reserve_cases:
  assumes "reserveSandboxCapacity org sbx op d = Inr (h, d')"
  obtains "d' = d" | "insert_hold org sbx (max_generation sbx (holds d) + 1) (Some op) Reserved None d = Inr (h, d')"
  using assms unfolding reserveSandboxCapacity_def bindT_Inr_iff
  by (auto simp: lockOrganizationCapacity_iff sel_Inr getsT_apply throwT_apply returnT_apply
      bindT_Inr_iff split: option.splits if_splits dest!: readOrganizationCapacity_same)

text \<open>Invariants about reservations only, kept by every insertion with a fresh key.\<close>

lemma keeps_reserve:
  assumes "\<And>g op ph reason. keeps I (insert_hold org sbx g op ph reason)"
  shows "keeps I (reserveSandboxCapacity org sbx op)"
proof (rule keepsI)
  fix d h d' assume "I d" and r: "reserveSandboxCapacity org sbx op d = Inr (h, d')"
  from r show "I d'"
  proof (cases rule: reserve_cases)
    case 2
    show ?thesis by (rule keepsD [OF assms \<open>I d\<close> 2])
  qed (use \<open>I d\<close> in simp)
qed

lemma keeps_release:
  assumes "\<And>d t reason. I d \<Longrightarrow>
    I (d\<lparr>holds := update_rows (release_cond org sbx g (effects d)) (mark_released t reason) (holds d)\<rparr>)"
  shows "keeps I (releaseSandboxCapacity org sbx g reason)"
  using assms by (auto simp: keeps_def releaseSandboxCapacity_Inr)

lemma keeps_begin:
  assumes "\<And>d h e. I d \<Longrightarrow> h \<in> set (holds d) \<Longrightarrow> h_org h = e_org e \<Longrightarrow> h_sandbox h = e_sandbox e \<Longrightarrow>
      h_generation h = e_generation e \<Longrightarrow> h_released_at h = None \<or> e_kind e = EDelete \<Longrightarrow>
      \<forall>q \<in> set (effects d). \<not> unsettled_on (e_sandbox e) q \<Longrightarrow> \<forall>q \<in> set (effects d). e_id q \<noteq> e_id e \<Longrightarrow>
      I (d\<lparr>rand_pos := Suc (rand_pos d), effects := effects d @ [e]\<rparr>)"
  shows "keeps I (beginRuntimeEffect org sbx k op ctx)"
proof (rule keepsI)
  fix d e d' assume "I d" and b: "beginRuntimeEffect org sbx k op ctx d = Inr (e, d')"
  from b show "I d'"
    by (rule beginRuntimeEffect_Inr) (use assms [OF \<open>I d\<close>] in auto)
qed

lemma keeps_insert_operation:
  assumes "\<And>d row. I d \<Longrightarrow> \<forall>r \<in> set (operations d). o_id r \<noteq> o_id row \<and>
      \<not> same_key (o_org row) (o_kind row) (o_key row) r \<Longrightarrow> I (d\<lparr>operations := operations d @ [row]\<rparr>)"
  shows "keeps I (insert_operation i org sbx k key req)"
proof (rule keepsI)
  fix d rows d' assume "I d" and ins: "insert_operation i org sbx k key req d = Inr (rows, d')"
  from ins show "I d'"
    by (rule insert_operation_cases) (use assms [OF \<open>I d\<close>] \<open>I d\<close> in auto)
qed

interpretation slots: limit_free one_hold
proof
  show "one_hold d' " if "one_hold d" "holds d' = holds d" for d d'
    using that by (simp add: one_hold_def)
  show "one_hold (d\<lparr>holds := update_rows P f (holds d)\<rparr>)" if "slot_patch P f" "one_hold d" for P f d
    using that(2) patch_count [OF that(1)] slot_patch_same [OF that(1)] by (simp add: one_hold_def)
  have ins: "keeps one_hold (insert_hold org sbx g op ph reason)" for org sbx g op ph reason
    by (rule keepsI, drule insert_hold_Inr)
      (auto simp: one_hold_def count_rows_Cons count_rows_zero [THEN iffD2])
  show "keeps one_hold (insert_hold org sbx g None Uncertain reason)" for org sbx g reason
    by (rule ins)
  show "keeps one_hold (reserveSandboxCapacity org sbx op)" for org sbx op
    by (rule keeps_reserve) (rule ins)
  show "keeps one_hold (releaseSandboxCapacity org sbx g reason)" for org sbx g reason
    by (rule keeps_release)
      (auto simp: one_hold_def mark_released_def intro: order_trans [OF count_update_rows_le])
  show "keeps one_hold (beginRuntimeEffect org sbx k op ctx)" for org sbx k op ctx
    by (rule keeps_begin) (simp add: one_hold_def)
  show "keeps one_hold (insert_operation i org sbx k key req)" for i org sbx k key req
    by (rule keeps_insert_operation) (simp add: one_hold_def)
qed (simp_all add: one_hold_def)

interpretation gens: limit_free generations_ok
proof
  show "generations_ok (d\<lparr>holds := update_rows P f (holds d)\<rparr>)" if "slot_patch P f" "generations_ok d" for P f d
    using that(2) slot_patch_same [OF that(1)]
    by (auto simp: generations_ok_def map_update_rows in_update_rows)
  have ins: "keeps generations_ok (insert_hold org sbx g op ph reason)" for org sbx g op ph reason
    by (rule keepsI, drule insert_hold_Inr) (auto simp: generations_ok_def)
  show "keeps generations_ok (insert_hold org sbx g None Uncertain reason)" for org sbx g reason
    by (rule ins)
  show "keeps generations_ok (reserveSandboxCapacity org sbx op)" for org sbx op
    by (rule keeps_reserve) (rule ins)
  show "keeps generations_ok (releaseSandboxCapacity org sbx g reason)" for org sbx g reason
    by (rule keeps_release) (auto simp: generations_ok_def mark_released_def map_update_rows in_update_rows)
  show "keeps generations_ok (beginRuntimeEffect org sbx k op ctx)" for org sbx k op ctx
    by (rule keeps_begin) (simp add: generations_ok_def)
  show "keeps generations_ok (insert_operation i org sbx k key req)" for i org sbx k key req
    by (rule keeps_insert_operation) (simp add: generations_ok_def)
qed (simp_all add: generations_ok_def)

interpretation phases: limit_free phases_ok
proof
  show "phases_ok (d\<lparr>holds := update_rows P f (holds d)\<rparr>)" if "slot_patch P f" "phases_ok d" for P f d
    using that(2) unfolding phases_ok_def
    by simp (rule ball_update_rows, use slot_patch_same [OF that(1)] in fastforce)
  have ins: "keeps phases_ok (insert_hold org sbx g op ph reason)" if "ph \<noteq> Released" for org sbx g op ph reason
    by (rule keepsI, drule insert_hold_Inr) (use that in \<open>auto simp: phases_ok_def\<close>)
  show "keeps phases_ok (insert_hold org sbx g None Uncertain reason)" for org sbx g reason
    by (rule ins) simp
  show "keeps phases_ok (reserveSandboxCapacity org sbx op)" for org sbx op
  proof (rule keepsI)
    fix d h d' assume "phases_ok d" and r: "reserveSandboxCapacity org sbx op d = Inr (h, d')"
    from r show "phases_ok d'"
    proof (cases rule: reserve_cases)
      case 2
      show ?thesis by (rule keepsD [OF ins \<open>phases_ok d\<close> 2]) simp
    qed (use \<open>phases_ok d\<close> in simp)
  qed
  show "keeps phases_ok (releaseSandboxCapacity org sbx g reason)" for org sbx g reason
    by (rule keeps_release) (auto simp: phases_ok_def mark_released_def in_update_rows)
  show "keeps phases_ok (beginRuntimeEffect org sbx k op ctx)" for org sbx k op ctx
    by (rule keeps_begin) (simp add: phases_ok_def)
  show "keeps phases_ok (insert_operation i org sbx k key req)" for i org sbx k key req
    by (rule keeps_insert_operation) (simp add: phases_ok_def)
qed (simp_all add: phases_ok_def)

interpretation single: limit_free one_effect
proof
  show "one_effect (d\<lparr>effects := update_rows P f (effects d)\<rparr>)" if "effect_patch P f" "one_effect d" for P f d
  proof -
    have "count_rows (unsettled_on sbx) (update_rows P f (effects d)) \<le> count_rows (unsettled_on sbx) (effects d)" for sbx
      by (rule count_update_rows_le) (use effect_patch_same [OF that(1)] in \<open>auto simp: unsettled_on_def\<close>)
    with that(2) show ?thesis by (auto simp: one_effect_def intro: order_trans)
  qed
  have hold: "keeps one_effect (insert_hold org sbx g op ph reason)" for org sbx g op ph reason
    by (rule keepsI, drule insert_hold_Inr) (auto simp: one_effect_def)
  show "keeps one_effect (insert_hold org sbx g None Uncertain reason)" for org sbx g reason
    by (rule hold)
  show "keeps one_effect (reserveSandboxCapacity org sbx op)" for org sbx op
    by (rule keeps_reserve) (rule hold)
  show "keeps one_effect (releaseSandboxCapacity org sbx g reason)" for org sbx g reason
    by (rule keeps_release) (simp add: one_effect_def)
  show "keeps one_effect (beginRuntimeEffect org sbx k op ctx)" for org sbx k op ctx
    by (rule keeps_begin)
      (auto simp: one_effect_def count_rows_Cons unsettled_on_def count_rows_zero [THEN iffD2])
  show "keeps one_effect (insert_operation i org sbx k key req)" for i org sbx k key req
    by (rule keeps_insert_operation) (simp add: one_effect_def)
qed (simp_all add: one_effect_def)

interpretation eids: limit_free effect_ids_ok
proof
  show "effect_ids_ok (d\<lparr>effects := update_rows P f (effects d)\<rparr>)" if "effect_patch P f" "effect_ids_ok d" for P f d
    using that(2) effect_patch_same [OF that(1)] by (simp add: effect_ids_ok_def map_update_rows)
  have hold: "keeps effect_ids_ok (insert_hold org sbx g op ph reason)" for org sbx g op ph reason
    by (rule keepsI, drule insert_hold_Inr) (auto simp: effect_ids_ok_def)
  show "keeps effect_ids_ok (insert_hold org sbx g None Uncertain reason)" for org sbx g reason
    by (rule hold)
  show "keeps effect_ids_ok (reserveSandboxCapacity org sbx op)" for org sbx op
    by (rule keeps_reserve) (rule hold)
  show "keeps effect_ids_ok (releaseSandboxCapacity org sbx g reason)" for org sbx g reason
    by (rule keeps_release) (simp add: effect_ids_ok_def)
  show "keeps effect_ids_ok (beginRuntimeEffect org sbx k op ctx)" for org sbx k op ctx
    by (rule keeps_begin) (auto simp: effect_ids_ok_def)
  show "keeps effect_ids_ok (insert_operation i org sbx k key req)" for i org sbx k key req
    by (rule keeps_insert_operation) (simp add: effect_ids_ok_def)
qed (simp_all add: effect_ids_ok_def)

interpretation fence: limit_free fenced
proof
  show "fenced (d\<lparr>holds := update_rows P f (holds d)\<rparr>)" if "slot_patch P f" "fenced d" for P f d
  proof -
    have "(\<exists>h \<in> set (update_rows P f (holds d)). h_org h = e_org e \<and> h_sandbox h = e_sandbox e \<and>
        h_generation h = e_generation e \<and> h_released_at h = None) \<longleftrightarrow>
      (\<exists>h \<in> set (holds d). h_org h = e_org e \<and> h_sandbox h = e_sandbox e \<and>
        h_generation h = e_generation e \<and> h_released_at h = None)" for e :: effect
      by (rule bex_update_rows) (simp add: slot_patch_same [OF that(1)])
    with that(2) show ?thesis by (simp add: fenced_def)
  qed
  show "fenced (d\<lparr>effects := update_rows P f (effects d)\<rparr>)" if "effect_patch P f" "fenced d" for P f d
    using that(2) unfolding fenced_def
    by simp (rule ball_update_rows, simp_all add: effect_patch_same [OF that(1)])
  have hold: "keeps fenced (insert_hold org sbx g op ph reason)" for org sbx g op ph reason
    by (rule keepsI, drule insert_hold_Inr) (fastforce simp: fenced_def)
  show "keeps fenced (insert_hold org sbx g None Uncertain reason)" for org sbx g reason
    by (rule hold)
  show "keeps fenced (reserveSandboxCapacity org sbx op)" for org sbx op
    by (rule keeps_reserve) (rule hold)
  show "keeps fenced (releaseSandboxCapacity org sbx g reason)" for org sbx g reason
  proof (rule keeps_release)
    fix d t reason assume "fenced d"
    show "fenced (d\<lparr>holds := update_rows (release_cond org sbx g (effects d)) (mark_released t reason) (holds d)\<rparr>)"
      unfolding fenced_def
    proof (intro ballI impI; simp)
      fix e assume e: "e \<in> set (effects d)" "e_settled_at e = None" "e_kind e \<noteq> EDelete"
      with \<open>fenced d\<close> obtain h where h: "h \<in> set (holds d)" "h_org h = e_org e" "h_sandbox h = e_sandbox e"
        "h_generation h = e_generation e" "h_released_at h = None" by (auto simp: fenced_def)
      have "\<not> release_cond org sbx g (effects d) h"
        using e h by (auto simp: release_cond_def unsettled_on_def)
      with h show "\<exists>h \<in> set (update_rows (release_cond org sbx g (effects d)) (mark_released t reason) (holds d)).
          h_org h = e_org e \<and> h_sandbox h = e_sandbox e \<and> h_generation h = e_generation e \<and> h_released_at h = None"
        by (intro bexI [of _ h]) (auto simp: update_rows_def image_iff intro!: bexI [of _ h])
    qed
  qed
  show "keeps fenced (beginRuntimeEffect org sbx k op ctx)" for org sbx k op ctx
    by (rule keeps_begin) (auto simp: fenced_def)
  show "keeps fenced (insert_operation i org sbx k key req)" for i org sbx k key req
    by (rule keeps_insert_operation) (simp add: fenced_def)
qed (simp_all add: fenced_def)

text \<open>Invariants about operations only.\<close>

lemma queue_only:
  assumes ops: "\<And>d d'. I d \<Longrightarrow> operations d' = operations d \<Longrightarrow> I d'"
    and patch: "\<And>P f d. operation_patch P f \<Longrightarrow> I d \<Longrightarrow> I (d\<lparr>operations := update_rows P f (operations d)\<rparr>)"
    and ins: "\<And>i org sbx k key req. keeps I (insert_operation i org sbx k key req)"
  shows "limit_free I"
proof
  show "I (d\<lparr>holds := update_rows P f (holds d)\<rparr>)" if "I d" for P f d
    by (rule ops [OF that]) simp
  show "I (d\<lparr>effects := update_rows P f (effects d)\<rparr>)" if "I d" for P f d
    by (rule ops [OF that]) simp
  show "I (d\<lparr>orgs := update_rows P f (orgs d)\<rparr>)" if "I d" for P f d
    by (rule ops [OF that]) simp
  have hold: "keeps I (insert_hold org sbx g op ph reason)" for org sbx g op ph reason
    by (rule keepsI, drule insert_hold_Inr) (auto intro: ops)
  show "keeps I (insert_hold org sbx g None Uncertain reason)" for org sbx g reason
    by (rule hold)
  show "keeps I (reserveSandboxCapacity org sbx op)" for org sbx op
    by (rule keeps_reserve) (rule hold)
  show "keeps I (releaseSandboxCapacity org sbx g reason)" for org sbx g reason
    by (rule keeps_release) (auto intro: ops)
  show "keeps I (beginRuntimeEffect org sbx k op ctx)" for org sbx k op ctx
    by (rule keeps_begin) (auto intro: ops)
qed (use patch ins in \<open>auto intro: ops\<close>)

interpretation ids: limit_free ids_ok
proof (rule queue_only)
  show "ids_ok (d\<lparr>operations := update_rows P f (operations d)\<rparr>)" if "operation_patch P f" "ids_ok d" for P f d
    using that by (simp add: ids_ok_def operation_patch_def map_update_rows)
  show "keeps ids_ok (insert_operation i org sbx k key req)" for i org sbx k key req
    by (rule keeps_insert_operation) (auto simp: ids_ok_def)
qed (simp add: ids_ok_def)

lemma filter_update_rows:
  "(\<And>r. P r \<Longrightarrow> Q (f r) = Q r) \<Longrightarrow> filter Q (update_rows P f rs) = update_rows P f (filter Q rs)"
  by (induction rs) (auto simp: row_simps)

interpretation keys: limit_free keys_ok
proof (rule queue_only)
  show "keys_ok (d\<lparr>operations := update_rows P f (operations d)\<rparr>)" if "operation_patch P f" "keys_ok d" for P f d
  proof -
    have "filter (\<lambda>r. o_key r \<noteq> None) (update_rows P f (operations d)) =
        update_rows P f (filter (\<lambda>r. o_key r \<noteq> None) (operations d))"
      by (rule filter_update_rows) (use that(1) in \<open>simp add: operation_patch_def\<close>)
    then show ?thesis using that
      by (simp add: keys_ok_def key_of_def operation_patch_def map_update_rows)
  qed
  show "keeps keys_ok (insert_operation i org sbx k key req)" for i org sbx k key req
    by (rule keeps_insert_operation) (auto simp: keys_ok_def key_of_def same_key_def)
qed (simp add: keys_ok_def)

text \<open>The limit: reservations are the only statements that take a slot, and they ask first.\<close>

interpretation limit: store_invariant "bounded org N" for org N
proof
  show "bounded org N d'" if "bounded org N d" "orgs d' = orgs d" "holds d' = holds d" for d d'
    using that by (simp add: bounded_def phases_ok_def within_limit_def held_def)
  show "bounded org N (d\<lparr>holds := update_rows P f (holds d)\<rparr>)" if "slot_patch P f" "bounded org N d" for P f d
    using that(2) phases.patch_holds [OF that(1)] slot_patch_same [OF that(1)]
    by (auto simp: bounded_def within_limit_def held_def held_row_def intro!: patch_count [OF that(1), THEN ord_eq_le_trans])
  show "bounded org N (d\<lparr>effects := update_rows P f (effects d)\<rparr>)" if "bounded org N d" for P f d
    using that by (simp add: bounded_def phases_ok_def within_limit_def held_def)
  show "bounded org N (d\<lparr>operations := update_rows P f (operations d)\<rparr>)" if "bounded org N d" for P f d
    using that by (simp add: bounded_def phases_ok_def within_limit_def held_def)
  show "bounded org N (d\<lparr>orgs := update_rows P f (orgs d)\<rparr>)" if "same_limits f" "bounded org N d" for P f d
    using that by (auto simp: bounded_def phases_ok_def within_limit_def held_def in_update_rows same_limits_def)
  show "keeps (bounded org N) (insert_operation i org' sbx k key req)" for i org' sbx k key req
    by (rule keeps_insert_operation) (simp add: bounded_def phases_ok_def within_limit_def held_def)
  show "keeps (bounded org N) (beginRuntimeEffect org' sbx k op ctx)" for org' sbx k op ctx
    by (rule keeps_begin) (simp add: bounded_def phases_ok_def within_limit_def held_def)
  show "keeps (bounded org N) (releaseSandboxCapacity org' sbx g reason)" for org' sbx g reason
  proof (rule keepsI)
    fix d b d' assume I: "bounded org N d" and r: "releaseSandboxCapacity org' sbx g reason d = Inr (b, d')"
    from r have d': "d' = d\<lparr>holds := update_rows (release_cond org' sbx g (effects d)) (mark_released (clock d) reason) (holds d)\<rparr>"
      by (simp add: releaseSandboxCapacity_Inr)
    have "held d' org \<le> held d org"
      unfolding d' held_def by simp (rule count_update_rows_le, auto simp: held_row_def mark_released_def)
    moreover have "phases_ok d'" using I r by (auto simp: bounded_def intro: keepsD [OF phases.release])
    ultimately show "bounded org N d'" using I by (auto simp: bounded_def within_limit_def d')
  qed
  show "keeps (bounded org N) (reserveSandboxCapacity org' sbx op)" for org' sbx op
  proof (rule keepsI)
    fix d h d' assume I: "bounded org N d" and r: "reserveSandboxCapacity org' sbx op d = Inr (h, d')"
    have ph: "phases_ok d'" using I r by (auto simp: bounded_def intro: keepsD [OF phases.reserve])
    show "bounded org N d'"
    proof (cases "own_hold d org' sbx")
      case None
      with I r obtain row where row: "org_of d org' = Some row" "int (held d org') < max_concurrency row"
        and ins: "insert_hold org' sbx (max_generation sbx (holds d) + 1) (Some op) Reserved None d = Inr (h, d')"
        by (auto simp: bounded_def reserveSandboxCapacity_eq split: option.splits if_splits)
      from insert_hold_Inr [OF ins] have d': "d' = d\<lparr>holds := holds d @ [h]\<rparr>" and "h_org h = org'" by auto
      then have "held d' org = held d org + (if org = org' then 1 else 0) \<or> held d' org = held d org"
        by (simp add: held_insert held_row_def)
      moreover have "held d org' < N" if "org = org'"
        using I row org_of_Some [OF row(1)] that by (auto simp: bounded_def within_limit_def)
      ultimately show ?thesis using I ph by (auto simp: bounded_def within_limit_def d')
    next
      case (Some q)
      with I r have "d' = d" by (auto simp: bounded_def reserveSandboxCapacity_eq split: option.splits if_splits)
      with I show ?thesis by simp
    qed
  qed
qed

end
