(* ===== verification/Termination.thy ===== *)
theory Termination
  imports Provider Invariants
begin

text \<open>
  Stopping a sandbox (\<open>services/sandbox-termination.ts\<close>): what counts as proof that the
  runtime is gone, the rows a termination closes, the request that cancels an undispatched
  start or begins a deletion effect, and the execution of a deletion up to the confirmed
  absence that alone releases the slot.
\<close>

section \<open>The code\<close>

definition runtimeIsAbsent :: "'p provider \<Rightarrow> runtime_summary option \<Rightarrow> bool" where
  "runtimeIsAbsent pr observed \<longleftrightarrow> authoritativeLifecycle (caps pr) \<and>
     (case observed of None \<Rightarrow> True
      | Some r \<Rightarrow> to_lower (trim (t_state r)) \<in> {''terminated'', ''deleted'', ''stopped''})"

definition persistSandboxTermination :: "string \<Rightarrow> string \<Rightarrow> unit dbtx" where
  "persistSandboxTermination org sbx =
     bindT now (\<lambda>t.
     bindT (upd_sandboxes (\<lambda>s. s_id s = sbx \<and> s_org s = org)
       (\<lambda>s. s\<lparr>s_status := STerminated, s_updated_at := t\<rparr>)) (\<lambda>_.
     bindT (upd_routes (\<lambda>r. r_sandbox r = sbx \<and> r_org r = org \<and> r_state r \<noteq> RTerminated)
       (\<lambda>r. r\<lparr>r_state := RTerminated, r_terminated_at := coalesce (r_terminated_at r) (Some t),
              r_updated_at := t\<rparr>)) (\<lambda>_.
     bindT (upd_schedules (\<lambda>c. c_sandbox c = sbx \<and> c_org c = org \<and> c_completed_at c = None)
       (\<lambda>c. c\<lparr>c_completed_at := Some t\<rparr>)) (\<lambda>_.
     bindT (upd_attachments (\<lambda>a. a_sandbox a = sbx \<and> a_org a = org \<and> a_detached_at a = None)
       (\<lambda>a. a\<lparr>a_status := ADetached, a_provider_state := ''missing'',
              a_detached_at := coalesce (a_detached_at a) (Some t), a_updated_at := t\<rparr>)) (\<lambda>_.
     returnT ())))))"

text \<open>The attempt number the effect's context remembers.\<close>

definition expected_attempts :: "effect \<Rightarrow> int option" where
  "expected_attempts eff = as_number (field (e_context eff) ''operationAttempt'')"

definition finishRuntimeDeletion :: "effect \<Rightarrow> unit dbtx" where
  "finishRuntimeDeletion eff = finishRuntimeEffect eff
     (bindT (persistSandboxTermination (e_org eff) (e_sandbox eff)) (\<lambda>_.
      bindT (releaseSandboxCapacity (e_org eff) (e_sandbox eff) (e_generation eff) ProviderAbsent) (\<lambda>_.
      bindT (add_event (e_org eff) (e_sandbox eff) ''terminated'') (\<lambda>_.
      case e_operation eff of
        None \<Rightarrow> returnT ()
      | Some op \<Rightarrow>
          bindT (completeSandboxOperation op
            [(''providerSandboxId'', str_or_null (e_provider eff)), (''confirmedAbsent'', JBool True)]
            (expected_attempts eff) True) (\<lambda>_. returnT ())))))"

text \<open>Whether another worker has finished this very deletion.\<close>

definition deletion_completed :: "effect \<Rightarrow> bool dbtx" where
  "deletion_completed eff = getsT (\<lambda>d.
     \<exists>e \<in> set (effects d). e_id e = e_id eff \<and> e_settled_at e \<noteq> None \<and>
       (\<exists>s \<in> set (sandboxes d). s_id s = e_sandbox e \<and> s_org s = e_org e \<and> s_status s = STerminated \<and>
          s_runtime_id s \<noteq> None \<and> s_runtime_id s = e_provider e))"

definition is_transition_error :: "err \<Rightarrow> bool" where
  "is_transition_error e \<longleftrightarrow> (case e of CapacityError c _ \<Rightarrow> c = TransitionInProgress | _ \<Rightarrow> False)"

definition executeRuntimeDeletion :: "effect \<Rightarrow> 'p provider \<Rightarrow> ('p, bool) proc" where
  "executeRuntimeDeletion eff pr =
    (if \<not> truthy (e_provider eff) then
       throwP (CapacityError TransitionInProgress ''A runtime identity is required to confirm deletion.'')
     else
       let runtime = the (e_provider eff) in
       tryP
         (bindP (atomic (markRuntimeEffectDispatched eff)) (\<lambda>_.
          bindP (callP (delete pr runtime)) (\<lambda>_.
          bindP (atomic (acknowledgeRuntimeEffect eff None)) (\<lambda>_.
          bindP (callP (get pr runtime)) (\<lambda>observed.
          if runtimeIsAbsent pr observed
          then bindP (atomic (finishRuntimeDeletion eff)) (\<lambda>_. retP True)
          else retP False)))))
         (\<lambda>e.
          bindP (if is_transition_error e then atomic (deletion_completed eff) else retP False) (\<lambda>completed.
          if completed then retP True
          else
            bindP (atomic (markRuntimeEffectUncertain eff None)) (\<lambda>_.
            throwP (CapacityError CapacityUnavailable
              ''Runtime deletion could not be confirmed. The execution slot remains reserved.'')))))"

definition release_workspace :: "string \<Rightarrow> string \<Rightarrow> unit dbtx" where
  "release_workspace org sbx =
     bindT now (\<lambda>t.
     bindT (upd_workspaces (\<lambda>x. w_org x = org \<and> w_attached x = Some sbx \<and> w_attachment_attempted_at x = None)
       (\<lambda>x. x\<lparr>w_attached := None, w_updated_at := t\<rparr>)) (\<lambda>_. returnT ()))"

text \<open>Cancelling a start that was never dispatched: \<open>current\<close> is its unsettled effect, if any.\<close>

definition cancel_start :: "string \<Rightarrow> string \<Rightarrow> hold \<Rightarrow> effect option \<Rightarrow> unit dbtx" where
  "cancel_start org sbx hold current =
     bindT now (\<lambda>t.
     bindT (case current of
         None \<Rightarrow> returnT ()
       | Some c \<Rightarrow>
           bindT (upd_effects (\<lambda>e. e_id e = e_id c \<and> e_dispatched_at e = None \<and> e_settled_at e = None)
             (\<lambda>e. e\<lparr>e_settled_at := Some t, e_updated_at := t\<rparr>)) (\<lambda>rowCount.
           requireT (rowCount \<noteq> 0) (CapacityError TransitionInProgress
             ''Runtime dispatch started before cancellation. Its outcome must be reconciled.''))) (\<lambda>_.
     bindT (upd_operations (\<lambda>r. o_sandbox r = Some sbx \<and> o_org r = org \<and>
                                (o_state r = Queued \<or> o_state r = Running))
       (\<lambda>r. r\<lparr>o_state := Canceled, o_completed_at := Some t, o_updated_at := t\<rparr>)) (\<lambda>_.
     bindT (persistSandboxTermination org sbx) (\<lambda>_.
     bindT (releaseSandboxCapacity org sbx (h_generation hold) CanceledBeforeDispatch) (\<lambda>_.
     release_workspace org sbx)))))"

definition capacity_protocol :: "obj \<Rightarrow> bool" where
  "capacity_protocol req \<longleftrightarrow> field req ''capacityProtocol'' = JNum 1"

text \<open>The transaction of \<open>requestSandboxTermination\<close>: the deletion effect to execute, if any.\<close>

definition terminationRequest :: "string \<Rightarrow> string \<Rightarrow> string option \<Rightarrow> effect option dbtx" where
  "terminationRequest org sbx key =
     bindT (lockEffectSandbox org sbx) (\<lambda>sandbox.
     bindT (sel_holds (effect_hold org sbx (s_status sandbox = SPaused))) (\<lambda>hs.
     case latest hs of
       None \<Rightarrow>
         if s_status sandbox = STerminated then returnT None
         else throwT (CapacityError CapacityUnavailable
           ''Sandbox inventory needs reconciliation before deletion.'')
     | Some hold \<Rightarrow>
         bindT (sel_effects (unsettled_on sbx)) (\<lambda>es.
         let current = first_row es in
         if map_option e_kind current = Some EDelete then returnT None
         else if \<not> truthy (s_runtime_id sandbox) then
           bindT (sel_operations (\<lambda>r. h_operation hold = Some (o_id r) \<and> o_org r = org)) (\<lambda>accepted.
           if (case current of None \<Rightarrow> False | Some c \<Rightarrow> e_dispatched_at c \<noteq> None) \<or>
              \<not> (case first_row accepted of None \<Rightarrow> False | Some r \<Rightarrow> capacity_protocol (o_request r))
           then throwT (CapacityError TransitionInProgress
             ''Provisioning may have started. Its outcome must be reconciled before canceling.'')
           else bindT (cancel_start org sbx hold current) (\<lambda>_. returnT None))
         else if current \<noteq> None then
           throwT (CapacityError TransitionInProgress
             ''Another runtime operation is still in progress. Its execution slot remains reserved.'')
         else
           bindT (enqueueSandboxOperation org (Some sbx) KDelete
             [(''providerSandboxId'', str_or_null (s_runtime_id sandbox)), (''capacityProtocol'', JNum 1)] key) (\<lambda>queued.
           bindT (requireT (o_sandbox (fst queued) = Some sbx)
             (CapacityError IdempotencyConflict ''This key belongs to a different sandbox.'')) (\<lambda>_.
           bindT (claimSandboxOperationById (o_id (fst queued)) [KDelete] None) (\<lambda>claimed_op.
           case claimed_op of
             None \<Rightarrow> returnT None
           | Some op \<Rightarrow>
               bindT (beginRuntimeEffect org sbx EDelete (Some op) []) (\<lambda>eff.
               bindT now (\<lambda>t.
               bindT (upd_holds (\<lambda>h. h_sandbox h = sbx \<and> h_generation h = h_generation hold \<and>
                                     h_released_at h = None)
                 (\<lambda>h. h\<lparr>h_phase := Releasing, h_reason := None, h_updated_at := t\<rparr>)) (\<lambda>_.
               returnT (Some eff))))))))))"

definition requestSandboxTermination ::
    "string \<Rightarrow> string \<Rightarrow> string option \<Rightarrow> 'p provider \<Rightarrow> ('p, unit) proc" where
  "requestSandboxTermination org sbx key pr =
     bindP (atomic (terminationRequest org sbx key)) (\<lambda>outcome.
     case outcome of
       None \<Rightarrow> retP ()
     | Some eff \<Rightarrow> bindP (executeRuntimeDeletion eff pr) (\<lambda>_. retP ()))"

section \<open>Invariants\<close>

context store_invariant
begin

lemma persist_termination [keeps_intro]: "keeps I (persistSandboxTermination org sbx)"
  unfolding persistSandboxTermination_def by (intro keeps_intro)

lemma free_workspace [keeps_intro]: "keeps I (release_workspace org sbx)"
  unfolding release_workspace_def by (intro keeps_intro)

lemma finish_deletion [keeps_intro]: "keeps I (finishRuntimeDeletion eff)"
  unfolding finishRuntimeDeletion_def by (intro keeps_intro)

lemma cancel_undispatched_start [keeps_intro]: "keeps I (cancel_start org sbx hold current)"
  unfolding cancel_start_def by (intro keeps_intro; simp add: patch_simps)

lemma termination_request [keeps_intro]: "keeps I (terminationRequest org sbx key)"
  unfolding terminationRequest_def by (intro keeps_intro; simp add: patch_simps)

end

end
