(* ===== verification/Lease.thy ===== *)
theory Lease
  imports Termination
begin

text \<open>
  Sandbox leases (\<open>services/sandbox-lease.ts\<close>): the effective deadline of a sandbox from the
  local and the provider's expiry, the renewal of a lease under a runtime effect, and the
  reconciliation of a sandbox with what the provider reports, which expires it when its time
  is over. Instants are integer milliseconds; \<open>None\<close> is JavaScript's NaN, the time of an
  absent or unreadable date. In JSON an ISO date is represented by its instant.
\<close>

section \<open>The code\<close>

definition renewable :: "sandbox_status option \<Rightarrow> bool" where
  "renewable st \<longleftrightarrow> st = Some SRunning \<or> st = Some SIdle"

definition lockSandbox :: "string \<Rightarrow> string \<Rightarrow> sandbox_row option dbtx" where
  "lockSandbox org sbx =
     bindT (sel_sandboxes (\<lambda>s. s_id s = sbx \<and> s_org s = org)) (\<lambda>rows. returnT (first_row rows))"

definition scheduleDeadline :: "string \<Rightarrow> string \<Rightarrow> time \<Rightarrow> unit dbtx" where
  "scheduleDeadline org sbx expires =
     bindT (upd_schedules (\<lambda>c. c_sandbox c = sbx \<and> c_org c = org \<and> c_kind c = ''idle_ttl'' \<and> c_completed_at c = None)
       (\<lambda>c. c\<lparr>c_run_at := expires\<rparr>)) (\<lambda>_.
     modifyT (\<lambda>d. if \<exists>c \<in> set (schedules d). c_sandbox c = sbx \<and> c_kind c = ''idle_ttl'' \<and> c_completed_at c = None
       then d
       else d\<lparr>schedules := schedules d @
         [\<lparr>c_sandbox = sbx, c_org = org, c_kind = ''idle_ttl'', c_run_at = expires, c_completed_at = None\<rparr>]\<rparr>))"

definition persistDeadline :: "string \<Rightarrow> string \<Rightarrow> time \<Rightarrow> time \<Rightarrow> bool \<Rightarrow> unit dbtx" where
  "persistDeadline org sbx expires provider_expires activity =
     bindT now (\<lambda>t.
     bindT (upd_sandboxes (\<lambda>s. s_id s = sbx \<and> s_org s = org)
       (\<lambda>s. s\<lparr>s_expires_at := Some expires, s_provider_expires_at := Some provider_expires,
              s_updated_at := t, s_last_active_at := (if activity then Some t else s_last_active_at s)\<rparr>)) (\<lambda>_.
     scheduleDeadline org sbx expires))"

definition effectiveDeadline :: "sandbox_row \<Rightarrow> time option \<Rightarrow> time option" where
  "effectiveDeadline row providerDeadline =
     (case providerDeadline of
        None \<Rightarrow> s_expires_at row
      | Some p \<Rightarrow>
          if s_provider_expires_at row \<noteq> Some p then Some p
          else (case s_expires_at row of None \<Rightarrow> Some p | Some local \<Rightarrow> Some (min local p)))"

text \<open>The instant a renewal asks for: the effective deadline is never shortened.\<close>

definition renewalDeadline :: "time \<Rightarrow> sandbox_row \<Rightarrow> time option \<Rightarrow> time" where
  "renewalDeadline t row providerDeadline =
     max (t + s_ttl_seconds row * 1000)
       (case effectiveDeadline row providerDeadline of None \<Rightarrow> 0 | Some e \<Rightarrow> e)"

text \<open>What the first transaction of a renewal decides.\<close>

datatype lease_admission =
    AlreadyRenewed obj
  | Coalesced effect
  | Renewing sandbox_row effect

definition renewalAdmission :: "string \<Rightarrow> string \<Rightarrow> operation option \<Rightarrow> lease_admission dbtx" where
  "renewalAdmission org sbx operation =
     bindT (\<lambda>d. case lockOrganizationCapacity org d of
         Inl (CapacityError c m) \<Rightarrow> Inl (LeaseError LeaseNotFound)
       | x \<Rightarrow> x) (\<lambda>_.
     bindT (lockSandbox org sbx) (\<lambda>found.
     bindT (someT found (LeaseError LeaseNotFound)) (\<lambda>row.
     bindT (case operation of
         None \<Rightarrow> returnT None
       | Some p \<Rightarrow>
           bindT (sel_operations (\<lambda>r. o_id r = o_id p)) (\<lambda>rows.
           bindT (someT (first_row rows) (LeaseError LeaseIdempotencyConflict)) (\<lambda>r.
           if o_sandbox r \<noteq> Some sbx \<or> o_org r \<noteq> org then throwT (LeaseError LeaseIdempotencyConflict)
           else if o_state r = Succeeded then returnT (Some (o_result r))
           else if o_state r \<noteq> Running \<or> o_attempts r \<noteq> o_attempts p
           then throwT (LeaseError LeaseRenewInProgress)
           else returnT None))) (\<lambda>already.
     case already of
       Some res \<Rightarrow> returnT (AlreadyRenewed res)
     | None \<Rightarrow>
         if \<not> renewable (Some (s_status row)) \<or> \<not> truthy (s_runtime_id row)
         then throwT (LeaseError LeaseNotRunning)
         else
           bindT (if operation = None
                  then sel_effects (\<lambda>e. unsettled_on sbx e \<and> e_kind e = ERenew)
                  else returnT []) (\<lambda>current.
           case first_row (filter (\<lambda>e. e_uncertain_at e = None) (take 1 current)) of
             Some e \<Rightarrow> returnT (Coalesced e)
           | None \<Rightarrow>
               bindT (beginRuntimeEffect org sbx ERenew operation []) (\<lambda>eff.
               returnT (Renewing row eff)))))))"

definition set_hold_active :: "effect \<Rightarrow> unit dbtx" where
  "set_hold_active eff =
     bindT now (\<lambda>t.
     bindT (upd_holds (\<lambda>h. h_sandbox h = e_sandbox eff \<and> h_generation h = e_generation eff \<and> h_released_at h = None)
       (\<lambda>h. h\<lparr>h_phase := Active, h_reason := None, h_updated_at := t\<rparr>)) (\<lambda>_. returnT ()))"

definition finishRuntimeRenewal :: "effect \<Rightarrow> obj dbtx" where
  "finishRuntimeRenewal eff = finishRuntimeEffect eff
     (bindT (someT (as_number (field (e_context eff) ''expiresAt'')) (LeaseError LeaseRenewFailed)) (\<lambda>expires.
      bindT (persistDeadline (e_org eff) (e_sandbox eff) expires expires True) (\<lambda>_.
      bindT (set_hold_active eff) (\<lambda>_.
      let result = [(''providerSandboxId'', str_or_null (e_provider eff)), (''expiresAt'', JNum expires)] in
      bindT (case e_operation eff of
          None \<Rightarrow> returnT ()
        | Some op \<Rightarrow> bindT (completeSandboxOperation op result (expected_attempts eff) True) (\<lambda>_. returnT ())) (\<lambda>_.
      returnT result)))))"

definition remember_deadline :: "effect \<Rightarrow> time \<Rightarrow> unit dbtx" where
  "remember_deadline eff expires =
     bindT (upd_effects (\<lambda>e. e_id e = e_id eff \<and> e_settled_at e = None)
       (\<lambda>e. e\<lparr>e_context := obj_merge (e_context e) [(''expiresAt'', JNum expires)]\<rparr>)) (\<lambda>_. returnT ())"

text \<open>
  Waiting for a renewal another caller began: poll every 25 ms until \<open>deadline\<close>. The fuel
  bounds the polls; each advances the clock by 25 ms, so 12000/25 + 1 of them pass any
  deadline 12 s away, provided the clock is not set back.
\<close>

fun awaitRenewal :: "nat \<Rightarrow> time \<Rightarrow> effect \<Rightarrow> ('p, obj) proc" where
  "awaitRenewal 0 deadline eff = throwP (LeaseError LeaseRenewInProgress)"
| "awaitRenewal (Suc fuel) deadline eff =
     bindP dateNow (\<lambda>t.
     if deadline \<le> t then throwP (LeaseError LeaseRenewInProgress)
     else
       bindP (atomic (getsT (\<lambda>d.
         case first_row (filter (\<lambda>e. e_id e = e_id eff) (effects d)) of
           None \<Rightarrow> None
         | Some e \<Rightarrow> map_option (Pair e) (first_row (filter (\<lambda>s. s_id s = e_sandbox e) (sandboxes d)))))) (\<lambda>current.
       case current of
         Some (e, s) \<Rightarrow>
           if e_settled_at e \<noteq> None then
             if \<not> renewable (Some (s_status s)) then throwP (LeaseError LeaseNotRunning)
             else
               bindP (atomic now) (\<lambda>t2.
               if (case s_expires_at s of None \<Rightarrow> False | Some x \<Rightarrow> t2 < x)
               then retP [(''coalesced'', JBool True), (''expiresAt'', num_or_null (s_expires_at s))]
               else throwP (LeaseError LeaseNotRunning))
           else bindP (sleepP 25) (\<lambda>_. awaitRenewal fuel deadline eff)
       | None \<Rightarrow> bindP (sleepP 25) (\<lambda>_. awaitRenewal fuel deadline eff)))"

text \<open>The provider call of a renewal; the boolean is \<open>dispatched\<close> when an error leaves it.\<close>

definition dispatchRenewal :: "sandbox_row \<Rightarrow> effect \<Rightarrow> 'p provider \<Rightarrow> ('p, obj) proc" where
  "dispatchRenewal row eff pr =
    (let runtime_id = the (s_runtime_id row);
         undo = (\<lambda>e. bindP (atomic (finishRuntimeEffect eff (returnT ()))) (\<lambda>_. throwP e));
         unknown = (\<lambda>e. bindP (atomic (markRuntimeEffectUncertain eff None)) (\<lambda>_. throwP e)) in
     bindP (tryP
       (bindP (callP (get pr runtime_id)) (\<lambda>observed.
        bindP (case observed of
            None \<Rightarrow> throwP (LeaseError LeaseNotRunning)
          | Some rt \<Rightarrow>
              if renewable (normalizeRuntimeState (Some (t_state rt))) then retP rt
              else throwP (LeaseError LeaseNotRunning)) (\<lambda>rt.
        bindP (atomic now) (\<lambda>t.
        let expires = renewalDeadline t row (t_expires rt) in
        bindP (atomic (remember_deadline eff expires)) (\<lambda>_.
        bindP (atomic (markRuntimeEffectDispatched eff)) (\<lambda>_. retP expires))))))
       undo) (\<lambda>expires.
     tryP
       (bindP (callP (renew pr runtime_id expires)) (\<lambda>_.
        bindP (atomic (acknowledgeRuntimeEffect eff None)) (\<lambda>_.
        atomic (finishRuntimeRenewal
          (eff\<lparr>e_context := obj_merge (e_context eff) [(''expiresAt'', JNum expires)]\<rparr>)))))
       unknown))"

definition renewSandboxLease ::
    "string \<Rightarrow> string \<Rightarrow> operation option \<Rightarrow> 'p provider \<Rightarrow> ('p, obj) proc" where
  "renewSandboxLease org sbx operation pr =
     bindP (atomic (renewalAdmission org sbx operation)) (\<lambda>admission.
     case admission of
       AlreadyRenewed res \<Rightarrow> retP res
     | Coalesced eff \<Rightarrow> bindP dateNow (\<lambda>t. awaitRenewal 481 (t + 12000) eff)
     | Renewing row eff \<Rightarrow> dispatchRenewal row eff pr)"

text \<open>The snapshot a reconciliation takes before it asks the provider.\<close>

definition reconcileBefore :: "string \<Rightarrow> string \<Rightarrow> (sandbox_row \<times> runtime_fence \<times> int) option dbtx" where
  "reconcileBefore org sbx =
     bindT (lockEffectSandbox org sbx) (\<lambda>_.
     bindT (lockSandbox org sbx) (\<lambda>found.
     bindT (readRuntimeFence sbx) (\<lambda>fence.
     bindT (sel_holds (\<lambda>h. h_sandbox h = sbx \<and> h_released_at h = None)) (\<lambda>hs.
     returnT (case (found, first_row hs) of
         (Some row, Some h) \<Rightarrow>
           if \<not> truthy (s_runtime_id row) \<or> f_busy fence \<or> h_reason h = Some ''legacy_inventory''
           then None else Some (row, fence, h_generation h)
       | _ \<Rightarrow> None)))))"

definition set_open_hold :: "string \<Rightarrow> hold_phase \<Rightarrow> string option \<Rightarrow> unit dbtx" where
  "set_open_hold sbx phase reason =
     bindT now (\<lambda>t.
     bindT (upd_holds (\<lambda>h. h_sandbox h = sbx \<and> h_released_at h = None)
       (\<lambda>h. h\<lparr>h_phase := phase, h_reason := reason, h_updated_at := t\<rparr>)) (\<lambda>_. returnT ()))"

text \<open>
  What the provider's answer makes of the sandbox, if nothing has changed meanwhile: the
  deletion effect of an expired sandbox, if any.
\<close>

definition reconcileApply ::
    "string \<Rightarrow> string \<Rightarrow> bool \<Rightarrow> string option \<Rightarrow> runtime_fence \<Rightarrow> int \<Rightarrow> 'p provider \<Rightarrow>
     runtime_summary option \<Rightarrow> effect option dbtx" where
  "reconcileApply org sbx expire runtime_id fence generation pr observed =
     bindT (lockEffectSandbox org sbx) (\<lambda>current.
     bindT (readRuntimeFence sbx) (\<lambda>fence2.
     if f_busy fence2 \<or> f_version fence2 \<noteq> f_version fence \<or> s_runtime_id current \<noteq> runtime_id
     then returnT None
     else
       bindT (sel_holds (\<lambda>h. h_sandbox h = sbx \<and> h_released_at h = None)) (\<lambda>hs.
       if map_option h_generation (first_row hs) \<noteq> Some generation then returnT None
       else
         bindT (lockSandbox org sbx) (\<lambda>found.
         case found of
           None \<Rightarrow> returnT None
         | Some row \<Rightarrow>
             if runtimeIsAbsent pr observed then
               bindT (persistSandboxTermination org sbx) (\<lambda>_.
               bindT (releaseSandboxCapacity org sbx generation ProviderAbsent) (\<lambda>_. returnT None))
             else
               (case (observed, normalizeRuntimeState (map_option t_state observed)) of
                  (Some rt, Some status) \<Rightarrow>
                    if status = STerminated then
                      bindT (set_open_hold sbx Uncertain (Some ''runtime_state_unknown'')) (\<lambda>_. returnT None)
                    else
                      bindT now (\<lambda>t.
                      bindT (upd_sandboxes (\<lambda>s. s_id s = sbx \<and> s_org s = org)
                        (\<lambda>s. s\<lparr>s_status := status, s_updated_at := t\<rparr>)) (\<lambda>_.
                      if status = SPaused \<and> pauseStopsExecution (caps pr) then
                        bindT (releaseSandboxCapacity org sbx generation ProviderSuspended) (\<lambda>_. returnT None)
                      else
                        bindT (set_open_hold sbx
                          (if status \<in> {SRunning, SIdle, SPaused} then Active
                           else if status = SError then Uncertain else Reserved) None) (\<lambda>_.
                        (case (t_expires rt, effectiveDeadline row (t_expires rt)) of
                           (Some p, Some deadline) \<Rightarrow>
                             bindT (persistDeadline org sbx deadline p False) (\<lambda>_.
                             bindT now (\<lambda>t2.
                             if \<not> expire \<or> status \<notin> {SRunning, SIdle, SPending} \<or> t2 < deadline
                             then returnT None
                             else
                               bindT (beginRuntimeEffect org sbx EDelete None [(''reason'', JStr ''ttl_expired'')]) (\<lambda>deletion.
                               bindT (set_open_hold sbx Releasing (Some ''ttl_expired'')) (\<lambda>_.
                               returnT (Some deletion)))))
                         | _ \<Rightarrow> returnT None))))
                | _ \<Rightarrow>
                    bindT (set_open_hold sbx Uncertain (Some ''runtime_state_unknown'')) (\<lambda>_. returnT None))))))"

definition reconcileSandboxLease ::
    "string \<Rightarrow> string \<Rightarrow> bool \<Rightarrow> 'p provider \<Rightarrow> ('p, unit) proc" where
  "reconcileSandboxLease org sbx expire pr =
     bindP (atomic (reconcileBefore org sbx)) (\<lambda>before.
     case before of
       None \<Rightarrow> retP ()
     | Some (row, fence, generation) \<Rightarrow>
         bindP (callP (get pr (the (s_runtime_id row)))) (\<lambda>observed.
         bindP (atomic (reconcileApply org sbx expire (s_runtime_id row) fence generation pr observed)) (\<lambda>eff.
         case eff of
           None \<Rightarrow> retP ()
         | Some e \<Rightarrow> bindP (executeRuntimeDeletion e pr) (\<lambda>_. retP ()))))"

section \<open>Invariants\<close>

context store_invariant
begin

lemma persist_deadline [keeps_intro]: "keeps I (persistDeadline org sbx e p a)"
proof -
  have "keeps I (scheduleDeadline org sbx e)"
    by (rule framed) (auto simp: scheduleDeadline_def bindT_def upd_defs tx_defs)
  then show ?thesis unfolding persistDeadline_def by (intro keeps_intro)
qed

lemma hold_active [keeps_intro]: "keeps I (set_hold_active eff)"
  unfolding set_hold_active_def by (intro keeps_intro; simp add: patch_simps)

lemma open_hold [keeps_intro]: "phase \<noteq> Released \<Longrightarrow> keeps I (set_open_hold sbx phase reason)"
  unfolding set_open_hold_def by (intro keeps_intro; simp add: patch_simps)

lemma finish_renewal [keeps_intro]: "keeps I (finishRuntimeRenewal eff)"
  unfolding finishRuntimeRenewal_def by (intro keeps_intro)

lemma deadline_context [keeps_intro]: "keeps I (remember_deadline eff e)"
  unfolding remember_deadline_def by (intro keeps_intro; simp add: patch_simps)

lemma renewal_admission [keeps_intro]: "keeps I (renewalAdmission org sbx operation)"
proof -
  have lock: "keeps I (\<lambda>d. case lockOrganizationCapacity org d of
      Inl (CapacityError c m) \<Rightarrow> Inl (LeaseError LeaseNotFound) | x \<Rightarrow> x)"
    by (auto simp: keeps_def lockOrganizationCapacity_iff split: sum.splits err.splits)
  show ?thesis
    unfolding renewalAdmission_def lockSandbox_def by (intro keeps_intro lock)
qed

lemma reconcile_before [keeps_intro]: "keeps I (reconcileBefore org sbx)"
  unfolding reconcileBefore_def lockSandbox_def by (intro keeps_intro)

lemma reconcile_apply [keeps_intro]: "keeps I (reconcileApply org sbx expire rid f g pr obs)"
  unfolding reconcileApply_def lockSandbox_def by (intro keeps_intro; simp)

end

end
