(* ===== verification/Provision.thy ===== *)
theory Provision
  imports Lease
begin

text \<open>
  Creating a runtime (\<open>services/sandbox-provision.ts\<close>): one provision effect per attempt,
  the provider's \<open>create\<close> only after the effect is marked dispatched, the runtime's identity
  saved once, and the effect settled together with the operation.
\<close>

section \<open>The code\<close>

definition save_identity :: "string \<Rightarrow> string \<Rightarrow> effect \<Rightarrow> runtime_created \<Rightarrow> unit dbtx" where
  "save_identity org sbx eff made =
     bindT (lockEffectSandbox org sbx) (\<lambda>_.
     bindT (sel_effects (\<lambda>e. e_id e = e_id eff \<and> e_settled_at e = None)) (\<lambda>owner.
     bindT (requireT (owner \<noteq> [])
       (CapacityError TransitionInProgress ''Provision result is no longer owned by this worker.'')) (\<lambda>_.
     bindT now (\<lambda>t.
     let state = normalizeRuntimeState (Some (t_state made));
         status = (if state = Some SRunning \<or> state = Some SIdle then the state else SPending) in
     bindT (upd_sandboxes
         (\<lambda>s. s_id s = sbx \<and> s_org s = org \<and> s_status s = SPending \<and> s_runtime_id s = None)
         (\<lambda>s. s\<lparr>s_runtime_id := Some (t_id made), s_status := status,
                s_started_at := coalesce (s_started_at s) (Some t), s_last_active_at := Some t,
                s_expires_at := Some (case t_expires made of None \<Rightarrow> t + s_ttl_seconds s * 1000
                                      | Some x \<Rightarrow> min x (t + s_ttl_seconds s * 1000)),
                s_provider_expires_at := t_expires made, s_updated_at := t\<rparr>)) (\<lambda>rowCount.
     bindT (requireT (rowCount = 1)
       (CapacityError TransitionInProgress ''Sandbox changed before its runtime identity could be saved.'')) (\<lambda>_.
     modifyT (\<lambda>d. d\<lparr>schedules := schedules d @
       map (\<lambda>s. \<lparr>c_sandbox = s_id s, c_org = s_org s, c_kind = ''idle_ttl'',
                  c_run_at = (case s_expires_at s of None \<Rightarrow> 0 | Some x \<Rightarrow> x), c_completed_at = None\<rparr>)
         (filter (\<lambda>s. s_id s = sbx \<and> s_org s = org) (sandboxes d))\<rparr>)))))))"

text \<open>Releasing the slot of a start that was prepared but never dispatched.\<close>

definition undo_provision :: "effect \<Rightarrow> unit dbtx" where
  "undo_provision eff = finishRuntimeEffect eff
     (bindT (releaseSandboxCapacity (e_org eff) (e_sandbox eff) (e_generation eff) CanceledBeforeDispatch)
       (\<lambda>_. returnT ()))"

definition add_metadata :: "operation \<Rightarrow> effect \<Rightarrow> create_input \<Rightarrow> create_input" where
  "add_metadata operation eff input = input\<lparr>i_metadata :=
     filter (\<lambda>(k, v). k \<notin> {''harakiri.operation'', ''harakiri.effect'', ''harakiri.generation''}) (i_metadata input) @
     [(''harakiri.operation'', o_id operation), (''harakiri.effect'', e_id eff),
      (''harakiri.generation'', show_int (e_generation eff))]\<rparr>"

text \<open>A timeout or failed commit cannot prove the provider failed to create execution.\<close>

definition outcome_unknown :: "effect \<Rightarrow> string option \<Rightarrow> err \<Rightarrow> ('p, 'a) proc" where
  "outcome_unknown eff providerId e =
     bindP (atomic (markRuntimeEffectUncertain eff providerId)) (\<lambda>_. throwP e)"

definition provisionSandboxRuntime ::
    "operation \<Rightarrow> ('p, create_input) proc \<Rightarrow> 'p provider \<Rightarrow> ('p, effect \<times> runtime_created) proc" where
  "provisionSandboxRuntime operation input pr =
    (case o_sandbox operation of
       None \<Rightarrow> throwP (CapacityError IdempotencyConflict ''Provision operation has no sandbox.'')
     | Some sbx \<Rightarrow>
         if sbx = [] then throwP (CapacityError IdempotencyConflict ''Provision operation has no sandbox.'')
         else
         bindP (atomic (beginRuntimeEffect (o_org operation) sbx EProvision (Some operation) [])) (\<lambda>eff.
         bindP (tryP
           (bindP input (\<lambda>prepared.
            bindP (sumP (requireRuntimeCreate pr prepared)) (\<lambda>_.
            bindP (atomic (markRuntimeEffectDispatched eff)) (\<lambda>_. retP prepared))))
           (\<lambda>e. bindP (atomic (undo_provision eff)) (\<lambda>_. throwP e))) (\<lambda>prepared.
         bindP (tryP (callP (create pr (add_metadata operation eff prepared))) (outcome_unknown eff None)) (\<lambda>made.
         tryP
           (if t_id made = [] then throwP (PlainError ''Provider accepted creation without a runtime identity'')
            else
              bindP (atomic (acknowledgeRuntimeEffect eff (Some (t_id made)))) (\<lambda>_.
              bindP (atomic (save_identity (o_org operation) sbx eff made)) (\<lambda>_.
              retP (eff, made))))
           (outcome_unknown eff (Some (t_id made)))))))"

definition completeSandboxProvision ::
    "operation \<Rightarrow> effect \<Rightarrow> runtime_created \<Rightarrow> string \<Rightarrow> obj \<Rightarrow> operation dbtx" where
  "completeSandboxProvision operation eff made provider_kind result = finishRuntimeEffect eff
     (bindT now (\<lambda>t.
      bindT (upd_holds
        (\<lambda>h. Some (h_sandbox h) = o_sandbox operation \<and> h_generation h = e_generation eff \<and> h_released_at h = None)
        (\<lambda>h. h\<lparr>h_phase := (if renewable (normalizeRuntimeState (Some (t_state made))) then Active else Reserved),
               h_reason := None, h_updated_at := t\<rparr>)) (\<lambda>_.
      bindT (completeSandboxOperation (o_id operation)
        (obj_merge result [(''provider'', JStr provider_kind), (''providerSandboxId'', JStr (t_id made))])
        (Some (o_attempts operation)) False) (\<lambda>completed.
      someT completed (CapacityError TransitionInProgress ''Provision operation changed before completion.'')))))"

section \<open>Invariants\<close>

context store_invariant
begin

lemma identity [keeps_intro]: "keeps I (save_identity org sbx eff made)"
proof -
  have schedule: "keeps I (modifyT (\<lambda>d. d\<lparr>schedules := f d\<rparr>))" for f
    by (rule framed) (simp add: modifyT_apply)
  show ?thesis unfolding save_identity_def by (intro keeps_intro schedule)
qed

lemma undo [keeps_intro]: "keeps I (undo_provision eff)"
  unfolding undo_provision_def by (intro keeps_intro)

lemma complete_provision [keeps_intro]: "keeps I (completeSandboxProvision operation eff made k res)"
  unfolding completeSandboxProvision_def by (intro keeps_intro; simp add: patch_simps)

end

end
