(* ===== verification/Workspaces.thy ===== *)
theory Workspaces
  imports Provider Invariants
begin

text \<open>
  Persistent workspaces (\<open>services/persistent-workspaces.ts\<close>, tables of
  \<open>db/migrations/035_persistent_workspaces.sql\<close>): the operator's policy, allocation of a
  quota slot, the attachment that lets only the first provider call ever create storage,
  archiving, and the release of a workspace whose sandbox is gone.
\<close>

section \<open>The code\<close>

text \<open>The settings of \<open>config.ts\<close> that the policy reads.\<close>

record workspace_config =
  workspaceSizeGiB :: int
  workspaceMaxPerOrganization :: int
  workspaceStorageClass :: "string option"
  persistentWorkspacesEnabled :: bool
  openSandboxAllowFallback :: bool

datatype workspace_status = WArchived | WRecoveryRequired | WReleasing | WAttached | WAvailable

record workspace_summary =
  ws_id :: string
  ws_name :: string
  ws_size :: int
  ws_status :: workspace_status
  ws_attached :: "string option"
  ws_storageRequested :: bool
  ws_archived_at :: "time option"

definition workspaceSummary :: "sandbox_row list \<Rightarrow> workspace_row \<Rightarrow> workspace_summary" where
  "workspaceSummary sbxs row =
    (let st = (case w_attached row of None \<Rightarrow> None
               | Some i \<Rightarrow> map_option s_status (first_row (filter (\<lambda>s. s_id s = i) sbxs))) in
     \<lparr>ws_id = w_id row, ws_name = w_name row, ws_size = w_size row,
      ws_status = (if w_archived_at row \<noteq> None then WArchived
        else if truthy (w_attached row) then
          (if st = Some SError then WRecoveryRequired
           else if st = Some STerminated then WReleasing else WAttached)
        else WAvailable),
      ws_attached = w_attached row, ws_storageRequested = (w_provision_attempted_at row \<noteq> None),
      ws_archived_at = w_archived_at row\<rparr>)"

record workspace_policy =
  wp_available :: bool
  wp_size :: int
  wp_max :: int

definition workspacePolicy :: "workspace_config \<Rightarrow> 'p provider \<Rightarrow> workspace_policy" where
  "workspacePolicy cfg pr =
    (let validSize = (1 \<le> workspaceSizeGiB cfg \<and> workspaceSizeGiB cfg \<le> 1024);
         validQuota = (1 \<le> workspaceMaxPerOrganization cfg \<and> workspaceMaxPerOrganization cfg \<le> 1000);
         validClass = (case workspaceStorageClass cfg of None \<Rightarrow> True | Some c \<Rightarrow>
           c = [] \<or> length c \<le> 253 \<and> (\<forall>w \<in> set (split_on (CHR ''.'') c). dns_label w)) in
     \<lparr>wp_available = (validSize \<and> validQuota \<and> validClass \<and> persistentWorkspacesEnabled cfg \<and>
        cap_workspaces (caps pr) \<and> \<not> (kind pr = ''opensandbox'' \<and> openSandboxAllowFallback cfg)),
      wp_size = (if validSize then workspaceSizeGiB cfg else 0),
      wp_max = (if validQuota then workspaceMaxPerOrganization cfg else 0)\<rparr>)"

definition requireWorkspaceSupport :: "workspace_config \<Rightarrow> 'p provider \<Rightarrow> workspace_policy dbtx" where
  "requireWorkspaceSupport cfg pr =
    (if wp_available (workspacePolicy cfg pr) then returnT (workspacePolicy cfg pr)
     else throwT (WorkspaceError ''workspaces_unavailable'' 501
       ''Persistent workspaces require an operator-enabled storage profile, a supported provider, and fail-closed runtime errors.''))"

definition getWorkspaceRow :: "string \<Rightarrow> string \<Rightarrow> workspace_row dbtx" where
  "getWorkspaceRow org i =
     bindT (getsT (\<lambda>d. first_row (filter (\<lambda>w. w_org w = org \<and> w_id w = i) (workspaces d)))) (\<lambda>row.
     someT row (WorkspaceError ''workspace_not_found'' 404 ''Workspace not found''))"

definition listWorkspaces :: "string \<Rightarrow> workspace_summary list dbtx" where
  "listWorkspaces org = getsT (\<lambda>d. map (workspaceSummary (sandboxes d))
     (take 1000 (sort_key (\<lambda>w. - w_created_at w) (filter (\<lambda>w. w_org w = org) (workspaces d)))))"

text \<open>
  One INSERT attempt: the smallest free quota slot, and nothing when there is none or a
  unique constraint would be violated.
\<close>

definition free_slot :: "string \<Rightarrow> int \<Rightarrow> workspace_row list \<Rightarrow> int option" where
  "free_slot org n ws = first_row (filter (\<lambda>slot. \<not> (\<exists>w \<in> set ws. w_org w = org \<and> w_slot w = slot)) [1..n])"

definition workspace_conflict :: "workspace_row \<Rightarrow> workspace_row \<Rightarrow> bool" where
  "workspace_conflict a b \<longleftrightarrow> w_id a = w_id b \<or> w_volume a = w_volume b \<or>
     w_org a = w_org b \<and> (w_slot a = w_slot b \<or> w_name a = w_name b)"

definition insertWorkspace ::
    "string \<Rightarrow> string \<Rightarrow> string \<Rightarrow> string \<Rightarrow> string \<Rightarrow> string option \<Rightarrow> workspace_policy \<Rightarrow> bool dbtx" where
  "insertWorkspace i org name provider_kind volume storageClass policy =
     bindT now (\<lambda>t.
     bindT (getsT workspaces) (\<lambda>ws.
     if \<not> (1 \<le> length name \<and> length name \<le> 80) then throwT (DbError ''violates check constraint'')
     else
       (case free_slot org (wp_max policy) ws of
          None \<Rightarrow> returnT False
        | Some slot \<Rightarrow>
            let row = \<lparr>w_id = i, w_org = org, w_name = name, w_provider = provider_kind, w_volume = volume,
                  w_storage_class = storageClass, w_size = wp_size policy, w_slot = slot, w_attached = None,
                  w_provision_attempted_at = None, w_attachment_attempted_at = None, w_archived_at = None,
                  w_created_at = t, w_updated_at = t\<rparr> in
            if \<exists>w \<in> set ws. workspace_conflict w row then returnT False
            else bindT (modifyT (\<lambda>d. d\<lparr>workspaces := workspaces d @ [row]\<rparr>)) (\<lambda>_. returnT True))))"

fun createWorkspaceLoop ::
    "nat \<Rightarrow> workspace_config \<Rightarrow> workspace_policy \<Rightarrow> string \<Rightarrow> string \<Rightarrow> string \<Rightarrow> string \<Rightarrow> ('p, workspace_summary) proc" where
  "createWorkspaceLoop 0 cfg policy i org name k =
     throwP (WorkspaceError ''workspace_quota_exceeded'' 409
       ''Workspace allocation is full or busy. Archived storage still counts toward the allocation.'')"
| "createWorkspaceLoop (Suc n) cfg policy i org name k =
     bindP (atomic (bindT draw (\<lambda>v. insertWorkspace i org name k (''harakiri-wsp-'' @ v) (workspaceStorageClass cfg) policy))) (\<lambda>ok.
     if ok then atomic (bindT (getWorkspaceRow org i) (\<lambda>row. getsT (\<lambda>d. workspaceSummary (sandboxes d) row)))
     else
       bindP (atomic (getsT (\<lambda>d. \<exists>w \<in> set (workspaces d). w_org w = org \<and> w_name w = name))) (\<lambda>duplicate.
       if duplicate then throwP (WorkspaceError ''workspace_name_conflict'' 409 ''A workspace already uses this name'')
       else createWorkspaceLoop n cfg policy i org name k))"

definition createWorkspace ::
    "workspace_config \<Rightarrow> string \<Rightarrow> string \<Rightarrow> 'p provider \<Rightarrow> ('p, workspace_summary) proc" where
  "createWorkspace cfg org name pr =
     bindP (atomic (requireWorkspaceSupport cfg pr)) (\<lambda>policy.
     bindP (atomic (makeId ''wsp'')) (\<lambda>i.
     createWorkspaceLoop 5 cfg policy i org name (kind pr)))"

definition validateWorkspaceAttachment :: "workspace_config \<Rightarrow> string \<Rightarrow> string \<Rightarrow> 'p provider \<Rightarrow> unit dbtx" where
  "validateWorkspaceAttachment cfg org i pr =
     bindT (requireWorkspaceSupport cfg pr) (\<lambda>_.
     bindT (getWorkspaceRow org i) (\<lambda>row.
     bindT (requireT (w_provider row = kind pr)
       (WorkspaceError ''workspace_provider_mismatch'' 409 ''Workspace belongs to a different runtime provider'')) (\<lambda>_.
     requireT (w_archived_at row = None \<and> \<not> truthy (w_attached row))
       (WorkspaceError ''workspace_unavailable'' 409 ''Workspace is archived or attached to another sandbox''))))"

definition attempt_mount :: "string \<Rightarrow> string \<Rightarrow> string \<Rightarrow> workspace_row \<Rightarrow> bool" where
  "attempt_mount i org sbx w \<longleftrightarrow> w_id w = i \<and> w_org w = org \<and> w_attached w = Some sbx \<and>
     w_attachment_attempted_at w = None"

definition prepareRuntimeWorkspace ::
    "workspace_config \<Rightarrow> string \<Rightarrow> string \<Rightarrow> 'p provider \<Rightarrow> workspace_mount dbtx" where
  "prepareRuntimeWorkspace cfg org sbx pr =
     bindT (requireWorkspaceSupport cfg pr) (\<lambda>_.
     bindT (getsT (\<lambda>d. first_row (filter (\<lambda>w. w_org w = org \<and> w_attached w = Some sbx \<and> w_archived_at w = None)
       (workspaces d)))) (\<lambda>found.
     bindT (someT (case found of None \<Rightarrow> None | Some w \<Rightarrow> if w_provider w = kind pr then Some w else None)
       (WorkspaceError ''workspace_reservation_missing'' 409 ''Sandbox no longer owns its workspace reservation'')) (\<lambda>row.
     bindT now (\<lambda>t.
     bindT (upd_workspaces (attempt_mount (w_id row) org sbx)
       (\<lambda>w. w\<lparr>w_provision_attempted_at := coalesce (w_provision_attempted_at w) (Some t),
              w_attachment_attempted_at := Some t, w_updated_at := t\<rparr>)) (\<lambda>rowCount.
     bindT (requireT (rowCount \<noteq> 0)
       (WorkspaceError ''workspace_attachment_ambiguous'' 409
         ''An attachment was already attempted. Operator recovery is required before retrying an unconfirmed provider request.'')) (\<lambda>_.
     returnT \<lparr>m_volume = w_volume row, m_storage_class = w_storage_class row, m_size = w_size row,
       m_create = (w_provision_attempted_at row = None)\<rparr>))))))"

definition archiveWorkspace :: "string \<Rightarrow> string \<Rightarrow> workspace_row dbtx" where
  "archiveWorkspace org i =
     bindT (getWorkspaceRow org i) (\<lambda>_.
     bindT now (\<lambda>t.
     bindT (upd_workspaces (\<lambda>w. w_id w = i \<and> w_org w = org \<and> w_attached w = None)
       (\<lambda>w. w\<lparr>w_archived_at := coalesce (w_archived_at w) (Some t), w_updated_at := t\<rparr>)) (\<lambda>rowCount.
     bindT (requireT (rowCount \<noteq> 0)
       (WorkspaceError ''workspace_attached'' 409
         ''Terminate the attached sandbox and wait for storage release before archiving'')) (\<lambda>_.
     getWorkspaceRow org i))))"

text \<open>The workspaces whose sandbox is terminated or failed and has no open operation, with it.\<close>

definition releasable :: "string \<Rightarrow> (workspace_row \<times> sandbox_row) list dbtx" where
  "releasable k = getsT (\<lambda>d. take 100
     (concat (map (\<lambda>w. map (Pair w) (filter (\<lambda>s. w_attached w = Some (s_id s) \<and>
          (s_status s = STerminated \<or> s_status s = SError) \<and>
          \<not> (\<exists>r \<in> set (operations d). o_sandbox r = Some (s_id s) \<and> (o_state r = Queued \<or> o_state r = Running)))
        (sandboxes d)))
      (sort_key w_updated_at (filter (\<lambda>w. w_provider w = k) (workspaces d))))))"

definition detach_workspace :: "string \<Rightarrow> string \<Rightarrow> unit dbtx" where
  "detach_workspace i sbx =
     bindT now (\<lambda>t.
     bindT (upd_workspaces (\<lambda>w. w_id w = i \<and> w_attached w = Some sbx)
       (\<lambda>w. w\<lparr>w_attached := None, w_updated_at := t\<rparr>)) (\<lambda>_. returnT ()))"

fun releaseWorkspaces :: "'p provider \<Rightarrow> (workspace_row \<times> sandbox_row) list \<Rightarrow> ('p, unit) proc" where
  "releaseWorkspaces pr [] = retP ()"
| "releaseWorkspaces pr ((w, s) # rows) =
     bindP (if truthy (s_runtime_id s)
         then bindP (callP (get pr (the (s_runtime_id s)))) (\<lambda>rt. retP (rt = None))
         else retP (w_attachment_attempted_at w = None)) (\<lambda>gone.
     bindP (if gone then atomic (detach_workspace (w_id w) (s_id s)) else retP ()) (\<lambda>_.
     releaseWorkspaces pr rows))"

definition reconcileWorkspaces :: "workspace_config \<Rightarrow> 'p provider \<Rightarrow> ('p, unit) proc" where
  "reconcileWorkspaces cfg pr =
    (if \<not> wp_available (workspacePolicy cfg pr) then retP ()
     else bindP (atomic (releasable (kind pr))) (releaseWorkspaces pr))"

section \<open>Lemmas\<close>

text \<open>The unique constraints of the table, and the quota.\<close>

definition workspaces_ok :: "int \<Rightarrow> db \<Rightarrow> bool" where
  "workspaces_ok n d \<longleftrightarrow>
     distinct (map w_id (workspaces d)) \<and>
     distinct (map (\<lambda>w. (w_org w, w_slot w)) (workspaces d)) \<and>
     distinct (map (\<lambda>w. (w_org w, w_name w)) (workspaces d)) \<and>
     (\<forall>w \<in> set (workspaces d). 1 \<le> w_slot w \<and> w_slot w \<le> n)"

lemma free_slot_Some:
  "free_slot org n ws = Some slot \<Longrightarrow> 1 \<le> slot \<and> slot \<le> n \<and> (\<forall>w \<in> set ws. w_org w = org \<longrightarrow> w_slot w \<noteq> slot)"
  unfolding free_slot_def by (drule first_row_filter_Some) auto

lemma insertWorkspace_cases:
  assumes "insertWorkspace i org name k volume cls policy d = Inr (b, d')"
  obtains "\<not> b" "d' = d"
  | row where "b" "d' = d\<lparr>workspaces := workspaces d @ [row]\<rparr>" "w_org row = org" "w_name row = name"
      "1 \<le> w_slot row" "w_slot row \<le> wp_max policy" "\<forall>w \<in> set (workspaces d). \<not> workspace_conflict w row"
proof (cases "b")
  case False
  with assms have "d' = d"
    by (auto simp: insertWorkspace_def bindT_def now_Inr getsT_apply throwT_apply returnT_apply modifyT_apply
        Let_def split: if_splits option.splits)
  with False show thesis by (rule that(1))
next
  case True
  with assms obtain slot row where slot: "free_slot org (wp_max policy) (workspaces d) = Some slot"
    and row: "w_org row = org" "w_name row = name" "w_slot row = slot"
    and ok: "\<not> (\<exists>w \<in> set (workspaces d). workspace_conflict w row)"
    and d': "d' = d\<lparr>workspaces := workspaces d @ [row]\<rparr>"
    by (force simp: insertWorkspace_def bindT_def now_Inr getsT_apply throwT_apply returnT_apply modifyT_apply
        Let_def split: if_splits option.splits)
  from free_slot_Some [OF slot] show thesis using that(2) [OF True d' row(1,2)] row ok by auto
qed

text \<open>
  The workspace quota. While slots lie within a bound and identities are unique, creating
  a workspace keeps them so when the policy's maximum is within the bound, and an
  organization never has more workspaces than that bound, archived ones included.
\<close>

lemma workspace_quota:
  assumes "workspaces_ok n d" and "wp_max policy \<le> n"
    and "insertWorkspace i org name k volume cls policy d = Inr (b, d')"
  shows "workspaces_ok n d' \<and> int (count_rows (\<lambda>w. w_org w = other) (workspaces d')) \<le> max 0 n"
proof -
  have ok: "workspaces_ok n d'"
    using assms(3)
  proof (cases rule: insertWorkspace_cases)
    case 1
    with assms(1) show ?thesis by simp
  next
    case (2 row)
    then have "\<forall>w \<in> set (workspaces d). w_id w \<noteq> w_id row \<and>
        (w_org w = w_org row \<longrightarrow> w_slot w \<noteq> w_slot row \<and> w_name w \<noteq> w_name row)"
      by (auto simp: workspace_conflict_def)
    with assms(1,2) 2 show ?thesis by (auto simp: workspaces_ok_def)
  qed
  let ?mine = "filter (\<lambda>w. w_org w = other) (workspaces d')"
  have "distinct (map w_slot ?mine)"
    using ok by (auto simp: workspaces_ok_def distinct_map inj_on_def)
  then have "card (w_slot ` set ?mine) = length ?mine"
    by (metis distinct_card length_map set_map)
  moreover have "w_slot ` set ?mine \<subseteq> {1..n}" using ok by (auto simp: workspaces_ok_def)
  then have "card (w_slot ` set ?mine) \<le> card {1..n}" by (intro card_mono) simp_all
  ultimately have "int (count_rows (\<lambda>w. w_org w = other) (workspaces d')) \<le> max 0 n"
    by (simp add: count_rows_def)
  with ok show ?thesis by blast
qed

text \<open>The operations that change workspaces, as steps of the table.\<close>

inductive workspace_step :: "'p provider \<Rightarrow> db \<Rightarrow> db \<Rightarrow> bool" for pr where
  create_workspace: "insertWorkspace i org name k volume cls policy d = Inr (b, d') \<Longrightarrow> workspace_step pr d d'"
| prepare_workspace: "prepareRuntimeWorkspace cfg org sbx pr d = Inr (m, d') \<Longrightarrow> workspace_step pr d d'"
| archive_workspace: "archiveWorkspace org i d = Inr (w, d') \<Longrightarrow> workspace_step pr d d'"
| detach: "detach_workspace i sbx d = Inr (u, d') \<Longrightarrow> workspace_step pr d d'"
| attach: "workspaces d' = update_rows (\<lambda>w. w_id w = i \<and> w_org w = org \<and> w_archived_at w = None \<and> w_attached w = None)
     (\<lambda>w. w\<lparr>w_attached := Some sbx, w_attachment_attempted_at := None, w_updated_at := t\<rparr>) (workspaces d) \<Longrightarrow>
   workspace_step pr d d'"

text \<open>The volume exists once in the table and creating it was attempted.\<close>

definition volume_attempted :: "string \<Rightarrow> db \<Rightarrow> bool" where
  "volume_attempted v d \<longleftrightarrow> distinct (map w_volume (workspaces d)) \<and>
     (\<exists>w \<in> set (workspaces d). w_volume w = v \<and> w_provision_attempted_at w \<noteq> None)"

lemma upd_workspaces_Inr [tx_simps]:
  "upd_workspaces P f d = Inr (count_rows P (workspaces d), d\<lparr>workspaces := update_rows P f (workspaces d)\<rparr>)"
  by (simp add: upd_workspaces_def tx_defs)

lemma requireWorkspaceSupport_Inr:
  "requireWorkspaceSupport cfg pr d = Inr (p, d') \<longleftrightarrow>
    wp_available (workspacePolicy cfg pr) \<and> p = workspacePolicy cfg pr \<and> d' = d"
  by (auto simp: requireWorkspaceSupport_def returnT_apply throwT_apply)

lemma prepare_Inr:
  assumes "prepareRuntimeWorkspace cfg org sbx pr d = Inr (m, d')"
  obtains row where
    "first_row (filter (\<lambda>w. w_org w = org \<and> w_attached w = Some sbx \<and> w_archived_at w = None) (workspaces d)) = Some row"
    "row \<in> set (workspaces d)" "w_attached row = Some sbx" "w_org row = org"
    "\<exists>q \<in> set (workspaces d). attempt_mount (w_id row) org sbx q"
    "m = \<lparr>m_volume = w_volume row, m_storage_class = w_storage_class row, m_size = w_size row,
       m_create = (w_provision_attempted_at row = None)\<rparr>"
    "d' = d\<lparr>workspaces := update_rows (attempt_mount (w_id row) org sbx)
       (\<lambda>w. w\<lparr>w_provision_attempted_at := coalesce (w_provision_attempted_at w) (Some (clock d)),
              w_attachment_attempted_at := Some (clock d), w_updated_at := clock d\<rparr>) (workspaces d)\<rparr>"
proof -
  let ?Q = "\<lambda>w. w_org w = org \<and> w_attached w = Some sbx \<and> w_archived_at w = None"
  from assms obtain row where
    some: "(case first_row (filter ?Q (workspaces d)) of None \<Rightarrow> None
       | Some w \<Rightarrow> if w_provider w = kind pr then Some w else None) = Some row"
    and rest: "0 < count_rows (attempt_mount (w_id row) org sbx) (workspaces d)"
      "m = \<lparr>m_volume = w_volume row, m_storage_class = w_storage_class row, m_size = w_size row,
       m_create = (w_provision_attempted_at row = None)\<rparr>"
      "d' = d\<lparr>workspaces := update_rows (attempt_mount (w_id row) org sbx)
       (\<lambda>w. w\<lparr>w_provision_attempted_at := coalesce (w_provision_attempted_at w) (Some (clock d)),
              w_attachment_attempted_at := Some (clock d), w_updated_at := clock d\<rparr>) (workspaces d)\<rparr>"
    unfolding prepareRuntimeWorkspace_def bindT_Inr_iff getsT_apply returnT_apply someT_Inr_iff requireT_Inr_iff
      requireWorkspaceSupport_Inr upd_workspaces_Inr now_Inr
    by auto
  from some have row: "first_row (filter ?Q (workspaces d)) = Some row"
    by (simp split: option.splits if_splits)
  from first_row_filter_Some [OF row] rest show thesis
    by (intro that [of row, OF row]) (auto simp: count_rows_pos)
qed

lemma volume_attempted_update:
  assumes "volume_attempted v d"
    and "\<And>w. P w \<Longrightarrow> w_volume (f w) = w_volume w \<and>
      (w_provision_attempted_at w \<noteq> None \<longrightarrow> w_provision_attempted_at (f w) \<noteq> None)"
    and "workspaces d' = update_rows P f (workspaces d)"
  shows "volume_attempted v d'"
proof -
  from assms(1) obtain w where w: "w \<in> set (workspaces d)" "w_volume w = v" "w_provision_attempted_at w \<noteq> None"
    by (auto simp: volume_attempted_def)
  have "map w_volume (workspaces d') = map w_volume (workspaces d)"
    unfolding assms(3) by (rule map_update_rows) (use assms(2) in blast)
  moreover have "(if P w then f w else w) \<in> set (workspaces d')"
    unfolding assms(3) using w(1) by (auto simp: in_update_rows)
  ultimately show ?thesis using assms(1,2) w by (auto simp: volume_attempted_def split: if_splits)
qed

lemma volume_attempted_upd:
  assumes "volume_attempted v d"
    and "\<And>w. P w \<Longrightarrow> w_volume (f w) = w_volume w \<and>
      (w_provision_attempted_at w \<noteq> None \<longrightarrow> w_provision_attempted_at (f w) \<noteq> None)"
  shows "volume_attempted v (d\<lparr>workspaces := update_rows P f (workspaces d)\<rparr>)"
  by (rule volume_attempted_update [OF assms]) simp_all

lemma volume_attempted_step:
  assumes "workspace_step pr d d'" and "volume_attempted v d"
  shows "volume_attempted v d'"
  using assms(1)
proof cases
  case (create_workspace i org name k volume cls policy b)
  then show ?thesis
    by (cases rule: insertWorkspace_cases)
      (use assms(2) in \<open>auto simp: volume_attempted_def workspace_conflict_def\<close>)
next
  case (prepare_workspace cfg org sbx m)
  then show ?thesis
    by (rule prepare_Inr) (rule volume_attempted_update [OF assms(2)], auto simp: coalesce_def split: option.splits)
next
  case (archive_workspace org i w)
  then show ?thesis
    by (auto simp: archiveWorkspace_def getWorkspaceRow_def bindT_Inr_iff getsT_apply someT_Inr_iff
        requireT_Inr_iff upd_workspaces_Inr now_Inr intro!: volume_attempted_upd [OF assms(2)])
next
  case (detach i sbx u)
  then show ?thesis
    by (auto simp: detach_workspace_def bindT_Inr_iff returnT_apply upd_workspaces_Inr now_Inr
        intro!: volume_attempted_upd [OF assms(2)])
next
  case (attach i org sbx t)
  then show ?thesis by (rule volume_attempted_update [OF assms(2), rotated]) simp
qed


section \<open>Witnesses\<close>

definition volume_db :: db where
  "volume_db = empty_db\<lparr>orgs := [new_org ''acme'' 2], sandboxes := [new_sandbox ''s1'' ''acme'' None SPending],
     workspaces := [\<lparr>w_id = ''wsp_1'', w_org = ''acme'', w_name = ''data'', w_provider = ''dev'', w_volume = ''vol1'',
       w_storage_class = None, w_size = 10, w_slot = 1, w_attached = Some ''s1'', w_provision_attempted_at = None,
       w_attachment_attempted_at = None, w_archived_at = None, w_created_at = 0, w_updated_at = 0\<rparr>]\<rparr>"

definition workspace_cfg :: workspace_config where
  "workspace_cfg = \<lparr>workspaceSizeGiB = 10, workspaceMaxPerOrganization = 3, workspaceStorageClass = None,
     persistentWorkspacesEnabled = True, openSandboxAllowFallback = False\<rparr>"


end
