(* ===== verification/Routes.thy ===== *)
theory Routes
  imports Provider
begin

text \<open>
  Addresses of exposed ports (\<open>providers/runtime/route-targets.ts\<close>): the DNS-safe route key of
  a sandbox and port, the public host under the operator's base domain, and the URL. The
  platform's URL parser is the field \<open>urlHost\<close> of the configuration: the host of a URL, or
  none where \<open>new URL\<close> throws.
\<close>

section \<open>The code\<close>

record route_config =
  sandboxRouteBaseDomain :: string
  sandboxRoutePublicScheme :: string
  publicApiUrl :: string
  urlHost :: "string \<Rightarrow> string option"

definition dns_char :: "char \<Rightarrow> bool" where
  "dns_char c \<longleftrightarrow> is_lower c \<or> is_digit c \<or> c = CHR ''-''"

text \<open>\<open>.replace(/[^a-z0-9-]+/g, "-")\<close>: each maximal run of other characters becomes one dash.\<close>

fun dash_runs :: "bool \<Rightarrow> string \<Rightarrow> string" where
  "dash_runs inside [] = []"
| "dash_runs inside (c # s) =
     (if dns_char c then c # dash_runs False s
      else if inside then dash_runs True s else CHR ''-'' # dash_runs True s)"

text \<open>Both ends stripped of characters satisfying \<open>P\<close>.\<close>

definition strip_ends :: "(char \<Rightarrow> bool) \<Rightarrow> string \<Rightarrow> string" where
  "strip_ends P s = rev (dropWhile P (rev (dropWhile P s)))"

definition dnsSafeRouteSegment :: "string \<Rightarrow> string" where
  "dnsSafeRouteSegment value =
    (let safe = take 58 (strip_ends (\<lambda>c. c = CHR ''-'') (dash_runs False (to_lower value)))
     in if safe = [] then ''sandbox'' else safe)"

definition routeKeyFor :: "string \<Rightarrow> int \<Rightarrow> string" where
  "routeKeyFor sandboxId port = dnsSafeRouteSegment sandboxId @ ''-'' @ show_int port"

definition routeBaseDomain :: "string \<Rightarrow> string" where
  "routeBaseDomain baseDomain =
    (let normalized = strip_ends (\<lambda>c. c = CHR ''.'') (trim baseDomain)
     in if normalized = [] then ''sandbox.localhost'' else normalized)"

text \<open>\<open>.replace(/:\/+$/, "")\<close>: a colon and the slashes that end the text.\<close>

definition drop_colon_slashes :: "string \<Rightarrow> string" where
  "drop_colon_slashes s =
    (let rest = dropWhile (\<lambda>c. c = CHR ''/'') (rev s) in
     if rest \<noteq> rev s \<and> rest \<noteq> [] \<and> hd rest = CHR '':'' then rev (tl rest) else s)"

definition routeScheme :: "string \<Rightarrow> string" where
  "routeScheme scheme = (if drop_colon_slashes (trim scheme) = ''http'' then ''http'' else ''https'')"

definition is_url :: "string \<Rightarrow> bool" where
  "is_url s \<longleftrightarrow> starts_with ''http://'' s \<or> starts_with ''https://'' s"

definition routeUrl :: "string \<Rightarrow> string \<Rightarrow> string" where
  "routeUrl hostOrUrl scheme = (if is_url hostOrUrl then hostOrUrl else routeScheme scheme @ ''://'' @ hostOrUrl)"

definition strip_scheme :: "string \<Rightarrow> string" where
  "strip_scheme s = (if starts_with ''http://'' s then drop 7 s else if starts_with ''https://'' s then drop 8 s else s)"

definition routeHost :: "route_config \<Rightarrow> string \<Rightarrow> string" where
  "routeHost cfg hostOrUrl =
    (case urlHost cfg (routeUrl hostOrUrl (sandboxRoutePublicScheme cfg)) of
       Some h \<Rightarrow> h
     | None \<Rightarrow> hd (split_on (CHR ''/'') (strip_scheme hostOrUrl)))"

definition configuredRouteHost :: "route_config \<Rightarrow> string \<Rightarrow> int \<Rightarrow> string" where
  "configuredRouteHost cfg sandboxId port =
     routeKeyFor sandboxId port @ ''.'' @ routeBaseDomain (sandboxRouteBaseDomain cfg)"

definition configuredRouteTarget ::
    "route_config \<Rightarrow> string \<Rightarrow> int \<Rightarrow> string \<Rightarrow> string option \<Rightarrow> route_state option \<Rightarrow> route_target" where
  "configuredRouteTarget cfg sandboxId port provider_kind routeId state =
    (let routeKey = routeKeyFor sandboxId port;
         host = routeKey @ ''.'' @ routeBaseDomain (sandboxRouteBaseDomain cfg);
         url = routeUrl host (sandboxRoutePublicScheme cfg)
     in \<lparr>k_key = routeKey, k_host = host, k_url = url, k_target_url = url, k_provider = provider_kind,
         k_provider_route = routeId, k_state = (case state of None \<Rightarrow> RReady | Some st \<Rightarrow> st)\<rparr>)"

text \<open>\<open>encodeURIComponent\<close> of text in Latin-1: the UTF-8 bytes of every other character.\<close>

definition hex_digit :: "nat \<Rightarrow> char" where
  "hex_digit n = ''0123456789ABCDEF'' ! n"

definition utf8 :: "nat \<Rightarrow> nat list" where
  "utf8 n = (if n < 128 then [n] else [192 + n div 64, 128 + n mod 64])"

definition uri_unreserved :: "char \<Rightarrow> bool" where
  "uri_unreserved c \<longleftrightarrow> is_lower c \<or> is_upper c \<or> is_digit c \<or> c \<in> set ''-_.!~*()'' \<or> c = CHR 0x27"

definition encodeURIComponent :: "string \<Rightarrow> string" where
  "encodeURIComponent s = concat (map (\<lambda>c. if uri_unreserved c then [c]
     else concat (map (\<lambda>b. [CHR ''%'', hex_digit (b div 16), hex_digit (b mod 16)]) (utf8 (of_char c)))) s)"

definition strip_slashes :: "string \<Rightarrow> string" where
  "strip_slashes s = rev (dropWhile (\<lambda>c. c = CHR ''/'') (rev s))"

definition routeProxyUrl :: "route_config \<Rightarrow> string \<Rightarrow> string" where
  "routeProxyUrl cfg routeKey =
     strip_slashes (publicApiUrl cfg) @ ''/v1/route-proxy/'' @ encodeURIComponent routeKey @ ''/''"

section \<open>Shape of a route key\<close>

lemma dash_runs_chars: "c \<in> set (dash_runs b s) \<Longrightarrow> dns_char c"
  by (induction b s rule: dash_runs.induct) (auto simp: dns_char_def split: if_splits)

lemma set_strip_ends: "c \<in> set (strip_ends P s) \<Longrightarrow> c \<in> set s"
  by (auto simp: strip_ends_def dest!: set_dropWhileD)

lemma hd_strip_ends:
  assumes "strip_ends P s \<noteq> []"
  shows "\<not> P (hd (strip_ends P s))"
proof -
  let ?d = "dropWhile P s"
  have "rev ?d = takeWhile P (rev ?d) @ rev (strip_ends P s)" by (simp add: strip_ends_def)
  then have d: "?d = strip_ends P s @ rev (takeWhile P (rev ?d))" by (metis rev_append rev_rev_ident)
  with assms have "?d \<noteq> []" by (metis append_is_Nil_conv)
  then have "\<not> P (hd ?d)" by (rule hd_dropWhile)
  with d assms show ?thesis by (metis hd_append2)
qed

lemma segment_chars: "\<forall>c \<in> set (dnsSafeRouteSegment v). dns_char c"
proof -
  have "\<forall>c \<in> set ''sandbox''. dns_char c" by code_simp
  moreover have "\<forall>c \<in> set (take n (strip_ends P (dash_runs False s))). dns_char c" for n P s
    using set_strip_ends dash_runs_chars by (meson in_set_takeD)
  ultimately show ?thesis unfolding dnsSafeRouteSegment_def Let_def by presburger
qed

lemma segment_length: "0 < length (dnsSafeRouteSegment v) \<and> length (dnsSafeRouteSegment v) \<le> 58"
  by (auto simp: dnsSafeRouteSegment_def Let_def)

lemma segment_hd: "hd (dnsSafeRouteSegment v) \<noteq> CHR ''-''"
  using hd_strip_ends [of "\<lambda>c. c = CHR ''-''"] by (auto simp: dnsSafeRouteSegment_def Let_def hd_take)

lemma nat_str_digits: "\<forall>c \<in> set (nat_str n). is_digit c"
proof (induction n rule: nat_str.induct)
  case (1 n)
  have digit: "is_digit (char_of (48 + k))" if "k < 10" for k :: nat
    using that by (simp add: is_digit_def Let_def char_of_char_nat)
  show ?case using 1 digit by (subst nat_str.simps) auto
qed

lemma nat_str_nonempty [simp]: "nat_str n \<noteq> []"
  by (subst nat_str.simps) simp

lemma digit_char_eq:
  assumes "i < 10" "j < 10"
  shows "(char_of (48 + i) :: char) = char_of (48 + j) \<longleftrightarrow> i = (j :: nat)"
proof -
  have "of_char (char_of (48 + i) :: char) = 48 + i" "of_char (char_of (48 + j) :: char) = 48 + j"
    using assms by (simp_all add: char_of_char_nat)
  then show ?thesis by (metis add_left_cancel)
qed

lemma nat_str_inj: "nat_str n = nat_str m \<longleftrightarrow> n = m"
proof (induction n arbitrary: m rule: nat_str.induct)
  case (1 n)
  show ?case
  proof (cases "n < 10 \<or> m < 10")
    case True
    then show ?thesis
      by (subst (1 2) nat_str.simps) (auto simp: digit_char_eq dest: arg_cong [where f = length])
  next
    case False
    then have "nat_str n = nat_str (n div 10) @ [char_of (48 + n mod 10)]"
      "nat_str m = nat_str (m div 10) @ [char_of (48 + m mod 10)]" by (simp_all add: nat_str.simps)
    then have "nat_str n = nat_str m \<longleftrightarrow> n div 10 = m div 10 \<and> n mod 10 = m mod 10"
      using 1 [of "m div 10"] False by (simp add: digit_char_eq)
    then show ?thesis by (metis div_mult_mod_eq)
  qed
qed

lemma split_at_dash:
  assumes "a @ CHR ''-'' # x = b @ CHR ''-'' # y" and "CHR ''-'' \<notin> set x" "CHR ''-'' \<notin> set y"
  shows "a = b \<and> x = y"
proof -
  have "rev x @ CHR ''-'' # rev a = rev y @ CHR ''-'' # rev b"
    using arg_cong [OF assms(1), of rev] by simp
  moreover have "takeWhile (\<lambda>c. c \<noteq> CHR ''-'') (rev z @ CHR ''-'' # r) = rev z" if "CHR ''-'' \<notin> set z" for z r
    using that by (induction "rev z" arbitrary: z) (auto simp: takeWhile_append)
  ultimately have "rev x = rev y" using assms(2,3) by metis
  with assms(1) show ?thesis by simp
qed

text \<open>
  Route keys. The key of a sandbox's port is made of lower-case letters, digits and dashes
  only, does not start with a dash and is at most 64 characters long; two routes have the
  same key only if they have the same port and their sandbox identities have the same safe
  segment.
\<close>

lemma route_key_safe:
  assumes "1 \<le> port" "port \<le> 65535" and "1 \<le> port2"
  shows "(\<forall>c \<in> set (routeKeyFor sbx port). dns_char c) \<and> hd (routeKeyFor sbx port) \<noteq> CHR ''-'' \<and>
    length (routeKeyFor sbx port) \<le> 64 \<and>
    (routeKeyFor sbx port = routeKeyFor sbx2 port2 \<longrightarrow>
       port = port2 \<and> dnsSafeRouteSegment sbx = dnsSafeRouteSegment sbx2)"
proof -
  have no_dash: "CHR ''-'' \<notin> set (nat_str n)" for n
    using nat_str_digits [of n] by (auto simp: is_digit_def Let_def)
  have show_port: "show_int port = nat_str (nat port)" "show_int port2 = nat_str (nat port2)"
    using assms by (simp_all add: show_int_def)
  have "length (nat_str n) \<le> 5" if "n \<le> 65535" for n
    using that by (simp add: nat_str.simps)
  with assms have len: "length (nat_str (nat port)) \<le> 5" by simp
  have same: "port = port2 \<and> dnsSafeRouteSegment sbx = dnsSafeRouteSegment sbx2"
    if "routeKeyFor sbx port = routeKeyFor sbx2 port2"
    using split_at_dash [of "dnsSafeRouteSegment sbx" "nat_str (nat port)" "dnsSafeRouteSegment sbx2" "nat_str (nat port2)"]
      that assms no_dash
    unfolding routeKeyFor_def show_port by (simp add: nat_str_inj eq_nat_nat_iff)
  have "\<forall>c \<in> set (routeKeyFor sbx port). dns_char c"
    using segment_chars [of sbx] nat_str_digits [of "nat port"]
    by (auto simp: routeKeyFor_def show_port dns_char_def)
  moreover have "hd (routeKeyFor sbx port) \<noteq> CHR ''-''"
    using segment_hd [of sbx] segment_length [of sbx] by (auto simp: routeKeyFor_def)
  moreover have "length (routeKeyFor sbx port) \<le> 64"
    using len segment_length [of sbx] by (simp add: routeKeyFor_def show_port)
  ultimately show ?thesis using same by blast
qed

end
