(* ===== verification/Worker.thy ===== *)
theory Worker
  imports Provision Workspaces Routes
begin

text \<open>
  The operation worker (\<open>services/sandbox-operation-worker.ts\<close>): one pass over the queue that
  first decides what to do with provision operations whose worker died, then requeues or fails
  the other expired leases, and then claims and executes up to a limit of operations. The
  decryption of stored secrets and \<open>JSON.parse\<close> are the parameters \<open>decrypt\<close> and \<open>parse\<close>.
\<close>

section \<open>Reading a request\<close>

definition replayableSandboxOperationKinds :: "operation_kind list" where
  "replayableSandboxOperationKinds = [KProvision, KDelete, KRenew, KRouteExpose]"

definition staleLeaseCleanupOperationKinds :: "operation_kind list" where
  "staleLeaseCleanupOperationKinds = [KDelete, KRenew, KRouteExpose]"

definition stringValue :: "js \<Rightarrow> string option" where
  "stringValue v = (case v of JStr s \<Rightarrow> if trim s = [] then None else Some s | _ \<Rightarrow> None)"

definition numberValue :: "js \<Rightarrow> int option" where
  "numberValue v = (case v of JNum n \<Rightarrow> Some n | _ \<Rightarrow> None)"

definition protocolValue :: "js \<Rightarrow> string" where
  "protocolValue v = (if v = JStr ''https'' then ''https'' else ''http'')"

definition routeAccessModeValue :: "js \<Rightarrow> route_access" where
  "routeAccessModeValue v = (if v = JStr ''token'' then AccessToken else AccessPublic)"

definition stringArrayValue :: "js \<Rightarrow> string list" where
  "stringArrayValue v = (case v of JArr vs \<Rightarrow> List.map_filter as_string vs | _ \<Rightarrow> [])"

definition sandboxIdForOperation :: "operation \<Rightarrow> string option" where
  "sandboxIdForOperation op =
    (case o_sandbox op of Some s \<Rightarrow> Some s | None \<Rightarrow> stringValue (field (o_request op) ''sandboxId''))"

text \<open>The sandbox of an operation or the error; the empty string is falsy too.\<close>

definition sandbox_of :: "operation \<Rightarrow> string \<Rightarrow> ('p, string) proc" where
  "sandbox_of op msg =
    (if truthy (sandboxIdForOperation op) then retP (the (sandboxIdForOperation op)) else throwP (NonRetryable msg))"

section \<open>Provisioning\<close>

record provision_row =
  q_sandbox :: sandbox_row
  q_template :: template_row
  q_version :: "version_row option"

text \<open>The join of the sandbox with its template and, when it has one, its template version.\<close>

definition provision_rows :: "string \<Rightarrow> string \<Rightarrow> db \<Rightarrow> provision_row list" where
  "provision_rows sbx org d =
     [\<lparr>q_sandbox = s, q_template = t,
       q_version = first_row (filter (\<lambda>v. s_template_version s = Some (tv_id v)) (template_versions d))\<rparr>.
      s \<leftarrow> filter (\<lambda>s. s_id s = sbx \<and> s_org s = org) (sandboxes d),
      t \<leftarrow> filter (\<lambda>t. tp_id t = s_template s) (templates d)]"

definition or_value :: "'a option \<Rightarrow> 'a \<Rightarrow> 'a" where
  "or_value x v = (case x of None \<Rightarrow> v | Some a \<Rightarrow> a)"

definition version_field :: "(version_row \<Rightarrow> 'a option) \<Rightarrow> provision_row \<Rightarrow> 'a option" where
  "version_field f row = Option.bind (q_version row) f"

definition runtimeTemplateFromProvisionRow :: "provision_row \<Rightarrow> runtime_template" where
  "runtimeTemplateFromProvisionRow row =
    (let t = q_template row;
         cpu = or_value (version_field tv_cpu row) (tp_cpu t);
         memory = or_value (version_field tv_memory row) (tp_memory t);
         workdir = or_value (version_field tv_workdir row) (tp_workdir t)
     in \<lparr>rt_id = tp_id t, rt_name = tp_name t, rt_description = tp_description t,
         rt_image = or_value (version_field tv_image row) (tp_image t),
         rt_digest = coalesce (version_field tv_digest row) (tp_digest t),
         rt_icon = tp_icon t, rt_tags = tp_tags t, rt_aliases = tp_aliases t, rt_boot_ms = tp_boot_ms t,
         rt_visibility = tp_visibility t,
         rt_owner = (if tp_org t = None then OwnPlatform else OwnTeam),
         rt_entrypoint = or_value (version_field tv_entrypoint row) (tp_entrypoint t),
         rt_cpu = (if cpu = 0 then 1 else cpu), rt_memory = (if memory = 0 then 1024 else memory),
         rt_workdir = (if workdir = [] then ''/'' else workdir),
         rt_ports = or_value (version_field tv_ports row) (tp_ports t),
         rt_family = (if tp_family t = [] then ''linux'' else tp_family t),
         rt_version = s_template_version (q_sandbox row)\<rparr>)"

definition string_entries :: "obj \<Rightarrow> (string \<times> string) list" where
  "string_entries m = List.map_filter (\<lambda>(k, v). map_option (Pair k) (as_string v)) m"

definition readProvisionEnv ::
    "(secret_box \<Rightarrow> string) \<Rightarrow> (string \<Rightarrow> js option) \<Rightarrow> operation \<Rightarrow> ('p, (string \<times> string) list) proc" where
  "readProvisionEnv decrypt parse op =
    (if stringArrayValue (field (o_request op) ''envKeys'') = [] then retP []
     else if field (o_request op) ''envReplayable'' \<noteq> JBool True then
       throwP (NonRetryable ''provision operation env is not replayable because no control-plane secret key was configured'')
     else
       bindP (atomic (readSandboxOperationSecret decrypt (o_id op) ''provision_env'')) (\<lambda>stored.
       if \<not> truthy stored then throwP (NonRetryable ''provision operation env secret is missing'')
       else case parse (the stored) of
         Some (JObj entries) \<Rightarrow> retP (string_entries entries)
       | _ \<Rightarrow> throwP (NonRetryable ''provision operation env secret is malformed'')))"

definition provision_ready :: "obj \<Rightarrow> bool" where
  "provision_ready req \<longleftrightarrow> capacity_protocol req \<and> field req ''dispatchReady'' = JBool True \<and>
     field req ''nonReplayable'' \<noteq> JBool True"

definition provision_input ::
    "workspace_config \<Rightarrow> operation \<Rightarrow> string \<Rightarrow> provision_row \<Rightarrow> (string \<times> string) list \<Rightarrow> 'p provider \<Rightarrow>
     ('p, create_input) proc" where
  "provision_input cfg op sbx row env pr =
     bindP (if truthy (s_workspace (q_sandbox row))
            then bindP (atomic (prepareRuntimeWorkspace cfg (o_org op) sbx pr)) (\<lambda>m. retP (Some m))
            else retP None) (\<lambda>mount.
     retP \<lparr>i_workspace = mount, i_template = runtimeTemplateFromProvisionRow row,
       i_ttl = s_ttl_seconds (q_sandbox row), i_name = s_name (q_sandbox row), i_organization = o_org op,
       i_snapshot = as_string (field (o_request op) ''providerSnapshotId''),
       i_metadata = [(''harakiri.id'', sbx), (''harakiri.sandbox'', sbx), (''harakiri.org'', o_org op),
                     (''harakiri.organization'', o_org op)],
       i_env = env, i_egress = s_egress (q_sandbox row)\<rparr>)"

definition provision_result :: "obj \<Rightarrow> runtime_created \<Rightarrow> obj" where
  "provision_result req made =
     [(''runtimeRegistryCredentialId'', str_or_null (t_registry_credential made)),
      (''runtimeImageAuthProvided'', JBool (t_image_auth made))] @
     (case field req ''providerSnapshotId'' of
        JStr s \<Rightarrow> if s = [] then [] else [(''providerSnapshotId'', JStr s)]
      | Undefined \<Rightarrow> [] | JNull \<Rightarrow> []
      | JBool b \<Rightarrow> if b then [(''providerSnapshotId'', JBool b)] else []
      | JNum n \<Rightarrow> if n = 0 then [] else [(''providerSnapshotId'', JNum n)]
      | v \<Rightarrow> [(''providerSnapshotId'', v)])"

definition executeProvisionOperation ::
    "workspace_config \<Rightarrow> (secret_box \<Rightarrow> string) \<Rightarrow> (string \<Rightarrow> js option) \<Rightarrow> operation \<Rightarrow> 'p provider \<Rightarrow>
     ('p, bool) proc" where
  "executeProvisionOperation cfg decrypt parse op pr =
     bindP (sandbox_of op ''provision operation is missing sandbox id'') (\<lambda>sbx.
     bindP (atomic (getsT (\<lambda>d. first_row (provision_rows sbx (o_org op) d)))) (\<lambda>found.
     case found of
       None \<Rightarrow> throwP (NonRetryable ''sandbox not found for provision operation'')
     | Some row \<Rightarrow>
         bindP (requireP (provision_ready (o_request op))
           (NonRetryable ''Provision input is not ready for safe worker replay'')) (\<lambda>_.
         bindP (requireP (\<not> truthy (s_runtime_id (q_sandbox row)))
           (NonRetryable ''Existing runtime identity requires fenced capacity reconciliation'')) (\<lambda>_.
         bindP (requireP (s_status (q_sandbox row) \<noteq> STerminated)
           (NonRetryable ''sandbox terminated before provision'')) (\<lambda>_.
         bindP (readProvisionEnv decrypt parse op) (\<lambda>env.
         bindP (provisionSandboxRuntime op (provision_input cfg op sbx row env pr) pr) (\<lambda>(eff, made).
         bindP (atomic (completeSandboxProvision op eff made (kind pr) (provision_result (o_request op) made))) (\<lambda>_.
         bindP (atomic (add_event (o_org op) sbx ''created'')) (\<lambda>_.
         retP True)))))))))"

text \<open>A provision operation whose worker died: replay it only if no create was ever dispatched.\<close>

datatype stale_verdict = Reconciled | StaleFailed

definition reconcileStaleProvisionOperation :: "operation \<Rightarrow> stale_verdict dbtx" where
  "reconcileStaleProvisionOperation op =
    (if \<not> truthy (sandboxIdForOperation op) then returnT StaleFailed
     else
       let sbx = the (sandboxIdForOperation op) in
       bindT (lockEffectSandbox (o_org op) sbx) (\<lambda>sandbox.
       bindT (sel_effects (unsettled_on sbx)) (\<lambda>active.
       if active \<noteq> [] then returnT Reconciled
       else
         bindT (sel_effects (\<lambda>e. e_sandbox e = sbx \<and> e_kind e = EProvision \<and> e_dispatched_at e \<noteq> None)) (\<lambda>dispatched.
         if capacity_protocol (o_request op) \<and> field (o_request op) ''nonReplayable'' \<noteq> JBool True \<and>
            \<not> truthy (s_runtime_id sandbox) \<and> dispatched = []
         then
           bindT (requeueSandboxOperation (o_id op)
             ''Worker stopped before runtime dispatch; preparation is replayable.'' [] (Some (o_attempts op))) (\<lambda>_.
           returnT Reconciled)
         else
           bindT (failSandboxOperation (o_id op)
             ''Runtime outcome needs capacity inventory reconciliation; no create was replayed.'' []
             (Some (o_attempts op))) (\<lambda>_.
           returnT StaleFailed)))))"

section \<open>Deleting and renewing\<close>

definition deletionOperation :: "operation \<Rightarrow> string \<Rightarrow> effect dbtx" where
  "deletionOperation op sbx =
     bindT (lockEffectSandbox (o_org op) sbx) (\<lambda>sandbox.
     bindT (requireT (truthy (s_runtime_id sandbox))
       (NonRetryable ''Delete requires reconciliation of the pending runtime identity'')) (\<lambda>_.
     bindT (beginRuntimeEffect (o_org op) sbx EDelete (Some op) []) (\<lambda>eff.
     bindT now (\<lambda>t.
     bindT (upd_holds (\<lambda>h. h_sandbox h = sbx \<and> h_generation h = e_generation eff \<and> h_released_at h = None)
       (\<lambda>h. h\<lparr>h_phase := Releasing, h_updated_at := t\<rparr>)) (\<lambda>_.
     returnT eff)))))"

definition executeDeleteOperation :: "operation \<Rightarrow> 'p provider \<Rightarrow> ('p, bool) proc" where
  "executeDeleteOperation op pr =
     bindP (sandbox_of op ''delete operation is missing sandbox id'') (\<lambda>sbx.
     bindP (atomic (deletionOperation op sbx)) (\<lambda>eff.
     bindP (executeRuntimeDeletion eff pr) (\<lambda>confirmed.
     bindP (atomic (add_event (o_org op) sbx ''termination.requested'')) (\<lambda>_.
     retP confirmed))))"

definition executeRenewOperation :: "operation \<Rightarrow> 'p provider \<Rightarrow> ('p, bool) proc" where
  "executeRenewOperation op pr =
     bindP (sandbox_of op ''renew operation is missing sandbox id'') (\<lambda>sbx.
     bindP (renewSandboxLease (o_org op) sbx (Some op) pr) (\<lambda>_.
     bindP (atomic (add_event (o_org op) sbx ''renewed'')) (\<lambda>_.
     retP True)))"

section \<open>Exposing a route\<close>

text \<open>
  INSERT INTO \<open>sandbox_routes\<close> ... ON CONFLICT (\<open>sandbox_id\<close>, port) DO NOTHING: conflicts on
  the other two unique indexes (the host of a public route, the route key) are errors.
\<close>

definition insert_route :: "route_row \<Rightarrow> unit dbtx" where
  "insert_route row =
     bindT (getsT (\<lambda>d. filter (\<lambda>r. r_state r \<noteq> RTerminated) (routes d))) (\<lambda>open_routes.
     if \<exists>r \<in> set open_routes. r_sandbox r = r_sandbox row \<and> r_port r = r_port row then returnT ()
     else if r_state row \<noteq> RTerminated \<and>
       (\<exists>r \<in> set open_routes. (r_key r \<noteq> None \<and> r_key r = r_key row) \<or>
          (r_access r = AccessPublic \<and> r_access row = AccessPublic \<and> r_host r = r_host row))
     then throwT (DbError ''duplicate key value violates unique constraint'')
     else modifyT (\<lambda>d. d\<lparr>routes := routes d @ [row]\<rparr>))"

definition state_text :: "route_state \<Rightarrow> string" where
  "state_text s = (case s of RProvisioning \<Rightarrow> ''provisioning'' | RReady \<Rightarrow> ''ready''
     | RUnhealthy \<Rightarrow> ''unhealthy'' | RTerminated \<Rightarrow> ''terminated'')"

text \<open>A row of the route SELECT as the JSON the operation's result keeps.\<close>

definition route_json :: "route_row \<Rightarrow> obj" where
  "route_json r = [(''port'', JNum (r_port r)), (''protocol'', JStr (r_protocol r)),
     (''routeKey'', str_or_null (r_key r)), (''host'', JStr (r_host r)),
     (''url'', JStr (case r_url r of None \<Rightarrow> r_target_url r | Some u \<Rightarrow> u)), (''targetUrl'', JStr (r_target_url r)),
     (''state'', JStr (state_text (r_state r))), (''provider'', JStr (r_provider r)),
     (''providerRouteId'', str_or_null (r_provider_route r)), (''createdAt'', JNum (r_created_at r)),
     (''lastCheckedAt'', num_or_null (r_last_checked_at r)), (''terminatedAt'', num_or_null (r_terminated_at r))]"

definition exposed_route ::
    "route_config \<Rightarrow> operation \<Rightarrow> string \<Rightarrow> int \<Rightarrow> route_target \<Rightarrow> time \<Rightarrow> route_row" where
  "exposed_route cfg op sbx port target t =
    (let req = o_request op; access = routeAccessModeValue (field req ''accessMode'');
         publicUrl = (if access = AccessToken then routeProxyUrl cfg (k_key target) else k_url target);
         publicHost = (if access = AccessToken then routeHost cfg publicUrl else k_host target)
     in \<lparr>r_sandbox = sbx, r_org = o_org op, r_port = port, r_protocol = protocolValue (field req ''protocol''),
         r_key = Some (k_key target), r_host = publicHost, r_url = Some publicUrl,
         r_target_url = k_target_url target, r_state = k_state target, r_provider = k_provider target,
         r_provider_route = k_provider_route target, r_access = access,
         r_token_hash = stringValue (field req ''accessTokenHash''),
         r_token_hint = stringValue (field req ''accessTokenHint''),
         r_header = (if access = AccessToken
           then Some (or_value (stringValue (field req ''accessHeaderName'')) ''x-harakiri-route-token'') else None),
         r_created_by_user = stringValue (field req ''createdByUserId''),
         r_created_by_label = stringValue (field req ''createdByLabel''),
         r_labels = stringArrayValue (field req ''labels''), r_created_at = t, r_last_checked_at = Some t,
         r_terminated_at = None, r_updated_at = t\<rparr>)"

definition access_text :: "route_access \<Rightarrow> string" where
  "access_text a = (case a of AccessPublic \<Rightarrow> ''public'' | AccessToken \<Rightarrow> ''token'')"

definition route_result :: "route_row \<Rightarrow> obj" where
  "route_result r = [(''routeKey'', str_or_null (r_key r)), (''host'', JStr (r_host r)), (''url'', str_or_null (r_url r)),
     (''accessMode'', JStr (access_text (r_access r))), (''provider'', JStr (r_provider r)),
     (''providerRouteId'', str_or_null (r_provider_route r))]"

definition executeRouteExposeOperation :: "route_config \<Rightarrow> operation \<Rightarrow> 'p provider \<Rightarrow> ('p, bool) proc" where
  "executeRouteExposeOperation cfg op pr =
     bindP (sandbox_of op ''route operation is missing sandbox id'') (\<lambda>sbx.
     case numberValue (field (o_request op) ''port'') of
       None \<Rightarrow> throwP (NonRetryable ''route operation is missing port'')
     | Some port \<Rightarrow>
         bindP (requireP (port \<noteq> 0) (NonRetryable ''route operation is missing port'')) (\<lambda>_.
         bindP (requireP (\<not> (routeAccessModeValue (field (o_request op) ''accessMode'') = AccessToken \<and>
             stringValue (field (o_request op) ''accessTokenHash'') = None))
           (NonRetryable ''token route operation is missing access token hash'')) (\<lambda>_.
         bindP (atomic (sel_sandboxes (\<lambda>s. s_id s = sbx \<and> s_org s = o_org op))) (\<lambda>result.
         case first_row result of
           None \<Rightarrow> throwP (NonRetryable ''sandbox not found for route operation'')
         | Some sandbox \<Rightarrow>
             bindP (requireP (s_status sandbox \<noteq> STerminated)
               (NonRetryable ''sandbox terminated before route exposure'')) (\<lambda>_.
             bindP (atomic (getsT (\<lambda>d. filter (\<lambda>r. r_sandbox r = sbx \<and> r_org r = o_org op \<and> r_port r = port \<and>
               r_state r \<noteq> RTerminated) (routes d)))) (\<lambda>existing.
             case first_row existing of
               Some r \<Rightarrow>
                 bindP (atomic (completeSandboxOperation (o_id op) (route_json r) None False)) (\<lambda>_. retP True)
             | None \<Rightarrow>
                 let providerSandboxId = coalesce (stringValue (field (o_request op) ''providerSandboxId''))
                       (s_runtime_id sandbox) in
                 bindP (if truthy providerSandboxId
                        then callP (exposeRoute pr (the providerSandboxId) port
                               (protocolValue (field (o_request op) ''protocol'')))
                        else retP (configuredRouteTarget cfg sbx port ''fallback-local'' None None)) (\<lambda>target.
                 bindP (atomic (bindT now (\<lambda>t.
                   bindT (insert_route (exposed_route cfg op sbx port target t)) (\<lambda>_.
                   returnT (exposed_route cfg op sbx port target t))))) (\<lambda>row.
                 bindP (atomic (completeSandboxOperation (o_id op) (route_result row) None False)) (\<lambda>_.
                 bindP (atomic (add_event (o_org op) sbx ''route.created'')) (\<lambda>_.
                 retP True))))))))))"

section \<open>One pass over the queue\<close>

record worker_config =
  routeConfig :: route_config
  workspaceConfig :: workspace_config
  decryptSecret :: "secret_box \<Rightarrow> string"
  parseJson :: "string \<Rightarrow> js option"
  sandboxOperationWorkerLimit :: int
  sandboxOperationMaxAttempts :: int
  sandboxOperationLeaseMs :: int

definition executeSandboxOperation :: "worker_config \<Rightarrow> operation \<Rightarrow> 'p provider \<Rightarrow> ('p, bool) proc" where
  "executeSandboxOperation cfg op pr =
    (case o_kind op of
       KProvision \<Rightarrow> executeProvisionOperation (workspaceConfig cfg) (decryptSecret cfg) (parseJson cfg) op pr
     | KDelete \<Rightarrow> executeDeleteOperation op pr
     | KRenew \<Rightarrow> executeRenewOperation op pr
     | KRouteExpose \<Rightarrow> executeRouteExposeOperation (routeConfig cfg) op pr
     | _ \<Rightarrow> throwP (NonRetryable ''operation kind is not supported by this worker''))"

record queue_report =
  claimed_count :: nat
  succeeded :: nat
  awaitingConfirmation :: nat
  requeued_count :: nat
  failed_count :: nat
  staleRequeued :: nat
  staleFailed :: nat
  staleProvisionReconciled :: nat
  staleProvisionFailed :: nat

definition empty_report :: queue_report where
  "empty_report = \<lparr>claimed_count = 0, succeeded = 0, awaitingConfirmation = 0, requeued_count = 0, failed_count = 0,
     staleRequeued = 0, staleFailed = 0, staleProvisionReconciled = 0, staleProvisionFailed = 0\<rparr>"

text \<open>The loops run at most \<open>limit\<close> times; the number counts the turns left.\<close>

definition staleProvisionTurn :: "operation \<Rightarrow> queue_report \<Rightarrow> ('p, queue_report) proc" where
  "staleProvisionTurn op report =
     tryP
       (bindP (atomic (reconcileStaleProvisionOperation op)) (\<lambda>verdict.
        retP (if verdict = Reconciled
              then report\<lparr>staleProvisionReconciled := staleProvisionReconciled report + 1\<rparr>
              else report\<lparr>staleProvisionFailed := staleProvisionFailed report + 1\<rparr>)))
       (\<lambda>e. bindP (atomic (failSandboxOperation (o_id op) (err_message e) [] None)) (\<lambda>_.
        retP (report\<lparr>staleProvisionFailed := staleProvisionFailed report + 1\<rparr>)))"

fun staleProvisionLoop :: "nat \<Rightarrow> int \<Rightarrow> queue_report \<Rightarrow> ('p, queue_report) proc" where
  "staleProvisionLoop 0 stale report = retP report"
| "staleProvisionLoop (Suc n) stale report =
     bindP (atomic (claimStaleRunningSandboxOperation [KProvision] (Some stale))) (\<lambda>claimed_op.
     case claimed_op of
       None \<Rightarrow> retP report
     | Some op \<Rightarrow> bindP (staleProvisionTurn op report) (staleProvisionLoop n stale))"

text \<open>Which failures end an operation instead of queueing it again.\<close>

definition terminal_failure :: "operation \<Rightarrow> int \<Rightarrow> err \<Rightarrow> bool" where
  "terminal_failure op maxAttempts e \<longleftrightarrow>
     (case e of NonRetryable _ \<Rightarrow> True | LeaseError _ \<Rightarrow> True | CapacityError _ _ \<Rightarrow> True | _ \<Rightarrow> False) \<or>
     o_kind op = KProvision \<or> maxAttempts \<le> o_attempts op"

definition operationFailed :: "operation \<Rightarrow> int \<Rightarrow> queue_report \<Rightarrow> err \<Rightarrow> ('p, queue_report) proc" where
  "operationFailed op maxAttempts report e =
    (if e = LeaseError LeaseRenewInProgress then retP report
     else if terminal_failure op maxAttempts e then
       bindP (atomic (failSandboxOperation (o_id op) (err_message e) [] (Some (o_attempts op)))) (\<lambda>_.
       retP (report\<lparr>failed_count := failed_count report + 1\<rparr>))
     else
       bindP (atomic (requeueSandboxOperation (o_id op) (err_message e) [] (Some (o_attempts op)))) (\<lambda>_.
       retP (report\<lparr>requeued_count := requeued_count report + 1\<rparr>)))"

definition operationTurn ::
    "worker_config \<Rightarrow> 'p provider \<Rightarrow> int \<Rightarrow> operation \<Rightarrow> queue_report \<Rightarrow> ('p, queue_report) proc" where
  "operationTurn cfg pr maxAttempts op report =
     tryP
       (bindP (executeSandboxOperation cfg op pr) (\<lambda>outcome.
        retP (if outcome then report\<lparr>succeeded := succeeded report + 1\<rparr>
              else report\<lparr>awaitingConfirmation := awaitingConfirmation report + 1\<rparr>)))
       (operationFailed op maxAttempts report)"

fun operationLoop ::
    "worker_config \<Rightarrow> 'p provider \<Rightarrow> nat \<Rightarrow> int \<Rightarrow> int \<Rightarrow> queue_report \<Rightarrow> ('p, queue_report) proc" where
  "operationLoop cfg pr 0 maxAttempts stale report = retP report"
| "operationLoop cfg pr (Suc n) maxAttempts stale report =
     bindP (atomic (claimNextSandboxOperation replayableSandboxOperationKinds (Some maxAttempts) (Some stale))) (\<lambda>claimed_op.
     case claimed_op of
       None \<Rightarrow> retP report
     | Some op \<Rightarrow>
         bindP (operationTurn cfg pr maxAttempts op (report\<lparr>claimed_count := claimed_count report + 1\<rparr>))
           (operationLoop cfg pr n maxAttempts stale))"

definition worker_limit :: "worker_config \<Rightarrow> int option \<Rightarrow> nat" where
  "worker_limit cfg limit = nat (min (max (or_value limit (sandboxOperationWorkerLimit cfg)) 0) 100)"

definition processSandboxOperationQueue ::
    "worker_config \<Rightarrow> 'p provider \<Rightarrow> int option \<Rightarrow> int option \<Rightarrow> int option \<Rightarrow> ('p, queue_report) proc" where
  "processSandboxOperationQueue cfg pr limit maxAttempts staleAfterMs =
    (let n = worker_limit cfg limit;
         attempts = max (or_value maxAttempts (sandboxOperationMaxAttempts cfg)) 1;
         stale = max (or_value staleAfterMs (sandboxOperationLeaseMs cfg)) 1
     in
       bindP (staleProvisionLoop n stale empty_report) (\<lambda>report.
       bindP (atomic (cleanupStaleSandboxOperations staleLeaseCleanupOperationKinds (Some attempts) (Some stale)))
         (\<lambda>(requeued, failed).
       operationLoop cfg pr n attempts stale (report\<lparr>staleRequeued := requeued, staleFailed := failed\<rparr>))))"

section \<open>What the report counts\<close>

text \<open>The operations of a pass with a result, and the provisions decided before it.\<close>

definition outcomes :: "queue_report \<Rightarrow> nat" where
  "outcomes r = succeeded r + awaitingConfirmation r + requeued_count r + failed_count r"

definition stale_decided :: "queue_report \<Rightarrow> nat" where
  "stale_decided r = staleProvisionReconciled r + staleProvisionFailed r"

lemma bindP_Inr: "bindP m f w = (Inr b, w') \<longleftrightarrow> (\<exists>a w1. m w = (Inr a, w1) \<and> f a w1 = (Inr b, w'))"
  by (auto simp: bindP_def split: prod.splits sum.splits)

lemma retP_Inr: "retP a w = (Inr b, w') \<longleftrightarrow> b = a \<and> w' = w"
  by (auto simp: retP_def)

lemma tryP_Inr: "tryP m h w = (Inr b, w') \<longleftrightarrow> m w = (Inr b, w') \<or> (\<exists>e w1. m w = (Inl e, w1) \<and> h e w1 = (Inr b, w'))"
  by (auto simp: tryP_def split: prod.splits sum.splits)

lemmas proc_Inr = bindP_Inr retP_Inr tryP_Inr

lemma stale_turn_counts:
  "staleProvisionTurn op r w = (Inr r', w') \<Longrightarrow> stale_decided r' = stale_decided r + 1 \<and>
     outcomes r' = outcomes r \<and> claimed_count r' = claimed_count r"
  by (auto simp: staleProvisionTurn_def proc_Inr stale_decided_def outcomes_def)

lemma stale_loop_counts:
  "staleProvisionLoop n stale r w = (Inr r', w') \<Longrightarrow> stale_decided r' \<le> stale_decided r + n \<and>
     outcomes r' = outcomes r \<and> claimed_count r' = claimed_count r"
proof (induction n arbitrary: r w)
  case (Suc n)
  from Suc.prems consider "r' = r"
    | op w1 r1 w2 where "staleProvisionTurn op r w1 = (Inr r1, w2)" "staleProvisionLoop n stale r1 w2 = (Inr r', w')"
    by (auto simp: proc_Inr split: option.splits)
  then show ?case
    by cases (auto dest!: stale_turn_counts Suc.IH)
qed (simp add: retP_Inr)

lemma operation_turn_counts:
  "operationTurn cfg pr m op r w = (Inr r', w') \<Longrightarrow> outcomes r' \<le> outcomes r + 1 \<and>
     claimed_count r' = claimed_count r \<and> stale_decided r' = stale_decided r"
  by (auto simp: operationTurn_def operationFailed_def proc_Inr stale_decided_def outcomes_def split: if_splits)

lemma operation_loop_counts:
  "operationLoop cfg pr n m stale r w = (Inr r', w') \<Longrightarrow> claimed_count r \<le> claimed_count r' \<and>
     claimed_count r' \<le> claimed_count r + n \<and> outcomes r' + claimed_count r \<le> outcomes r + claimed_count r' \<and>
     stale_decided r' = stale_decided r"
proof (induction n arbitrary: r w)
  case (Suc n)
  from Suc.prems consider "r' = r"
    | op w1 r1 w2 where "operationTurn cfg pr m op (r\<lparr>claimed_count := claimed_count r + 1\<rparr>) w1 = (Inr r1, w2)"
      "operationLoop cfg pr n m stale r1 w2 = (Inr r', w')"
    by (auto simp: proc_Inr split: option.splits)
  then show ?case
  proof cases
    case 2
    from operation_turn_counts [OF 2(1)] have "outcomes r1 \<le> outcomes r + 1" "claimed_count r1 = claimed_count r + 1"
      "stale_decided r1 = stale_decided r" by (simp_all add: outcomes_def stale_decided_def)
    with Suc.IH [OF 2(2)] show ?thesis by linarith
  qed simp
qed (simp add: retP_Inr)


text \<open>A pass over an empty queue.\<close>

lemma idle_queue:
  "claimStaleRunningSandboxOperation kinds st empty_db = Inr (None, empty_db)"
  "claimNextSandboxOperation kinds m st empty_db = Inr (None, empty_db)"
  "cleanupStaleSandboxOperations kinds m st empty_db = Inr ((0, 0), empty_db)"
  by (simp_all add: claimStale_Inr claimNext_Inr cleanupStaleSandboxOperations_def bindT_def now_Inr getsT_apply upd_Inr
      returnT_apply Let_def empty_db_def update_rows_def by_oldest_def)


end
