(* ===== verification/Lifecycle.thy ===== *)
theory Lifecycle
  imports Provision
begin

text \<open>
  Pausing and resuming a sandbox (\<open>services/sandbox-lifecycle.ts\<close>): the admission of the
  transition, the provider call under a runtime effect, the wait for the expected state, and
  the completion, which releases the slot of a pause that stops execution and keeps it
  otherwise. The re-injection of credentials after a resume (\<open>credential-vault.ts\<close>) is the
  parameter \<open>rehydrate\<close>.
\<close>

section \<open>The code\<close>

datatype lifecycle_action = Pause | Resume

fun action_kind :: "lifecycle_action \<Rightarrow> operation_kind" where
  "action_kind Pause = KPause" | "action_kind Resume = KResume"

fun action_effect :: "lifecycle_action \<Rightarrow> effect_kind" where
  "action_effect Pause = EPause" | "action_effect Resume = EResume"

fun idleStates :: "lifecycle_action \<Rightarrow> sandbox_status list" where
  "idleStates Pause = [SPaused, SPausing]" | "idleStates Resume = [SRunning, SIdle, SResuming]"

fun allowedStates :: "lifecycle_action \<Rightarrow> sandbox_status list" where
  "allowedStates Pause = [SRunning, SIdle]" | "allowedStates Resume = [SPaused]"

fun transitionStatus :: "lifecycle_action \<Rightarrow> sandbox_status" where
  "transitionStatus Pause = SPausing" | "transitionStatus Resume = SResuming"

fun expectedStatuses :: "lifecycle_action \<Rightarrow> sandbox_status list" where
  "expectedStatuses Pause = [SPaused]" | "expectedStatuses Resume = [SRunning, SIdle]"

fun eventType :: "lifecycle_action \<Rightarrow> sandbox_status \<Rightarrow> string" where
  "eventType Pause status = (if status = SPaused then ''paused'' else status_text status)"
| "eventType Resume status = (if status = SRunning then ''resumed'' else status_text status)"

definition provider_action :: "'p provider \<Rightarrow> lifecycle_action \<Rightarrow> (string \<Rightarrow> ('p, runtime_summary) call) option" where
  "provider_action pr a = (case a of Pause \<Rightarrow> pause pr | Resume \<Rightarrow> resume pr)"

fun waitForRuntimeSandboxState ::
    "nat \<Rightarrow> 'p provider \<Rightarrow> string \<Rightarrow> runtime_summary \<Rightarrow> sandbox_status list \<Rightarrow> time \<Rightarrow> ('p, runtime_summary) proc" where
  "waitForRuntimeSandboxState 0 pr rid seen expected deadline = retP seen"
| "waitForRuntimeSandboxState (Suc fuel) pr rid seen expected deadline =
     bindP dateNow (\<lambda>t.
     if deadline \<le> t then retP seen
     else if normalizeSandboxStatus (t_state seen) \<in> set expected then retP seen
     else
       bindP (sleepP 1000) (\<lambda>_.
       bindP (callP (get pr rid)) (\<lambda>current.
       case current of
         None \<Rightarrow> retP seen
       | Some c \<Rightarrow> waitForRuntimeSandboxState fuel pr rid c expected deadline)))"

text \<open>Enough fuel: each poll sleeps a second.\<close>

definition wait_fuel :: "int \<Rightarrow> nat" where
  "wait_fuel timeout = nat (timeout div 1000) + 2"

definition getLifecycleSandboxRow :: "string \<Rightarrow> string \<Rightarrow> sandbox_row option dbtx" where
  "getLifecycleSandboxRow org sbx = lockSandbox org sbx"

definition noop_operation :: "string \<Rightarrow> string \<Rightarrow> operation_kind \<Rightarrow> time \<Rightarrow> operation" where
  "noop_operation org sbx k t = \<lparr>o_id = ''op_noop'', o_org = org, o_sandbox = Some sbx, o_kind = k,
     o_state = Succeeded, o_key = None, o_request = [], o_result = [], o_error = None, o_attempts = 0,
     o_locked_at = None, o_started_at = None, o_completed_at = Some t, o_created_at = t, o_updated_at = t\<rparr>"

definition lastNoopOperation :: "string \<Rightarrow> string \<Rightarrow> operation_kind \<Rightarrow> operation dbtx" where
  "lastNoopOperation org sbx k =
     bindT (sel_operations (\<lambda>r. o_org r = org \<and> o_sandbox r = Some sbx \<and> o_kind r = k)) (\<lambda>rows.
     bindT now (\<lambda>t.
     returnT (case first_row (by_newest rows) of Some r \<Rightarrow> r | None \<Rightarrow> noop_operation org sbx k t)))"

datatype lifecycle_admission =
    InvalidState sandbox_status
  | Admitted operation "effect option"

definition own_open_hold :: "string \<Rightarrow> string \<Rightarrow> unit dbtx" where
  "own_open_hold sbx op =
     bindT now (\<lambda>t.
     bindT (upd_holds (\<lambda>h. h_sandbox h = sbx \<and> h_released_at h = None)
       (\<lambda>h. h\<lparr>h_operation := Some op, h_phase := Reserved, h_reason := None, h_updated_at := t\<rparr>)) (\<lambda>_.
     returnT ()))"

definition lifecycleAdmission ::
    "lifecycle_action \<Rightarrow> string \<Rightarrow> string \<Rightarrow> string option \<Rightarrow> string \<Rightarrow> string option \<Rightarrow> lifecycle_admission dbtx" where
  "lifecycleAdmission a org sbx user actor key =
     bindT (lockEffectSandbox org sbx) (\<lambda>row.
     bindT (if truthy key then sel_operations (same_key org (action_kind a) key) else returnT []) (\<lambda>found.
     case first_row found of
       Some r \<Rightarrow>
         if o_sandbox r \<noteq> Some sbx
         then throwT (CapacityError IdempotencyConflict ''This key belongs to another sandbox.'')
         else returnT (Admitted r None)
     | None \<Rightarrow>
         if s_status row \<in> set (idleStates a) then
           bindT (lastNoopOperation org sbx (action_kind a)) (\<lambda>op. returnT (Admitted op None))
         else if s_status row \<notin> set (allowedStates a) \<or> \<not> truthy (s_runtime_id row)
         then returnT (InvalidState (s_status row))
         else
           bindT (sel_effects (unsettled_on sbx)) (\<lambda>busy.
           bindT (requireT (busy = [])
             (CapacityError TransitionInProgress ''Another runtime operation is still in progress.'')) (\<lambda>_.
           bindT (enqueueSandboxOperation org (Some sbx) (action_kind a)
             [(''providerSandboxId'', str_or_null (s_runtime_id row)), (''capacityProtocol'', JNum 1)] key) (\<lambda>queued.
           let qid = o_id (fst queued) in
           bindT (if a = Resume then
               bindT (sel_holds (\<lambda>h. h_sandbox h = sbx \<and> h_released_at h = None)) (\<lambda>hs.
               if hs \<noteq> [] then own_open_hold sbx qid
               else bindT (reserveSandboxCapacity org sbx qid) (\<lambda>_. returnT ()))
             else returnT ()) (\<lambda>_.
           bindT (claimSandboxOperationById qid [action_kind a] None) (\<lambda>claimed_op.
           bindT (someT claimed_op
             (CapacityError TransitionInProgress ''Another worker owns this transition.'')) (\<lambda>op.
           bindT (beginRuntimeEffect org sbx (action_effect a) (Some op)
             [(''userId'', str_or_null user), (''actorLabel'', JStr actor),
              (''previousStatus'', JStr (status_text (s_status row)))]) (\<lambda>eff.
           bindT now (\<lambda>t.
           bindT (upd_sandboxes (\<lambda>s. s_id s = sbx \<and> s_org s = org)
             (\<lambda>s. s\<lparr>s_status := transitionStatus a, s_updated_at := t\<rparr>)) (\<lambda>_.
           returnT (Admitted op (Some eff)))))))))))))"

definition markSandboxCredentialsRequireReinjection :: "string \<Rightarrow> string \<Rightarrow> nat dbtx" where
  "markSandboxCredentialsRequireReinjection org sbx =
     bindT now (\<lambda>t.
     upd_attachments (\<lambda>a. a_org a = org \<and> a_sandbox a = sbx \<and> a_detached_at a = None \<and> a_status a = AInjected)
       (\<lambda>a. a\<lparr>a_status := ARequiresReinjection, a_updated_at := t\<rparr>))"

definition effect_action :: "effect \<Rightarrow> lifecycle_action" where
  "effect_action eff = (if e_kind eff = EPause then Pause else Resume)"

text \<open>The transaction of \<open>completeLifecycleEffect\<close>: how many credentials need re-injection.\<close>

definition completeLifecycle ::
    "effect \<Rightarrow> sandbox_status \<Rightarrow> runtime_summary \<Rightarrow> 'p provider \<Rightarrow> nat dbtx" where
  "completeLifecycle eff status observed pr = finishRuntimeEffect eff
     (bindT now (\<lambda>t.
      bindT (upd_sandboxes (\<lambda>s. s_id s = e_sandbox eff \<and> s_org s = e_org eff)
        (\<lambda>s. s\<lparr>s_status := status, s_last_active_at := Some t, s_updated_at := t\<rparr>)) (\<lambda>_.
      bindT (if effect_action eff = Pause \<and> pauseStopsExecution (caps pr)
          then bindT (releaseSandboxCapacity (e_org eff) (e_sandbox eff) (e_generation eff) ProviderSuspended)
            (\<lambda>_. returnT ())
          else set_hold_active eff) (\<lambda>_.
      bindT (if effect_action eff = Resume
          then markSandboxCredentialsRequireReinjection (e_org eff) (e_sandbox eff)
          else returnT 0) (\<lambda>credentials.
      bindT (case e_operation eff of
          None \<Rightarrow> returnT ()
        | Some op \<Rightarrow>
            bindT (completeSandboxOperation op
              [(''provider'', JStr (kind pr)), (''providerSandboxId'', JStr (t_id observed)),
               (''state'', JStr (t_state observed))] (expected_attempts eff) True) (\<lambda>_. returnT ())) (\<lambda>_.
      returnT credentials))))))"

definition completeLifecycleEffect ::
    "(string \<Rightarrow> string \<Rightarrow> ('p, unit) proc) \<Rightarrow> effect \<Rightarrow> runtime_summary \<Rightarrow> 'p provider \<Rightarrow> ('p, unit) proc" where
  "completeLifecycleEffect rehydrate eff observed pr =
    (let a = effect_action eff; status = normalizeSandboxStatus (t_state observed) in
     if status \<notin> set (expectedStatuses a) then retP ()
     else
       bindP (atomic (completeLifecycle eff status observed pr)) (\<lambda>marked.
       bindP (if 0 < marked then tryP (rehydrate (e_org eff) (e_sandbox eff)) (\<lambda>_. retP ()) else retP ()) (\<lambda>_.
       bindP (atomic (add_event (e_org eff) (e_sandbox eff) (eventType a status))) (\<lambda>_.
       atomic (add_audit (e_org eff) (e_sandbox eff)
         (if a = Pause then ''sandbox.pause'' else ''sandbox.resume''))))))"

datatype lifecycle_result =
    LifecycleOk sandbox_row operation
  | LifecycleNotFound
  | LifecycleInvalid sandbox_status "sandbox_status list"
  | LifecycleUnsupported lifecycle_action
  | LifecycleFailed string operation

definition runTransition ::
    "(string \<Rightarrow> string \<Rightarrow> ('p, unit) proc) \<Rightarrow> (string \<Rightarrow> ('p, runtime_summary) call) \<Rightarrow> effect \<Rightarrow>
     int option \<Rightarrow> 'p provider \<Rightarrow> ('p, unit) proc" where
  "runTransition rehydrate method eff waitTimeout pr =
    (let a = effect_action eff; rid = (case e_provider eff of None \<Rightarrow> [] | Some x \<Rightarrow> x);
         timeout = (case waitTimeout of None \<Rightarrow> 2000 | Some x \<Rightarrow> x) in
     bindP (atomic (markRuntimeEffectDispatched eff)) (\<lambda>_.
     bindP (callP (method rid)) (\<lambda>requested.
     bindP (atomic (acknowledgeRuntimeEffect eff None)) (\<lambda>_.
     bindP dateNow (\<lambda>t.
     bindP (waitForRuntimeSandboxState (wait_fuel timeout) pr rid requested (expectedStatuses a) (t + timeout)) (\<lambda>observed.
     if normalizeSandboxStatus (t_state observed) \<in> set (expectedStatuses a)
     then completeLifecycleEffect rehydrate eff observed pr
     else retP ()))))))"

definition changeSandboxLifecycle ::
    "lifecycle_action \<Rightarrow> (string \<Rightarrow> string \<Rightarrow> ('p, unit) proc) \<Rightarrow> string \<Rightarrow> string \<Rightarrow> string option \<Rightarrow> string \<Rightarrow>
     string option \<Rightarrow> int option \<Rightarrow> 'p provider \<Rightarrow> ('p, lifecycle_result) proc" where
  "changeSandboxLifecycle a rehydrate org sbx user actor key waitTimeout pr =
    (case provider_action pr a of
       None \<Rightarrow> retP (LifecycleUnsupported a)
     | Some method \<Rightarrow>
         bindP (atomic (getLifecycleSandboxRow org sbx)) (\<lambda>exists.
         if exists = None then retP LifecycleNotFound
         else
           bindP (atomic (lifecycleAdmission a org sbx user actor key)) (\<lambda>admission.
           case admission of
             InvalidState st \<Rightarrow> retP (LifecycleInvalid st (allowedStates a))
           | Admitted op eff \<Rightarrow>
               bindP (case eff of
                   None \<Rightarrow> retP None
                 | Some e \<Rightarrow>
                     tryP (bindP (runTransition rehydrate method e waitTimeout pr) (\<lambda>_. retP None))
                       (\<lambda>_. bindP (atomic (markRuntimeEffectUncertain e None)) (\<lambda>_.
                         retP (Some (LifecycleFailed
                           ''The runtime transition could not be confirmed. Its execution slot remains reserved.'' op))))) (\<lambda>failure.
               case failure of
                 Some res \<Rightarrow> retP res
               | None \<Rightarrow>
                   bindP (atomic (lockSandbox org sbx)) (\<lambda>found.
                   retP (case found of None \<Rightarrow> LifecycleNotFound | Some s \<Rightarrow> LifecycleOk s op))))))"

definition pauseSandbox where
  "pauseSandbox = changeSandboxLifecycle Pause"

definition resumeSandbox where
  "resumeSandbox = changeSandboxLifecycle Resume"

section \<open>Invariants\<close>

context store_invariant
begin

lemma own_hold_again [keeps_intro]: "keeps I (own_open_hold sbx op)"
  unfolding own_open_hold_def by (intro keeps_intro; simp add: patch_simps)

lemma lifecycle_admission [keeps_intro]: "keeps I (lifecycleAdmission a org sbx user actor key)"
  unfolding lifecycleAdmission_def lastNoopOperation_def by (intro keeps_intro)

lemma complete_lifecycle [keeps_intro]: "keeps I (completeLifecycle eff st obs pr)"
  unfolding completeLifecycle_def markSandboxCredentialsRequireReinjection_def by (intro keeps_intro)

end

section \<open>Correctness of an admission\<close>

lemma action_effect_kind [simp]: "action_effect a \<noteq> EDelete" "starting (action_effect a) \<longleftrightarrow> a = Resume"
  by (cases a; simp add: starting_def)+

text \<open>
  C15. An admitted transition follows the state table. Pausing or resuming that is admitted with
  a new effect leaves a state from which the table allows the transition, writes the
  transitional state, from which every state the service then waits for is allowed; no other
  effect was open on the sandbox; and the new effect, of the right kind and not yet
  dispatched, is fenced by an open reservation, which for a resume is reserved for the very
  operation.
\<close>

theorem lifecycle_admitted:
  assumes "lifecycleAdmission a org sbx user actor key d = Inr (Admitted op (Some eff), d')"
  shows "(\<exists>row \<in> set (sandboxes d). s_id row = sbx \<and> s_org row = org \<and>
        canTransitionSandboxStatus (s_status row) (transitionStatus a)) \<and>
    (\<forall>s \<in> set (sandboxes d'). s_id s = sbx \<and> s_org s = org \<longrightarrow> s_status s = transitionStatus a) \<and>
    (\<forall>t \<in> set (expectedStatuses a). canTransitionSandboxStatus (transitionStatus a) t) \<and>
    (\<forall>e \<in> set (effects d). \<not> unsettled_on sbx e) \<and>
    eff \<in> set (effects d') \<and> e_kind eff = action_effect a \<and> e_dispatched_at eff = None \<and> e_settled_at eff = None \<and>
    (\<exists>h \<in> set (holds d'). h_sandbox h = sbx \<and> h_generation h = e_generation eff \<and> h_released_at h = None \<and>
       (a = Resume \<longrightarrow> h_phase h = Reserved \<and> h_operation h = Some (o_id op)))"
proof -
  from assms obtain row d3 d4 where row: "row \<in> set (sandboxes d)" "s_id row = sbx" "s_org row = org"
      "s_status row \<in> set (allowedStates a)" "filter (unsettled_on sbx) (effects d) = []"
    and began: "beginRuntimeEffect org sbx (action_effect a) (Some op)
        [(''userId'', str_or_null user), (''actorLabel'', JStr actor),
         (''previousStatus'', JStr (status_text (s_status row)))] d3 = Inr (eff, d4)"
    and d': "d' = d4\<lparr>sandboxes := update_rows (\<lambda>s. s_id s = sbx \<and> s_org s = org)
        (\<lambda>s. s\<lparr>s_status := transitionStatus a, s_updated_at := clock d4\<rparr>) (sandboxes d4)\<rparr>"
    unfolding lifecycleAdmission_def bindT_Inr_iff
    by (auto simp: lockEffectSandbox_Inr bindT_Inr_iff sel_Inr requireT_Inr_iff someT_Inr_iff now_Inr upd_Inr
        returnT_apply throwT_apply Let_def lastNoopOperation_def
        split: if_splits option.splits dest!: first_row_filter_Some)
  from began obtain h where h: "h \<in> set (holds d3)" "h_sandbox h = sbx" "h_released_at h = None"
      "a = Resume \<Longrightarrow> owns_start (Some op) h" "h_generation h = e_generation eff"
    and eff: "d4 = d3\<lparr>rand_pos := Suc (rand_pos d3), effects := effects d3 @ [eff]\<rparr>"
      "e_kind eff = action_effect a" "e_dispatched_at eff = None" "e_settled_at eff = None"
    by (rule beginRuntimeEffect_Inr) auto
  have table: "canTransitionSandboxStatus (s_status row) (transitionStatus a)"
    "\<forall>t \<in> set (expectedStatuses a). canTransitionSandboxStatus (transitionStatus a) t"
    using row(4) by (cases a; auto simp: canTransitionSandboxStatus_def)+
  have status: "\<forall>s \<in> set (sandboxes d'). s_id s = sbx \<and> s_org s = org \<longrightarrow> s_status s = transitionStatus a"
  proof (intro ballI impI)
    fix s assume s: "s \<in> set (sandboxes d')" "s_id s = sbx \<and> s_org s = org"
    then obtain q where "s = (if s_id q = sbx \<and> s_org q = org
        then q\<lparr>s_status := transitionStatus a, s_updated_at := clock d4\<rparr> else q)"
      by (auto simp: d' in_update_rows)
    with s(2) show "s_status s = transitionStatus a" by (cases "s_id q = sbx \<and> s_org q = org") auto
  qed
  have "holds d' = holds d3" "effects d' = effects d3 @ [eff]" by (simp_all add: d' eff(1))
  with row h eff table status show ?thesis
    by (auto simp: owns_start_def filter_empty_conv)
qed

section \<open>Waiting ends\<close>

definition polls :: "int \<Rightarrow> nat" where
  "polls remaining = (if remaining \<le> 0 then 1 else nat (remaining div 1000) + 2)"

lemma polls_step: "0 < r \<Longrightarrow> polls (r - 1000) < polls r"
proof -
  assume r: "0 < r"
  have "(r - 1000) div 1000 = r div 1000 - 1" by simp
  moreover have "0 \<le> r div 1000" "0 < r - 1000 \<Longrightarrow> 0 \<le> (r - 1000) div 1000" using r by (simp_all add: pos_imp_zdiv_nonneg_iff)
  ultimately show ?thesis using r by (auto simp: polls_def)
qed

lemma wait_more_fuel:
  assumes "polls (deadline - clock (wdb w)) \<le> n" and "polls (deadline - clock (wdb w)) \<le> m"
  shows "waitForRuntimeSandboxState n pr rid seen expected deadline w =
    waitForRuntimeSandboxState m pr rid seen expected deadline w"
  using assms
proof (induction n arbitrary: m w seen)
  case 0
  then show ?case by (simp add: polls_def split: if_splits)
next
  case (Suc n)
  have "0 < polls (deadline - clock (wdb w))" by (simp add: polls_def)
  with Suc.prems(2) obtain k where m: "m = Suc k" by (cases m) auto
  let ?w = "w\<lparr>wdb := (wdb w)\<lparr>clock := clock (wdb w) + 1000\<rparr>\<rparr>"
  have again: "waitForRuntimeSandboxState n pr rid c expected deadline (?w\<lparr>prv := p\<rparr>) =
      waitForRuntimeSandboxState k pr rid c expected deadline (?w\<lparr>prv := p\<rparr>)"
    if "clock (wdb w) < deadline" for c p
    by (rule Suc.IH) (use Suc.prems m that polls_step [of "deadline - clock (wdb w)"] in \<open>simp_all add: algebra_simps\<close>)
  show ?case
    by (cases "clock (wdb w) < deadline")
      (auto simp: m bindP_def dateNow_def retP_def sleepP_def callP_def again split: prod.splits sum.splits option.splits)
qed

lemma wait_bounded_time:
  "waitForRuntimeSandboxState n pr rid seen expected deadline w = (r, w') \<Longrightarrow>
   clock (wdb w') < max (clock (wdb w) + 1) (deadline + 1000)"
proof (induction n arbitrary: w seen)
  case 0
  then show ?case by (auto simp: retP_def)
next
  case (Suc n)
  let ?w = "w\<lparr>wdb := (wdb w)\<lparr>clock := clock (wdb w) + 1000\<rparr>\<rparr>"
  show ?case
  proof (cases "clock (wdb w) < deadline \<and> normalizeSandboxStatus (t_state seen) \<notin> set expected")
    case False
    with Suc.prems show ?thesis by (auto simp: bindP_def dateNow_def retP_def split: if_splits)
  next
    case True
    with Suc.prems obtain p where
      "w' = ?w\<lparr>prv := p\<rparr> \<or> (\<exists>c. waitForRuntimeSandboxState n pr rid c expected deadline (?w\<lparr>prv := p\<rparr>) = (r, w'))"
      by (auto simp: bindP_def dateNow_def retP_def sleepP_def callP_def split: prod.splits sum.splits option.splits)
    then show ?thesis
    proof (elim disjE exE)
      assume "w' = ?w\<lparr>prv := p\<rparr>"
      with True show ?thesis by simp
    next
      fix c assume "waitForRuntimeSandboxState n pr rid c expected deadline (?w\<lparr>prv := p\<rparr>) = (r, w')"
      from Suc.IH [OF this] True show ?thesis by simp
    qed
  qed
qed


section \<open>Witness\<close>

definition paused_db :: db where
  "paused_db = empty_db\<lparr>orgs := [new_org ''org'' 2], sandboxes := [new_sandbox ''sbx'' ''org'' (Some ''rt1'') SPaused]\<rparr>"

lemma resume_admitted:
  "\<exists>op eff d'. lifecycleAdmission Resume ''org'' ''sbx'' None ''me'' None paused_db = Inr (Admitted op (Some eff), d')"
proof -
  have "(case lifecycleAdmission Resume ''org'' ''sbx'' None ''me'' None paused_db of
      Inr (Admitted op (Some eff), d') \<Rightarrow> True | _ \<Rightarrow> False)"
    by code_simp
  then show ?thesis by (auto split: sum.splits prod.splits lifecycle_admission.splits option.splits)
qed

theorem lifecycle_admitted_witness:
  "\<exists>op eff d'. lifecycleAdmission Resume ''org'' ''sbx'' None ''me'' None paused_db = Inr (Admitted op (Some eff), d') \<and>
     (\<exists>h \<in> set (holds d'). h_phase h = Reserved \<and> h_operation h = Some (o_id op))"
proof -
  obtain op eff d' where run: "lifecycleAdmission Resume ''org'' ''sbx'' None ''me'' None paused_db =
      Inr (Admitted op (Some eff), d')"
    using resume_admitted by blast
  from lifecycle_admitted [OF run] run show ?thesis by blast
qed


end
