(* ===== verification/Snapshots.thy ===== *)
theory Snapshots
  imports Lifecycle
begin

text \<open>
  Snapshots of a sandbox (\<open>services/sandbox-lifecycle.ts\<close> and \<open>services/sandbox-snapshots.ts\<close>):
  creating one under an idempotency key, following the provider's state into the row, waiting
  for it, and deleting it. The provider's raw state and the caller's metadata are not kept.
\<close>

section \<open>The code\<close>

definition getSandboxSnapshot :: "string \<Rightarrow> string \<Rightarrow> bool \<Rightarrow> snapshot_row option dbtx" where
  "getSandboxSnapshot org i includeDeleted = getsT (\<lambda>d.
     first_row (filter (\<lambda>n. n_id n = i \<and> n_org n = org \<and> (includeDeleted \<or> n_deleted_at n = None)) (snapshots d)))"

definition listSandboxSnapshots ::
    "string \<Rightarrow> snapshot_status option \<Rightarrow> string option \<Rightarrow> bool \<Rightarrow> int \<Rightarrow> int \<Rightarrow>
     (snapshot_row list \<times> nat \<times> int \<times> int) dbtx" where
  "listSandboxSnapshots org status source includeDeleted limit_in offset_in = getsT (\<lambda>d.
     let rows = filter (\<lambda>n. n_org n = org \<and> (includeDeleted \<or> n_deleted_at n = None) \<and>
           (case status of None \<Rightarrow> True | Some st \<Rightarrow> n_status n = st) \<and>
           (if truthy source then Some (n_sandbox n) = source else True)) (snapshots d);
         limit = min (max (if limit_in = 0 then 100 else limit_in) 1) 200; offset = max offset_in 0
     in (take (nat limit) (drop (nat offset) (sort_key (\<lambda>n. - n_created_at n) rows)), length rows, limit, offset))"

definition getSandboxSnapshotForRestore :: "string \<Rightarrow> string \<Rightarrow> snapshot_row option dbtx" where
  "getSandboxSnapshotForRestore org i = getSandboxSnapshot org i False"

text \<open>
  INSERT INTO \<open>sandbox_snapshots\<close> with its primary key and the unique index on the idempotency
  key, which covers deleted rows too.
\<close>

definition insert_snapshot :: "snapshot_row \<Rightarrow> unit dbtx" where
  "insert_snapshot row =
     bindT (getsT snapshots) (\<lambda>ns.
     if \<exists>n \<in> set ns. n_id n = n_id row \<or>
          (n_key row \<noteq> None \<and> n_org n = n_org row \<and> n_key n = n_key row)
     then throwT (DbError ''duplicate key value violates unique constraint'')
     else modifyT (\<lambda>d. d\<lparr>snapshots := snapshots d @ [row]\<rparr>))"

text \<open>\<open>CreateSandboxSnapshotBody\<close> with the acting user.\<close>

record snapshot_input =
  si_name :: "string option"
  si_metadata :: "(string \<times> string) list"
  si_key :: "string option"
  si_expires :: "time option"
  si_wait :: bool
  si_timeout :: "int option"
  si_user :: "string option"
  si_actor :: string

definition insertCreatingSnapshot ::
    "string \<Rightarrow> sandbox_row \<Rightarrow> string \<Rightarrow> snapshot_input \<Rightarrow> string \<Rightarrow> unit dbtx" where
  "insertCreatingSnapshot org sandbox provider_kind input snapshotId =
     bindT now (\<lambda>t.
     insert_snapshot \<lparr>n_id = snapshotId, n_org = org, n_sandbox = s_id sandbox, n_provider = provider_kind,
       n_provider_snapshot = None,
       n_name = (case si_name input of None \<Rightarrow> None | Some x \<Rightarrow> if trim x = [] then None else Some (trim x)),
       n_status = SnCreating, n_status_reason = None, n_status_message = None,
       n_template = s_template sandbox, n_template_version = s_template_version sandbox,
       n_template_digest = s_template_digest sandbox, n_metadata = si_metadata input,
       n_created_by_user = si_user input, n_created_by_label = si_actor input, n_key = si_key input,
       n_expires_at = si_expires input, n_deleted_at = None, n_created_at = t, n_updated_at = t\<rparr>)"

definition updateSnapshotFromProvider :: "string \<Rightarrow> string \<Rightarrow> runtime_snapshot \<Rightarrow> unit dbtx" where
  "updateSnapshotFromProvider i org u =
     bindT now (\<lambda>t.
     bindT (getsT snapshots) (\<lambda>ns.
     bindT (requireT (\<not> (\<exists>n \<in> set ns. \<exists>m \<in> set ns. n_id n = i \<and> n_org n = org \<and> n_id m \<noteq> i \<and>
         n_provider m = n_provider n \<and> n_provider_snapshot m = Some (u_id u)))
       (DbError ''duplicate key value violates unique constraint'')) (\<lambda>_.
     bindT (upd_snapshots (\<lambda>n. n_id n = i \<and> n_org n = org)
       (\<lambda>n. n\<lparr>n_provider_snapshot := Some (u_id u), n_status := normalizeSnapshotStatus (u_state u),
              n_status_reason := u_reason u, n_status_message := u_message u, n_updated_at := t\<rparr>)) (\<lambda>_.
     returnT ()))))"

datatype snapshot_result =
    SnapshotOk snapshot_row operation
  | SnapshotPending snapshot_row operation
  | SnapshotSandboxNotFound
  | SnapshotInvalidState sandbox_status
  | SnapshotUnsupported
  | SnapshotFailed "snapshot_row option" string operation

definition snapshotCreationResult :: "snapshot_row \<Rightarrow> operation \<Rightarrow> snapshot_result" where
  "snapshotCreationResult n op = (if n_status n = SnReady then SnapshotOk n op else SnapshotPending n op)"

definition existingSnapshotCreationResult :: "string \<Rightarrow> string \<Rightarrow> string option \<Rightarrow> snapshot_result option dbtx" where
  "existingSnapshotCreationResult org sbx key =
    (if \<not> truthy key then returnT None
     else
       bindT (getsT (\<lambda>d. first_row (sort_key (\<lambda>n. - n_created_at n)
         (filter (\<lambda>n. n_org n = org \<and> n_key n = key \<and> n_deleted_at n = None) (snapshots d))))) (\<lambda>existing.
       case existing of
         None \<Rightarrow> returnT None
       | Some n \<Rightarrow>
           bindT (sel_operations (same_key org KSnapshot key)) (\<lambda>ops.
           bindT now (\<lambda>t.
           returnT (Some (snapshotCreationResult n
             (case first_row (by_newest ops) of Some r \<Rightarrow> r | None \<Rightarrow> noop_operation org sbx KSnapshot t)))))))"

definition claim_or_queued :: "operation \<Rightarrow> operation_kind \<Rightarrow> operation dbtx" where
  "claim_or_queued op k =
     bindT (claimSandboxOperationById (o_id op) [k] None) (\<lambda>claimed_op.
     returnT (case claimed_op of Some r \<Rightarrow> r | None \<Rightarrow> op))"

definition terminal_snapshot :: "snapshot_status \<Rightarrow> bool" where
  "terminal_snapshot st \<longleftrightarrow> st \<in> {SnReady, SnFailed, SnDeleted, SnExpired}"

definition snapshot_row_or :: "string \<Rightarrow> string \<Rightarrow> string \<Rightarrow> ('p, snapshot_row) proc" where
  "snapshot_row_or org i msg =
     bindP (atomic (getSandboxSnapshot org i False)) (\<lambda>n.
     case n of None \<Rightarrow> throwP (PlainError msg) | Some r \<Rightarrow> retP r)"

fun pollSnapshot ::
    "nat \<Rightarrow> (string \<Rightarrow> ('p, runtime_snapshot option) call) \<Rightarrow> string \<Rightarrow> string \<Rightarrow> string \<Rightarrow> time \<Rightarrow>
     ('p, snapshot_row) proc" where
  "pollSnapshot 0 method org i rid latest_time =
     snapshot_row_or org i ''snapshot row missing after wait timeout''"
| "pollSnapshot (Suc fuel) method org i rid latest_time =
     bindP dateNow (\<lambda>t.
     if latest_time < t then snapshot_row_or org i ''snapshot row missing after wait timeout''
     else
       bindP (callP (method rid)) (\<lambda>u.
       bindP (case u of None \<Rightarrow> retP () | Some x \<Rightarrow> atomic (updateSnapshotFromProvider i org x)) (\<lambda>_.
       bindP (atomic (getSandboxSnapshot org i False)) (\<lambda>current.
       case current of
         Some n \<Rightarrow>
           if terminal_snapshot (n_status n) then retP n
           else bindP (sleepP 1000) (\<lambda>_. pollSnapshot fuel method org i rid latest_time)
       | None \<Rightarrow> bindP (sleepP 1000) (\<lambda>_. pollSnapshot fuel method org i rid latest_time)))))"

definition waitForSnapshotReady ::
    "'p provider \<Rightarrow> string \<Rightarrow> string \<Rightarrow> string \<Rightarrow> int \<Rightarrow> ('p, snapshot_row) proc" where
  "waitForSnapshotReady pr org i rid timeout =
    (case getSnapshot pr of
       None \<Rightarrow> snapshot_row_or org i ''snapshot row missing while waiting''
     | Some method \<Rightarrow>
         bindP dateNow (\<lambda>t. pollSnapshot (wait_fuel timeout) method org i rid (t + timeout)))"

definition wait_snapshot_missing :: string where
  "wait_snapshot_missing = ''snapshot row missing after provider snapshot create''"

text \<open>The caller's choice to wait, and for how long.\<close>

definition currentSnapshotAfterCreate ::
    "'p provider \<Rightarrow> string \<Rightarrow> string \<Rightarrow> runtime_snapshot \<Rightarrow> bool \<Rightarrow> int option \<Rightarrow> ('p, snapshot_row) proc" where
  "currentSnapshotAfterCreate pr org i u wait timeout =
    (if \<not> wait then snapshot_row_or org i wait_snapshot_missing
     else waitForSnapshotReady pr org i (u_id u) (case timeout of None \<Rightarrow> 60000 | Some x \<Rightarrow> x))"

definition snapshot_info :: "'p provider \<Rightarrow> string \<Rightarrow> runtime_snapshot \<Rightarrow> snapshot_status \<Rightarrow> obj" where
  "snapshot_info pr i u st =
     [(''snapshotId'', JStr i), (''provider'', JStr (kind pr)), (''providerSnapshotId'', JStr (u_id u)),
      (''state'', JStr (snapshot_text st))]"

text \<open>The metadata of the provider's snapshot; the caller's entries override the three first.\<close>

definition providerSnapshotMetadata ::
    "string \<Rightarrow> sandbox_row \<Rightarrow> string \<Rightarrow> snapshot_input \<Rightarrow> (string \<times> string) list" where
  "providerSnapshotMetadata org sandbox i input =
     filter (\<lambda>(k, v). k \<notin> set (map fst (si_metadata input)))
       [(''harakiri.snapshot'', i), (''harakiri.sandbox'', s_id sandbox), (''harakiri.org'', org)] @ si_metadata input"

definition createProviderSnapshot ::
    "'p provider \<Rightarrow> (string \<Rightarrow> string option \<Rightarrow> (string \<times> string) list \<Rightarrow> ('p, runtime_snapshot) call) \<Rightarrow> string \<Rightarrow>
     sandbox_row \<Rightarrow> string \<Rightarrow> snapshot_input \<Rightarrow> operation \<Rightarrow> ('p, snapshot_result) proc" where
  "createProviderSnapshot pr method org sandbox i input op =
     bindP (callP (method (case s_runtime_id sandbox of None \<Rightarrow> [] | Some x \<Rightarrow> x) (si_name input)
       (providerSnapshotMetadata org sandbox i input))) (\<lambda>u.
     bindP (atomic (updateSnapshotFromProvider i org u)) (\<lambda>_.
     bindP (currentSnapshotAfterCreate pr org i u (si_wait input) (si_timeout input)) (\<lambda>current.
     if n_status current \<in> {SnFailed, SnDeleted, SnExpired} then
       let message = (case n_status_message current of Some x \<Rightarrow> x
           | None \<Rightarrow> (case n_status_reason current of Some x \<Rightarrow> x
           | None \<Rightarrow> ''snapshot '' @ snapshot_text (n_status current))) in
       bindP (atomic (failSandboxOperation (o_id op) message (snapshot_info pr i u (n_status current)) None)) (\<lambda>failed.
       retP (SnapshotFailed (Some current) message (case failed of Some r \<Rightarrow> r | None \<Rightarrow> op)))
     else
       bindP (atomic (completeSandboxOperation (o_id op) (snapshot_info pr i u (n_status current)) None False)) (\<lambda>completed.
       bindP (atomic (add_event org (s_id sandbox) ''snapshot.created'')) (\<lambda>_.
       bindP (atomic (add_audit org (s_id sandbox) ''sandbox.snapshot'')) (\<lambda>_.
       retP (snapshotCreationResult current (case completed of Some r \<Rightarrow> r | None \<Rightarrow> op))))))))"

definition failCreatedSnapshot ::
    "string \<Rightarrow> string \<Rightarrow> operation \<Rightarrow> err \<Rightarrow> ('p, snapshot_result) proc" where
  "failCreatedSnapshot org i op e =
     bindP (atomic (bindT now (\<lambda>t.
       bindT (upd_snapshots (\<lambda>n. n_id n = i \<and> n_org n = org)
         (\<lambda>n. n\<lparr>n_status := SnFailed, n_status_message := Some (err_message e), n_updated_at := t\<rparr>)) (\<lambda>_. returnT ())))) (\<lambda>_.
     bindP (atomic (failSandboxOperation (o_id op) (err_message e) [(''snapshotId'', JStr i)] None)) (\<lambda>failed.
     bindP (atomic (getSandboxSnapshot org i True)) (\<lambda>n.
     retP (SnapshotFailed n (err_message e) (case failed of Some r \<Rightarrow> r | None \<Rightarrow> op)))))"

definition createSandboxSnapshot ::
    "string \<Rightarrow> string \<Rightarrow> snapshot_input \<Rightarrow> 'p provider \<Rightarrow> ('p, snapshot_result) proc" where
  "createSandboxSnapshot org sbx input pr =
    (case createSnapshot pr of
       None \<Rightarrow> retP SnapshotUnsupported
     | Some method \<Rightarrow>
         bindP (atomic (existingSnapshotCreationResult org sbx (si_key input))) (\<lambda>existing.
         case existing of
           Some res \<Rightarrow> retP res
         | None \<Rightarrow>
             bindP (atomic (getLifecycleSandboxRow org sbx)) (\<lambda>found.
             case found of
               None \<Rightarrow> retP SnapshotSandboxNotFound
             | Some sandbox \<Rightarrow>
                 if truthy (s_workspace sandbox) then
                   throwP (WorkspaceError ''workspace_snapshot_unsupported'' 409
                     ''Snapshots of workspace-backed sandboxes are not supported. Back up the persistent volume separately.'')
                 else if s_status sandbox \<notin> {SRunning, SIdle, SPaused} then
                   retP (SnapshotInvalidState (s_status sandbox))
                 else
                   bindP (atomic (makeId ''snp'')) (\<lambda>i.
                   bindP (atomic (insertCreatingSnapshot org sandbox (kind pr) input i)) (\<lambda>_.
                   bindP (atomic (enqueueSandboxOperation org (Some sbx) KSnapshot
                     [(''sandboxId'', JStr sbx), (''snapshotId'', JStr i),
                      (''providerSandboxId'', str_or_null (s_runtime_id sandbox)),
                      (''name'', (case si_name input of None \<Rightarrow> Undefined | Some x \<Rightarrow> JStr x)),
                      (''expiresAt'', num_or_null (si_expires input))] (si_key input))) (\<lambda>queued.
                   bindP (atomic (claim_or_queued (fst queued) KSnapshot)) (\<lambda>op.
                   tryP (createProviderSnapshot pr method org sandbox i input op)
                     (failCreatedSnapshot org i op))))))))"

datatype snapshot_deletion =
    SnapshotDeleted snapshot_row operation
  | SnapshotNotFound
  | SnapshotDeleteUnsupported
  | SnapshotDeleteFailed string operation

definition mark_snapshot :: "string \<Rightarrow> string \<Rightarrow> snapshot_status \<Rightarrow> unit dbtx" where
  "mark_snapshot org i st =
     bindT now (\<lambda>t.
     bindT (upd_snapshots (\<lambda>n. n_id n = i \<and> n_org n = org) (\<lambda>n. n\<lparr>n_status := st, n_updated_at := t\<rparr>)) (\<lambda>_.
     returnT ()))"

definition markSnapshotDeleted :: "string \<Rightarrow> string \<Rightarrow> unit dbtx" where
  "markSnapshotDeleted org i =
     bindT now (\<lambda>t.
     bindT (upd_snapshots (\<lambda>n. n_id n = i \<and> n_org n = org)
       (\<lambda>n. n\<lparr>n_status := SnDeleted, n_deleted_at := coalesce (n_deleted_at n) (Some t), n_updated_at := t\<rparr>)) (\<lambda>_.
     returnT ()))"

definition deleteSandboxSnapshot ::
    "string \<Rightarrow> string \<Rightarrow> string option \<Rightarrow> 'p provider \<Rightarrow> ('p, snapshot_deletion) proc" where
  "deleteSandboxSnapshot org i key pr =
    (case deleteSnapshot pr of
       None \<Rightarrow> retP SnapshotDeleteUnsupported
     | Some method \<Rightarrow>
         bindP (atomic (getSandboxSnapshot org i False)) (\<lambda>found.
         case found of
           None \<Rightarrow> retP SnapshotNotFound
         | Some n \<Rightarrow>
             bindP (atomic (enqueueSandboxOperation org (Some (n_sandbox n)) KSnapshotDelete
               [(''snapshotId'', JStr i), (''providerSnapshotId'', str_or_null (n_provider_snapshot n))] key)) (\<lambda>queued.
             bindP (atomic (claim_or_queued (fst queued) KSnapshotDelete)) (\<lambda>op.
             tryP
               (bindP (atomic (mark_snapshot org i SnDeleting)) (\<lambda>_.
                bindP (if truthy (n_provider_snapshot n) then callP (method (the (n_provider_snapshot n)))
                       else retP ()) (\<lambda>_.
                bindP (atomic (markSnapshotDeleted org i)) (\<lambda>_.
                bindP (atomic (completeSandboxOperation (o_id op)
                  [(''snapshotId'', JStr i), (''providerSnapshotId'', str_or_null (n_provider_snapshot n))] None False)) (\<lambda>completed.
                bindP (atomic (add_audit org i ''snapshot.delete'')) (\<lambda>_.
                bindP (atomic (getSandboxSnapshot org i True)) (\<lambda>deleted.
                retP (case deleted of
                    None \<Rightarrow> SnapshotNotFound
                  | Some r \<Rightarrow> SnapshotDeleted r (case completed of Some q \<Rightarrow> q | None \<Rightarrow> op)))))))))
               (\<lambda>e.
                bindP (atomic (failSandboxOperation (o_id op) (err_message e) [] None)) (\<lambda>_.
                bindP (atomic (mark_snapshot org i (n_status n))) (\<lambda>_.
                retP (SnapshotDeleteFailed (err_message e) op))))))))"

section \<open>Invariants\<close>

context store_invariant
begin

lemma snapshot_statements [keeps_intro]:
  "keeps I (getSandboxSnapshot org i b)" "keeps I (existingSnapshotCreationResult org sbx key)"
  "keeps I (claim_or_queued op k)" "keeps I (updateSnapshotFromProvider i org u)"
  "keeps I (mark_snapshot org i st)" "keeps I (markSnapshotDeleted org i)"
  unfolding getSandboxSnapshot_def existingSnapshotCreationResult_def claim_or_queued_def
    updateSnapshotFromProvider_def mark_snapshot_def markSnapshotDeleted_def
  by (intro keeps_intro)+

lemma creating_snapshot [keeps_intro]: "keeps I (insertCreatingSnapshot org s k input i)"
proof -
  have "keeps I (insert_snapshot row)" for row
    by (rule framed) (auto simp: insert_snapshot_def bindT_def getsT_apply throwT_apply modifyT_apply split: if_splits)
  then show ?thesis unfolding insertCreatingSnapshot_def by (intro keeps_intro)
qed

end

end
