(* ===== verification/Reconciler.thy ===== *)
theory Reconciler
  imports Snapshots
begin

text \<open>
  The capacity reconciler (\<open>services/sandbox-capacity-reconciler.ts\<close>): it claims reservations
  that are due for a check, cancels effects that were never dispatched, recovers dispatched
  ones from what the provider reports, and quarantines an organization whose runtimes carry
  the same identity twice.
\<close>

section \<open>The code\<close>

definition meta :: "runtime_summary \<Rightarrow> string \<Rightarrow> string option" where
  "meta rt k = map_of (t_metadata rt) k"

definition exactDispatchMatch :: "runtime_summary \<Rightarrow> effect \<Rightarrow> bool" where
  "exactDispatchMatch rt eff \<longleftrightarrow>
     coalesce (meta rt ''harakiri.org'') (meta rt ''harakiri.organization'') = Some (e_org eff) \<and>
     coalesce (meta rt ''harakiri.sandbox'') (meta rt ''harakiri.id'') = Some (e_sandbox eff) \<and>
     (meta rt ''harakiri.operation'' \<noteq> None \<and> meta rt ''harakiri.operation'' = e_operation eff) \<and>
     meta rt ''harakiri.effect'' = Some (e_id eff) \<and>
     meta rt ''harakiri.generation'' = Some (show_int (e_generation eff))"

definition set_status :: "string \<Rightarrow> string \<Rightarrow> sandbox_status \<Rightarrow> unit dbtx" where
  "set_status org sbx st =
     bindT now (\<lambda>t.
     bindT (upd_sandboxes (\<lambda>s. s_id s = sbx \<and> s_org s = org) (\<lambda>s. s\<lparr>s_status := st, s_updated_at := t\<rparr>)) (\<lambda>_.
     returnT ()))"

text \<open>\<open>SET phase='active'\<close> without touching the reason.\<close>

definition reactivate :: "string \<Rightarrow> unit dbtx" where
  "reactivate sbx =
     bindT now (\<lambda>t.
     bindT (upd_holds (\<lambda>h. h_sandbox h = sbx \<and> h_released_at h = None)
       (\<lambda>h. h\<lparr>h_phase := Active, h_updated_at := t\<rparr>)) (\<lambda>_. returnT ()))"

definition cancelUndispatchedEffect :: "effect \<Rightarrow> unit dbtx" where
  "cancelUndispatchedEffect eff = finishRuntimeEffect eff
    (let org = e_org eff; sbx = e_sandbox eff in
     bindT (sel_effects (\<lambda>e. e_id e = e_id eff)) (\<lambda>current.
     bindT (requireT (\<not> (case first_row current of None \<Rightarrow> False | Some e \<Rightarrow> e_dispatched_at e \<noteq> None))
       (CapacityError TransitionInProgress ''Runtime dispatch won the cancellation race.'')) (\<lambda>_.
     bindT (case e_operation eff of
         None \<Rightarrow> returnT ()
       | Some op \<Rightarrow> bindT (failSandboxOperation op
           ''Worker stopped before runtime dispatch; the operation was canceled.'' [] None) (\<lambda>_. returnT ())) (\<lambda>_.
     if e_kind eff = EPrepare \<or> e_kind eff = EProvision then
       bindT (persistSandboxTermination org sbx) (\<lambda>_.
       bindT (releaseSandboxCapacity org sbx (e_generation eff) CanceledBeforeDispatch) (\<lambda>_.
       release_workspace org sbx))
     else if e_kind eff = EResume then
       bindT (set_status org sbx SPaused) (\<lambda>_.
       bindT (sel_holds (\<lambda>h. h_sandbox h = sbx \<and> h_generation h < e_generation eff \<and>
                             h_reason h = Some ''provider_suspended'')) (\<lambda>hs.
       if hs \<noteq> [] then
         bindT (releaseSandboxCapacity org sbx (e_generation eff) CanceledBeforeDispatch) (\<lambda>_. returnT ())
       else reactivate sbx))
     else
       bindT (if e_kind eff = EPause
           then set_status org sbx
             (if field (e_context eff) ''previousStatus'' = JStr ''idle'' then SIdle else SRunning)
           else returnT ()) (\<lambda>_.
       reactivate sbx)))))"

definition quarantine :: "effect \<Rightarrow> unit dbtx" where
  "quarantine eff =
     bindT (lockEffectSandbox (e_org eff) (e_sandbox eff)) (\<lambda>_.
     bindT (sel_effects (\<lambda>e. e_id e = e_id eff \<and> e_generation e = e_generation eff \<and> e_settled_at e = None)) (\<lambda>owner.
     bindT (requireT (owner \<noteq> [])
       (CapacityError TransitionInProgress ''Inventory observation belongs to a settled operation.'')) (\<lambda>_.
     bindT (upd_orgs (\<lambda>r. org_id r = e_org eff) (\<lambda>r. r\<lparr>capacity_state := Quarantined\<rparr>)) (\<lambda>_.
     set_open_hold (e_sandbox eff) Uncertain (Some ''duplicate_runtime_identity'')))))"

definition recovered_absent :: "effect \<Rightarrow> operation \<Rightarrow> unit dbtx" where
  "recovered_absent eff operation = finishRuntimeEffect eff
     (bindT (persistSandboxTermination (e_org eff) (e_sandbox eff)) (\<lambda>_.
      bindT (releaseSandboxCapacity (e_org eff) (e_sandbox eff) (e_generation eff) ProviderAbsent) (\<lambda>_.
      bindT (failSandboxOperation (o_id operation)
        ''The runtime disappeared before provisioning completed.'' [] None) (\<lambda>_. returnT ()))))"

definition nonReplayable :: "operation \<Rightarrow> bool" where
  "nonReplayable r \<longleftrightarrow> field (o_request r) ''nonReplayable'' = JBool True"

definition set_generation_hold :: "string \<Rightarrow> int \<Rightarrow> hold_phase \<Rightarrow> string option \<Rightarrow> unit dbtx" where
  "set_generation_hold sbx g phase reason =
     bindT now (\<lambda>t.
     bindT (upd_holds (\<lambda>h. h_sandbox h = sbx \<and> h_generation h = g \<and> h_released_at h = None)
       (\<lambda>h. h\<lparr>h_phase := phase, h_reason := reason, h_updated_at := t\<rparr>)) (\<lambda>_. returnT ()))"

text \<open>A runtime found for a dispatched provision: adopt it, or delete one made with credentials.\<close>

definition recovered_present :: "effect \<Rightarrow> operation \<Rightarrow> runtime_summary \<Rightarrow> effect option dbtx" where
  "recovered_present eff operation observed = finishRuntimeEffect eff
    (let org = e_org eff; sbx = e_sandbox eff; state = normalizeRuntimeState (Some (t_state observed)) in
     bindT now (\<lambda>t.
     bindT (upd_sandboxes
         (\<lambda>s. s_id s = sbx \<and> s_org s = org \<and> (s_runtime_id s = None \<or> s_runtime_id s = Some (t_id observed)))
         (\<lambda>s. s\<lparr>s_runtime_id := Some (t_id observed),
                s_status := (if nonReplayable operation then SError
                             else case state of None \<Rightarrow> SPending | Some x \<Rightarrow> x),
                s_started_at := coalesce (s_started_at s) (Some t),
                s_provider_expires_at := t_expires observed,
                s_expires_at := coalesce (s_expires_at s)
                  (Some (case t_expires observed of None \<Rightarrow> t + s_ttl_seconds s * 1000
                         | Some x \<Rightarrow> min x (t + s_ttl_seconds s * 1000))),
                s_updated_at := t\<rparr>)) (\<lambda>rowCount.
     bindT (requireT (rowCount = 1)
       (CapacityError TransitionInProgress ''Sandbox identity changed before recovery.'')) (\<lambda>_.
     if nonReplayable operation then
       bindT (failSandboxOperation (o_id operation)
         ''Credential-bearing creation was interrupted; cleanup requested without replaying credentials.'' [] None) (\<lambda>_.
       bindT (beginRuntimeEffect org sbx EDelete None
         [(''failedProvisionOperationId'', JStr (o_id operation))]) (\<lambda>deletion.
       bindT (set_generation_hold sbx (e_generation eff) Releasing (Some ''interrupted_credential_create'')) (\<lambda>_.
       returnT (Some deletion))))
     else
       bindT (set_generation_hold sbx (e_generation eff) (if renewable state then Active else Reserved) None) (\<lambda>_.
       bindT (completeSandboxOperation (o_id operation)
         [(''providerSandboxId'', JStr (t_id observed)), (''reconciled'', JBool True)]
         (Some (o_attempts operation)) True) (\<lambda>completed.
       bindT (requireT (completed \<noteq> None)
         (CapacityError TransitionInProgress ''Provision operation changed before recovery.'')) (\<lambda>_.
       returnT None)))))))"

definition recoverProvision :: "effect \<Rightarrow> 'p provider \<Rightarrow> ('p, bool) proc" where
  "recoverProvision eff pr =
     bindP (atomic (sel_operations (\<lambda>r. Some (o_id r) = e_operation eff \<and> o_org r = e_org eff))) (\<lambda>ops.
     case first_row ops of
       None \<Rightarrow> retP False
     | Some operation \<Rightarrow>
         if \<not> capacity_protocol (o_request operation) then retP False
         else
           bindP (if truthy (e_provider eff) then
               bindP (callP (get pr (the (e_provider eff)))) (\<lambda>rt. retP (Some rt))
             else
               bindP (callP (list_all_runtimes pr)) (\<lambda>all.
               let matches = filter (\<lambda>rt. exactDispatchMatch rt eff) all in
               if 1 < length matches then bindP (atomic (quarantine eff)) (\<lambda>_. retP None)
               else retP (map_option Some (first_row matches)))) (\<lambda>found.
           case found of
             None \<Rightarrow> retP False
           | Some rt \<Rightarrow>
               if rt = None \<and> e_acknowledged_at eff = None then retP False
               else
                 bindP (case rt of
                     Some x \<Rightarrow> if truthy (e_provider eff) then retP ()
                       else atomic (acknowledgeRuntimeEffect eff (Some (t_id x)))
                   | None \<Rightarrow> retP ()) (\<lambda>_.
                 let recovered = eff\<lparr>e_provider := coalesce (map_option t_id rt) (e_provider eff)\<rparr> in
                 if runtimeIsAbsent pr rt then
                   bindP (atomic (recovered_absent recovered operation)) (\<lambda>_. retP True)
                 else
                   (case rt of
                      None \<Rightarrow> retP False
                    | Some observed \<Rightarrow>
                        bindP (atomic (recovered_present recovered operation observed)) (\<lambda>cleanup.
                        bindP (case cleanup of None \<Rightarrow> retP ()
                               | Some deletion \<Rightarrow> bindP (executeRuntimeDeletion deletion pr) (\<lambda>_. retP ())) (\<lambda>_.
                        retP True))))))"

text \<open>
  The candidates: unreleased reservations due for a check, and released ones an unsettled
  effect still refers to, by due time, at most \<open>limit\<close> of the first \<open>2 * limit\<close>; claiming one
  puts its next check 30 seconds off.
\<close>

definition due :: "time \<Rightarrow> string option \<Rightarrow> effect list \<Rightarrow> hold \<Rightarrow> bool" where
  "due t org es h \<longleftrightarrow> h_next_check_at h \<le> t \<and> (case org of None \<Rightarrow> True | Some x \<Rightarrow> h_org h = x) \<and>
     (h_released_at h = None \<or>
      (\<exists>e \<in> set es. e_sandbox e = h_sandbox h \<and> e_generation e = h_generation h \<and> e_settled_at e = None))"

definition claimDue :: "nat \<Rightarrow> string option \<Rightarrow> hold list dbtx" where
  "claimDue limit org =
     bindT now (\<lambda>t. bindT (getsT effects) (\<lambda>es.
     bindT (sel_holds (due t org es)) (\<lambda>hs.
     let picked = take limit (sort_key h_next_check_at (sort_key h_sandbox hs));
         mine = (\<lambda>h. \<exists>p \<in> set picked. h_sandbox h = h_sandbox p \<and> h_generation h = h_generation p);
         touch = (\<lambda>h. h\<lparr>h_next_check_at := t + 30000, h_checked_at := Some t\<rparr>) in
     bindT (upd_holds mine touch) (\<lambda>_. returnT (map touch picked)))))"

record reconcile_report =
  rp_checked :: nat
  rp_recovered :: nat
  rp_unresolved :: nat
  rp_failed :: nat

datatype verdict = Recovered | Unresolved | Skipped

definition check_hold ::
    "(string \<Rightarrow> string \<Rightarrow> ('p, unit) proc) \<Rightarrow> int \<Rightarrow> 'p provider \<Rightarrow> hold \<Rightarrow> ('p, verdict) proc" where
  "check_hold rehydrate stale pr h =
    (if h_reason h = Some ''legacy_inventory'' then retP Unresolved
     else
       bindP (atomic (sel_effects (\<lambda>e. e_sandbox e = h_sandbox h \<and> e_generation e = h_generation h \<and>
         e_settled_at e = None))) (\<lambda>es.
       case first_row es of
         None \<Rightarrow>
           bindP (atomic (lockSandbox (h_org h) (h_sandbox h))) (\<lambda>sandbox.
           if (case sandbox of None \<Rightarrow> False | Some s \<Rightarrow> truthy (s_runtime_id s)) then
             bindP (reconcileSandboxLease (h_org h) (h_sandbox h) False pr) (\<lambda>_. retP Skipped)
           else
             bindP dateNow (\<lambda>t.
             if stale \<le> t - h_updated_at h then
               bindP (atomic (sel_operations (\<lambda>r. Some (o_id r) = h_operation h))) (\<lambda>ops.
               if (case first_row ops of None \<Rightarrow> False | Some r \<Rightarrow> o_state r = Failed \<or> nonReplayable r) then
                 bindP (requestSandboxTermination (h_org h) (h_sandbox h) None pr) (\<lambda>_. retP Skipped)
               else retP Skipped)
             else retP Skipped))
       | Some eff \<Rightarrow>
           bindP dateNow (\<lambda>t.
           let is_stale = (stale \<le> t - e_updated_at eff) in
           if e_dispatched_at eff = None then
             (if is_stale then bindP (atomic (cancelUndispatchedEffect eff)) (\<lambda>_. retP Recovered) else retP Skipped)
           else if e_kind eff = EProvision then
             (if is_stale then bindP (recoverProvision eff pr) (\<lambda>ok. retP (if ok then Recovered else Unresolved))
              else retP Unresolved)
           else if \<not> truthy (e_provider eff) then retP Unresolved
           else
             bindP (callP (get pr (the (e_provider eff)))) (\<lambda>rt.
             let state = normalizeRuntimeState (map_option t_state rt) in
             if e_kind eff = EDelete \<and> runtimeIsAbsent pr rt then
               bindP (atomic (finishRuntimeDeletion eff)) (\<lambda>_. retP Recovered)
             else
               (case rt of
                  None \<Rightarrow> retP Unresolved
                | Some x \<Rightarrow>
                    if authoritativeLifecycle (caps pr) \<and>
                       (e_kind eff = EPause \<and> state = Some SPaused \<or> e_kind eff = EResume \<and> renewable state)
                    then bindP (completeLifecycleEffect rehydrate eff x pr) (\<lambda>_. retP Recovered)
                    else if e_kind eff = ERenew \<and> authoritativeLifecycle (caps pr) \<and>
                       (case (t_expires x, as_number (field (e_context eff) ''expiresAt'')) of
                          (Some have, Some want) \<Rightarrow> want \<le> have | _ \<Rightarrow> False)
                    then bindP (atomic (finishRuntimeRenewal eff)) (\<lambda>_. retP Recovered)
                    else retP Unresolved)))))"

fun check_holds ::
    "(string \<Rightarrow> string \<Rightarrow> ('p, unit) proc) \<Rightarrow> int \<Rightarrow> 'p provider \<Rightarrow> hold list \<Rightarrow> reconcile_report \<Rightarrow>
     ('p, reconcile_report) proc" where
  "check_holds rehydrate stale pr [] report = retP report"
| "check_holds rehydrate stale pr (h # hs) report =
     bindP (tryP
       (bindP (check_hold rehydrate stale pr h) (\<lambda>v.
        retP (case v of
            Recovered \<Rightarrow> report\<lparr>rp_recovered := rp_recovered report + 1\<rparr>
          | Unresolved \<Rightarrow> report\<lparr>rp_unresolved := rp_unresolved report + 1\<rparr>
          | Skipped \<Rightarrow> report)))
       (\<lambda>e. retP (if is_transition_error e then report
                  else report\<lparr>rp_failed := rp_failed report + 1\<rparr>)))
     (check_holds rehydrate stale pr hs)"

definition reconcileSandboxCapacity ::
    "(string \<Rightarrow> string \<Rightarrow> ('p, unit) proc) \<Rightarrow> int option \<Rightarrow> int option \<Rightarrow> string option \<Rightarrow> 'p provider \<Rightarrow>
     ('p, reconcile_report) proc" where
  "reconcileSandboxCapacity rehydrate staleAfterMs limit org pr =
    (let stale = max 0 (case staleAfterMs of None \<Rightarrow> 300000 | Some x \<Rightarrow> x);
         n = max 1 (min 200 (case limit of None \<Rightarrow> 50 | Some x \<Rightarrow> x)) in
     bindP (atomic (claimDue (nat n) org)) (\<lambda>hs.
     check_holds rehydrate stale pr hs
       \<lparr>rp_checked = length hs, rp_recovered = 0, rp_unresolved = 0, rp_failed = 0\<rparr>))"

section \<open>Invariants\<close>

context store_invariant
begin

lemma status_update [keeps_intro]: "keeps I (set_status org sbx st)"
  unfolding set_status_def by (intro keeps_intro)

lemma reactivated [keeps_intro]: "keeps I (reactivate sbx)"
  unfolding reactivate_def by (intro keeps_intro; simp add: patch_simps)

lemma generation_hold [keeps_intro]: "phase \<noteq> Released \<Longrightarrow> keeps I (set_generation_hold sbx g phase reason)"
  unfolding set_generation_hold_def by (intro keeps_intro; simp add: patch_simps)

lemma cancel_undispatched [keeps_intro]: "keeps I (cancelUndispatchedEffect eff)"
  unfolding cancelUndispatchedEffect_def Let_def by (intro keeps_intro)

lemma quarantined [keeps_intro]: "keeps I (quarantine eff)"
  unfolding quarantine_def by (intro keeps_intro; simp)

lemma absent [keeps_intro]: "keeps I (recovered_absent eff op)"
  unfolding recovered_absent_def by (intro keeps_intro)

lemma present [keeps_intro]: "keeps I (recovered_present eff op obs)"
  unfolding recovered_present_def Let_def by (intro keeps_intro; simp)

lemma claim_due [keeps_intro]: "keeps I (claimDue limit org)"
  unfolding claimDue_def Let_def by (intro keeps_intro; simp add: patch_simps)

end

end
