(* ===== verification/Inventory.thy ===== *)
theory Inventory
  imports Reconciler
begin

text \<open>
  Activating enforcement for an organization (\<open>services/capacity-inventory.ts\<close>): every sandbox
  is classified from the provider's positive evidence, applied under a fence, and the
  organization becomes enforced only when nothing is unresolved.
\<close>

section \<open>The code\<close>

definition matchesLegacyIdentity :: "string \<Rightarrow> string \<Rightarrow> runtime_summary \<Rightarrow> bool" where
  "matchesLegacyIdentity org sbx rt \<longleftrightarrow>
     coalesce (meta rt ''harakiri.org'') (meta rt ''harakiri.organization'') = Some org \<and>
     coalesce (meta rt ''harakiri.sandbox'') (meta rt ''harakiri.id'') = Some sbx"

record inventory_row =
  v_id :: string
  v_runtime :: "string option"
  v_status :: sandbox_status
  v_hold :: "hold option"

datatype inventory_action = Hold | Release | NotResolved

record classification =
  cl_sandbox :: string
  cl_provider :: "string option"
  cl_state :: string
  cl_action :: inventory_action
  cl_phase :: hold_phase
  cl_evidence :: string

definition openInventory :: "string \<Rightarrow> unit dbtx" where
  "openInventory org =
     bindT (lockOrganizationCapacity org) (\<lambda>_.
     bindT (upd_orgs (\<lambda>r. org_id r = org) (\<lambda>r. r\<lparr>capacity_state := Reconciling\<rparr>)) (\<lambda>_.
     bindT (getsT (\<lambda>d. filter (\<lambda>s. s_org s = org \<and> \<not> (\<exists>h \<in> set (holds d). h_sandbox h = s_id s)) (sandboxes d))) (\<lambda>missing.
     bindT (fold (\<lambda>s m. bindT m (\<lambda>_. bindT (insert_hold org (s_id s) 1 None Uncertain (Some ''legacy_inventory''))
         (\<lambda>_. returnT ()))) missing (returnT ())) (\<lambda>_.
     add_audit org org ''capacity.inventory.started''))))"

definition inventoryRows :: "string \<Rightarrow> inventory_row list dbtx" where
  "inventoryRows org = getsT (\<lambda>d.
     map (\<lambda>s. \<lparr>v_id = s_id s, v_runtime = s_runtime_id s, v_status = s_status s,
               v_hold = latest (filter (\<lambda>h. h_sandbox h = s_id s) (holds d))\<rparr>)
       (sort_key s_id (filter (\<lambda>s. s_org s = org) (sandboxes d))))"

text \<open>Runtimes of the organization that belong to no row.\<close>

definition foreignRuntimes :: "string \<Rightarrow> inventory_row list \<Rightarrow> runtime_summary list \<Rightarrow> runtime_summary list" where
  "foreignRuntimes org rows listed = filter (\<lambda>rt.
     coalesce (meta rt ''harakiri.org'') (meta rt ''harakiri.organization'') = Some org \<and>
     \<not> (\<exists>row \<in> set rows. v_runtime row = Some (t_id rt) \<or> matchesLegacyIdentity org (v_id row) rt)) listed"

text \<open>The evidence of an operator that a sandbox without identity is absent, by sandbox.\<close>

type_synonym absence_evidence = "string \<Rightarrow> string option"

definition unresolved_class :: "inventory_row \<Rightarrow> string \<Rightarrow> classification" where
  "unresolved_class row evidence = \<lparr>cl_sandbox = v_id row, cl_provider = v_runtime row,
     cl_state = status_text (v_status row), cl_action = NotResolved, cl_phase = Uncertain, cl_evidence = evidence\<rparr>"

definition classify_observed ::
    "'p provider \<Rightarrow> absence_evidence \<Rightarrow> inventory_row \<Rightarrow> string option \<Rightarrow> runtime_summary option \<Rightarrow> classification" where
  "classify_observed pr evidence row providerId rt =
    (let state = normalizeRuntimeState (map_option t_state rt);
         base = (unresolved_class row ''runtime_identity_unknown'')\<lparr>cl_provider := providerId,
           cl_state := (case rt of None \<Rightarrow> ''absent_or_unknown'' | Some x \<Rightarrow> t_state x)\<rparr> in
     if truthy providerId \<and> runtimeIsAbsent pr rt then
       base\<lparr>cl_action := Release, cl_evidence := ''provider_absent''\<rparr>
     else if rt \<noteq> None \<and> state = Some SPaused \<and> pauseStopsExecution (caps pr) then
       base\<lparr>cl_action := Release, cl_evidence := ''provider_suspended''\<rparr>
     else if rt \<noteq> None \<and> authoritativeLifecycle (caps pr) then
       base\<lparr>cl_action := Hold, cl_evidence := ''provider_present'',
            cl_phase := (if state \<in> {Some SRunning, Some SIdle, Some SPaused} then Active
                         else if state = Some SError then Uncertain else Reserved)\<rparr>
     else if \<not> truthy providerId \<and> (case evidence (v_id row) of None \<Rightarrow> False | Some e \<Rightarrow> trim e \<noteq> []) then
       base\<lparr>cl_action := Release, cl_evidence := ''operator_verified_absent''\<rparr>
     else base)"

definition classify ::
    "string \<Rightarrow> 'p provider \<Rightarrow> absence_evidence \<Rightarrow> runtime_summary list \<Rightarrow> runtime_fence \<Rightarrow> inventory_row \<Rightarrow>
     ('p, classification) proc" where
  "classify org pr evidence listed fence row =
    (let matches = filter (matchesLegacyIdentity org (v_id row)) listed in
     if f_busy fence then retP (unresolved_class row ''runtime_effect_unsettled'')
     else if 1 < length matches \<or> (truthy (v_runtime row) \<and> (\<exists>rt \<in> set matches. Some (t_id rt) \<noteq> v_runtime row))
     then retP (unresolved_class row ''duplicate_runtime_identity'')
     else
       let providerId = coalesce (v_runtime row) (map_option t_id (first_row matches)) in
       bindP (if truthy providerId then callP (get pr (the providerId)) else retP None) (\<lambda>rt.
       retP (classify_observed pr evidence row providerId rt)))"

definition applyClassification ::
    "string \<Rightarrow> bool \<Rightarrow> runtime_fence \<Rightarrow> inventory_row \<Rightarrow> classification \<Rightarrow> bool dbtx" where
  "applyClassification org recovery fence row c =
     bindT (lockEffectSandbox org (v_id row)) (\<lambda>current.
     bindT (readRuntimeFence (v_id row)) (\<lambda>fence2.
     if f_busy fence2 \<or> f_version fence2 \<noteq> f_version fence \<or> s_runtime_id current \<noteq> v_runtime row
     then returnT False
     else
       bindT (sel_holds (\<lambda>h. h_sandbox h = v_id row)) (\<lambda>hs.
       case (latest hs, v_hold row) of
         (Some now_hold, Some seen) \<Rightarrow>
           if h_generation now_hold \<noteq> h_generation seen then returnT False
           else if cl_action c = Hold \<and> h_released_at now_hold \<noteq> None \<and> \<not> recovery then returnT False
           else
             bindT (if cl_action c = Hold \<and> h_released_at now_hold \<noteq> None then
                 bindT (insert_hold org (v_id row) (h_generation seen + 1) None Uncertain (Some ''backup_recovery''))
                   (\<lambda>_. returnT (h_generation seen + 1))
               else returnT (h_generation seen)) (\<lambda>generation.
             bindT now (\<lambda>t.
             bindT (if cl_action c = Hold then
                 bindT (upd_sandboxes (\<lambda>s. s_id s = v_id row \<and> s_org s = org)
                   (\<lambda>s. s\<lparr>s_runtime_id := cl_provider c,
                          s_status := (case normalizeRuntimeState (Some (cl_state c)) of None \<Rightarrow> SError | Some x \<Rightarrow> x),
                          s_updated_at := t\<rparr>)) (\<lambda>_.
                 set_generation_hold (v_id row) generation (cl_phase c) (Some ''inventory_verified''))
               else
                 bindT (if cl_evidence c \<noteq> ''provider_suspended'' then persistSandboxTermination org (v_id row)
                   else bindT (upd_sandboxes (\<lambda>s. s_id s = v_id row \<and> s_org s = org)
                     (\<lambda>s. s\<lparr>s_runtime_id := cl_provider c, s_status := SPaused, s_updated_at := t\<rparr>)) (\<lambda>_. returnT ())) (\<lambda>_.
                 bindT (releaseSandboxCapacity org (v_id row) generation
                   (if cl_evidence c = ''provider_suspended'' then ProviderSuspended else ProviderAbsent)) (\<lambda>_.
                 returnT ()))) (\<lambda>_.
             bindT (add_audit org (v_id row) ''capacity.inventory.verified'') (\<lambda>_.
             returnT True))))
       | _ \<Rightarrow> returnT False)))"

fun classifyRows ::
    "string \<Rightarrow> bool \<Rightarrow> bool \<Rightarrow> 'p provider \<Rightarrow> absence_evidence \<Rightarrow> runtime_summary list \<Rightarrow> inventory_row list \<Rightarrow>
     ('p, classification list) proc" where
  "classifyRows org apply recovery pr evidence listed [] = retP []"
| "classifyRows org apply recovery pr evidence listed (row # rows) =
     bindP (atomic (bindT (lockEffectSandbox org (v_id row)) (\<lambda>_. readRuntimeFence (v_id row)))) (\<lambda>fence.
     bindP (classify org pr evidence listed fence row) (\<lambda>c.
     bindP (if apply \<and> cl_action c \<noteq> NotResolved then
         bindP (atomic (applyClassification org recovery fence row c)) (\<lambda>applied.
         retP (if applied then c
               else c\<lparr>cl_action := NotResolved, cl_evidence := ''inventory_changed_or_recovery_required''\<rparr>))
       else retP c) (\<lambda>c.
     bindP (classifyRows org apply recovery pr evidence listed rows) (\<lambda>cs. retP (c # cs)))))"

text \<open>The decision that ends an inventory.\<close>

definition inventoryState :: "nat \<Rightarrow> classification list \<Rightarrow> bool \<Rightarrow> bool \<Rightarrow> capacity_state" where
  "inventoryState foreign_count cs invalid unchecked =
    (let open_cases = count_rows (\<lambda>c. cl_action c = NotResolved) cs + foreign_count in
     if 0 < foreign_count \<or> (\<exists>c \<in> set cs. cl_evidence c = ''duplicate_runtime_identity'') then Quarantined
     else if 0 < open_cases \<or> invalid \<or> unchecked then Reconciling
     else Enforced)"

definition closeInventory :: "string \<Rightarrow> nat \<Rightarrow> classification list \<Rightarrow> unit dbtx" where
  "closeInventory org foreign_count cs =
     bindT (lockOrganizationCapacity org) (\<lambda>_.
     bindT (getsT (\<lambda>d. \<exists>r \<in> set (orgs d). org_id r = org \<and> \<not> (1 \<le> max_concurrency r \<and> max_concurrency r \<le> 10000))) (\<lambda>invalid.
     bindT (getsT (\<lambda>d. \<exists>s \<in> set (sandboxes d). s_org s = org \<and>
       \<not> (\<exists>h \<in> set (holds d). h_sandbox h = s_id s \<and> h_reason h \<noteq> None \<and> h_reason h \<noteq> Some ''legacy_inventory''))) (\<lambda>unchecked.
     bindT (upd_orgs (\<lambda>r. org_id r = org)
       (\<lambda>r. r\<lparr>capacity_state := inventoryState foreign_count cs invalid unchecked\<rparr>)) (\<lambda>_.
     add_audit org org ''capacity.inventory.finished''))))"

record inventory_report =
  ir_dryRun :: bool
  ir_capacity :: organization_capacity
  ir_classifications :: "classification list"
  ir_untracked :: "string list"
  ir_unresolved :: nat

definition reconcileCapacityInventory ::
    "string \<Rightarrow> bool \<Rightarrow> bool \<Rightarrow> bool \<Rightarrow> absence_evidence \<Rightarrow> 'p provider \<Rightarrow> ('p, inventory_report) proc" where
  "reconcileCapacityInventory org apply writersStopped recovery evidence pr =
    (if apply \<and> \<not> writersStopped then
       throwP (PlainError ''Stop every older API and worker before activation. Pass writersStopped only after verifying this operational prerequisite.'')
     else
       bindP (if apply then atomic (openInventory org) else retP ()) (\<lambda>_.
       bindP (atomic (inventoryRows org)) (\<lambda>rows.
       bindP (callP (list_all_runtimes pr)) (\<lambda>listed.
       let untracked = foreignRuntimes org rows listed in
       bindP (classifyRows org apply recovery pr evidence listed rows) (\<lambda>cs.
       bindP (if apply then atomic (closeInventory org (length untracked) cs) else retP ()) (\<lambda>_.
       bindP (atomic (readOrganizationCapacity org)) (\<lambda>capacity.
       retP \<lparr>ir_dryRun = (\<not> apply), ir_capacity = capacity, ir_classifications = cs,
             ir_untracked = map t_id untracked,
             ir_unresolved = count_rows (\<lambda>c. cl_action c = NotResolved) cs + length untracked\<rparr>)))))))"

section \<open>Invariants\<close>

lemma keeps_fold:
  assumes "\<And>x. keeps I (f x)" and "keeps I m"
  shows "keeps I (fold (\<lambda>x m. bindT m (\<lambda>_. f x)) xs m)"
  using assms(2)
proof (induction xs arbitrary: m)
  case (Cons a xs)
  have "keeps I (bindT m (\<lambda>_. f a))" by (rule keeps_bind [OF Cons.prems assms(1)])
  then show ?case by (simp add: Cons.IH)
qed simp

context limit_free
begin

lemma inventory_open [keeps_intro]: "keeps I (openInventory org)"
  unfolding openInventory_def by (intro keeps_intro keeps_fold)

lemma inventory_apply [keeps_intro]:
  "cl_phase c \<noteq> Released \<Longrightarrow> keeps I (applyClassification org recovery fence row c)"
  unfolding applyClassification_def by (intro keeps_intro)

lemma inventory_close [keeps_intro]: "keeps I (closeInventory org n cs)"
  unfolding closeInventory_def by (intro keeps_intro)

end

end
