(* ===== verification/OrgSettings.thy ===== *)
theory OrgSettings
  imports Invariants
begin

text \<open>
  The settings of an organization (\<open>services/org-settings.ts\<close>) and the governance of outbound
  policies they contain (\<open>services/egress-policy.ts\<close>). A change of the concurrency limit is an
  optimistic one: it names the revision the caller has read, and it is one UPDATE, so it is
  ordered with the admissions.
\<close>

section \<open>Settings\<close>

record organization_settings =
  os_id :: string
  os_name :: string
  os_slug :: string
  os_template :: "string option"
  os_idle_ttl :: int
  os_max_concurrency :: int
  os_revision :: int
  os_egress :: policy_input
  os_presets :: "string list"
  os_custom_domains :: bool
  os_max_rules :: int
  os_redact :: bool

text \<open>\<open>OrganizationSettingsUpdate\<close>: an absent field is not changed.\<close>

record settings_update =
  su_name :: "string option"
  su_slug :: "string option"
  su_idle_ttl :: "int option"
  su_max_concurrency :: "int option"
  su_expected_revision :: "int option"
  su_template :: "string option"
  su_egress :: "policy_input option"
  su_presets :: "string list option"
  su_custom_domains :: "bool option"
  su_max_rules :: "int option"
  su_redact :: "bool option"

definition presets_or_all :: "string list option \<Rightarrow> string list" where
  "presets_or_all ps = (if some_items ps then or_else ps [] else egressPresetIds)"

definition normalizeSettings :: "org_row \<Rightarrow> organization_settings" where
  "normalizeSettings row =
     \<lparr>os_id = org_id row, os_name = org_name row, os_slug = org_slug row, os_template = org_template row,
      os_idle_ttl = org_idle_ttl row, os_max_concurrency = max_concurrency row,
      os_revision = capacity_revision row, os_egress = or_else (org_egress row) defaultEgressPolicyInput,
      os_presets = presets_or_all (org_presets row),
      os_custom_domains = or_else (org_custom_domains row) True,
      os_max_rules = or_else (org_max_rules row) 128, os_redact = or_else (org_redact row) False\<rparr>"

text \<open>Spreading the row of an unknown organization and reading its fields is a TypeError.\<close>

definition getOrganizationSettings :: "string \<Rightarrow> organization_settings dbtx" where
  "getOrganizationSettings organizationId =
     bindT (sel_orgs (\<lambda>r. org_id r = organizationId)) (\<lambda>result.
     case first_row result of
       None \<Rightarrow> throwT (PlainError ''Cannot read properties of undefined (reading 'defaultEgressPolicy')'')
     | Some row \<Rightarrow> returnT (normalizeSettings row))"

text \<open>
  The SET clause: the supplied columns, and the revision when the limit is set. The table
  refuses a limit outside 1 to 10000 and a slug in use (\<open>organizations_capacity_limit\<close>, the
  unique slug).
\<close>

definition apply_update :: "settings_update \<Rightarrow> time \<Rightarrow> org_row \<Rightarrow> org_row" where
  "apply_update p t r = r\<lparr>org_updated_at := t,
     org_name := or_else (su_name p) (org_name r), org_slug := or_else (su_slug p) (org_slug r),
     org_template := (case su_template p of None \<Rightarrow> org_template r | Some x \<Rightarrow> Some x),
     org_idle_ttl := or_else (su_idle_ttl p) (org_idle_ttl r),
     max_concurrency := or_else (su_max_concurrency p) (max_concurrency r),
     org_egress := (case su_egress p of None \<Rightarrow> org_egress r | Some x \<Rightarrow> Some x),
     org_presets := (case su_presets p of None \<Rightarrow> org_presets r | Some x \<Rightarrow> Some x),
     org_custom_domains := (case su_custom_domains p of None \<Rightarrow> org_custom_domains r | Some x \<Rightarrow> Some x),
     org_max_rules := (case su_max_rules p of None \<Rightarrow> org_max_rules r | Some x \<Rightarrow> Some x),
     org_redact := (case su_redact p of None \<Rightarrow> org_redact r | Some x \<Rightarrow> Some x),
     capacity_revision := capacity_revision r + (if su_max_concurrency p = None then 0 else 1)\<rparr>"

definition settings_cond :: "string \<Rightarrow> settings_update \<Rightarrow> org_row \<Rightarrow> bool" where
  "settings_cond org p r \<longleftrightarrow> org_id r = org \<and>
     (su_max_concurrency p \<noteq> None \<longrightarrow> Some (capacity_revision r) = su_expected_revision p)"

definition slug_free :: "string \<Rightarrow> settings_update \<Rightarrow> db \<Rightarrow> bool" where
  "slug_free org p d \<longleftrightarrow> (case su_slug p of None \<Rightarrow> True
     | Some slug \<Rightarrow> \<not> (\<exists>r \<in> set (orgs d). org_id r \<noteq> org \<and> org_slug r = slug))"

definition limit_allowed :: "settings_update \<Rightarrow> bool" where
  "limit_allowed p \<longleftrightarrow> (case su_max_concurrency p of None \<Rightarrow> True | Some n \<Rightarrow> 1 \<le> n \<and> n \<le> 10000)"

definition updateOrganizationSettings ::
    "string \<Rightarrow> settings_update \<Rightarrow> organization_settings dbtx" where
  "updateOrganizationSettings organizationId patch =
     (if su_max_concurrency patch \<noteq> None \<and> su_expected_revision patch = None then
        throwT (CapacityError CapacitySettingsConflict ''Reload settings before changing the concurrency limit.'')
      else
        bindT now (\<lambda>t.
        bindT (getsT id) (\<lambda>d.
        bindT (sel_orgs (settings_cond organizationId patch)) (\<lambda>rows.
        seqT (requireT (rows = [] \<or> slug_free organizationId patch d)
                (DbError ''duplicate key value violates unique constraint''))
        (seqT (requireT (rows = [] \<or> limit_allowed patch) (DbError ''violates check constraint''))
        (bindT (upd_orgs (settings_cond organizationId patch) (apply_update patch t)) (\<lambda>_.
         case first_row rows of
           None \<Rightarrow> throwT (CapacityError CapacitySettingsConflict
             ''Settings changed. Reload them before saving the concurrency limit.'')
         | Some row \<Rightarrow> returnT (normalizeSettings (apply_update patch t row)))))))))"

section \<open>Governance of outbound policies\<close>

record egress_governance =
  gv_default :: policy_input
  gv_presets :: "string list"
  gv_custom_domains :: bool
  gv_max_rules :: int
  gv_redact :: bool

definition defaultGovernance :: egress_governance where
  "defaultGovernance = \<lparr>gv_default = defaultEgressPolicyInput, gv_presets = egressPresetIds,
     gv_custom_domains = True, gv_max_rules = 128, gv_redact = False\<rparr>"

definition getEgressGovernance :: "string \<Rightarrow> egress_governance dbtx" where
  "getEgressGovernance organizationId =
     bindT (sel_orgs (\<lambda>r. org_id r = organizationId)) (\<lambda>result.
     returnT (case first_row result of
         None \<Rightarrow> defaultGovernance
       | Some row \<Rightarrow>
           \<lparr>gv_default = or_else (org_egress row) defaultEgressPolicyInput,
            gv_presets = presets_or_all (org_presets row),
            gv_custom_domains = or_else (org_custom_domains row) True,
            gv_max_rules = or_else (org_max_rules row) 128,
            gv_redact = or_else (org_redact row) False\<rparr>))"

datatype egress_validation =
    ValidPolicy policy_summary egress_governance
  | InvalidPolicy string
  | RuleLimitExceeded int
  | PresetNotAllowed string
  | CustomDomainsDisabled

definition judge_policy :: "egress_governance \<Rightarrow> policy_input option \<Rightarrow> egress_validation" where
  "judge_policy governance policy =
     (case compileEgressPolicy (Some (or_else policy (gv_default governance))) of
        Inl message \<Rightarrow> InvalidPolicy message
      | Inr summary \<Rightarrow>
          (case first_row (filter (\<lambda>p. p \<notin> set (gv_presets governance)) (ps_presets summary)) of
             Some preset \<Rightarrow> PresetNotAllowed preset
           | None \<Rightarrow>
               if \<not> gv_custom_domains governance \<and> policyUsesCustomDomains policy then CustomDomainsDisabled
               else if int (length (ps_rules summary)) > gv_max_rules governance
               then RuleLimitExceeded (gv_max_rules governance)
               else ValidPolicy summary governance))"

definition validateEgressPolicyForOrganization ::
    "string \<Rightarrow> policy_input option \<Rightarrow> egress_validation dbtx" where
  "validateEgressPolicyForOrganization organizationId policy =
     bindT (getEgressGovernance organizationId) (\<lambda>governance. returnT (judge_policy governance policy))"

section \<open>Correctness\<close>

lemma judge_Valid:
  assumes "judge_policy g policy = ValidPolicy s g'"
  shows "compileEgressPolicy (Some (or_else policy (gv_default g))) = Inr s" and "g' = g"
    and "set (ps_presets s) \<subseteq> set (gv_presets g)" and "int (length (ps_rules s)) \<le> gv_max_rules g"
    and "gv_custom_domains g \<or> \<not> policyUsesCustomDomains policy"
  using assms
  by (auto simp: judge_policy_def filter_empty_conv split: sum.splits option.splits if_splits)

text \<open>Where the rules of a policy come from.\<close>

lemma preset_rules_source:
  assumes "preset_rules ps = Inr rs" and "r \<in> set rs"
  shows "\<exists>p \<in> set ps. g_source r = FromPreset p \<and>
    (\<exists>t \<in> set (egressPresetCatalog p). normalizeEgressTarget t = Inr (g_target r)) \<and> g_action r = Allow"
proof -
  define f :: "string \<Rightarrow> string \<Rightarrow> string + policy_rule" where
    "f = (\<lambda>p t. case normalizeEgressTarget t of Inl e \<Rightarrow> Inl e | Inr n \<Rightarrow> Inr (rule_of (FromPreset p) Allow n))"
  from assms(1) have "set (concat (map (\<lambda>p. map (f p) (egressPresetCatalog p)) ps)) = Inr ` set rs"
    by (simp add: preset_rules_def all_of_Inr f_def del: set_concat)
  then have "Inr r \<in> set (concat (map (\<lambda>p. map (f p) (egressPresetCatalog p)) ps))" using assms(2) by blast
  then obtain p t where "p \<in> set ps" "t \<in> set (egressPresetCatalog p)" "Inr r = f p t" by auto
  then show ?thesis
    by (intro bexI [of _ p]) (auto simp: f_def rule_of_def split: sum.splits)
qed

lemma summarize_rules:
  "r \<in> set (ps_rules (summarize i ps rs as ds)) \<Longrightarrow>
     r \<in> set rs \<and> ps_presets (summarize i ps rs as ds) = ps \<or> g_source r = FromSandbox \<and> (as \<noteq> [] \<or> ds \<noteq> [])"
  by (auto simp: summarize_def Let_def rule_of_def dest!: dedupe_key_subset split: if_splits option.splits)

lemma unique_empty: "\<not> some_items vs \<Longrightarrow> uniqueNormalizedTargets vs = Inr []"
  by (auto simp: some_items_def uniqueNormalizedTargets_def split: option.splits)

text \<open>
  C23. What the governance of an organization guarantees. A policy that passes validation
  uses only presets the organization allows and has at most the organization's number of
  rules; every rule either is one of an allowed preset's domains, or was written by the user
  for this sandbox, and where the organization has custom domains switched off a submitted
  policy has no rule of the second kind.
\<close>

theorem governed_policy:
  assumes "validateEgressPolicyForOrganization org policy d = Inr (ValidPolicy s g, d')"
  shows "d' = d \<and> getEgressGovernance org d = Inr (g, d) \<and>
    set (ps_presets s) \<subseteq> set (gv_presets g) \<and> int (length (ps_rules s)) \<le> gv_max_rules g \<and>
    (\<forall>r \<in> set (ps_rules s).
       (\<exists>p \<in> set (gv_presets g). g_source r = FromPreset p \<and> g_action r = Allow \<and>
          (\<exists>t \<in> set (egressPresetCatalog p). normalizeEgressTarget t = Inr (g_target r))) \<or>
       g_source r = FromSandbox \<and> (policy \<noteq> None \<longrightarrow> gv_custom_domains g))"
proof -
  from assms have d': "d' = d" and gov: "getEgressGovernance org d = Inr (g, d)"
    and j: "judge_policy g policy = ValidPolicy s g"
    by (auto simp: validateEgressPolicyForOrganization_def getEgressGovernance_def bindT_Inr_iff sel_Inr returnT_apply
        dest: judge_Valid(2))
  note v = judge_Valid [OF j]
  let ?input = "Some (or_else policy (gv_default g))"
  from v(1) obtain presets rules allows denies where
    parts: "preset_rules presets = Inr rules" "uniqueNormalizedTargets (Option.bind ?input pi_allow) = Inr allows"
      "uniqueNormalizedTargets (Option.bind ?input pi_deny) = Inr denies"
    and s: "s = summarize ?input presets rules allows denies" by (rule compile_Inr)
  have "(\<exists>p \<in> set (gv_presets g). g_source r = FromPreset p \<and> g_action r = Allow \<and>
          (\<exists>t \<in> set (egressPresetCatalog p). normalizeEgressTarget t = Inr (g_target r))) \<or>
       g_source r = FromSandbox \<and> (policy \<noteq> None \<longrightarrow> gv_custom_domains g)" if r: "r \<in> set (ps_rules s)" for r
    using summarize_rules [OF r [unfolded s]]
  proof
    assume "r \<in> set rules \<and> ps_presets (summarize ?input presets rules allows denies) = presets"
    then have "r \<in> set rules" "set presets \<subseteq> set (gv_presets g)" using v(3) by (simp_all add: s)
    then show ?thesis using preset_rules_source [OF parts(1)] by blast
  next
    assume own: "g_source r = FromSandbox \<and> (allows \<noteq> [] \<or> denies \<noteq> [])"
    have "policyUsesCustomDomains policy" if "policy = Some q" for q
      using own parts(2,3) that unique_empty by (fastforce simp: policyUsesCustomDomains_def or_else_def)
    with own v(5) show ?thesis by (cases policy) auto
  qed
  with d' gov v show ?thesis by blast
qed

lemma apply_update_fields [simp]:
  "org_id (apply_update p t r) = org_id r" "capacity_state (apply_update p t r) = capacity_state r"
  "max_concurrency (apply_update p t r) = or_else (su_max_concurrency p) (max_concurrency r)"
  "capacity_revision (apply_update p t r) = capacity_revision r + (if su_max_concurrency p = None then 0 else 1)"
  by (simp_all add: apply_update_def)

lemma updateOrganizationSettings_Inr:
  assumes "updateOrganizationSettings org p d = Inr (s, d')"
  obtains row where "first_row (filter (settings_cond org p) (orgs d)) = Some row"
    "d' = d\<lparr>orgs := update_rows (settings_cond org p) (apply_update p (clock d)) (orgs d)\<rparr>"
    "s = normalizeSettings (apply_update p (clock d) row)" "slug_free org p d" "limit_allowed p"
  using assms by (auto simp: updateOrganizationSettings_def bindT_Inr_iff seqT_Inr_iff requireT_Inr_iff now_Inr
      sel_Inr upd_Inr getsT_apply throwT_apply returnT_apply split: if_splits option.splits)

text \<open>
  Limits are changed optimistically. A change of the concurrency limit that succeeds was
  based on the organization's present revision and advances it; it stays within 1 to 10000,
  changes no other organization and no reservation, and a second change based on the same
  revision is refused as a conflict, so of two administrators who saw the same limit only
  one can change it.
\<close>

lemma limit_change_optimistic:
  assumes "updateOrganizationSettings org p d = Inr (s, d')" and "su_max_concurrency p = Some n"
    and "su_max_concurrency q \<noteq> None" and "su_expected_revision q = su_expected_revision p"
    and "distinct (map org_id (orgs d))"
  shows "\<exists>row row'. org_of d org = Some row \<and> su_expected_revision p = Some (capacity_revision row) \<and>
      org_of d' org = Some row' \<and> max_concurrency row' = n \<and> 1 \<le> n \<and> n \<le> 10000 \<and>
      capacity_revision row' = capacity_revision row + 1 \<and> os_max_concurrency s = n \<and>
      (\<forall>other. other \<noteq> org \<longrightarrow> org_of d' other = org_of d other) \<and> holds d' = holds d \<and>
      updateOrganizationSettings org q d' =
        Inl (CapacityError CapacitySettingsConflict ''Settings changed. Reload them before saving the concurrency limit.'')"
proof -
  from assms(1) obtain row where row: "first_row (filter (settings_cond org p) (orgs d)) = Some row"
    and d': "d' = d\<lparr>orgs := update_rows (settings_cond org p) (apply_update p (clock d)) (orgs d)\<rparr>"
    and s: "s = normalizeSettings (apply_update p (clock d) row)" and n: "limit_allowed p"
    by (rule updateOrganizationSettings_Inr)
  from first_row_filter_Some [OF row] have mem: "row \<in> set (orgs d)" "org_id row = org"
    and rev: "su_expected_revision p = Some (capacity_revision row)" using assms(2) by (auto simp: settings_cond_def)
  have only: "filter (\<lambda>r. org_id r = org) (orgs d) = [row]"
    using filter_key_unique [of org_id "orgs d" row] assms(5) mem by simp
  have moved: "filter (\<lambda>r. org_id r = o') (orgs d') =
      update_rows (settings_cond org p) (apply_update p (clock d)) (filter (\<lambda>r. org_id r = o') (orgs d))" for o'
    unfolding d' by simp (rule filter_update_rows, simp)
  have hit: "settings_cond org p row" using mem rev by (simp add: settings_cond_def)
  have new: "filter (\<lambda>r. org_id r = org) (orgs d') = [apply_update p (clock d) row]"
    unfolding moved only using hit by (simp add: update_rows_def)
  have others: "org_of d' o' = org_of d o'" if "o' \<noteq> org" for o'
  proof -
    have "filter (settings_cond org p) (filter (\<lambda>r. org_id r = o') (orgs d)) = []"
      using that by (auto simp: filter_empty_conv settings_cond_def)
    then show ?thesis by (simp add: org_of_def moved update_rows_none)
  qed
  have "filter (settings_cond org q) (orgs d') = []"
  proof -
    have "filter (settings_cond org q) (orgs d') = filter (settings_cond org q) (filter (\<lambda>r. org_id r = org) (orgs d'))"
      by (simp add: settings_cond_def filter_filter cong: filter_cong)
    then show ?thesis using assms(2-4) rev by (simp add: new settings_cond_def)
  qed
  then have "updateOrganizationSettings org q d' =
      Inl (CapacityError CapacitySettingsConflict ''Settings changed. Reload them before saving the concurrency limit.'')"
    using assms(4) rev by (simp add: updateOrganizationSettings_def bindT_def seqT_def requireT_def now_def sel_defs
        getsT_apply upd_Inr throwT_apply returnT_apply)
  moreover have "org_of d org = Some row" "org_of d' org = Some (apply_update p (clock d) row)"
    by (simp_all add: org_of_def only new)
  ultimately show ?thesis using rev others n assms(2) mem
    by (auto simp: s d' normalizeSettings_def limit_allowed_def or_else_def)
qed

text \<open>
  The two readers of an organization's settings agree. What the settings page shows of the
  outbound policy is what validation enforces, defaults included, although each reads the row
  and fills in the defaults by its own code.
\<close>

lemma settings_readers_agree:
  assumes "getOrganizationSettings org d = Inr (s, d')"
  shows "getEgressGovernance org d' = Inr (\<lparr>gv_default = os_egress s, gv_presets = os_presets s,
      gv_custom_domains = os_custom_domains s, gv_max_rules = os_max_rules s, gv_redact = os_redact s\<rparr>, d') \<and>
    (updateOrganizationSettings org p d' = Inr (s2, d2) \<longrightarrow> distinct (map org_id (orgs d)) \<longrightarrow>
       getOrganizationSettings org d2 = Inr (s2, d2))"
proof -
  from assms obtain row where row: "first_row (filter (\<lambda>r. org_id r = org) (orgs d)) = Some row" and d': "d' = d"
    and s: "s = normalizeSettings row"
    by (auto simp: getOrganizationSettings_def bindT_Inr_iff sel_Inr throwT_apply returnT_apply split: option.splits)
  have gov: "getEgressGovernance org d' = Inr (\<lparr>gv_default = os_egress s, gv_presets = os_presets s,
      gv_custom_domains = os_custom_domains s, gv_max_rules = os_max_rules s, gv_redact = os_redact s\<rparr>, d')"
    by (simp add: getEgressGovernance_def bindT_def sel_Inr returnT_apply row d' s normalizeSettings_def)
  have read: "getOrganizationSettings org d2 = Inr (s2, d2)"
    if u: "updateOrganizationSettings org p d = Inr (s2, d2)" and dist: "distinct (map org_id (orgs d))"
  proof -
    from u obtain row2 where row2: "first_row (filter (settings_cond org p) (orgs d)) = Some row2"
      and d2: "d2 = d\<lparr>orgs := update_rows (settings_cond org p) (apply_update p (clock d)) (orgs d)\<rparr>"
      and s2: "s2 = normalizeSettings (apply_update p (clock d) row2)" by (rule updateOrganizationSettings_Inr)
    from first_row_filter_Some [OF row2] have mem: "row2 \<in> set (orgs d)" "settings_cond org p row2" "org_id row2 = org"
      by (auto simp: settings_cond_def)
    have "filter (\<lambda>r. org_id r = org) (orgs d) = [row2]"
      using filter_key_unique [of org_id "orgs d" row2] dist mem by simp
    then have "filter (\<lambda>r. org_id r = org) (orgs d2) = [apply_update p (clock d) row2]"
      unfolding d2 using mem(2) by (simp add: filter_update_rows) (simp add: update_rows_def)
    then show ?thesis by (simp add: getOrganizationSettings_def bindT_def sel_Inr returnT_apply s2)
  qed
  from gov read show ?thesis by (simp add: d')
qed

section \<open>Witnesses\<close>

definition no_update :: settings_update where
  "no_update = \<lparr>su_name = None, su_slug = None, su_idle_ttl = None, su_max_concurrency = None,
     su_expected_revision = None, su_template = None, su_egress = None, su_presets = None,
     su_custom_domains = None, su_max_rules = None, su_redact = None\<rparr>"

definition set_limit :: settings_update where
  "set_limit = no_update\<lparr>su_max_concurrency := Some 5, su_expected_revision := Some 1\<rparr>"

definition settings_db :: db where
  "settings_db = empty_db\<lparr>orgs := [new_org ''org'' 2, new_org ''other'' 3]\<rparr>"

lemma set_limit_runs: "\<exists>s d'. updateOrganizationSettings ''org'' set_limit settings_db = Inr (s, d')"
proof -
  have "\<not> isl (updateOrganizationSettings ''org'' set_limit settings_db)" by code_simp
  then show ?thesis by (cases "updateOrganizationSettings ''org'' set_limit settings_db") auto
qed

definition pip_org :: db where
  "pip_org = empty_db\<lparr>orgs := [(new_org ''org'' 2)\<lparr>org_presets := Some [''llm-apis''], org_max_rules := Some 9\<rparr>]\<rparr>"

theorem governed_policy_witness:
  "\<exists>s g. validateEgressPolicyForOrganization ''org'' (Some pip_only) pip_org = Inr (ValidPolicy s g, pip_org) \<and>
     set (ps_presets s) \<subseteq> {''llm-apis''} \<and> length (ps_rules s) \<le> 9"
proof -
  have "\<exists>s g. validateEgressPolicyForOrganization ''org'' (Some pip_only) pip_org = Inr (ValidPolicy s g, pip_org) \<and>
      gv_presets g = [''llm-apis''] \<and> gv_max_rules g = 9"
    by (simp add: validateEgressPolicyForOrganization_def getEgressGovernance_def bindT_def sel_defs getsT_apply returnT_apply
        pip_org_def new_row_defs judge_policy_def or_else_def presets_or_all_def some_items_def pip_only_compiles)
  then obtain s g where run: "validateEgressPolicyForOrganization ''org'' (Some pip_only) pip_org = Inr (ValidPolicy s g, pip_org)"
    "gv_presets g = [''llm-apis'']" "gv_max_rules g = 9" by blast
  with governed_policy [OF run(1)] show ?thesis by auto
qed

end
