(* ===== verification/Protocol.thy ===== *)
theory Protocol
  imports Worker Snapshots Inventory OrgSettings
begin

text \<open>
  All services at once. The abstract protocol is a step relation on the store with one rule per
  kind of statement that touches reservations, effects or operations; every service, run
  against any provider and interleaved with any other steps of the protocol, is shown to be
  a sequence of its steps. What every step keeps therefore holds in every state that any
  interleaving of the services reaches.
\<close>

section \<open>The abstract protocol\<close>

inductive store_step :: "db \<Rightarrow> db \<Rightarrow> bool" where
  elsewhere: "store_step d d'" if "orgs d' = orgs d" "holds d' = holds d" "effects d' = effects d"
    "operations d' = operations d"
| change_holds: "store_step d (d\<lparr>holds := update_rows P f (holds d)\<rparr>)" if "slot_patch P f"
| change_effects: "store_step d (d\<lparr>effects := update_rows P f (effects d)\<rparr>)" if "effect_patch P f"
| change_operations: "store_step d (d\<lparr>operations := update_rows P f (operations d)\<rparr>)" if "operation_patch P f"
| change_orgs: "store_step d (d\<lparr>orgs := update_rows P f (orgs d)\<rparr>)" if "same_limits f"
| add_operation: "store_step d d'" if "insert_operation i org sbx k key req d = Inr (rows, d')"
| take_slot: "store_step d d'" if "reserveSandboxCapacity org sbx op d = Inr (h, d')"
| free_slot: "store_step d d'" if "releaseSandboxCapacity org sbx g reason d = Inr (b, d')"
| begin_effect: "store_step d d'" if "beginRuntimeEffect org sbx k operation ctx d = Inr (e, d')"

inductive_cases store_stepE: "store_step d d'"

text \<open>
  An administrator may change settings too; \<open>system_step org N\<close> are the runs in which nobody sets
  the limit of \<open>org\<close> above \<open>N\<close>.
\<close>

inductive system_step :: "string \<Rightarrow> nat \<Rightarrow> db \<Rightarrow> db \<Rightarrow> bool" for org N where
  service: "system_step org N d d'" if "store_step d d'"
| settings: "system_step org N d d'" if "updateOrganizationSettings org' p d = Inr (s, d')"
    "org' = org \<longrightarrow> (\<forall>n. su_max_concurrency p = Some n \<longrightarrow> n \<le> int N)"

text \<open>
  An inventory adds reservations for what it finds without asking for a free slot, and
  organizations may change in every way.
\<close>

inductive inventory_step :: "db \<Rightarrow> db \<Rightarrow> bool" where
  any_service: "inventory_step d d'" if "store_step d d'"
| found_slot: "inventory_step d d'" if "insert_hold org sbx g None Uncertain reason d = Inr (h, d')"
| any_org: "inventory_step d (d\<lparr>orgs := os\<rparr>)"

text \<open>
  A protocol is any step relation that has these steps. The states its runs reach are
  themselves an invariant of the interface, so the lemmas proved once for every invariant show
  that each transaction is a sequence of steps.
\<close>

locale protocol =
  fixes R :: "db \<Rightarrow> db \<Rightarrow> bool"
  assumes has_steps: "\<And>d d'. store_step d d' \<Longrightarrow> R d d'"
begin

lemma one_more: "R\<^sup>*\<^sup>* d0 d \<Longrightarrow> store_step d d' \<Longrightarrow> R\<^sup>*\<^sup>* d0 d'"
  by (blast intro: rtranclp.rtrancl_into_rtrancl has_steps)

end

sublocale protocol \<subseteq> reach: store_invariant "R\<^sup>*\<^sup>* d0" for d0
proof
  show "R\<^sup>*\<^sup>* d0 d'" if "R\<^sup>*\<^sup>* d0 d" "orgs d' = orgs d" "holds d' = holds d"
    "effects d' = effects d" "operations d' = operations d" for d d'
    using that(1) by (rule one_more) (rule elsewhere, fact+)
qed (auto intro!: keepsI elim!: one_more intro: store_step.intros)

interpretation services: protocol store_step
  by unfold_locales

interpretation with_settings: protocol "system_step org N" for org N
  by unfold_locales (rule service)

interpretation with_inventory: protocol inventory_step
  by unfold_locales (rule any_service)

interpretation reach_all: limit_free "inventory_step\<^sup>*\<^sup>* d0" for d0
  by unfold_locales (auto intro!: keepsI elim!: rtranclp.rtrancl_into_rtrancl intro: inventory_step.intros)

text \<open>What an invariant of the interface is: it is kept by every step.\<close>

context store_invariant
begin

lemma kept_by_step: "store_step d d' \<Longrightarrow> I d \<Longrightarrow> I d'"
  by (induction rule: store_step.induct)
    (auto intro: frame patch_holds patch_effects patch_operations patch_orgs
      keepsD [OF insert_operation] keepsD [OF reserve] keepsD [OF release] keepsD [OF begin_effect])

lemma kept_by_run: "store_step\<^sup>*\<^sup>* d d' \<Longrightarrow> I d \<Longrightarrow> I d'"
  by (erule rtranclp_keeps) (auto intro: kept_by_step)

end

context limit_free
begin

lemma kept_by_inventory_step: "inventory_step d d' \<Longrightarrow> I d \<Longrightarrow> I d'"
  by (erule inventory_step.cases) (blast intro: kept_by_step patch_limits keepsD [OF insert_uncertain])+

lemma kept_by_inventory: "inventory_step\<^sup>*\<^sup>* d d' \<Longrightarrow> I d \<Longrightarrow> I d'"
  by (erule rtranclp_keeps) (auto intro: kept_by_inventory_step)

end

text \<open>Workspaces and routes are other tables.\<close>

context store_invariant
begin

lemma workspace_statements [keeps_intro]:
  "keeps I (insertWorkspace i org name k volume storageClass policy)" "keeps I (requireWorkspaceSupport cfg pr)"
  "keeps I (getWorkspaceRow org i)" "keeps I (prepareRuntimeWorkspace cfg org sbx pr)"
  "keeps I (detach_workspace i sbx)" "keeps I (archiveWorkspace org i)"
proof -
  show support: "keeps I (requireWorkspaceSupport cfg pr)" for cfg and pr :: "'p provider"
    unfolding requireWorkspaceSupport_def Let_def by (intro keeps_intro)
  show row: "keeps I (getWorkspaceRow org i)" for org i
    unfolding getWorkspaceRow_def by (intro keeps_intro)
  have add: "keeps I (modifyT (\<lambda>d. d\<lparr>workspaces := f d\<rparr>))" for f
    by (rule framed) (simp add: modifyT_apply)
  show "keeps I (insertWorkspace i org name k volume storageClass policy)"
    unfolding insertWorkspace_def by (intro keeps_intro add)
  show "keeps I (prepareRuntimeWorkspace cfg org sbx pr)"
    unfolding prepareRuntimeWorkspace_def by (intro keeps_intro support)
  show "keeps I (detach_workspace i sbx)" unfolding detach_workspace_def by (intro keeps_intro)
  show "keeps I (archiveWorkspace org i)" unfolding archiveWorkspace_def by (intro keeps_intro row)
qed

lemma stale_provision [keeps_intro]: "keeps I (reconcileStaleProvisionOperation op)"
  unfolding reconcileStaleProvisionOperation_def lockEffectSandbox_def by (intro keeps_intro)

lemma deletion_operation [keeps_intro]: "keeps I (deletionOperation op sbx)"
  unfolding deletionOperation_def lockEffectSandbox_def by (intro keeps_intro; simp add: patch_simps)

lemma insert_route [keeps_intro]: "keeps I (insert_route row)"
  by (rule framed) (auto simp: insert_route_def bindT_def getsT_apply throwT_apply modifyT_apply returnT_apply split: if_splits)

lemma operation_secret [keeps_intro]: "keeps I (readSandboxOperationSecret decrypt op name)"
  unfolding readSandboxOperationSecret_def by (intro keeps_intro)

end

section \<open>The services refine the protocol\<close>

text \<open>The credentials of a resumed sandbox are injected again by a service of the caller.\<close>

definition rehydrates :: "(db \<Rightarrow> db \<Rightarrow> bool) \<Rightarrow> (string \<Rightarrow> string \<Rightarrow> ('p, unit) proc) \<Rightarrow> bool" where
  "rehydrates R rehydrate \<longleftrightarrow> (\<forall>org sbx. follows R (rehydrate org sbx))"

context protocol
begin

lemma service_follows:
  assumes "\<And>d0. keeps (R\<^sup>*\<^sup>* d0) m"
  shows "follows R (atomic m)"
  by (rule follows_atomic) (rule keepsD [OF assms rtranclp.rtrancl_refl])

lemma follows_sleep [follows_intro]: "follows R (sleepP ms)"
  by (auto simp: follows_def sleepP_def foreign_ok_def intro!: one_more [OF rtranclp.rtrancl_refl] elsewhere)

lemmas transaction_follows [follows_intro] =
  reach.mark_dispatched [THEN service_follows] reach.acknowledge [THEN service_follows]
  reach.mark_uncertain [THEN service_follows] reach.begin_effect [THEN service_follows]
  reach.finish_deletion [THEN service_follows] reach.termination_request [THEN service_follows]
  reach.renewal_admission [THEN service_follows] reach.finish_renewal [THEN service_follows]
  reach.deadline_context [THEN service_follows] reach.reconcile_before [THEN service_follows]
  reach.reconcile_apply [THEN service_follows] reach.identity [THEN service_follows]
  reach.undo [THEN service_follows] reach.complete_provision [THEN service_follows]
  reach.lifecycle_admission [THEN service_follows] reach.complete_lifecycle [THEN service_follows]
  reach.cancel_undispatched [THEN service_follows] reach.quarantined [THEN service_follows]
  reach.absent [THEN service_follows] reach.present [THEN service_follows] reach.claim_due [THEN service_follows]
  reach.complete [THEN service_follows] reach.fail [THEN service_follows] reach.requeue [THEN service_follows]
  reach.claim_next [THEN service_follows] reach.claim_stale [THEN service_follows]
  reach.cleanup [THEN service_follows] reach.enqueue [THEN service_follows]
  reach.snapshot_statements [THEN service_follows] reach.creating_snapshot [THEN service_follows]
  reach.framed_statements [THEN service_follows]
  keeps_sel [THEN service_follows] keeps_gets [THEN service_follows]

lemma finish_nothing_follows [follows_intro]: "follows R (atomic (finishRuntimeEffect eff (returnT ())))"
  by (rule service_follows) (intro keeps_intro)

lemma lock_sandbox_follows [follows_intro]:
  "follows R (atomic (lockSandbox org sbx))" "follows R (atomic (getLifecycleSandboxRow org sbx))"
  unfolding getLifecycleSandboxRow_def lockSandbox_def by (rule service_follows, intro keeps_intro)+

lemma deletion_completed_follows [follows_intro]: "follows R (atomic (deletion_completed eff))"
  unfolding deletion_completed_def by (intro follows_intro)

lemma deletion_follows [follows_intro]: "follows R (executeRuntimeDeletion eff pr)"
  unfolding executeRuntimeDeletion_def by (intro follows_intro)

lemma termination_follows [follows_intro]: "follows R (requestSandboxTermination org sbx key pr)"
  unfolding requestSandboxTermination_def by (intro follows_intro)

lemma await_follows [follows_intro]: "follows R (awaitRenewal n deadline eff)"
  by (induction n) (simp_all only: awaitRenewal.simps, auto intro!: follows_intro)

lemma dispatch_follows [follows_intro]: "follows R (dispatchRenewal row eff pr)"
  unfolding dispatchRenewal_def Let_def by (intro follows_intro)

lemma renew_follows [follows_intro]: "follows R (renewSandboxLease org sbx operation pr)"
  unfolding renewSandboxLease_def by (auto split: lease_admission.splits intro!: follows_intro)

lemma reconcile_lease_follows [follows_intro]: "follows R (reconcileSandboxLease org sbx expire pr)"
  unfolding reconcileSandboxLease_def by (intro follows_intro)

lemma unknown_follows [follows_intro]: "follows R (outcome_unknown eff pid e)"
  unfolding outcome_unknown_def by (intro follows_intro)

lemma provision_follows [follows_intro]:
  "follows R input \<Longrightarrow> follows R (provisionSandboxRuntime operation input pr)"
  unfolding provisionSandboxRuntime_def by (intro follows_intro)

lemma wait_state_follows [follows_intro]: "follows R (waitForRuntimeSandboxState n pr rid seen expected t)"
  by (induction n arbitrary: seen) (simp_all only: waitForRuntimeSandboxState.simps, auto intro!: follows_intro)

lemma complete_lifecycle_follows [follows_intro]:
  "rehydrates R rehydrate \<Longrightarrow> follows R (completeLifecycleEffect rehydrate eff observed pr)"
  unfolding completeLifecycleEffect_def Let_def by (intro follows_intro; simp add: rehydrates_def)

lemma transition_follows [follows_intro]:
  "rehydrates R rehydrate \<Longrightarrow> follows R (runTransition rehydrate method eff t pr)"
  unfolding runTransition_def Let_def by (intro follows_intro)

lemma lifecycle_follows [follows_intro]:
  "rehydrates R rehydrate \<Longrightarrow> follows R (changeSandboxLifecycle a rehydrate org sbx user actor key t pr)"
  unfolding changeSandboxLifecycle_def
  by (auto split: lifecycle_admission.splits intro!: follows_intro)

lemma recover_follows [follows_intro]: "follows R (recoverProvision eff pr)"
  unfolding recoverProvision_def Let_def by (intro follows_intro)

lemma check_hold_follows [follows_intro]:
  "rehydrates R rehydrate \<Longrightarrow> follows R (check_hold rehydrate stale pr h)"
  unfolding check_hold_def Let_def by (intro follows_intro)

lemma check_holds_follows [follows_intro]:
  "rehydrates R rehydrate \<Longrightarrow> follows R (check_holds rehydrate stale pr hs report)"
  by (induction hs arbitrary: report) (simp_all only: check_holds.simps, auto intro!: follows_intro)

lemma reconcile_capacity_follows [follows_intro]:
  "rehydrates R rehydrate \<Longrightarrow> follows R (reconcileSandboxCapacity rehydrate stale limit org pr)"
  unfolding reconcileSandboxCapacity_def Let_def by (intro follows_intro)

lemma snapshot_row_follows [follows_intro]: "follows R (snapshot_row_or org i msg)"
  unfolding snapshot_row_or_def getSandboxSnapshot_def by (intro follows_intro)

lemma poll_snapshot_follows [follows_intro]: "follows R (pollSnapshot n method org i rid t)"
  by (induction n) (simp_all only: pollSnapshot.simps getSandboxSnapshot_def, auto intro!: follows_intro)

lemma snapshot_ready_follows [follows_intro]: "follows R (waitForSnapshotReady pr org i rid t)"
  unfolding waitForSnapshotReady_def by (intro follows_intro)

lemma after_create_follows [follows_intro]: "follows R (currentSnapshotAfterCreate pr org i u b t)"
  unfolding currentSnapshotAfterCreate_def by (intro follows_intro)

lemma claim_or_queued_follows [follows_intro]: "follows R (atomic (claim_or_queued op k))"
  by (rule service_follows) (auto simp: claim_or_queued_def intro!: keeps_intro reach.claim_by_id)

lemma provider_snapshot_follows [follows_intro]:
  "follows R (createProviderSnapshot pr method org s i input op)"
  unfolding createProviderSnapshot_def Let_def by (intro follows_intro)

lemma fail_created_follows [follows_intro]: "follows R (failCreatedSnapshot org i op e)"
  unfolding failCreatedSnapshot_def by (intro follows_intro service_follows keeps_intro)

lemma snapshot_create_follows [follows_intro]: "follows R (createSandboxSnapshot org sbx input pr)"
  unfolding createSandboxSnapshot_def by (intro follows_intro)

lemma snapshot_delete_follows [follows_intro]: "follows R (deleteSandboxSnapshot org i key pr)"
  unfolding deleteSandboxSnapshot_def by (intro follows_intro)

lemma create_workspace_follows [follows_intro]: "follows R (createWorkspace cfg org name pr)"
proof -
  have "follows R (createWorkspaceLoop n cfg policy i org name k)" for n policy i k
    by (induction n) (simp_all only: createWorkspaceLoop.simps, auto intro!: follows_intro service_follows keeps_intro)
  then show ?thesis unfolding createWorkspace_def by (intro follows_intro service_follows keeps_intro)
qed

lemma reconcile_workspaces_follows [follows_intro]: "follows R (reconcileWorkspaces cfg pr)"
proof -
  have "follows R (releaseWorkspaces pr ws)" for ws
    by (induction pr ws rule: releaseWorkspaces.induct)
      (simp_all only: releaseWorkspaces.simps, auto intro!: follows_intro service_follows keeps_intro)
  then show ?thesis unfolding reconcileWorkspaces_def releasable_def by (intro follows_intro service_follows keeps_intro)
qed

lemma sandbox_of_follows [follows_intro]: "follows R (sandbox_of op msg)"
  unfolding sandbox_of_def by (intro follows_intro)

lemma provision_env_follows [follows_intro]: "follows R (readProvisionEnv decrypt parse op)"
  unfolding readProvisionEnv_def
  by (auto split: option.splits js.splits intro!: follows_intro service_follows keeps_intro)

lemma provision_input_follows [follows_intro]: "follows R (provision_input cfg op sbx row env pr)"
  unfolding provision_input_def by (intro follows_intro service_follows keeps_intro)

lemma execute_provision_follows [follows_intro]:
  "follows R (executeProvisionOperation cfg decrypt parse op pr)"
  unfolding executeProvisionOperation_def by (intro follows_intro)

lemma execute_follows [follows_intro]:
  "follows R (executeDeleteOperation op pr)" "follows R (executeRenewOperation op pr)"
  "follows R (executeRouteExposeOperation rcfg op pr)"
  unfolding executeDeleteOperation_def executeRenewOperation_def executeRouteExposeOperation_def Let_def
  by (intro follows_intro service_follows keeps_intro)+

lemma execute_operation_follows [follows_intro]: "follows R (executeSandboxOperation cfg op pr)"
  unfolding executeSandboxOperation_def by (cases "o_kind op") (auto intro: follows_intro)

lemma turn_follows [follows_intro]:
  "follows R (staleProvisionTurn op report)" "follows R (operationFailed op m report e)"
  unfolding staleProvisionTurn_def operationFailed_def by (intro follows_intro service_follows keeps_intro)+

lemma operation_turn_follows [follows_intro]: "follows R (operationTurn cfg pr m op report)"
  unfolding operationTurn_def by (intro follows_intro)

lemma loops_follow [follows_intro]:
  "follows R (staleProvisionLoop n stale report)" "follows R (operationLoop cfg pr n m stale report)"
  by (induction n arbitrary: report)
    (simp_all only: staleProvisionLoop.simps operationLoop.simps, auto intro!: follows_intro)

lemma queue_follows [follows_intro]: "follows R (processSandboxOperationQueue cfg pr limit m stale)"
  unfolding processSandboxOperationQueue_def Let_def by (intro follows_intro)

end

lemma inventory_follows:
  assumes "\<And>d0. keeps (inventory_step\<^sup>*\<^sup>* d0) m"
  shows "follows inventory_step (atomic m)"
  by (rule follows_atomic) (rule keepsD [OF assms rtranclp.rtrancl_refl])

text \<open>The inventory refines the wider protocol.\<close>

lemma classify_follows: "follows inventory_step (classify org pr evidence listed fence row)"
  unfolding classify_def Let_def by (intro follows_intro)

lemma follows_bind_post:
  assumes "follows R m" and "\<And>w a w'. m w = (Inr a, w') \<Longrightarrow> P a" and "\<And>a. P a \<Longrightarrow> follows R (f a)"
  shows "follows R (bindP m f)"
  unfolding follows_def
proof (intro allI impI)
  fix w r w' assume w: "foreign_ok R w" and b: "bindP m f w = (r, w')"
  obtain x w1 where m: "m w = (x, w1)" by (cases "m w")
  from assms(1) w m have 1: "R\<^sup>*\<^sup>* (wdb w) (wdb w1)" "foreign_ok R w1" by (auto simp: follows_def)
  show "R\<^sup>*\<^sup>* (wdb w) (wdb w') \<and> foreign_ok R w'"
  proof (cases x)
    case (Inl e)
    with b m 1 show ?thesis by (auto simp: bindP_def)
  next
    case (Inr a)
    with b m have "f a w1 = (r, w')" by (simp add: bindP_def)
    moreover have "follows R (f a)" using assms(2,3) m Inr by blast
    ultimately show ?thesis using 1 by (auto simp: follows_def intro: rtranclp_trans)
  qed
qed

lemma classify_phase: "classify org pr evidence listed fence row w = (Inr c, w') \<Longrightarrow> cl_phase c \<noteq> Released"
  by (auto simp: classify_def classify_observed_def unresolved_class_def Let_def proc_defs
      split: if_splits prod.splits sum.splits)

lemma inventory_steps_follow [follows_intro]:
  "follows inventory_step (atomic (openInventory org))"
  "follows inventory_step (atomic (closeInventory org n cs))" "follows inventory_step (atomic (inventoryRows org))"
  unfolding inventoryRows_def
  by (rule inventory_follows, intro keeps_intro keeps_gets)+

lemma read_capacity_follows [follows_intro]: "follows inventory_step (atomic (readOrganizationCapacity org))"
  by (rule follows_atomic) (auto dest: readOrganizationCapacity_same)

lemma classify_rows_follow: "follows inventory_step (classifyRows org ap recovery pr evidence listed rows)"
proof (induction rows)
  case (Cons row rows)
  have fence: "follows inventory_step (atomic (bindT (lockEffectSandbox org sbx) (\<lambda>_. readRuntimeFence sbx)))" for sbx
    unfolding lockEffectSandbox_def readRuntimeFence_def by (rule inventory_follows) (intro keeps_intro)
  have app: "follows inventory_step (atomic (applyClassification org recovery f row c))" if "cl_phase c \<noteq> Released" for f c
    by (rule inventory_follows) (intro keeps_intro that)
  show ?case
    unfolding classifyRows.simps
    by (intro follows_bind [OF fence] follows_bind_post [OF classify_follows classify_phase])
      (assumption | intro follows_intro Cons app)+
qed (simp add: follows_ret)

lemma inventory_follows_all [follows_intro]:
  "follows inventory_step (reconcileCapacityInventory org ap stopped recovery evidence pr)"
  unfolding reconcileCapacityInventory_def Let_def by (intro follows_intro classify_rows_follow)

section \<open>What holds in every reachable state\<close>

definition well_formed :: "db \<Rightarrow> bool" where
  "well_formed d \<longleftrightarrow> one_hold d \<and> generations_ok d \<and> phases_ok d \<and> one_effect d \<and> effect_ids_ok d \<and>
     fenced d \<and> ids_ok d \<and> keys_ok d"


lemma settings_bounded:
  assumes "updateOrganizationSettings org' p d = Inr (s, d')" and "bounded org N d"
    and "org' = org \<longrightarrow> (\<forall>n. su_max_concurrency p = Some n \<longrightarrow> n \<le> int N)"
  shows "bounded org N d'"
proof -
  from assms(1) obtain row where d': "d' = d\<lparr>orgs := update_rows (settings_cond org' p) (apply_update p (clock d)) (orgs d)\<rparr>"
    by (rule updateOrganizationSettings_Inr)
  have "max_concurrency r \<le> int N" if "r \<in> set (orgs d')" "org_id r = org" for r
    using that assms(2,3) unfolding d'
    by (auto simp: in_update_rows bounded_def within_limit_def settings_cond_def or_else_def split: option.splits)
  with assms(2) show ?thesis by (simp add: bounded_def within_limit_def phases_ok_def held_def d')
qed

lemma system_bounded: "(system_step org N)\<^sup>*\<^sup>* d d' \<Longrightarrow> bounded org N d \<Longrightarrow> bounded org N d'"
proof (erule rtranclp_keeps)
  fix x y assume "system_step org N x y" "bounded org N x"
  then show "bounded org N y" by cases (auto intro: limit.kept_by_step settings_bounded)
qed

text \<open>
  C1. The limit holds under concurrency. As long as no administrator sets the limit of an
  organization above \<open>N\<close>, at no time more than \<open>N\<close> of its slots are in use, however the
  transactions of all services and all settings changes are interleaved, and even when the
  limit is lowered below the number of slots in use.
\<close>

theorem limit_never_exceeded:
  assumes "(system_step org N)\<^sup>*\<^sup>* d d'" and "bounded org N d"
  shows "held d' org \<le> N \<and> (\<forall>r \<in> set (orgs d'). org_id r = org \<longrightarrow> max_concurrency r \<le> int N)"
  using system_bounded [OF assms] by (simp add: bounded_def within_limit_def)



text \<open>An effect of the given identity exists and has been dispatched, or settled.\<close>

definition was_dispatched :: "string \<Rightarrow> db \<Rightarrow> bool" where
  "was_dispatched i d \<longleftrightarrow> (\<exists>e \<in> set (effects d). e_id e = i) \<and>
     (\<forall>e \<in> set (effects d). e_id e = i \<longrightarrow> e_dispatched_at e \<noteq> None)"

definition was_settled :: "string \<Rightarrow> db \<Rightarrow> bool" where
  "was_settled i d \<longleftrightarrow> (\<exists>e \<in> set (effects d). e_id e = i) \<and>
     (\<forall>e \<in> set (effects d). e_id e = i \<longrightarrow> e_settled_at e \<noteq> None)"

text \<open>Invariants about effects only, which a new effect of another identity does not disturb.\<close>

lemma effects_only:
  assumes same: "\<And>d d'. I d \<Longrightarrow> effects d' = effects d \<Longrightarrow> I d'"
    and patch: "\<And>P f d. effect_patch P f \<Longrightarrow> I d \<Longrightarrow> I (d\<lparr>effects := update_rows P f (effects d)\<rparr>)"
    and new: "\<And>d e. I d \<Longrightarrow> \<forall>q \<in> set (effects d). e_id q \<noteq> e_id e \<Longrightarrow> I (d\<lparr>effects := effects d @ [e]\<rparr>)"
  shows "limit_free I"
proof
  have hold: "keeps I (insert_hold org sbx g op ph reason)" for org sbx g op ph reason
    by (rule keepsI, drule insert_hold_Inr) (auto intro: same)
  show "keeps I (insert_hold org sbx g None Uncertain reason)" for org sbx g reason by (rule hold)
  show "keeps I (reserveSandboxCapacity org sbx op)" for org sbx op by (rule keeps_reserve) (rule hold)
  show "keeps I (releaseSandboxCapacity org sbx g reason)" for org sbx g reason
    by (rule keeps_release) (auto intro: same)
  show "keeps I (insert_operation i org sbx k key req)" for i org sbx k key req
    by (rule keeps_insert_operation) (auto intro: same)
  show "keeps I (beginRuntimeEffect org sbx k op ctx)" for org sbx k op ctx
  proof (rule keeps_begin)
    fix d and e :: effect assume "I d" "\<forall>q \<in> set (effects d). e_id q \<noteq> e_id e"
    then have "I (d\<lparr>effects := effects d @ [e]\<rparr>)" by (rule new)
    then show "I (d\<lparr>rand_pos := Suc (rand_pos d), effects := effects d @ [e]\<rparr>)" by (rule same) simp
  qed
qed (use patch in \<open>auto intro: same\<close>)

lemma effect_patch_bex:
  "effect_patch P f \<Longrightarrow> (\<exists>e \<in> set (update_rows P f es). e_id e = i) \<longleftrightarrow> (\<exists>e \<in> set es. e_id e = i)"
  by (rule bex_update_rows) (simp add: effect_patch_def)

lemma effect_patch_keeps:
  assumes "effect_patch P f" and "P e"
  shows "e_id (f e) = e_id e" "e_dispatched_at e \<noteq> None \<Longrightarrow> e_dispatched_at (f e) \<noteq> None"
    "e_settled_at e \<noteq> None \<Longrightarrow> e_settled_at (f e) \<noteq> None"
  using assms by (auto simp: effect_patch_def)

lemma all_marked:
  assumes "\<And>q. q \<in> set es \<Longrightarrow> e_id q = i \<Longrightarrow> P q" and "\<And>q :: effect. e_id (f q) = e_id q" and "\<And>q. Q (f q)"
    and "\<exists>q \<in> set es. e_id q = i"
  shows "(\<exists>r \<in> set (update_rows P f es). e_id r = i) \<and> (\<forall>r \<in> set (update_rows P f es). e_id r = i \<longrightarrow> Q r)"
proof
  show "\<exists>r \<in> set (update_rows P f es). e_id r = i"
    using assms(4) by (subst bex_update_rows) (simp_all add: assms(2))
  show "\<forall>r \<in> set (update_rows P f es). e_id r = i \<longrightarrow> Q r"
    using assms(1-3) by (metis in_update_rows)
qed

interpretation sent: limit_free "was_dispatched i" for i
proof (rule effects_only)
  show "was_dispatched i (d\<lparr>effects := update_rows P f (effects d)\<rparr>)"
    if "effect_patch P f" "was_dispatched i d" for P f d
  proof -
    have "\<forall>e \<in> set (update_rows P f (effects d)). e_id e = i \<longrightarrow> e_dispatched_at e \<noteq> None"
      by (rule ball_update_rows) (use that(2) effect_patch_keeps [OF that(1)] in \<open>auto simp: was_dispatched_def\<close>)
    with that effect_patch_bex [OF that(1), of "effects d" i] show ?thesis by (simp add: was_dispatched_def)
  qed
qed (auto simp: was_dispatched_def)

interpretation ended: limit_free "was_settled i" for i
proof (rule effects_only)
  show "was_settled i (d\<lparr>effects := update_rows P f (effects d)\<rparr>)"
    if "effect_patch P f" "was_settled i d" for P f d
  proof -
    have "\<forall>e \<in> set (update_rows P f (effects d)). e_id e = i \<longrightarrow> e_settled_at e \<noteq> None"
      by (rule ball_update_rows) (use that(2) effect_patch_keeps [OF that(1)] in \<open>auto simp: was_settled_def\<close>)
    with that effect_patch_bex [OF that(1), of "effects d" i] show ?thesis by (simp add: was_settled_def)
  qed
qed (auto simp: was_settled_def)

lemma dispatched_cond: "was_dispatched i d \<Longrightarrow> e \<in> set (effects d) \<Longrightarrow> e_id e = i \<Longrightarrow> e_dispatched_at e \<noteq> None"
  and settled_cond: "was_settled i d \<Longrightarrow> e \<in> set (effects d) \<Longrightarrow> e_id e = i \<Longrightarrow> e_settled_at e \<noteq> None"
  by (auto simp: was_dispatched_def was_settled_def)

lemma markRuntimeEffectDispatched_Inr:
  assumes "markRuntimeEffectDispatched eff d = Inr (u, d')" and "effect_ids_ok d"
  shows "was_dispatched (e_id eff) d'"
proof -
  let ?P = "\<lambda>e. e_id e = e_id eff \<and> e_settled_at e = None \<and> e_dispatched_at e = None"
  let ?f = "\<lambda>e. e\<lparr>e_dispatched_at := Some (clock d), e_updated_at := clock d\<rparr>"
  from assms(1) have d': "d' = d\<lparr>effects := update_rows ?P ?f (effects d)\<rparr>" and "\<exists>e \<in> set (effects d). ?P e"
    by (auto simp: markRuntimeEffectDispatched_def bindT_Inr_iff now_Inr upd_Inr requireT_Inr_iff count_rows_pos)
  then obtain e where e: "e \<in> set (effects d)" "?P e" by blast
  have "q = e" if "q \<in> set (effects d)" "e_id q = e_id eff" for q
    using key_unique [OF assms(2) [unfolded effect_ids_ok_def] that(1) e(1)] that e by simp
  with e show ?thesis
    unfolding was_dispatched_def d' by simp (rule all_marked, auto)
qed

text \<open>
  C5. A provider call is dispatched at most once. Once an effect is marked dispatched, no later
  attempt to dispatch the same effect succeeds, whatever any number of services have done to
  the store in between; so a retried or duplicated worker cannot repeat the call.
\<close>

theorem dispatch_at_most_once:
  assumes "markRuntimeEffectDispatched eff d = Inr ((), d1)" and "effect_ids_ok d" and "inventory_step\<^sup>*\<^sup>* d1 d2"
  shows "markRuntimeEffectDispatched eff d2 =
    Inl (CapacityError TransitionInProgress ''Runtime dispatch was canceled or already started.'')"
proof -
  have sent: "was_dispatched (e_id eff) d2"
    by (rule sent.kept_by_inventory [OF assms(3) markRuntimeEffectDispatched_Inr [OF assms(1,2)]])
  then have "count_rows (\<lambda>e. e_id e = e_id eff \<and> e_settled_at e = None \<and> e_dispatched_at e = None) (effects d2) = 0"
    by (auto simp: count_rows_zero dest: dispatched_cond)
  then show ?thesis
    by (simp add: markRuntimeEffectDispatched_def bindT_def now_Inr upd_Inr requireT_def throwT_apply)
qed

text \<open>
  C6. A result is recorded at most once. Once an effect has been settled together with its
  work, it is settled in every later state: it cannot be settled again with any other work,
  acknowledged, or dispatched. A worker whose effect was settled by the reconciler cannot
  overwrite the outcome.
\<close>

theorem settle_at_most_once:
  assumes "finishRuntimeEffect eff work d = Inr (a, d1)" and "effect_ids_ok d"
    and "\<And>x y b. work x = Inr (b, y) \<Longrightarrow> inventory_step\<^sup>*\<^sup>* x y" and "inventory_step\<^sup>*\<^sup>* d1 d2"
  shows "isl (finishRuntimeEffect eff other d2) \<and> isl (acknowledgeRuntimeEffect eff pid d2) \<and>
    isl (markRuntimeEffectDispatched eff d2)"
proof -
  from assms(1) obtain s dm where st: "settle_effect eff d = Inr ((), dm)" and work: "work dm = Inr (a, d1)"
    by (auto simp: finishRuntimeEffect_Inr)
  let ?P = "\<lambda>e. e_id e = e_id eff \<and> e_generation e = e_generation eff \<and> e_settled_at e = None"
  let ?f = "\<lambda>e. e\<lparr>e_settled_at := Some (clock d), e_updated_at := clock d\<rparr>"
  from st have dm: "dm = d\<lparr>effects := update_rows ?P ?f (effects d)\<rparr>" and "\<exists>e \<in> set (effects d). ?P e"
    by (auto simp: settle_effect_Inr Let_def)
  then obtain e where e: "e \<in> set (effects d)" "?P e" by blast
  have "q = e" if "q \<in> set (effects d)" "e_id q = e_id eff" for q
    using key_unique [OF assms(2) [unfolded effect_ids_ok_def] that(1) e(1)] that e by simp
  with e have "was_settled (e_id eff) dm"
    unfolding was_settled_def dm by simp (rule all_marked, auto)
  then have over: "was_settled (e_id eff) d2"
    by (rule ended.kept_by_inventory [OF rtranclp_trans [OF assms(3) [OF work] assms(4)]])
  from over have none: "\<not> (\<exists>e \<in> set (effects d2). ?P e)"
    "count_rows (\<lambda>e. e_id e = e_id eff \<and> e_settled_at e = None) (effects d2) = 0"
    "count_rows (\<lambda>e. e_id e = e_id eff \<and> e_settled_at e = None \<and> e_dispatched_at e = None) (effects d2) = 0"
    by (auto simp: count_rows_zero dest: settled_cond)
  have "finishRuntimeEffect eff other d2 \<noteq> Inr (b, y)" for b y
    using none(1) by (auto simp: finishRuntimeEffect_Inr settle_effect_Inr Let_def)
  then have "isl (finishRuntimeEffect eff other d2)" by (cases "finishRuntimeEffect eff other d2") auto
  with none show ?thesis
    by (simp add: acknowledgeRuntimeEffect_def markRuntimeEffectDispatched_def bindT_def now_Inr upd_Inr requireT_def
        throwT_apply)
qed

section \<open>Witnesses\<close>

definition running_db :: db where
  "running_db = empty_db\<lparr>orgs := [new_org ''org'' 2],
     sandboxes := [new_sandbox ''sbx'' ''org'' (Some ''rt1'') SRunning],
     holds := [new_hold ''org'' ''sbx'' 1 None Active],
     effects := [new_effect ''e1'' ''org'' ''sbx'' None EDelete 1]\<rparr>"

definition the_effect :: effect where
  "the_effect = new_effect ''e1'' ''org'' ''sbx'' None EDelete 1"

lemmas running_defs = running_db_def the_effect_def new_row_defs

lemma running_well_formed: "well_formed running_db" and running_bounded: "bounded ''org'' 2 running_db"
  by (simp_all add: running_defs well_formed_def one_hold_def generations_ok_def phases_ok_def one_effect_def
      effect_ids_ok_def fenced_def ids_ok_def keys_ok_def unsettled_on_def count_rows_Cons bounded_def
      within_limit_def held_def held_row_def)

lemma running_dispatch: "\<exists>d1. markRuntimeEffectDispatched the_effect running_db = Inr ((), d1)"
  and running_finish: "\<exists>d1. finishRuntimeEffect the_effect (returnT ()) running_db = Inr ((), d1)"
  by (simp_all add: running_defs markRuntimeEffectDispatched_def finishRuntimeEffect_def lockEffectSandbox_def
      lockOrganizationCapacity_def settle_effect_def bindT_def now_Inr sel_Inr upd_Inr requireT_def someT_def
      returnT_apply count_rows_Cons)


theorem limit_never_exceeded_witness:
  "\<exists>s d. updateOrganizationSettings ''org'' set_limit settings_db = Inr (s, d) \<and> held d ''org'' \<le> 5"
proof -
  obtain s d where run: "updateOrganizationSettings ''org'' set_limit settings_db = Inr (s, d)"
    using set_limit_runs by blast
  have "(system_step ''org'' 5)\<^sup>*\<^sup>* settings_db d"
    by (rule r_into_rtranclp, rule settings [OF run]) (simp add: set_limit_def no_update_def)
  moreover have "bounded ''org'' 5 settings_db"
    by (simp add: settings_db_def new_row_defs bounded_def phases_ok_def within_limit_def held_def)
  ultimately show ?thesis using run limit_never_exceeded by blast
qed



theorem dispatch_at_most_once_witness:
  "\<exists>d1. markRuntimeEffectDispatched the_effect running_db = Inr ((), d1) \<and> isl (markRuntimeEffectDispatched the_effect d1)"
proof -
  obtain d1 where run: "markRuntimeEffectDispatched the_effect running_db = Inr ((), d1)" using running_dispatch by blast
  have "effect_ids_ok running_db" using running_well_formed by (simp add: well_formed_def)
  from dispatch_at_most_once [OF run this rtranclp.rtrancl_refl] run show ?thesis by auto
qed

theorem settle_at_most_once_witness:
  "\<exists>d1. finishRuntimeEffect the_effect (returnT ()) running_db = Inr ((), d1) \<and>
     isl (finishRuntimeEffect the_effect (returnT ()) d1)"
proof -
  obtain d1 where run: "finishRuntimeEffect the_effect (returnT ()) running_db = Inr ((), d1)" using running_finish by blast
  have ids: "effect_ids_ok running_db" using running_well_formed by (simp add: well_formed_def)
  from settle_at_most_once [OF run ids _ rtranclp.rtrancl_refl, of "returnT ()" None] run show ?thesis
    by (auto simp: returnT_apply)
qed

end
