(* ===== verification/DevProvider.thy ===== *)
theory DevProvider
  imports Routes
begin

text \<open>
  The in-memory runtime provider (\<open>providers/runtime/dev-provider.ts\<close>), which development
  deployments and the conformance tests use: its state, every method, and what makes it a
  provider the services can rely on. JavaScript maps whose order is observed are association
  lists in insertion order; the others are maps. \<open>Date.now()\<close> reads \<open>dv_now\<close>, which stands
  still during a call, and \<open>Math.random\<close> the stream \<open>dv_rand\<close>; a returned object is the value
  it has at that time. \<open>Buffer\<close>'s base64 is the parameter \<open>codec\<close>.
\<close>

section \<open>State\<close>

datatype file_type = FileEntry | DirectoryEntry

record file_entry =
  f_path :: string
  f_name :: string
  f_type :: file_type
  f_size :: nat
  f_mode :: string
  f_modified :: time

record log_entry =
  l_ts :: time
  l_lvl :: string
  l_msg :: string

record dev_command =
  cm_command :: string
  cm_stdout :: string
  cm_stderr :: string
  cm_exit :: "int option"
  cm_running :: bool
  cm_started :: time
  cm_finished :: "time option"

record vault_credential =
  vc_name :: string
  vc_revision :: int

record vault_binding =
  vb_name :: string
  vb_revision :: int
  vb_match :: obj
  vb_auth_type :: string
  vb_auth_name :: "string option"

record vault_state =
  vs_revision :: int
  vs_credentials :: "vault_credential list"
  vs_bindings :: "vault_binding list"

record dev_sandbox =
  d_id :: string
  d_state :: string
  d_expires :: time
  d_metadata :: "(string \<times> string) list"
  d_name :: string
  d_cwd :: string
  d_files :: "file_entry list"
  d_contents :: "string \<Rightarrow> string option"
  d_logs :: "log_entry list"
  d_policy :: network_policy
  d_vault :: "vault_state option"
  d_commands :: "string \<Rightarrow> dev_command option"
  d_sessions :: "string \<Rightarrow> string option"

record dev_snapshot =
  ds_id :: string
  ds_source :: string
  ds_name :: "string option"
  ds_state :: string
  ds_metadata :: "(string \<times> string) list"
  ds_created :: time
  ds_files :: "file_entry list"
  ds_contents :: "string \<Rightarrow> string option"

record dev =
  boxes :: "(string \<times> dev_sandbox) list"
  snaps :: "(string \<times> dev_snapshot) list"
  dv_now :: time
  dv_rand :: "nat \<Rightarrow> string"
  dv_pos :: nat

text \<open>\<open>Map.set\<close>: an existing key keeps its place.\<close>

fun put :: "'k \<Rightarrow> 'v \<Rightarrow> ('k \<times> 'v) list \<Rightarrow> ('k \<times> 'v) list" where
  "put k v [] = [(k, v)]"
| "put k v ((k', v') # kvs) = (if k' = k then (k, v) # kvs else (k', v') # put k v kvs)"

lemma map_of_put [simp]: "map_of (put k v kvs) = (map_of kvs)(k \<mapsto> v)"
  by (induction kvs rule: put.induct) auto

lemma keys_put [simp]: "fst ` set (put k v kvs) = insert k (fst ` set kvs)"
  by (induction k v kvs rule: put.induct) auto

lemma distinct_put: "distinct (map fst kvs) \<Longrightarrow> distinct (map fst (put k v kvs))"
  by (induction k v kvs rule: put.induct) (auto simp: rev_image_eqI simp flip: image_set)

text \<open>\<open>n.toString(36)\<close>, and the identities made of the time and a random part.\<close>

fun base36 :: "nat \<Rightarrow> string" where
  "base36 n = (let c = ''0123456789abcdefghijklmnopqrstuvwxyz'' ! (n mod 36) in
     if n < 36 then [c] else base36 (n div 36) @ [c])"

declare base36.simps [simp del]

definition fresh_id :: "string \<Rightarrow> nat \<Rightarrow> dev \<Rightarrow> string \<times> dev" where
  "fresh_id prefix n p =
    (prefix @ ''_'' @ base36 (nat (dv_now p)) @ ''_'' @ take n (dv_rand p (dv_pos p)), p\<lparr>dv_pos := Suc (dv_pos p)\<rparr>)"

definition devId :: "dev \<Rightarrow> string \<times> dev" where
  "devId = fresh_id ''dev'' 6"

section \<open>Paths\<close>

text \<open>The segments of an absolute path without empty ones, dots and parents.\<close>

fun push_part :: "string list \<Rightarrow> string \<Rightarrow> string list" where
  "push_part acc part =
    (if part = [] \<or> part = ''.'' then acc else if part = ''..'' then butlast acc else acc @ [part])"

declare push_part.simps [simp del]

definition path_of :: "string list \<Rightarrow> string" where
  "path_of parts = CHR ''/'' # join_with (CHR ''/'') parts"

definition normalizeDevPath :: "string \<Rightarrow> string" where
  "normalizeDevPath path =
    (if path = [] \<or> CHR 0x00 \<in> set path then ''/''
     else
       let safePath = (if starts_with ''/'' path then path else CHR ''/'' # path)
       in path_of (foldl push_part [] (split_on (CHR ''/'') safePath)))"

definition path_parts :: "string \<Rightarrow> string list" where
  "path_parts path = filter (\<lambda>w. w \<noteq> []) (split_on (CHR ''/'') path)"

definition entryName :: "string \<Rightarrow> string" where
  "entryName path = (if path_parts path = [] then path else last (path_parts path))"

definition parentPath :: "string \<Rightarrow> string" where
  "parentPath path = path_of (butlast (path_parts path))"

text \<open>\<open>`\${cwd.replace(/\/+$/, "") || "/"}/name`.replace("//", "/")\<close>.\<close>

fun replace_first :: "string \<Rightarrow> string \<Rightarrow> string \<Rightarrow> string" where
  "replace_first p r [] = []"
| "replace_first p r (c # s) = (if starts_with p (c # s) then r @ drop (length p) (c # s) else c # replace_first p r s)"

definition under_cwd :: "string \<Rightarrow> string \<Rightarrow> string" where
  "under_cwd cwd name =
    (let base = rev (dropWhile (\<lambda>c. c = CHR ''/'') (rev cwd))
     in replace_first ''//'' ''/'' ((if base = [] then ''/'' else base) @ CHR ''/'' # name))"

definition fallbackFileSet :: "time \<Rightarrow> string \<Rightarrow> file_entry list" where
  "fallbackFileSet t cwd =
     [\<lparr>f_path = under_cwd cwd ''agent.py'', f_name = ''agent.py'', f_type = FileEntry, f_size = 128, f_mode = ''0644'',
       f_modified = t\<rparr>,
      \<lparr>f_path = under_cwd cwd ''tmp'', f_name = ''tmp'', f_type = DirectoryEntry, f_size = 0, f_mode = ''0755'',
       f_modified = t\<rparr>]"

definition devFileEntry :: "time \<Rightarrow> string \<Rightarrow> file_type \<Rightarrow> nat \<Rightarrow> string option \<Rightarrow> file_entry" where
  "devFileEntry t path ty bytes mode =
     \<lparr>f_path = path, f_name = entryName path, f_type = ty, f_size = bytes,
      f_mode = (case mode of Some m \<Rightarrow> m | None \<Rightarrow> if ty = DirectoryEntry then ''0755'' else ''0644''), f_modified = t\<rparr>"

section \<open>Commands\<close>

record run_input =
  ri_command :: string
  ri_cwd :: "string option"
  ri_env :: "(string \<times> string) list"
  ri_stdin :: "string option"
  ri_timeout :: "int option"

text \<open>\<open>matchAll\<close> of \<open>print('...')\<close> for one kind of quote: the texts between the quotes.\<close>

function printed_texts :: "char \<Rightarrow> string \<Rightarrow> string list" where
  "printed_texts q s =
    (let body = takeWhile (\<lambda>c. c \<noteq> q) (drop 7 s); rest = drop (7 + length body) s in
     if s = [] then []
     else if starts_with (''print('' @ [q]) s \<and> starts_with [q, CHR '')''] rest
     then body # printed_texts q (drop 2 rest)
     else printed_texts q (tl s))"
  by pat_completeness auto
termination by (relation "measure (\<lambda>(q, s). length s)") (auto simp: starts_with_def)

declare printed_texts.simps [simp del]

text \<open>\<open>/^echo\s+/\<close> and the removal of a pair of quotes around text without line breaks.\<close>

definition word_then_space :: "string \<Rightarrow> string \<Rightarrow> bool" where
  "word_then_space w s \<longleftrightarrow>
    (let rest = drop (length w) s in starts_with w s \<and> rest \<noteq> [] \<and> js_space (hd rest))"

definition after_word :: "string \<Rightarrow> string \<Rightarrow> string" where
  "after_word w s = dropWhile js_space (drop (length w) s)"

definition line_end :: "char \<Rightarrow> bool" where
  "line_end c \<longleftrightarrow> (of_char c :: nat) = 10 \<or> (of_char c :: nat) = 13"

definition unquote :: "string \<Rightarrow> string" where
  "unquote s =
    (if 2 \<le> length s \<and> hd s = last s \<and> (hd s = CHR 0x27 \<or> hd s = CHR 0x22) \<and>
        (\<forall>c \<in> set (butlast (tl s)). \<not> line_end c)
     then butlast (tl s) else s)"

definition newline :: string where
  "newline = [char_of (10 :: nat)]"

definition env_value :: "string \<Rightarrow> (string \<times> string) list \<Rightarrow> string" where
  "env_value k env = (case map_of env k of None \<Rightarrow> ''missing'' | Some v \<Rightarrow> v)"

definition devCommandStdout :: "run_input \<Rightarrow> string" where
  "devCommandStdout input =
    (let command = trim (ri_command input);
         printed = printed_texts (CHR 0x27) command @ printed_texts (CHR 0x22) command
     in
     if truthy (ri_stdin input) then the (ri_stdin input) @ newline
     else if word_then_space ''echo'' command then unquote (after_word ''echo'' command) @ newline
     else if includes_str command ''HARAKIRI_CONFORMANCE'' \<and> includes_str command ''os.environ.get''
     then ''conformance:'' @ env_value ''HARAKIRI_CONFORMANCE'' (ri_env input) @ newline
     else if printed \<noteq> [] then join_with (hd newline) printed @ newline
     else if includes_str command ''HARAKIRI_EGRESS_TEST_TARGET=''
     then ''harakiri dev runtime: egress probe reachable'' @ newline
     else ''harakiri dev runtime: '' @ command @ newline)"

section \<open>Lifecycle\<close>

definition add_log :: "time \<Rightarrow> string \<Rightarrow> string \<Rightarrow> dev_sandbox \<Rightarrow> dev_sandbox" where
  "add_log t lvl msg s = s\<lparr>d_logs := d_logs s @ [\<lparr>l_ts = t, l_lvl = lvl, l_msg = msg\<rparr>]\<rparr>"

definition set_box :: "string \<Rightarrow> dev_sandbox \<Rightarrow> dev \<Rightarrow> dev" where
  "set_box rid s p = p\<lparr>boxes := put rid s (boxes p)\<rparr>"

definition not_found :: "string \<Rightarrow> string" where
  "not_found rid = ''sandbox '' @ rid @ '' not found''"

definition summary_of :: "dev_sandbox \<Rightarrow> runtime_summary" where
  "summary_of s = \<lparr>t_id = d_id s, t_state = d_state s, t_expires = Some (d_expires s), t_metadata = d_metadata s\<rparr>"

definition hello :: string where
  "hello = ''print('hello from dev runtime')'' @ newline"

definition dev_create :: "create_input \<Rightarrow> (dev, runtime_created) call" where
  "dev_create input p0 =
    (let (rid, p) = devId p0; t = dv_now p;
         cwd = (if rt_workdir (i_template input) = [] then ''/'' else rt_workdir (i_template input));
         source = Option.bind (i_snapshot input) (map_of (snaps p));
         fallback = fallbackFileSet t cwd;
         s = \<lparr>d_id = rid, d_state = ''running'', d_expires = t + i_ttl input * 1000, d_metadata = i_metadata input,
              d_name = i_name input, d_cwd = cwd,
              d_files = (case source of Some n \<Rightarrow> ds_files n | None \<Rightarrow> fallback),
              d_contents = (case source of Some n \<Rightarrow> ds_contents n
                | None \<Rightarrow> map_of (map (\<lambda>f. (f_path f, hello)) (filter (\<lambda>f. f_type f = FileEntry) fallback))),
              d_logs = [\<lparr>l_ts = t, l_lvl = ''created'', l_msg = (if i_snapshot input \<noteq> None
                then ''created from in-memory snapshot'' else ''created through in-memory runtime provider'')\<rparr>],
              d_policy = (case i_egress input of Some q \<Rightarrow> q | None \<Rightarrow> \<lparr>p_defaultAction = Allow, p_egress = []\<rparr>),
              d_vault = None, d_commands = Map.empty, d_sessions = Map.empty\<rparr>
     in (Inr \<lparr>t_id = rid, t_state = d_state s, t_expires = Some (d_expires s), t_metadata = d_metadata s,
              t_registry_credential = None, t_image_auth = False\<rparr>, set_box rid s p))"

definition dev_list :: "(dev, runtime_summary list) call" where
  "dev_list p = (Inr (map (summary_of \<circ> snd) (boxes p)), p)"

definition dev_get :: "string \<Rightarrow> (dev, runtime_summary option) call" where
  "dev_get rid p = (Inr (map_option summary_of (map_of (boxes p) rid)), p)"

text \<open>An aborted signal throws before anything is read.\<close>

definition dev_isReady :: "bool \<Rightarrow> string \<Rightarrow> (dev, bool) call" where
  "dev_isReady aborted rid p =
    (if aborted then (Inl ''This operation was aborted'', p)
     else (Inr (case map_of (boxes p) rid of None \<Rightarrow> False
       | Some s \<Rightarrow> d_state s = ''running'' \<or> d_state s = ''idle''), p))"

definition dev_delete :: "string \<Rightarrow> (dev, unit) call" where
  "dev_delete rid p =
    (case map_of (boxes p) rid of
       None \<Rightarrow> (Inr (), p)
     | Some s \<Rightarrow> (Inr (), set_box rid (add_log (dv_now p) ''terminated'' ''sandbox terminated'' (s\<lparr>d_state := ''terminated''\<rparr>)) p))"

definition dev_renew :: "string \<Rightarrow> time \<Rightarrow> (dev, unit) call" where
  "dev_renew rid expiresAt p =
    (case map_of (boxes p) rid of
       None \<Rightarrow> (Inr (), p)
     | Some s \<Rightarrow> (Inr (), set_box rid (add_log (dv_now p) ''renewed'' ''ttl reset'' (s\<lparr>d_expires := expiresAt\<rparr>)) p))"

definition dev_pause :: "string \<Rightarrow> (dev, runtime_summary) call" where
  "dev_pause rid p =
    (case map_of (boxes p) rid of
       None \<Rightarrow> (Inl (not_found rid), p)
     | Some s0 \<Rightarrow>
         let s = add_log (dv_now p) ''paused'' ''sandbox paused'' (s0\<lparr>d_state := ''paused''\<rparr>)
         in (Inr (summary_of s), set_box rid s p))"

definition dev_resume :: "string \<Rightarrow> (dev, runtime_summary) call" where
  "dev_resume rid p =
    (case map_of (boxes p) rid of
       None \<Rightarrow> (Inl (not_found rid), p)
     | Some s0 \<Rightarrow>
         let s = add_log (dv_now p) ''resumed'' ''sandbox resumed'' (s0\<lparr>d_state := ''running''\<rparr>)
         in (Inr (summary_of s), set_box rid s p))"

definition snapshot_summary :: "dev_snapshot \<Rightarrow> runtime_snapshot" where
  "snapshot_summary n = \<lparr>u_id = ds_id n, u_state = ds_state n, u_reason = None, u_message = None\<rparr>"

definition dev_createSnapshot ::
    "string \<Rightarrow> string option \<Rightarrow> (string \<times> string) list \<Rightarrow> (dev, runtime_snapshot) call" where
  "dev_createSnapshot rid name metadata p0 =
    (case map_of (boxes p0) rid of
       None \<Rightarrow> (Inl (not_found rid), p0)
     | Some s \<Rightarrow>
         let (i, p) = devId p0;
             n = \<lparr>ds_id = i, ds_source = d_id s, ds_name = name, ds_state = ''ready'', ds_metadata = metadata,
                  ds_created = dv_now p, ds_files = d_files s, ds_contents = d_contents s\<rparr>
         in (Inr (snapshot_summary n),
             set_box rid (add_log (dv_now p) ''snapshot'' (''snapshot created '' @ i) s) (p\<lparr>snaps := put i n (snaps p)\<rparr>)))"

definition dev_listSnapshots :: "(dev, runtime_snapshot list) call" where
  "dev_listSnapshots p = (Inr (map (snapshot_summary \<circ> snd) (snaps p)), p)"

definition dev_getSnapshot :: "string \<Rightarrow> (dev, runtime_snapshot option) call" where
  "dev_getSnapshot i p = (Inr (map_option snapshot_summary (map_of (snaps p) i)), p)"

definition dev_deleteSnapshot :: "string \<Rightarrow> (dev, unit) call" where
  "dev_deleteSnapshot i p = (Inr (), p\<lparr>snaps := filter (\<lambda>(k, n). k \<noteq> i) (snaps p)\<rparr>)"

definition dev_exposeRoute :: "route_config \<Rightarrow> string \<Rightarrow> int \<Rightarrow> string \<Rightarrow> (dev, route_target) call" where
  "dev_exposeRoute cfg rid port protocol p = (Inr (configuredRouteTarget cfg rid port ''dev'' None None), p)"

section \<open>Running commands\<close>

record command_result =
  cr_command :: string
  cr_stdout :: string
  cr_exit :: int

definition command_or_ls :: "string \<Rightarrow> string" where
  "command_or_ls c = (if trim c = [] then ''ls'' else trim c)"

definition run_context :: "run_input \<Rightarrow> string" where
  "run_context input = join_with (CHR '' '')
     ((if truthy (ri_cwd input) then [''cwd='' @ the (ri_cwd input)] else []) @
      (case ri_timeout input of None \<Rightarrow> [] | Some n \<Rightarrow> if n = 0 then [] else [''timeout='' @ show_int n @ ''ms'']))"

text \<open>Change a sandbox if it exists (\<open>sandbox?.\<close>).\<close>

definition change_box :: "string \<Rightarrow> (dev_sandbox \<Rightarrow> dev_sandbox) \<Rightarrow> dev \<Rightarrow> dev" where
  "change_box rid f p = (case map_of (boxes p) rid of None \<Rightarrow> p | Some s \<Rightarrow> set_box rid (f s) p)"

definition dev_run :: "string \<Rightarrow> run_input \<Rightarrow> (dev, command_result) call" where
  "dev_run rid input p =
    (let command = command_or_ls (ri_command input); context = run_context input in
     (Inr \<lparr>cr_command = command, cr_stdout = devCommandStdout input, cr_exit = 0\<rparr>,
      change_box rid (add_log (dv_now p) ''run''
        (''command: '' @ command @ (if context = [] then [] else CHR '' '' # context))) p))"

datatype command_status = CommandRunning | CommandSucceeded | CommandFailed

record started_command =
  sc_id :: string
  sc_status :: command_status
  sc_stdout :: string
  sc_exit :: "int option"
  sc_started :: time
  sc_finished :: "time option"

definition dev_startCommand :: "string \<Rightarrow> run_input \<Rightarrow> bool \<Rightarrow> (dev, started_command) call" where
  "dev_startCommand rid input running p0 =
    (let (i, p) = fresh_id ''cmd'' 5 p0; t = dv_now p;
         command = command_or_ls (ri_command input); stdout = devCommandStdout input;
         c = \<lparr>cm_command = command, cm_stdout = stdout, cm_stderr = [], cm_exit = (if running then None else Some 0),
              cm_running = running, cm_started = t, cm_finished = (if running then None else Some t)\<rparr>
     in (Inr \<lparr>sc_id = i, sc_status = (if running then CommandRunning else CommandSucceeded),
              sc_stdout = (if running then [] else stdout), sc_exit = (if running then None else Some 0),
              sc_started = t, sc_finished = (if running then None else Some t)\<rparr>,
         change_box rid (\<lambda>s. add_log t ''command'' (''command: '' @ command)
           (s\<lparr>d_commands := (d_commands s)(i \<mapsto> c)\<rparr>)) p))"

definition command_of :: "string \<Rightarrow> string \<Rightarrow> dev \<Rightarrow> dev_command option" where
  "command_of rid i p = Option.bind (map_of (boxes p) rid) (\<lambda>s. d_commands s i)"

definition command_missing :: "string \<Rightarrow> string" where
  "command_missing i = ''command '' @ i @ '' not found''"

definition command_status_of :: "dev_command \<Rightarrow> command_status" where
  "command_status_of c = (if cm_running c then CommandRunning
     else if cm_exit c = Some 0 then CommandSucceeded else CommandFailed)"

text \<open>The command's record and its status.\<close>

definition dev_getCommand :: "string \<Rightarrow> string \<Rightarrow> (dev, dev_command \<times> command_status) call" where
  "dev_getCommand rid i p =
    (case command_of rid i p of None \<Rightarrow> (Inl (command_missing i), p)
     | Some c \<Rightarrow> (Inr (c, command_status_of c), p))"

definition dev_commandLogs :: "string \<Rightarrow> string \<Rightarrow> int option \<Rightarrow> (dev, string \<times> string \<times> int option) call" where
  "dev_commandLogs rid i cursor p =
    (case command_of rid i p of None \<Rightarrow> (Inl (command_missing i), p)
     | Some c \<Rightarrow> (Inr (cm_stdout c, cm_stderr c, cursor), p))"

definition dev_interruptCommand :: "string \<Rightarrow> string \<Rightarrow> (dev, unit) call" where
  "dev_interruptCommand rid i p =
    (case command_of rid i p of
       None \<Rightarrow> (Inr (), p)
     | Some c \<Rightarrow> (Inr (), change_box rid (\<lambda>s. s\<lparr>d_commands := (d_commands s)(i \<mapsto>
         c\<lparr>cm_running := False, cm_exit := Some 130, cm_finished := Some (dv_now p)\<rparr>)\<rparr>) p))"

definition session_missing :: "string \<Rightarrow> string" where
  "session_missing i = ''command session '' @ i @ '' not found''"

definition dev_createCommandSession :: "string \<Rightarrow> string option \<Rightarrow> (dev, string \<times> string) call" where
  "dev_createCommandSession rid cwd p0 =
    (case map_of (boxes p0) rid of
       None \<Rightarrow> (Inl (not_found rid), p0)
     | Some s \<Rightarrow>
         let (i, p) = fresh_id ''ses'' 5 p0;
             dir = normalizeDevPath (case cwd of None \<Rightarrow> d_cwd s | Some c \<Rightarrow> c)
         in (Inr (i, dir), set_box rid (add_log (dv_now p) ''session'' (''command session created cwd='' @ dir)
              (s\<lparr>d_sessions := (d_sessions s)(i \<mapsto> dir)\<rparr>)) p))"

text \<open>The output of a command in a session, and the directory it leaves the session in.\<close>

definition session_step :: "string \<Rightarrow> string \<Rightarrow> string \<Rightarrow> string \<times> string" where
  "session_step i cwd command =
    (if word_then_space ''cd'' command then ([], normalizeDevPath (trim (after_word ''cd'' command)))
     else if command = ''pwd'' then (cwd @ newline, cwd)
     else (''harakiri dev session '' @ i @ '': '' @ command @ newline, cwd))"

definition dev_runCommandSession ::
    "string \<Rightarrow> string \<Rightarrow> string \<Rightarrow> string option \<Rightarrow> (dev, command_result) call" where
  "dev_runCommandSession rid i command0 cwd p =
    (case Option.bind (map_of (boxes p) rid) (\<lambda>s. map_option (Pair s) (d_sessions s i)) of
       None \<Rightarrow> (Inl (session_missing i), p)
     | Some (s, dir0) \<Rightarrow>
         let dir = (if truthy cwd then normalizeDevPath (the cwd) else dir0);
             command = trim command0; (stdout, dir') = session_step i dir command;
             s' = s\<lparr>d_sessions := (d_sessions s)(i \<mapsto> dir')\<rparr>
         in (Inr \<lparr>cr_command = command, cr_stdout = stdout, cr_exit = 0\<rparr>,
             set_box rid (if word_then_space ''cd'' command then s'
               else add_log (dv_now p) ''session'' (''session command: '' @ command) s') p))"

definition dev_deleteCommandSession :: "string \<Rightarrow> string \<Rightarrow> (dev, unit) call" where
  "dev_deleteCommandSession rid i p =
    (case Option.bind (map_of (boxes p) rid) (\<lambda>s. map_option (Pair s) (d_sessions s i)) of
       None \<Rightarrow> (Inl (session_missing i), p)
     | Some (s, _) \<Rightarrow> (Inr (), set_box rid (add_log (dv_now p) ''session'' ''command session deleted''
         (s\<lparr>d_sessions := (d_sessions s)(i := None)\<rparr>)) p))"

section \<open>Files\<close>

datatype file_error = FileNotFound | SandboxMissing

datatype encoding = Utf8 | Base64

text \<open>\<open>Buffer\<close>: from text to base64 and back, through UTF-8.\<close>

record codec =
  toBase64 :: "string \<Rightarrow> string"
  fromBase64 :: "string \<Rightarrow> string"

definition byteLength :: "string \<Rightarrow> nat" where
  "byteLength s = sum_list (map (\<lambda>c. length (utf8 (of_char c))) s)"

record file_listing =
  fl_cwd :: string
  fl_default_cwd :: string
  fl_files :: "file_entry list"

definition dev_files :: "string \<Rightarrow> string option \<Rightarrow> string \<Rightarrow> (dev, file_listing) call" where
  "dev_files rid path defaultCwd p =
    (let box = map_of (boxes p) rid;
         cwd = normalizeDevPath (case path of Some x \<Rightarrow> x
           | None \<Rightarrow> (case box of Some s \<Rightarrow> d_cwd s | None \<Rightarrow> defaultCwd));
         all = (case box of Some s \<Rightarrow> d_files s | None \<Rightarrow> fallbackFileSet (dv_now p) cwd)
     in (Inr \<lparr>fl_cwd = cwd, fl_default_cwd = defaultCwd, fl_files = filter (\<lambda>f. parentPath (f_path f) = cwd) all\<rparr>, p))"

definition file_at :: "string \<Rightarrow> string \<Rightarrow> dev \<Rightarrow> file_entry list" where
  "file_at rid path p = (case map_of (boxes p) rid of None \<Rightarrow> []
     | Some s \<Rightarrow> filter (\<lambda>f. f_path f = path) (d_files s))"

definition dev_statFile :: "string \<Rightarrow> string \<Rightarrow> (dev, file_error + file_entry) call" where
  "dev_statFile rid path0 p =
    (case first_row (file_at rid (normalizeDevPath path0) p) of
       None \<Rightarrow> (Inr (Inl FileNotFound), p) | Some f \<Rightarrow> (Inr (Inr f), p))"

definition dev_readFile :: "codec \<Rightarrow> string \<Rightarrow> string \<Rightarrow> encoding \<Rightarrow> (dev, file_error + string) call" where
  "dev_readFile cx rid path0 enc p =
    (let path = normalizeDevPath path0 in
     case first_row (filter (\<lambda>f. f_type f = FileEntry) (file_at rid path p)) of
       None \<Rightarrow> (Inr (Inl FileNotFound), p)
     | Some f \<Rightarrow>
         let content = (case Option.bind (map_of (boxes p) rid) (\<lambda>s. d_contents s path) of None \<Rightarrow> [] | Some c \<Rightarrow> c)
         in (Inr (Inr (if enc = Base64 then toBase64 cx content else content)), p))"

definition replace_entry :: "file_entry \<Rightarrow> file_entry list \<Rightarrow> file_entry list" where
  "replace_entry f fs = filter (\<lambda>e. f_path e \<noteq> f_path f) fs @ [f]"

definition with_parent :: "time \<Rightarrow> bool \<Rightarrow> string \<Rightarrow> file_entry list \<Rightarrow> file_entry list" where
  "with_parent t createParents path fs =
    (if createParents \<and> \<not> (\<exists>e \<in> set fs. f_path e = parentPath path)
     then fs @ [devFileEntry t (parentPath path) DirectoryEntry 0 None] else fs)"

definition dev_writeFile ::
    "codec \<Rightarrow> string \<Rightarrow> string \<Rightarrow> string \<Rightarrow> encoding \<Rightarrow> string option \<Rightarrow> bool \<Rightarrow> (dev, file_error + file_entry) call" where
  "dev_writeFile cx rid path0 input enc mode createParents p =
    (case map_of (boxes p) rid of
       None \<Rightarrow> (Inr (Inl SandboxMissing), p)
     | Some s \<Rightarrow>
         let path = normalizeDevPath path0;
             content = (if enc = Base64 then fromBase64 cx input else input);
             f = devFileEntry (dv_now p) path FileEntry (byteLength content)
                   (Some (case mode of None \<Rightarrow> ''0644'' | Some m \<Rightarrow> m))
         in (Inr (Inr f), set_box rid (s\<lparr>
               d_files := replace_entry f (with_parent (dv_now p) createParents path (d_files s)),
               d_contents := (d_contents s)(path \<mapsto> content)\<rparr>) p))"

definition dev_mkdir :: "string \<Rightarrow> string \<Rightarrow> (dev, file_error + file_entry) call" where
  "dev_mkdir rid path0 p =
    (case map_of (boxes p) rid of
       None \<Rightarrow> (Inr (Inl SandboxMissing), p)
     | Some s \<Rightarrow>
         let f = devFileEntry (dv_now p) (normalizeDevPath path0) DirectoryEntry 0 None
         in (Inr (Inr f), set_box rid (s\<lparr>d_files := replace_entry f (d_files s)\<rparr>) p))"

definition removed_by :: "bool \<Rightarrow> string \<Rightarrow> file_entry \<Rightarrow> bool" where
  "removed_by recursive path e \<longleftrightarrow> f_path e = path \<or> recursive \<and> starts_with (path @ ''/'') (f_path e)"

definition dev_removeFile :: "string \<Rightarrow> string \<Rightarrow> bool \<Rightarrow> (dev, file_error + string) call" where
  "dev_removeFile rid path0 recursive p =
    (case map_of (boxes p) rid of
       None \<Rightarrow> (Inr (Inl SandboxMissing), p)
     | Some s \<Rightarrow>
         let path = normalizeDevPath path0 in
         if \<exists>e \<in> set (d_files s). removed_by recursive path e then
           (Inr (Inr path), set_box rid (s\<lparr>d_files := filter (\<lambda>e. \<not> removed_by recursive path e) (d_files s),
              d_contents := (d_contents s)(path := None)\<rparr>) p)
         else (Inr (Inl FileNotFound), p))"

definition dev_renameFile :: "string \<Rightarrow> string \<Rightarrow> string \<Rightarrow> (dev, file_error + file_entry) call" where
  "dev_renameFile rid from0 to0 p =
    (case map_of (boxes p) rid of
       None \<Rightarrow> (Inr (Inl SandboxMissing), p)
     | Some s \<Rightarrow>
         let src = normalizeDevPath from0; dst = normalizeDevPath to0 in
         case first_row (filter (\<lambda>e. f_path e = src) (d_files s)) of
           None \<Rightarrow> (Inr (Inl FileNotFound), p)
         | Some f \<Rightarrow>
             let renamed = f\<lparr>f_path := dst, f_name := entryName dst, f_modified := dv_now p\<rparr>;
                 contents = (case d_contents s src of None \<Rightarrow> d_contents s
                   | Some c \<Rightarrow> (d_contents s)(src := None, dst := Some c))
             in (Inr (Inr renamed), set_box rid (s\<lparr>
                   d_files := filter (\<lambda>e. f_path e \<noteq> src) (d_files s) @ [renamed], d_contents := contents\<rparr>) p))"

section \<open>Logs, metrics, policies and credentials\<close>

definition dev_logs :: "string \<Rightarrow> (dev, log_entry list) call" where
  "dev_logs rid p = (Inr (case map_of (boxes p) rid of None \<Rightarrow> [] | Some s \<Rightarrow> d_logs s), p)"

record egress_status =
  es_found :: bool
  es_deny_all :: bool
  es_policy :: "network_policy option"

definition egress_status_of :: "string \<Rightarrow> dev \<Rightarrow> egress_status" where
  "egress_status_of rid p =
    (let q = map_option d_policy (map_of (boxes p) rid) in
     \<lparr>es_found = (q \<noteq> None), es_deny_all = (map_option p_defaultAction q = Some Deny), es_policy = q\<rparr>)"

definition dev_getEgressPolicy :: "string \<Rightarrow> (dev, egress_status) call" where
  "dev_getEgressPolicy rid p = (Inr (egress_status_of rid p), p)"

definition action_text :: "egress_action \<Rightarrow> string" where
  "action_text a = (case a of Allow \<Rightarrow> ''allow'' | Deny \<Rightarrow> ''deny'')"

definition dev_setEgressPolicy :: "string \<Rightarrow> network_policy \<Rightarrow> (dev, egress_status) call" where
  "dev_setEgressPolicy rid q p =
    (let p' = change_box rid (\<lambda>s. add_log (dv_now p) ''egress''
           (''egress policy set to '' @ action_text (p_defaultAction q)) (s\<lparr>d_policy := q\<rparr>)) p
     in dev_getEgressPolicy rid p')"

text \<open>The first rule of each target, the new rules first.\<close>

definition merge_rules :: "egress_rule list \<Rightarrow> egress_rule list \<Rightarrow> egress_rule list" where
  "merge_rules new old = dedupe_key g_target (new @ old)"

definition dev_patchEgressRules :: "string \<Rightarrow> egress_rule list \<Rightarrow> (dev, egress_status) call" where
  "dev_patchEgressRules rid rules p =
    (let p' = change_box rid (\<lambda>s. s\<lparr>d_policy := (d_policy s)\<lparr>p_egress := merge_rules rules (p_egress (d_policy s))\<rparr>\<rparr>) p
     in dev_getEgressPolicy rid p')"

definition dev_getCredentialVault :: "string \<Rightarrow> (dev, vault_state option) call" where
  "dev_getCredentialVault rid p = (Inr (Option.bind (map_of (boxes p) rid) d_vault), p)"

record vault_input =
  va_credentials :: "string list"
  va_bindings :: "(string \<times> obj \<times> string \<times> string option) list"

definition apply_vault :: "vault_input \<Rightarrow> vault_state option \<Rightarrow> vault_state" where
  "apply_vault input v =
    (let revision = (case v of None \<Rightarrow> 0 | Some x \<Rightarrow> vs_revision x) + 1;
         creds = (case v of None \<Rightarrow> [] | Some x \<Rightarrow> vs_credentials x);
         binds = (case v of None \<Rightarrow> [] | Some x \<Rightarrow> vs_bindings x)
     in \<lparr>vs_revision = revision,
         vs_credentials = creds @ map (\<lambda>n. \<lparr>vc_name = n, vc_revision = revision\<rparr>)
           (filter (\<lambda>n. n \<notin> vc_name ` set creds) (va_credentials input)),
         vs_bindings = binds @ map (\<lambda>(n, m, ty, an). \<lparr>vb_name = n, vb_revision = revision, vb_match = m,
             vb_auth_type = ty, vb_auth_name = an\<rparr>)
           (filter (\<lambda>(n, _). n \<notin> vb_name ` set binds) (va_bindings input))\<rparr>)"

definition vault_log :: "time \<Rightarrow> vault_state \<Rightarrow> dev_sandbox \<Rightarrow> dev_sandbox" where
  "vault_log t v s = add_log t ''credential-vault'' (''credential vault revision '' @ show_int (vs_revision v))
     (s\<lparr>d_vault := Some v\<rparr>)"

definition dev_applyCredentialVault :: "string \<Rightarrow> vault_input \<Rightarrow> (dev, vault_state) call" where
  "dev_applyCredentialVault rid input p =
    (case map_of (boxes p) rid of
       None \<Rightarrow> (Inl (not_found rid), p)
     | Some s \<Rightarrow>
         let v = apply_vault input (d_vault s) in (Inr v, set_box rid (vault_log (dv_now p) v s) p))"

definition dev_deleteCredentialVaultEntries ::
    "string \<Rightarrow> string list \<Rightarrow> string list \<Rightarrow> (dev, vault_state option) call" where
  "dev_deleteCredentialVaultEntries rid credentialNames bindingNames p =
    (case map_of (boxes p) rid of
       None \<Rightarrow> (Inr None, p)
     | Some s \<Rightarrow>
         (case d_vault s of
            None \<Rightarrow> (Inr None, p)
          | Some v0 \<Rightarrow>
              let v = \<lparr>vs_revision = vs_revision v0 + 1,
                    vs_credentials = filter (\<lambda>c. vc_name c \<notin> set credentialNames) (vs_credentials v0),
                    vs_bindings = filter (\<lambda>b. vb_name b \<notin> set bindingNames) (vs_bindings v0)\<rparr>
              in (Inr (Some v), set_box rid (vault_log (dv_now p) v s) p)))"

text \<open>The provider as the services see it.\<close>

definition unit_call :: "('p, 'a) call \<Rightarrow> ('p, unit) call" where
  "unit_call m p = (case m p of (Inl e, p') \<Rightarrow> (Inl e, p') | (Inr _, p') \<Rightarrow> (Inr (), p'))"

definition dev_provider :: "route_config \<Rightarrow> (obj \<Rightarrow> vault_input) \<Rightarrow> dev provider" where
  "dev_provider cfg vaultInput = \<lparr>kind = ''dev'',
     caps = \<lparr>authoritativeLifecycle = True, pauseStopsExecution = True, cap_egress = True, cap_vault = True,
       cap_vault_patch = True, cap_vault_read = True, cap_pause = True, cap_resume = True, cap_snapshots = True,
       cap_workspaces = False\<rparr>,
     disabledFeatures = [], create = dev_create, get = dev_get, list_all_runtimes = dev_list, delete = dev_delete,
     renew = dev_renew, exposeRoute = dev_exposeRoute cfg, pause = Some dev_pause, resume = Some dev_resume,
     createSnapshot = Some dev_createSnapshot, getSnapshot = Some dev_getSnapshot,
     deleteSnapshot = Some dev_deleteSnapshot,
     setEgressPolicy = Some (\<lambda>rid q. unit_call (dev_setEgressPolicy rid q)),
     patchEgressRules = Some (\<lambda>rid rules. unit_call (dev_patchEgressRules rid rules)),
     applyCredentialVault = Some (\<lambda>rid x. unit_call (dev_applyCredentialVault rid (vaultInput x)))\<rparr>"

section \<open>Paths are confined\<close>

definition good_part :: "string \<Rightarrow> bool" where
  "good_part w \<longleftrightarrow> w \<noteq> [] \<and> w \<noteq> ''.'' \<and> w \<noteq> ''..'' \<and> CHR ''/'' \<notin> set w"

lemma split_on_parts: "w \<in> set (split_on d s) \<Longrightarrow> d \<notin> set w \<and> set w \<subseteq> set s"
  by (induction d s arbitrary: w rule: split_on.induct) (fastforce split: if_splits list.splits)+

lemma push_good: "\<forall>w \<in> set acc. good_part w \<Longrightarrow> CHR ''/'' \<notin> set part \<Longrightarrow> \<forall>w \<in> set (push_part acc part). good_part w"
  by (auto simp: push_part.simps good_part_def dest: in_set_butlastD)

lemma fold_good:
  "\<forall>w \<in> set acc. good_part w \<Longrightarrow> \<forall>part \<in> set parts. CHR ''/'' \<notin> set part \<Longrightarrow>
   \<forall>w \<in> set (foldl push_part acc parts). good_part w"
proof (induction parts arbitrary: acc)
  case (Cons a parts)
  have "\<forall>w \<in> set (push_part acc a). good_part w" using Cons.prems by (intro push_good) auto
  with Cons show ?case by simp
qed simp

lemma fold_keep: "\<forall>w \<in> set parts. good_part w \<Longrightarrow> foldl push_part acc parts = acc @ parts"
  by (induction parts arbitrary: acc) (auto simp: push_part.simps good_part_def)

lemma push_chars: "set (push_part acc part) \<subseteq> insert part (set acc)"
  by (auto simp: push_part.simps dest: in_set_butlastD)

lemma fold_chars: "set (foldl push_part acc parts) \<subseteq> set acc \<union> set parts"
proof (induction parts arbitrary: acc)
  case (Cons a parts)
  have "set (foldl push_part acc (a # parts)) \<subseteq> set (push_part acc a) \<union> set parts" using Cons by simp
  with push_chars [of acc a] show ?case by auto
qed simp

lemma normalizeDevPath_parts:
  obtains ps where "normalizeDevPath path = path_of ps" "\<forall>w \<in> set ps. good_part w"
    "\<forall>w \<in> set ps. CHR 0x00 \<notin> set w"
proof (cases "path = [] \<or> CHR 0x00 \<in> set path")
  case True
  then have "normalizeDevPath path = path_of []" by (simp add: normalizeDevPath_def path_of_def)
  then show thesis by (rule that) simp_all
next
  case False
  define safe where "safe = (if starts_with ''/'' path then path else CHR ''/'' # path)"
  define ps where "ps = foldl push_part [] (split_on (CHR ''/'') safe)"
  have "CHR 0x00 \<notin> set safe" using False by (auto simp: safe_def)
  then have "\<forall>w \<in> set ps. CHR 0x00 \<notin> set w"
    using fold_chars [of "[]" "split_on (CHR ''/'') safe"] split_on_parts [of _ "CHR ''/''" safe]
    unfolding ps_def by auto
  moreover have "\<forall>w \<in> set ps. good_part w"
    unfolding ps_def by (rule fold_good) (auto dest: split_on_parts)
  moreover have "normalizeDevPath path = path_of ps"
    using False by (simp add: normalizeDevPath_def ps_def safe_def Let_def)
  ultimately show thesis using that by blast
qed

lemma normalize_path_of:
  assumes "\<forall>w \<in> set ps. good_part w" and "\<forall>w \<in> set ps. CHR 0x00 \<notin> set w"
  shows "normalizeDevPath (path_of ps) = path_of ps"
proof -
  have no_nul: "CHR 0x00 \<notin> set (path_of ps)"
  proof -
    have "set (join_with (CHR ''/'') ps) \<subseteq> {CHR ''/''} \<union> (\<Union>w \<in> set ps. set w)"
      by (induction "CHR ''/''" ps rule: join_with.induct) auto
    moreover have "CHR 0x00 \<notin> (\<Union>w \<in> set ps. set w)" using assms(2) by blast
    ultimately show ?thesis by (auto simp: path_of_def)
  qed
  have "foldl push_part [] (split_on (CHR ''/'') (path_of ps)) = ps"
  proof (cases "ps = []")
    case False
    then have "split_on (CHR ''/'') (path_of ps) = [] # ps"
      using assms(1) by (simp add: path_of_def split_join good_part_def)
    with assms(1) show ?thesis by (simp add: fold_keep push_part.simps)
  qed (simp add: path_of_def push_part.simps)
  with no_nul show ?thesis by (simp add: normalizeDevPath_def path_of_def starts_with_def)
qed

text \<open>
  Paths are confined to the sandbox's root. A normalized path is absolute and has no
  empty, dot or parent segment, whatever the caller sent, and normalizing it again changes
  nothing, so the same file has one name.
\<close>

lemma dev_path_confined:
  "\<exists>ps. normalizeDevPath path = path_of ps \<and> list_all good_part ps \<and>
     normalizeDevPath (normalizeDevPath path) = normalizeDevPath path"
proof -
  obtain ps where "normalizeDevPath path = path_of ps" "\<forall>w \<in> set ps. good_part w"
    "\<forall>w \<in> set ps. CHR 0x00 \<notin> set w" by (rule normalizeDevPath_parts)
  then show ?thesis by (auto simp: normalize_path_of list_all_iff)
qed

section \<open>Files are kept\<close>

lemma set_box_simps [simp]:
  "map_of (boxes (set_box rid s p)) = (map_of (boxes p))(rid \<mapsto> s)" "snaps (set_box rid s p) = snaps p"
  "dv_now (set_box rid s p) = dv_now p"
  by (simp_all add: set_box_def)

lemma first_row_append_None: "first_row (xs @ ys) = (case first_row xs of None \<Rightarrow> first_row ys | Some x \<Rightarrow> Some x)"
  by (cases xs) simp_all

lemma replace_entry_other: "f_path f \<noteq> path \<Longrightarrow> filter (\<lambda>e. f_path e = path) (replace_entry f fs) = filter (\<lambda>e. f_path e = path) fs"
  by (auto simp: replace_entry_def intro: filter_cong)

lemma replace_entry_own: "filter (\<lambda>e. f_path e = f_path f) (replace_entry f fs) = [f]"
  by (simp add: replace_entry_def filter_empty_conv)

lemma with_parent_files: "filter (\<lambda>e. f_type e = FileEntry \<and> P e) (with_parent t b path fs) = filter (\<lambda>e. f_type e = FileEntry \<and> P e) fs"
  by (simp add: with_parent_def devFileEntry_def)

text \<open>
  What was written is read back. After a successful write, reading the same file under any
  spelling of its path gives what was written; every other file, and every other sandbox,
  reads as before.
\<close>

lemma dev_write_read:
  assumes "dev_writeFile cx rid path x enc mode par p = (Inr (Inr f), p')"
    and "enc = Base64 \<longrightarrow> toBase64 cx (fromBase64 cx x) = x"
  shows "(normalizeDevPath path2 = normalizeDevPath path \<longrightarrow> dev_readFile cx rid path2 enc p' = (Inr (Inr x), p')) \<and>
    (rid2 \<noteq> rid \<or> normalizeDevPath path2 \<noteq> normalizeDevPath path \<longrightarrow>
       fst (dev_readFile cx rid2 path2 enc2 p') = fst (dev_readFile cx rid2 path2 enc2 p))"
proof -
  let ?path = "normalizeDevPath path"
  let ?content = "if enc = Base64 then fromBase64 cx x else x"
  from assms(1) obtain s where s: "map_of (boxes p) rid = Some s"
    and f: "f_path f = ?path" "f_type f = FileEntry"
    and p': "p' = set_box rid (s\<lparr>d_files := replace_entry f (with_parent (dv_now p) par ?path (d_files s)),
      d_contents := (d_contents s)(?path \<mapsto> ?content)\<rparr>) p"
    by (auto simp: dev_writeFile_def Let_def devFileEntry_def split: option.splits)
  have entry: "filter (\<lambda>e. f_type e = FileEntry) (file_at rid q p') =
      (if q = ?path then [f] else filter (\<lambda>e. f_type e = FileEntry) (file_at rid q p))" for q
  proof (cases "q = ?path")
    case True
    then have "file_at rid q p' = [f]" using replace_entry_own [of f] f by (simp add: file_at_def p')
    with True f show ?thesis by simp
  next
    case False
    then have "file_at rid q p' = filter (\<lambda>e. f_path e = q) (with_parent (dv_now p) par ?path (d_files s))"
      using replace_entry_other [of f q] f by (simp add: file_at_def p')
    with False show ?thesis
      using with_parent_files [of "\<lambda>e. f_path e = q" "dv_now p" par ?path "d_files s"]
      by (simp add: file_at_def s conj_commute)
  qed
  have "dev_readFile cx rid path2 enc p' = (Inr (Inr x), p')" if "normalizeDevPath path2 = ?path"
    using that entry [of ?path] assms(2) by (simp add: dev_readFile_def Let_def) (simp add: p')
  moreover have "fst (dev_readFile cx rid2 path2 enc2 p') = fst (dev_readFile cx rid2 path2 enc2 p)"
    if "rid2 \<noteq> rid \<or> normalizeDevPath path2 \<noteq> ?path"
  proof (cases "rid2 = rid")
    case True
    with that entry [of "normalizeDevPath path2"] show ?thesis
      by (simp add: dev_readFile_def Let_def s split: option.splits) (simp add: p')
  next
    case False
    then have "file_at rid2 q p' = file_at rid2 q p" "map_of (boxes p') rid2 = map_of (boxes p) rid2" for q
      by (simp_all add: file_at_def p')
    then show ?thesis by (simp add: dev_readFile_def Let_def split: option.splits)
  qed
  ultimately show ?thesis by blast
qed

text \<open>One entry per path.\<close>

definition paths_unique :: "string \<Rightarrow> dev \<Rightarrow> bool" where
  "paths_unique rid p \<longleftrightarrow> (case map_of (boxes p) rid of None \<Rightarrow> True | Some s \<Rightarrow> distinct (map f_path (d_files s)))"

lemma distinct_replace: "distinct (map f_path fs) \<Longrightarrow> distinct (map f_path (replace_entry f fs))"
  by (auto simp: replace_entry_def distinct_map_filter)

text \<open>
  One entry per path. Writing, making a directory and removing keep the entries of a
  sandbox unique by path; renaming does so exactly when no other entry has the new path, and
  otherwise leaves two entries with the same path.
\<close>

lemma dev_paths_unique:
  assumes "paths_unique rid p"
  shows "paths_unique rid (snd (dev_writeFile cx rid path x enc mode par p)) \<and>
    paths_unique rid (snd (dev_mkdir rid path p)) \<and> paths_unique rid (snd (dev_removeFile rid path rec p)) \<and>
    (\<forall>f p'. dev_renameFile rid path path2 p = (Inr (Inr f), p') \<longrightarrow>
       (paths_unique rid p' \<longleftrightarrow> normalizeDevPath path2 = normalizeDevPath path \<or>
          file_at rid (normalizeDevPath path2) p = []))"
proof (cases "map_of (boxes p) rid")
  case None
  then show ?thesis
    by (simp add: assms dev_writeFile_def dev_mkdir_def dev_removeFile_def dev_renameFile_def)
next
  case (Some s)
  with assms have u: "distinct (map f_path (d_files s))" by (simp add: paths_unique_def)
  have parent: "distinct (map f_path (with_parent t b q (d_files s)))" for t b q
    using u by (auto simp: with_parent_def devFileEntry_def)
  have rename: "paths_unique rid p' \<longleftrightarrow> normalizeDevPath path2 = normalizeDevPath path \<or>
      file_at rid (normalizeDevPath path2) p = []" if r: "dev_renameFile rid path path2 p = (Inr (Inr f), p')" for f p'
  proof -
    from r Some obtain s' where p': "map_of (boxes p') rid = Some s'"
      and fs: "d_files s' = filter (\<lambda>e. f_path e \<noteq> normalizeDevPath path) (d_files s) @ [f]"
      and f: "f_path f = normalizeDevPath path2"
      by (auto simp: dev_renameFile_def Let_def split: option.splits)
    have "distinct (map f_path (filter (\<lambda>e. f_path e \<noteq> normalizeDevPath path) (d_files s)))"
      using u by (rule distinct_map_filter)
    with p' fs f Some show ?thesis by (auto simp: paths_unique_def file_at_def filter_empty_conv image_iff)
  qed
  from u rename Some show ?thesis
    by (simp add: paths_unique_def dev_writeFile_def dev_mkdir_def dev_removeFile_def Let_def distinct_replace parent
        distinct_map_filter)
qed

section \<open>Policies and credentials\<close>

lemma dedupe_key_first:
  "r \<in> set (dedupe_key k rs) \<Longrightarrow> first_row (filter (\<lambda>q. k q = k r) rs) = Some r"
  by (induction rs) (auto split: if_splits)

lemma merge_first: "r \<in> set (merge_rules new old) \<longleftrightarrow> first_row (filter (\<lambda>q. g_target q = g_target r) (new @ old)) = Some r"
proof
  assume "first_row (filter (\<lambda>q. g_target q = g_target r) (new @ old)) = Some r"
  then have "r \<in> set (new @ old)" using first_row_filter_Some [of _ "new @ old" r] by blast
  then have "g_target r \<in> g_target ` set (merge_rules new old)" by (simp add: merge_rules_def)
  then obtain q where q: "q \<in> set (merge_rules new old)" "g_target q = g_target r" by force
  then have "first_row (filter (\<lambda>x. g_target x = g_target q) (new @ old)) = Some q"
    unfolding merge_rules_def by (intro dedupe_key_first)
  with q \<open>first_row _ = Some r\<close> show "r \<in> set (merge_rules new old)" by simp
qed (unfold merge_rules_def, rule dedupe_key_first)

text \<open>
  Patching outbound rules. After a patch each target has one rule; the rule of a target
  named in the patch is the patch's first for it, and the rule of any other target is the one
  it had; the status returned is the new state, and the default action is unchanged.
\<close>

lemma dev_patch_rules:
  assumes "dev_patchEgressRules rid rules p = (Inr st, p')" and "map_of (boxes p) rid = Some s"
  shows "\<exists>q. es_policy st = Some q \<and> egress_status_of rid p' = st \<and> p_defaultAction q = p_defaultAction (d_policy s) \<and>
    distinct (map g_target (p_egress q)) \<and>
    (\<forall>r. r \<in> set (p_egress q) \<longleftrightarrow>
       first_row (filter (\<lambda>x. g_target x = g_target r) (rules @ p_egress (d_policy s))) = Some r)"
  using assms
  by (auto simp: dev_patchEgressRules_def dev_getEgressPolicy_def change_box_def egress_status_of_def Let_def
      merge_first) (simp add: merge_rules_def)

text \<open>
  Credentials are not overwritten. Injecting credentials into a sandbox keeps the entries
  whose names exist, adds the others under the new revision and advances the revision by one;
  deleting names removes exactly those and leaves the bindings.
\<close>

lemma dev_vault:
  assumes "map_of (boxes p) rid = Some s"
  shows "(\<exists>v. fst (dev_applyCredentialVault rid input p) = Inr v \<and>
       vs_revision v = (case d_vault s of None \<Rightarrow> 0 | Some x \<Rightarrow> vs_revision x) + 1 \<and>
       vc_name ` set (vs_credentials v) =
         (case d_vault s of None \<Rightarrow> {} | Some x \<Rightarrow> vc_name ` set (vs_credentials x)) \<union> set (va_credentials input) \<and>
       (\<forall>x c. d_vault s = Some x \<longrightarrow> c \<in> set (vs_credentials x) \<longrightarrow> c \<in> set (vs_credentials v)) \<and>
       dev_getCredentialVault rid (snd (dev_applyCredentialVault rid input p)) =
         (Inr (Some v), snd (dev_applyCredentialVault rid input p)) \<and>
       (\<exists>v'. fst (dev_deleteCredentialVaultEntries rid names [] (snd (dev_applyCredentialVault rid input p))) =
           Inr (Some v') \<and> vs_revision v' = vs_revision v + 1 \<and>
           set (vs_credentials v') = {c \<in> set (vs_credentials v). vc_name c \<notin> set names} \<and>
           vs_bindings v' = vs_bindings v))"
proof -
  let ?v = "apply_vault input (d_vault s)"
  have run: "dev_applyCredentialVault rid input p = (Inr ?v, set_box rid (vault_log (dv_now p) ?v s) p)"
    by (simp add: dev_applyCredentialVault_def assms Let_def)
  have names: "vc_name ` set (vs_credentials ?v) =
      (case d_vault s of None \<Rightarrow> {} | Some x \<Rightarrow> vc_name ` set (vs_credentials x)) \<union> set (va_credentials input)"
    by (cases "d_vault s") (auto simp: apply_vault_def Let_def image_Un image_image)
  have rev: "vs_revision ?v = (case d_vault s of None \<Rightarrow> 0 | Some x \<Rightarrow> vs_revision x) + 1"
    and keep: "\<forall>x c. d_vault s = Some x \<longrightarrow> c \<in> set (vs_credentials x) \<longrightarrow> c \<in> set (vs_credentials ?v)"
    by (simp_all add: apply_vault_def Let_def)
  have vault: "d_vault (vault_log t v s) = Some v" for t v by (simp add: vault_log_def add_log_def)
  show ?thesis
    unfolding run using names rev keep
    by (simp add: dev_getCredentialVault_def dev_deleteCredentialVaultEntries_def vault Let_def)
qed

section \<open>Witnesses\<close>

definition empty_dev :: dev where
  "empty_dev = \<lparr>boxes = [], snaps = [], dv_now = 0, dv_rand = nat_str, dv_pos = 0\<rparr>"

definition plain_template :: runtime_template where
  "plain_template = \<lparr>rt_id = ''base'', rt_name = ''base'', rt_description = [], rt_image = ''img'', rt_digest = None,
     rt_icon = [], rt_tags = [], rt_aliases = [], rt_boot_ms = 0, rt_visibility = TPublic, rt_owner = OwnPlatform,
     rt_entrypoint = [], rt_cpu = 1, rt_memory = 1024, rt_workdir = ''/w'', rt_ports = [], rt_family = ''linux'',
     rt_version = None\<rparr>"

definition plain_input :: create_input where
  "plain_input = \<lparr>i_workspace = None, i_template = plain_template, i_ttl = 60, i_name = ''box'',
     i_organization = ''org'', i_snapshot = None, i_metadata = [], i_env = [], i_egress = None\<rparr>"

definition box1 :: dev_sandbox where
  "box1 = \<lparr>d_id = ''rt1'', d_state = ''running'', d_expires = 60000, d_metadata = [], d_name = ''box'', d_cwd = ''/w'',
     d_files = fallbackFileSet 0 ''/w'', d_contents = Map.empty, d_logs = [],
     d_policy = \<lparr>p_defaultAction = Deny, p_egress = [\<lparr>g_action = Allow, g_target = ''a.io''\<rparr>]\<rparr>,
     d_vault = None, d_commands = Map.empty, d_sessions = Map.empty\<rparr>"

definition dev1 :: dev where
  "dev1 = empty_dev\<lparr>boxes := [(''rt1'', box1)]\<rparr>"

lemma dev1_box: "map_of (boxes dev1) ''rt1'' = Some box1"
  by (simp add: dev1_def)

definition plain_codec :: codec where
  "plain_codec = \<lparr>toBase64 = rev, fromBase64 = rev\<rparr>"

end
