(* ===== verification/Contract.thy ===== *)
theory Contract
  imports Protocol DevProvider
begin

text \<open>
  What the services need from a runtime provider, as an interface, and what they guarantee
  with and without it: with a provider that keeps the contract a termination ends with the
  slot free, and without one no slot is given up on an unconfirmed answer. The in-memory
  provider keeps the contract.
\<close>

section \<open>Without any contract\<close>

text \<open>Every open reservation is still open.\<close>

definition slots_kept :: "db \<Rightarrow> db \<Rightarrow> bool" where
  "slots_kept d d' \<longleftrightarrow> (\<forall>h \<in> set (holds d). h_released_at h = None \<longrightarrow>
     (\<exists>h' \<in> set (holds d'). h_org h' = h_org h \<and> h_sandbox h' = h_sandbox h \<and>
        h_generation h' = h_generation h \<and> h_released_at h' = None))"

lemma slots_kept_refl [simp]: "slots_kept d d"
  by (auto simp: slots_kept_def)

lemma slots_kept_trans: "slots_kept d1 d2 \<Longrightarrow> slots_kept d2 d3 \<Longrightarrow> slots_kept d1 d3"
  unfolding slots_kept_def by metis

lemma slots_kept_star: "slots_kept\<^sup>*\<^sup>* d d' \<Longrightarrow> slots_kept d d'"
  by (induction rule: rtranclp_induct) (auto intro: slots_kept_trans)

lemma slots_kept_same: "holds d' = holds d \<Longrightarrow> slots_kept d d'"
  by (auto simp: slots_kept_def)

lemma slots_kept_patch:
  assumes "\<And>h. h_org (f h) = h_org h \<and> h_sandbox (f h) = h_sandbox h \<and> h_generation (f h) = h_generation h \<and>
      h_released_at (f h) = h_released_at h" and "holds d' = update_rows P f (holds d)"
  shows "slots_kept d d'"
proof -
  have "(if P h then f h else h) \<in> set (holds d')" if "h \<in> set (holds d)" for h
    using that assms(2) by (auto simp: in_update_rows)
  then show ?thesis unfolding slots_kept_def by (metis assms(1))
qed

lemma kept_atomic: "(\<And>d a d'. m d = Inr (a, d') \<Longrightarrow> slots_kept d d') \<Longrightarrow> follows slots_kept (atomic m)"
  by (rule follows_atomic) (rule r_into_rtranclp)

lemma kept_effect_steps [follows_intro]:
  "follows slots_kept (atomic (markRuntimeEffectDispatched eff))"
  "follows slots_kept (atomic (acknowledgeRuntimeEffect eff pid))"
  "follows slots_kept (atomic (deletion_completed eff))"
  by (rule kept_atomic, auto simp: markRuntimeEffectDispatched_def acknowledgeRuntimeEffect_def deletion_completed_def
      bindT_Inr_iff now_Inr upd_Inr requireT_Inr_iff getsT_apply intro: slots_kept_same)+

lemma kept_uncertain [follows_intro]: "follows slots_kept (atomic (markRuntimeEffectUncertain eff pid))"
proof (rule kept_atomic)
  fix d a d' assume "markRuntimeEffectUncertain eff pid d = Inr (a, d')"
  then have "holds d' = holds d \<or> (\<exists>t. holds d' = update_rows (\<lambda>h. h_sandbox h = e_sandbox eff \<and>
      h_generation h = e_generation eff \<and> h_released_at h = None)
      (\<lambda>h. h\<lparr>h_phase := Uncertain, h_reason := Some ''runtime_outcome_unknown'', h_updated_at := t\<rparr>) (holds d))"
    by (auto simp: markRuntimeEffectUncertain_def bindT_Inr_iff lockEffectSandbox_Inr now_Inr upd_Inr returnT_apply
        split: if_splits)
  then show "slots_kept d d'"
    by (elim disjE exE) (erule slots_kept_same, erule slots_kept_patch [rotated], simp)
qed

lemma callP_Inr: "callP f w = (Inr a, w') \<Longrightarrow> \<exists>p'. f (prv w) = (Inr a, p')"
  by (auto simp: callP_def split: prod.splits sum.splits)

text \<open>
  C7. A slot is given up only on proof. While a sandbox is being deleted at any provider, however
  the calls fail and whatever else runs in between (that itself gives up no slot), every
  open reservation stays open unless the provider's answer to the final question says that
  the runtime is gone.
\<close>

theorem unconfirmed_deletion_keeps_slots:
  assumes "\<And>p obs p'. get pr (the (e_provider eff)) p = (Inr obs, p') \<Longrightarrow> \<not> runtimeIsAbsent pr obs"
    and "foreign_ok slots_kept w" and "executeRuntimeDeletion eff pr w = (r, w')"
  shows "slots_kept (wdb w) (wdb w')"
proof -
  have seen: "follows slots_kept (bindP (callP (get pr (the (e_provider eff)))) (\<lambda>observed.
      if runtimeIsAbsent pr observed then bindP (atomic (finishRuntimeDeletion eff)) (\<lambda>_. retP True) else retP False))"
    by (rule follows_bind_post [where P = "\<lambda>obs. \<not> runtimeIsAbsent pr obs"])
      (auto dest!: callP_Inr assms(1) intro: follows_intro)
  have "follows slots_kept (executeRuntimeDeletion eff pr)"
    unfolding executeRuntimeDeletion_def Let_def by (intro follows_intro seen)
  from followsD [OF this assms(2,3)] show ?thesis by (rule slots_kept_star)
qed

text \<open>The first part of creating a runtime, when nothing else runs.\<close>

lemma atomic_alone:
  "foreign w = [] \<Longrightarrow> atomic m w = (case m (wdb w) of Inl e \<Rightarrow> (Inl e, w) | Inr (a, d) \<Rightarrow> (Inr a, w\<lparr>wdb := d\<rparr>))"
  by (simp add: atomic_def interfere_def)

lemma mark_fresh_dispatched:
  assumes "e \<in> set (effects d)" "e_id e = e_id eff" "e_settled_at e = None" "e_dispatched_at e = None"
  shows "\<exists>d'. markRuntimeEffectDispatched eff d = Inr ((), d') \<and> holds d' = holds d"
proof -
  have "0 < count_rows (\<lambda>e. e_id e = e_id eff \<and> e_settled_at e = None \<and> e_dispatched_at e = None) (effects d)"
    using assms by (auto simp: count_rows_pos)
  then show ?thesis
    by (simp add: markRuntimeEffectDispatched_def bindT_def now_Inr upd_Inr requireT_def returnT_apply)
qed

lemma kept_save_identity [follows_intro]: "follows slots_kept (atomic (save_identity org sbx eff made))"
  by (rule kept_atomic, rule slots_kept_same)
    (auto simp: save_identity_def bindT_Inr_iff lockEffectSandbox_Inr sel_Inr now_Inr upd_Inr requireT_Inr_iff
      modifyT_apply Let_def)

text \<open>
  C8. A create that fails keeps its slot. Once a prepared request has been handed to the
  provider, whatever the provider answers -- a result, an error, a timeout, a runtime without
  identity -- and whichever later step fails, the execution slot of the sandbox stays
  reserved until its outcome is reconciled.
\<close>

theorem failed_create_keeps_slot:
  assumes "provisionSandboxRuntime operation (retP prepared) pr w = (r, w')" and "foreign w = []"
    and "requireRuntimeCreate pr prepared = Inr ()"
  shows "slots_kept (wdb w) (wdb w')"
proof (cases "o_sandbox operation = None \<or> o_sandbox operation = Some []")
  case True
  then have "w' = w" using assms(1) by (auto simp: provisionSandboxRuntime_def throwP_def)
  then show ?thesis by simp
next
  case False
  then obtain sbx where sbx: "o_sandbox operation = Some sbx" "sbx \<noteq> []" by auto
  let ?start = "beginRuntimeEffect (o_org operation) sbx EProvision (Some operation) []"
  show ?thesis
  proof (cases "?start (wdb w)")
    case (Inl e)
    then have "w' = w" using assms(1,2) sbx
      by (auto simp: provisionSandboxRuntime_def bindP_def atomic_alone)
    then show ?thesis by simp
  next
    case (Inr x)
    then obtain eff d1 where run: "?start (wdb w) = Inr (eff, d1)" by (cases x) auto
    then obtain d2 where mark: "markRuntimeEffectDispatched eff d1 = Inr ((), d2)" and "holds d2 = holds d1"
      and "holds d1 = holds (wdb w)"
      by (rule beginRuntimeEffect_Inr) (use mark_fresh_dispatched [of eff d1 eff] in auto)
    then have kept: "slots_kept (wdb w) d2" by (auto intro: slots_kept_same)
    define rest where "rest = bindP (tryP (callP (create pr (add_metadata operation eff prepared))) (outcome_unknown eff None)) (\<lambda>made.
         tryP
           (if t_id made = [] then throwP (PlainError ''Provider accepted creation without a runtime identity'')
            else
              bindP (atomic (acknowledgeRuntimeEffect eff (Some (t_id made)))) (\<lambda>_.
              bindP (atomic (save_identity (o_org operation) sbx eff made)) (\<lambda>_.
              retP (eff, made))))
           (outcome_unknown eff (Some (t_id made))))"
    have "rest (w\<lparr>wdb := d2\<rparr>) = (r, w')"
      using assms sbx run mark
      by (simp add: provisionSandboxRuntime_def rest_def bindP_def tryP_def retP_def sumP_def atomic_alone)
    moreover have "follows slots_kept rest"
      unfolding rest_def outcome_unknown_def by (intro follows_intro)
    moreover have "foreign_ok slots_kept (w\<lparr>wdb := d2\<rparr>)" using assms(2) by (simp add: foreign_ok_def)
    ultimately have "slots_kept (wdb (w\<lparr>wdb := d2\<rparr>)) (wdb w')" by (blast dest: followsD intro: slots_kept_star)
    then have "slots_kept d2 (wdb w')" by simp
    with kept show ?thesis by (rule slots_kept_trans)
  qed
qed

section \<open>The contract\<close>

text \<open>
  A provider whose answers describe its state: \<open>view p\<close> is what it knows about each runtime in
  the state \<open>p\<close>, and \<open>ok p\<close> holds of the states it can be in.
\<close>

locale reliable_provider =
  fixes pr :: "'p provider" and ok :: "'p \<Rightarrow> bool" and view :: "'p \<Rightarrow> string \<Rightarrow> runtime_summary option"
  assumes authoritative: "authoritativeLifecycle (caps pr)"
    and get_view: "\<And>p rid. ok p \<Longrightarrow> get pr rid p = (Inr (view p rid), p)"
    and view_id: "\<And>p rid x. ok p \<Longrightarrow> view p rid = Some x \<Longrightarrow> t_id x = rid"
    and create_ok: "\<And>p input. ok p \<Longrightarrow> \<exists>made p'. create pr input p = (Inr made, p') \<and> ok p' \<and> t_id made \<noteq> [] \<and>
      view p' (t_id made) = Some (runtime_summary.truncate made) \<and>
      renewable (normalizeRuntimeState (Some (t_state made))) \<and>
      (\<forall>q. q \<noteq> t_id made \<longrightarrow> view p' q = view p q)"
    and delete_ok: "\<And>p rid. ok p \<Longrightarrow> \<exists>p'. delete pr rid p = (Inr (), p') \<and> ok p' \<and> runtimeIsAbsent pr (view p' rid) \<and>
      (\<forall>q. q \<noteq> rid \<longrightarrow> view p' q = view p q)"
    and renew_ok: "\<And>p rid t. ok p \<Longrightarrow> \<exists>p'. renew pr rid t p = (Inr (), p') \<and> ok p' \<and>
      view p' rid = map_option (\<lambda>x. x\<lparr>t_expires := Some t\<rparr>) (view p rid) \<and>
      (\<forall>q. q \<noteq> rid \<longrightarrow> view p' q = view p q)"

text \<open>What the transaction that ends a deletion does when the effect is the sandbox's only open one.\<close>

definition only_effect :: "effect \<Rightarrow> db \<Rightarrow> bool" where
  "only_effect eff d \<longleftrightarrow> (\<exists>s. lockEffectSandbox (e_org eff) (e_sandbox eff) d = Inr (s, d)) \<and>
     (\<exists>e \<in> set (effects d). e_id e = e_id eff \<and> e_generation e = e_generation eff \<and> e_settled_at e = None) \<and>
     (\<forall>e \<in> set (effects d). unsettled_on (e_sandbox eff) e \<or> e_id e = e_id eff \<longrightarrow>
        e_id e = e_id eff \<and> e_generation e = e_generation eff \<and> e_settled_at e = None)"

lemma persistSandboxTermination_run:
  "\<exists>d'. persistSandboxTermination org sbx d = Inr ((), d') \<and> orgs d' = orgs d \<and> holds d' = holds d \<and>
     effects d' = effects d \<and> operations d' = operations d \<and> clock d' = clock d \<and>
     sandboxes d' = update_rows (\<lambda>s. s_id s = sbx \<and> s_org s = org)
       (\<lambda>s. s\<lparr>s_status := STerminated, s_updated_at := clock d\<rparr>) (sandboxes d)"
  by (simp add: persistSandboxTermination_def bindT_def now_Inr upd_Inr upd_defs getsT_apply modifyT_apply returnT_apply)

definition slot_freed :: "effect \<Rightarrow> db \<Rightarrow> bool" where
  "slot_freed eff d \<longleftrightarrow>
     (\<forall>h \<in> set (holds d). h_org h = e_org eff \<longrightarrow> h_sandbox h = e_sandbox eff \<longrightarrow>
        h_generation h = e_generation eff \<longrightarrow> h_released_at h \<noteq> None) \<and>
     (\<forall>s \<in> set (sandboxes d). s_id s = e_sandbox eff \<longrightarrow> s_org s = e_org eff \<longrightarrow> s_status s = STerminated) \<and>
     (\<forall>e \<in> set (effects d). e_id e = e_id eff \<longrightarrow> e_settled_at e \<noteq> None)"

lemma finishRuntimeDeletion_frees:
  assumes "only_effect eff d"
  shows "\<exists>d'. finishRuntimeDeletion eff d = Inr ((), d') \<and> slot_freed eff d'"
proof -
  let ?P = "\<lambda>e. e_id e = e_id eff \<and> e_generation e = e_generation eff \<and> e_settled_at e = None"
  define d1 where "d1 = d\<lparr>effects := update_rows ?P (\<lambda>e. e\<lparr>e_settled_at := Some (clock d), e_updated_at := clock d\<rparr>) (effects d)\<rparr>"
  have settle: "settle_effect eff d = Inr ((), d1)"
    using assms by (auto simp: settle_effect_Inr Let_def d1_def only_effect_def)
  have after: "e_settled_at e \<noteq> None \<or> \<not> (unsettled_on (e_sandbox eff) e \<or> e_id e = e_id eff)"
    if e: "e \<in> set (effects d1)" for e
  proof -
    from e obtain q where q: "q \<in> set (effects d)"
      "e = (if ?P q then q\<lparr>e_settled_at := Some (clock d), e_updated_at := clock d\<rparr> else q)"
      by (auto simp: d1_def in_update_rows)
    with assms show ?thesis by (cases "?P q") (auto simp: only_effect_def)
  qed
  then have settled: "\<forall>e \<in> set (effects d1). e_id e = e_id eff \<longrightarrow> e_settled_at e \<noteq> None"
    and free: "\<forall>e \<in> set (effects d1). \<not> unsettled_on (e_sandbox eff) e"
    by (auto simp: unsettled_on_def)
  obtain d2 where d2: "persistSandboxTermination (e_org eff) (e_sandbox eff) d1 = Inr ((), d2)" "orgs d2 = orgs d1"
    "holds d2 = holds d1" "effects d2 = effects d1" "sandboxes d2 = update_rows (\<lambda>s. s_id s = e_sandbox eff \<and> s_org s = e_org eff)
       (\<lambda>s. s\<lparr>s_status := STerminated, s_updated_at := clock d1\<rparr>) (sandboxes d1)"
    using persistSandboxTermination_run by blast
  let ?R = "release_cond (e_org eff) (e_sandbox eff) (e_generation eff) (effects d2)"
  let ?d3 = "d2\<lparr>holds := update_rows ?R (mark_released (clock d2) ProviderAbsent) (holds d2)\<rparr>"
  have "org_of d2 (e_org eff) \<noteq> None"
    using assms by (auto simp: only_effect_def lockEffectSandbox_Inr d1_def org_of_def d2(2))
  then obtain b where rel: "releaseSandboxCapacity (e_org eff) (e_sandbox eff) (e_generation eff) ProviderAbsent d2 = Inr (b, ?d3)"
    by (auto simp: releaseSandboxCapacity_Inr)
  have holds3: "h_released_at h \<noteq> None" if "h \<in> set (holds ?d3)" "h_org h = e_org eff" "h_sandbox h = e_sandbox eff"
    "h_generation h = e_generation eff" for h
  proof -
    from that(1) obtain q where q: "h = (if ?R q then mark_released (clock d2) ProviderAbsent q else q)"
      by (auto simp: in_update_rows)
    then show ?thesis
      using that(2-4) free d2(4) by (cases "?R q") (auto simp: mark_released_def release_cond_def)
  qed
  obtain d' where fin: "(case e_operation eff of None \<Rightarrow> returnT () | Some op \<Rightarrow>
      bindT (completeSandboxOperation op [(''providerSandboxId'', str_or_null (e_provider eff)), (''confirmedAbsent'', JBool True)]
        (expected_attempts eff) True) (\<lambda>_. returnT ()))
      (?d3\<lparr>events := events ?d3 @ [\<lparr>v_org = e_org eff, v_sandbox = e_sandbox eff, v_type = ''terminated''\<rparr>]\<rparr>) = Inr ((), d')"
    and same: "holds d' = holds ?d3" "sandboxes d' = sandboxes ?d3" "effects d' = effects ?d3"
    by (cases "e_operation eff")
      (simp_all add: completeSandboxOperation_def bindT_def now_Inr upd_operations_returning_Inr returnT_apply)
  from assms obtain s where lock: "lockEffectSandbox (e_org eff) (e_sandbox eff) d = Inr (s, d)"
    by (auto simp: only_effect_def)
  have "finishRuntimeDeletion eff d = Inr ((), d')"
    using fin by (simp add: finishRuntimeDeletion_def finishRuntimeEffect_def bindT_def lock settle d2(1) rel
        add_event_def modifyT_apply)
  moreover have "slot_freed eff d'"
    unfolding slot_freed_def same
    using holds3 settled d2(4,5) by (auto simp: in_update_rows)
  ultimately show ?thesis by blast
qed

lemma rows_found: "\<exists>e \<in> set (effects d). P e \<Longrightarrow> count_rows P (effects d) \<noteq> 0"
  by (simp add: count_rows_zero)

text \<open>Updates that keep the identity of effects and whether they are settled.\<close>

lemma only_effect_update:
  assumes "only_effect eff d"
    and "\<And>e. e_id (f e) = e_id e \<and> e_generation (f e) = e_generation e \<and> e_settled_at (f e) = e_settled_at e \<and>
      e_sandbox (f e) = e_sandbox e"
  shows "only_effect eff (d\<lparr>effects := update_rows P f (effects d)\<rparr>)"
proof -
  have lock: "lockEffectSandbox org sbx (d\<lparr>effects := es\<rparr>) = Inr (s, d\<lparr>effects := es\<rparr>) \<longleftrightarrow>
      lockEffectSandbox org sbx d = Inr (s, d)" for org sbx es s
    by (simp add: lockEffectSandbox_Inr org_of_def)
  have ex: "(\<exists>e \<in> set (update_rows P f (effects d)). Q e) \<longleftrightarrow> (\<exists>e \<in> set (effects d). Q e)"
    if "\<And>e. Q (f e) = Q e" for Q by (rule bex_update_rows) (rule that)
  have all: "(\<forall>e \<in> set (update_rows P f (effects d)). Q e) \<longleftrightarrow> (\<forall>e \<in> set (effects d). Q e)"
    if "\<And>e. Q (f e) = Q e" for Q using ex [of "\<lambda>e. \<not> Q e"] that by auto
  have effects: "effects (d\<lparr>effects := es\<rparr>) = es" for es :: "effect list" by simp
  have 1: "(\<exists>e \<in> set (update_rows P f (effects d)). e_id e = e_id eff \<and> e_generation e = e_generation eff \<and> e_settled_at e = None) \<longleftrightarrow>
      (\<exists>e \<in> set (effects d). e_id e = e_id eff \<and> e_generation e = e_generation eff \<and> e_settled_at e = None)"
    by (rule ex) (simp add: assms(2))
  have 2: "(\<forall>e \<in> set (update_rows P f (effects d)). unsettled_on (e_sandbox eff) e \<or> e_id e = e_id eff \<longrightarrow>
        e_id e = e_id eff \<and> e_generation e = e_generation eff \<and> e_settled_at e = None) \<longleftrightarrow>
      (\<forall>e \<in> set (effects d). unsettled_on (e_sandbox eff) e \<or> e_id e = e_id eff \<longrightarrow>
        e_id e = e_id eff \<and> e_generation e = e_generation eff \<and> e_settled_at e = None)"
    by (rule all) (simp add: assms(2) unsettled_on_def)
  show ?thesis
    using assms(1) unfolding only_effect_def lock effects 1 2 .
qed

context reliable_provider
begin

lemma deletion_completes:
  assumes "foreign w = []" and "ok (prv w)" and "e_provider eff = Some rid" "rid \<noteq> []"
    and "only_effect eff (wdb w)" and "\<forall>e \<in> set (effects (wdb w)). e_id e = e_id eff \<longrightarrow> e_dispatched_at e = None"
  shows "\<exists>w'. executeRuntimeDeletion eff pr w = (Inr True, w') \<and> slot_freed eff (wdb w') \<and> ok (prv w') \<and>
    runtimeIsAbsent pr (view (prv w') rid) \<and> (\<forall>q. q \<noteq> rid \<longrightarrow> view (prv w') q = view (prv w) q)"
proof -
  let ?d = "wdb w"
  let ?P = "\<lambda>e. e_id e = e_id eff \<and> e_settled_at e = None"
  have some: "\<exists>e \<in> set (effects ?d). e_id e = e_id eff \<and> e_settled_at e = None \<and> e_dispatched_at e = None"
    using assms(5,6) by (auto simp: only_effect_def)
  define d1 where "d1 = ?d\<lparr>effects := update_rows (\<lambda>e. ?P e \<and> e_dispatched_at e = None)
      (\<lambda>e. e\<lparr>e_dispatched_at := Some (clock ?d), e_updated_at := clock ?d\<rparr>) (effects ?d)\<rparr>"
  have mark: "markRuntimeEffectDispatched eff ?d = Inr ((), d1)"
    using rows_found [OF some] by (simp add: markRuntimeEffectDispatched_def bindT_def now_Inr upd_Inr requireT_def returnT_apply d1_def)
  have only1: "only_effect eff d1"
    unfolding d1_def by (rule only_effect_update [OF assms(5)]) auto
  define d2 where "d2 = d1\<lparr>effects := update_rows ?P
      (\<lambda>e. e\<lparr>e_acknowledged_at := Some (clock d1), e_provider := coalesce None (e_provider e), e_updated_at := clock d1\<rparr>) (effects d1)\<rparr>"
  have ack: "acknowledgeRuntimeEffect eff None d1 = Inr ((), d2)"
  proof -
    have "\<exists>e \<in> set (effects d1). ?P e" using only1 by (auto simp: only_effect_def)
    from rows_found [OF this] show ?thesis
      by (simp add: acknowledgeRuntimeEffect_def bindT_def now_Inr upd_Inr requireT_def returnT_apply d2_def)
  qed
  have "only_effect eff d2"
    unfolding d2_def by (rule only_effect_update [OF only1]) auto
  then obtain d3 where fin: "finishRuntimeDeletion eff d2 = Inr ((), d3)" and freed: "slot_freed eff d3"
    using finishRuntimeDeletion_frees by blast
  obtain p1 where del: "delete pr rid (prv w) = (Inr (), p1)" and ok1: "ok p1" and gone: "runtimeIsAbsent pr (view p1 rid)"
    and others: "\<forall>q. q \<noteq> rid \<longrightarrow> view p1 q = view (prv w) q"
    using delete_ok [OF assms(2)] by blast
  have "executeRuntimeDeletion eff pr w = (Inr True, w\<lparr>wdb := d3, prv := p1\<rparr>)"
    using assms(1,3,4) mark ack fin del gone get_view [OF ok1, of rid]
    by (simp add: executeRuntimeDeletion_def truthy_def tryP_def bindP_def atomic_alone callP_def retP_def)
  with freed ok1 gone others show ?thesis by auto
qed

end

section \<open>The in-memory provider keeps the contract\<close>

definition dev_ok :: "dev \<Rightarrow> bool" where
  "dev_ok p \<longleftrightarrow> (\<forall>(k, s) \<in> set (boxes p). d_id s = k)"

definition dev_view :: "dev \<Rightarrow> string \<Rightarrow> runtime_summary option" where
  "dev_view p rid = map_option summary_of (map_of (boxes p) rid)"

lemma set_put: "set (put k v kvs) \<subseteq> insert (k, v) (set kvs)"
  by (induction k v kvs rule: put.induct) auto

lemma dev_ok_set_box: "dev_ok p \<Longrightarrow> d_id s = rid \<Longrightarrow> dev_ok (set_box rid s p)"
  using set_put [of rid s "boxes p"] by (auto simp: dev_ok_def set_box_def)

lemma dev_ok_id: "dev_ok p \<Longrightarrow> map_of (boxes p) rid = Some s \<Longrightarrow> d_id s = rid"
  by (auto simp: dev_ok_def dest!: map_of_SomeD)

lemma dev_view_set_box: "dev_view (set_box rid s p) q = (if q = rid then Some (summary_of s) else dev_view p q)"
  by (simp add: dev_view_def)

lemma add_log_simps [simp]: "summary_of (add_log t lvl msg s) = summary_of s" "d_id (add_log t lvl msg s) = d_id s"
  "d_state (add_log t lvl msg s) = d_state s" "d_expires (add_log t lvl msg s) = d_expires s"
  "d_metadata (add_log t lvl msg s) = d_metadata s"
  by (simp_all add: add_log_def summary_of_def)

lemmas dev_provider_simps = dev_provider_def dev_get_def dev_create_def dev_delete_def dev_renew_def

interpretation in_memory: reliable_provider "dev_provider cfg vi" dev_ok dev_view for cfg vi
proof
  show "authoritativeLifecycle (caps (dev_provider cfg vi))" by (simp add: dev_provider_def)
  show "get (dev_provider cfg vi) rid p = (Inr (dev_view p rid), p)" for rid p
    by (simp add: dev_provider_def dev_get_def dev_view_def)
  show "t_id x = rid" if "dev_ok p" "dev_view p rid = Some x" for p rid x
    using that by (auto simp: dev_view_def summary_of_def dest: dev_ok_id)
  show "\<exists>made p'. create (dev_provider cfg vi) input p = (Inr made, p') \<and> dev_ok p' \<and> t_id made \<noteq> [] \<and>
      dev_view p' (t_id made) = Some (runtime_summary.truncate made) \<and>
      renewable (normalizeRuntimeState (Some (t_state made))) \<and> (\<forall>q. q \<noteq> t_id made \<longrightarrow> dev_view p' q = dev_view p q)"
    if "dev_ok p" for p input
  proof -
    obtain rid p1 where i: "devId p = (rid, p1)" "rid \<noteq> []" "boxes p1 = boxes p"
      by (simp add: devId_def fresh_id_def)
    then have "dev_ok p1" "dev_view p1 q = dev_view p q" for q using that by (simp_all add: dev_ok_def dev_view_def)
    moreover have "renewable (normalizeRuntimeState (Some ''running''))" by code_simp
    ultimately show ?thesis
      using i(1,2) by (simp add: dev_provider_def dev_create_def Let_def dev_ok_set_box dev_view_set_box summary_of_def
          runtime_summary.truncate_def)
  qed
  show "\<exists>p'. delete (dev_provider cfg vi) rid p = (Inr (), p') \<and> dev_ok p' \<and>
      runtimeIsAbsent (dev_provider cfg vi) (dev_view p' rid) \<and> (\<forall>q. q \<noteq> rid \<longrightarrow> dev_view p' q = dev_view p q)"
    if ok: "dev_ok p" for p rid
  proof (cases "map_of (boxes p) rid")
    case None
    then have "dev_view p rid = None" by (simp add: dev_view_def)
    with ok None show ?thesis by (simp add: dev_provider_def dev_delete_def runtimeIsAbsent_def)
  next
    case (Some s)
    have "to_lower (trim ''terminated'') = ''terminated''" by code_simp
    then show ?thesis
      using ok Some dev_ok_id [OF ok Some]
      by (simp add: dev_provider_def dev_delete_def dev_ok_set_box dev_view_set_box runtimeIsAbsent_def summary_of_def)
  qed
  show "\<exists>p'. renew (dev_provider cfg vi) rid t p = (Inr (), p') \<and> dev_ok p' \<and>
      dev_view p' rid = map_option (\<lambda>x. x\<lparr>t_expires := Some t\<rparr>) (dev_view p rid) \<and>
      (\<forall>q. q \<noteq> rid \<longrightarrow> dev_view p' q = dev_view p q)" if ok: "dev_ok p" for p rid t
  proof (cases "map_of (boxes p) rid")
    case None
    with ok show ?thesis by (simp add: dev_provider_def dev_renew_def dev_view_def)
  next
    case (Some s)
    then have "dev_view p rid = Some (summary_of s)" by (simp add: dev_view_def)
    with ok Some dev_ok_id [OF ok Some] show ?thesis
      by (simp add: dev_provider_def dev_renew_def dev_ok_set_box dev_view_set_box summary_of_def)
  qed
qed

text \<open>
  C9. A termination ends. With the in-memory provider and nothing else running, executing the
  deletion of a sandbox whose runtime is known succeeds: the runtime is gone, the sandbox is
  terminated, its reservation is released, the effect is settled, and no other runtime is
  touched.
\<close>

theorem dev_termination_frees_slot:
  assumes "dev_ok (prv w)" and "foreign w = []" and "e_provider eff = Some rid" "rid \<noteq> []"
    and "only_effect eff (wdb w)" and "\<forall>e \<in> set (effects (wdb w)). e_id e = e_id eff \<longrightarrow> e_dispatched_at e = None"
  shows "\<exists>w'. executeRuntimeDeletion eff (dev_provider cfg vi) w = (Inr True, w') \<and> slot_freed eff (wdb w') \<and>
    runtimeIsAbsent (dev_provider cfg vi) (dev_view (prv w') rid) \<and>
    (\<forall>q. q \<noteq> rid \<longrightarrow> dev_view (prv w') q = dev_view (prv w) q)"
  using in_memory.deletion_completes [OF assms(2,1,3-6)] by blast

section \<open>Witnesses\<close>

definition dev_world :: "dev world" where
  "dev_world = \<lparr>wdb = running_db, prv = dev1, foreign = []\<rparr>"

definition no_vault :: "obj \<Rightarrow> vault_input" where
  "no_vault x = \<lparr>va_credentials = [], va_bindings = []\<rparr>"

theorem dev_termination_frees_slot_witness:
  "\<forall>cfg. \<exists>w'. executeRuntimeDeletion the_effect (dev_provider cfg no_vault) dev_world = (Inr True, w') \<and>
     slot_freed the_effect (wdb w')"
proof
  fix cfg
  have "dev_ok (prv dev_world)" by (simp add: dev_world_def dev_ok_def dev1_def empty_dev_def box1_def)
  moreover have "foreign dev_world = []" by (simp add: dev_world_def)
  moreover have "e_provider the_effect = Some ''rt1''" "''rt1'' \<noteq> []" by (simp_all add: running_defs)
  moreover have "only_effect the_effect (wdb dev_world)"
    by (simp add: dev_world_def running_defs only_effect_def lockEffectSandbox_Inr org_of_def unsettled_on_def)
  moreover have "\<forall>e \<in> set (effects (wdb dev_world)). e_id e = e_id the_effect \<longrightarrow> e_dispatched_at e = None"
    by (simp add: dev_world_def running_defs)
  ultimately obtain w' where "executeRuntimeDeletion the_effect (dev_provider cfg no_vault) dev_world = (Inr True, w')"
    "slot_freed the_effect (wdb w')"
    using dev_termination_frees_slot by blast
  then show "\<exists>w'. executeRuntimeDeletion the_effect (dev_provider cfg no_vault) dev_world = (Inr True, w') \<and>
     slot_freed the_effect (wdb w')" by blast
qed

text \<open>A provider that cannot say: its runtimes are running, or it does not answer.\<close>

definition stuck_provider :: "unit provider" where
  "stuck_provider = (quiet_provider True)\<lparr>get := (\<lambda>rid p. (Inl ''timeout'', p))\<rparr>"

theorem unconfirmed_deletion_keeps_slots_witness:
  "slots_kept running_db (wdb (snd (executeRuntimeDeletion the_effect stuck_provider \<lparr>wdb = running_db, prv = (), foreign = []\<rparr>)))"
proof -
  let ?w = "\<lparr>wdb = running_db, prv = (), foreign = []\<rparr>"
  have "foreign_ok slots_kept ?w" by (simp add: foreign_ok_def)
  moreover have "\<not> runtimeIsAbsent stuck_provider obs"
    if "get stuck_provider (the (e_provider the_effect)) p = (Inr obs, p')" for p obs p'
    using that by (simp add: stuck_provider_def)
  ultimately have "slots_kept (wdb ?w) (wdb (snd (executeRuntimeDeletion the_effect stuck_provider ?w)))"
    using unconfirmed_deletion_keeps_slots [of stuck_provider the_effect ?w] prod.collapse by metis
  then show ?thesis by simp
qed

definition start_operation :: operation where
  "start_operation = (new_operation ''op1'' ''org'' ''sbx'' KProvision)\<lparr>o_state := Running, o_attempts := 1\<rparr>"

definition starting_db :: db where
  "starting_db = empty_db\<lparr>orgs := [new_org ''org'' 2], sandboxes := [new_sandbox ''sbx'' ''org'' None SPending],
     operations := [start_operation], holds := [new_hold ''org'' ''sbx'' 1 (Some ''op1'') Reserved]\<rparr>"

theorem failed_create_keeps_slot_witness:
  "slots_kept starting_db (wdb (snd (provisionSandboxRuntime start_operation
     (retP plain_input) stuck_provider \<lparr>wdb = starting_db, prv = (), foreign = []\<rparr>)))"
proof -
  let ?w = "\<lparr>wdb = starting_db, prv = (), foreign = []\<rparr>"
  let ?run = "provisionSandboxRuntime start_operation (retP plain_input) stuck_provider ?w"
  have "foreign ?w = []" "requireRuntimeCreate stuck_provider plain_input = Inr ()"
    by (simp_all add: requireRuntimeCreate_def plain_input_def requireRuntimeNetworkPolicy_def)
  then have "slots_kept (wdb ?w) (wdb (snd ?run))"
    using failed_create_keeps_slot [OF prod.collapse [symmetric]] by blast
  then show ?thesis by simp
qed

end
