(* ===== verification/Admission.thy ===== *)
theory Admission
  imports Protocol "HOL-Library.Multiset"
begin

text \<open>
  Idempotent admission of create requests (\<open>services/sandbox-admission.ts\<close>): the fingerprint of
  what a caller asks for, and the search for the operation that already accepted the request
  under its idempotency key. The hash functions of the platform are parameters; what is hashed
  is the text of the canonical form, printed as \<open>JSON.stringify\<close> prints it.
\<close>

section \<open>Printing JSON\<close>

definition hex_digit :: "nat \<Rightarrow> char" where
  "hex_digit n = char_of (if n < 10 then 48 + n else 87 + n)"

definition json_char :: "char \<Rightarrow> string" where
  "json_char c = (let n = of_char c :: nat in
     if n = 34 then [CHR 0x5C, CHR 0x22]
     else if n = 92 then [CHR 0x5C, CHR 0x5C]
     else if n = 8 then [CHR 0x5C, CHR ''b'']
     else if n = 9 then [CHR 0x5C, CHR ''t'']
     else if n = 10 then [CHR 0x5C, CHR ''n'']
     else if n = 12 then [CHR 0x5C, CHR ''f'']
     else if n = 13 then [CHR 0x5C, CHR ''r'']
     else if n < 32 then [CHR 0x5C, CHR ''u'', CHR ''0'', CHR ''0'', hex_digit (n div 16), hex_digit (n mod 16)]
     else [c])"

definition json_string :: "string \<Rightarrow> string" where
  "json_string s = CHR 0x22 # concat (map json_char s) @ [CHR 0x22]"

text \<open>Undefined prints as null in an array, and an undefined entry of an object is left out.\<close>

fun stringify :: "js \<Rightarrow> string" where
  "stringify Undefined = ''null''"
| "stringify JNull = ''null''"
| "stringify (JBool b) = (if b then ''true'' else ''false'')"
| "stringify (JNum n) = show_int n"
| "stringify (JStr s) = json_string s"
| "stringify (JArr vs) = CHR ''['' # join_with (CHR '','') (map stringify vs) @ [CHR '']'']"
| "stringify (JObj es) = CHR ''{'' # join_with (CHR '','')
     (map (\<lambda>(k, v). json_string k @ CHR '':'' # stringify v) (filter (\<lambda>(k, v). defined v) es)) @ [CHR ''}'']"

section \<open>The request\<close>

text \<open>
  \<open>CreateSandboxInput\<close>. The bodies of credentials, of slot mappings and the source are kept as
  the JSON objects they arrive as.
\<close>

record create_request =
  cr_workspace :: "string option"
  cr_org :: string
  cr_user :: "string option"
  cr_api_key :: "string option"
  cr_actor :: string
  cr_template :: "string option"
  cr_snapshot :: "string option"
  cr_name :: "string option"
  cr_ttl :: int
  cr_env :: "(string \<times> string) list"
  cr_key :: "string option"
  cr_wait :: "bool option"
  cr_wait_timeout :: "int option"
  cr_egress :: "policy_input option"
  cr_source :: "obj option"
  cr_credentials :: "obj list"
  cr_mappings :: "obj list"

fun mode_text :: "egress_mode \<Rightarrow> string" where
  "mode_text Open = ''open''"
| "mode_text Restricted = ''restricted''"
| "mode_text Blocked = ''blocked''"
| "mode_text Custom = ''custom''"

fun action_text :: "egress_action \<Rightarrow> string" where
  "action_text Allow = ''allow''"
| "action_text Deny = ''deny''"

definition js_strings :: "string list option \<Rightarrow> js" where
  "js_strings xs = (case xs of None \<Rightarrow> Undefined | Some ys \<Rightarrow> JArr (map JStr ys))"

definition policy_js :: "policy_input \<Rightarrow> js" where
  "policy_js p = JObj
     [(''mode'', case pi_mode p of None \<Rightarrow> Undefined | Some m \<Rightarrow> JStr (mode_text m)),
      (''presets'', js_strings (pi_presets p)), (''allow'', js_strings (pi_allow p)), (''deny'', js_strings (pi_deny p)),
      (''defaultAction'', case pi_defaultAction p of None \<Rightarrow> Undefined | Some a \<Rightarrow> JStr (action_text a))]"

definition create_intent :: "create_request \<Rightarrow> js" where
  "create_intent input = JObj
     [(''template'', str_or_null (cr_template input)), (''snapshotId'', str_or_null (cr_snapshot input)),
      (''workspaceId'', str_or_null (cr_workspace input)),
      (''name'', case cr_name input of None \<Rightarrow> JNull | Some n \<Rightarrow> if trim n = [] then JNull else JStr (trim n)),
      (''ttlSeconds'', JNum (cr_ttl input)), (''env'', JObj (map (\<lambda>(k, v). (k, JStr v)) (cr_env input))),
      (''egress'', case cr_egress input of None \<Rightarrow> JNull | Some p \<Rightarrow> policy_js p),
      (''source'', case cr_source input of None \<Rightarrow> JNull | Some x \<Rightarrow> JObj x),
      (''credentials'', JArr (map JObj (cr_credentials input))),
      (''credentialMappings'', JArr (map JObj (cr_mappings input)))]"

section \<open>The fingerprint\<close>

text \<open>
  \<open>config.controlPlaneSecretKey\<close>, and the hash functions of the platform on byte strings;
  \<open>encode\<close> is the UTF-8 encoding of a string.
\<close>

record hashes =
  controlPlaneSecretKey :: string
  base64_bytes :: "string \<Rightarrow> string"
  encode :: "string \<Rightarrow> string"
  sha256 :: "string \<Rightarrow> string"
  hmac_sha256 :: "string \<Rightarrow> string \<Rightarrow> string"

definition hasSecretBoxKey :: "hashes \<Rightarrow> bool" where
  "hasSecretBoxKey hs \<longleftrightarrow> trim (controlPlaneSecretKey hs) \<noteq> []"

definition secretBoxKey :: "hashes \<Rightarrow> string" where
  "secretBoxKey hs = (let raw = trim (controlPlaneSecretKey hs); decoded = base64_bytes hs raw in
     if length decoded = 32 then decoded else sha256 hs (encode hs raw))"

text \<open>\<open>digest("hex")\<close>.\<close>

definition hex_text :: "string \<Rightarrow> string" where
  "hex_text bs = concat (map (\<lambda>c. let n = of_char c :: nat in [hex_digit (n div 16), hex_digit (n mod 16)]) bs)"

definition sensitive_request :: "create_request \<Rightarrow> bool" where
  "sensitive_request input \<longleftrightarrow>
     cr_env input \<noteq> [] \<or> cr_credentials input \<noteq> [] \<or> cr_mappings input \<noteq> [] \<or> cr_source input \<noteq> None"

definition createIntentFingerprint :: "hashes \<Rightarrow> create_request \<Rightarrow> string option \<Rightarrow> string option" where
  "createIntentFingerprint hs input algorithm =
     (let sensitive = sensitive_request input;
          mode = (case algorithm of Some m \<Rightarrow> m
                  | None \<Rightarrow> if hasSecretBoxKey hs then ''hmac-v1'' else ''public-v1'') in
      if (sensitive \<or> mode = ''hmac-v1'') \<and> \<not> hasSecretBoxKey hs then None
      else if mode \<noteq> ''hmac-v1'' \<and> (sensitive \<or> mode \<noteq> ''public-v1'') then None
      else
        let intent = stringify (canonical (create_intent input));
            digest = (if mode = ''hmac-v1''
              then hmac_sha256 hs (secretBoxKey hs) (encode hs (''harakiri:create-intent:v1'' @ CHR 0x00 # intent))
              else sha256 hs (encode hs intent))
        in Some (mode @ CHR '':'' # hex_text digest))"

text \<open>\<open>stored.split(":")[0]\<close>.\<close>

definition stored_algorithm :: "string \<Rightarrow> string" where
  "stored_algorithm stored = hd (split_on (CHR '':'') stored)"

definition same_intent :: "hashes \<Rightarrow> create_request \<Rightarrow> operation \<Rightarrow> bool" where
  "same_intent hs input op \<longleftrightarrow> (case field (o_request op) ''intentFingerprint'' of
     JStr stored \<Rightarrow> createIntentFingerprint hs input (Some (stored_algorithm stored)) = Some stored
   | _ \<Rightarrow> False)"

definition findAcceptedCreate :: "hashes \<Rightarrow> create_request \<Rightarrow> operation option dbtx" where
  "findAcceptedCreate hs input =
     (if \<not> truthy (cr_key input) then returnT None
      else
        bindT (sel_operations (same_key (cr_org input) KProvision (cr_key input))) (\<lambda>rows.
        case first_row rows of
          None \<Rightarrow> returnT None
        | Some operation \<Rightarrow>
            bindT (requireT (same_intent hs input operation)
              (CapacityError IdempotencyConflict ''This key identifies a different or unverifiable create intent. Inspect the existing operation before choosing a new key.''))
              (\<lambda>_. returnT (Some operation))))"

definition lockCreateAdmission :: "hashes \<Rightarrow> create_request \<Rightarrow> operation option dbtx" where
  "lockCreateAdmission hs input =
     bindT (lockOrganizationCapacity (cr_org input)) (\<lambda>_. findAcceptedCreate hs input)"

section \<open>The printed form determines the value\<close>

text \<open>
  Values without undefined array elements, as JSON bodies are. Printing them is injective even
  when more text follows, provided the text does not continue a number; printed list elements
  are followed by a comma or a bracket.
\<close>

fun clean :: "js \<Rightarrow> bool" where
  "clean Undefined = False"
| "clean (JArr vs) = list_all clean vs"
| "clean (JObj es) = list_all (\<lambda>(k, v). clean v) es"
| "clean v = True"

definition ends_here :: "string \<Rightarrow> bool" where
  "ends_here r \<longleftrightarrow> (case r of [] \<Rightarrow> True | c # _ \<Rightarrow> c \<in> set '',]}'')"

definition prints_uniquely :: "('a \<Rightarrow> string) \<Rightarrow> ('a \<Rightarrow> bool) \<Rightarrow> 'a \<Rightarrow> bool" where
  "prints_uniquely p Q a \<longleftrightarrow>
     (\<forall>b r s. Q b \<longrightarrow> ends_here r \<longrightarrow> ends_here s \<longrightarrow> p a @ r = p b @ s \<longrightarrow> a = b \<and> r = s)"

lemma ends_here_simps [simp]: "ends_here []" "ends_here (c # r) \<longleftrightarrow> c \<in> set '',]}''"
  by (simp_all add: ends_here_def)

text \<open>Reading one printed character back.\<close>

definition hex_value :: "char \<Rightarrow> nat" where
  "hex_value c = (let n = of_char c :: nat in if n < 58 then n - 48 else n - 87)"

fun read_char :: "string \<Rightarrow> char \<times> string" where
  "read_char (a # b # r) =
    (if a \<noteq> CHR 0x5C then (a, b # r)
     else if b = CHR ''b'' then (CHR 0x08, r) else if b = CHR ''t'' then (CHR 0x09, r)
     else if b = CHR ''n'' then (CHR 0x0A, r) else if b = CHR ''f'' then (CHR 0x0C, r)
     else if b = CHR ''r'' then (CHR 0x0D, r)
     else if b = CHR ''u'' then (char_of (16 * hex_value (r ! 2) + hex_value (r ! 3)), drop 4 r)
     else (b, r))"
| "read_char r = (hd r, tl r)"

lemma hex_value_digit: "n < 16 \<Longrightarrow> hex_value (hex_digit n) = n"
  by (auto simp: hex_value_def hex_digit_def char_of_char_nat)

lemma char_literal: "m < 256 \<Longrightarrow> (c = char_of m) = (of_char c = (m :: nat))"
  by (metis char_of_char_nat char_of_char)

lemma control_chars:
  "CHR 0x22 = char_of (34 :: nat)" "CHR 0x5C = char_of (92 :: nat)" "CHR 0x08 = char_of (8 :: nat)"
  "CHR 0x09 = char_of (9 :: nat)" "CHR 0x0A = char_of (10 :: nat)" "CHR 0x0C = char_of (12 :: nat)"
  "CHR 0x0D = char_of (13 :: nat)"
  by code_simp+

lemma json_char_cases:
  obtains "of_char c \<in> {34, 92, 8, 9, 10, 12, 13 :: nat}"
  | "of_char c < (32 :: nat)" "json_char c =
      [CHR 0x5C, CHR ''u'', CHR ''0'', CHR ''0'', hex_digit (of_char c div 16), hex_digit (of_char c mod 16)]"
  | "json_char c = [c]" "c \<noteq> CHR 0x5C" "c \<noteq> CHR 0x22"
proof (cases "of_char c \<in> {34, 92, 8, 9, 10, 12, 13 :: nat}")
  case False
  moreover from False have "c \<noteq> CHR 0x5C" "c \<noteq> CHR 0x22" by (simp_all add: control_chars char_literal)
  ultimately show thesis
    by (cases "of_char c < (32 :: nat)") (auto simp: json_char_def Let_def intro: that)
qed (rule that)

lemma special_char:
  "of_char c \<in> {34, 92, 8, 9, 10, 12, 13 :: nat} \<Longrightarrow>
     c \<in> {CHR 0x22, CHR 0x5C, CHR 0x08, CHR 0x09, CHR 0x0A, CHR 0x0C, CHR 0x0D}"
  unfolding control_chars insert_iff char_literal by (simp add: char_literal)

lemma small_hex: "n < (32 :: nat) \<Longrightarrow> 16 * hex_value (hex_digit (n div 16)) + hex_value (hex_digit (n mod 16)) = n"
  by (simp add: hex_value_digit)

lemma read_json_char:
  assumes "r \<noteq> []"
  shows "read_char (json_char c @ r) = (c, r)"
proof -
  obtain x xs where rs: "r = x # xs" using assms by (cases r) auto
  show ?thesis
  proof (cases c rule: json_char_cases)
    case 1
    from special_char [OF this] show ?thesis by (auto simp: json_char_def Let_def)
  next
    case 2
    then show ?thesis by (simp add: small_hex)
  next
    case 3
    then show ?thesis by (simp add: rs)
  qed
qed

lemma json_char_start: "json_char c \<noteq> [] \<and> hd (json_char c) \<noteq> CHR 0x22"
proof (cases c rule: json_char_cases)
  case 1
  from special_char [OF this] show ?thesis by (auto simp: json_char_def Let_def)
qed simp_all

lemma json_char_prefix:
  "json_char c @ r = json_char c' @ s \<Longrightarrow> r \<noteq> [] \<Longrightarrow> s \<noteq> [] \<Longrightarrow> c = c' \<and> r = s"
  by (metis prod.inject read_json_char)

lemma json_string_prefix: "json_string a @ r = json_string b @ s \<Longrightarrow> a = b \<and> r = s"
proof -
  have "concat (map json_char a) @ CHR 0x22 # r = concat (map json_char b) @ CHR 0x22 # s \<Longrightarrow> a = b \<and> r = s"
  proof (induction a arbitrary: b)
    case Nil
    show ?case
    proof (cases b)
      case (Cons c' b')
      with Nil json_char_start [of c'] show ?thesis by (cases "json_char c'") auto
    qed (use Nil in simp)
  next
    case (Cons c a)
    show ?case
    proof (cases b)
      case Nil
      with Cons.prems json_char_start [of c] show ?thesis by (cases "json_char c") auto
    next
      case (Cons c' b')
      with Cons.prems have "json_char c @ (concat (map json_char a) @ CHR 0x22 # r) =
          json_char c' @ (concat (map json_char b') @ CHR 0x22 # s)" by simp
      from json_char_prefix [OF this] Cons.IH [of b'] Cons show ?thesis by auto
    qed
  qed
  then show "json_string a @ r = json_string b @ s \<Longrightarrow> a = b \<and> r = s" by (simp add: json_string_def)
qed

lemma show_int_chars: "show_int n \<noteq> [] \<and> (\<forall>c \<in> set (show_int n). is_digit c \<or> c = CHR ''-'')"
  using nat_str_digits by (auto simp: show_int_def)

lemma show_int_inj: "show_int a = show_int b \<longleftrightarrow> a = b"
proof -
  have "nat_str n \<noteq> CHR ''-'' # t" for n t
  proof
    assume "nat_str n = CHR ''-'' # t"
    with nat_str_digits [of n] show False by (simp add: is_digit_def)
  qed
  then show ?thesis by (auto simp: show_int_def nat_str_inj dest: sym split: if_splits)
qed

lemma show_int_prefix:
  assumes "show_int a @ r = show_int b @ s" and "ends_here r" and "ends_here s"
  shows "a = b \<and> r = s"
proof -
  let ?P = "\<lambda>c. is_digit c \<or> c = CHR ''-''"
  have stop: "takeWhile ?P (show_int n @ t) = show_int n \<and> dropWhile ?P (show_int n @ t) = t" if "ends_here t" for n t
  proof -
    have "takeWhile ?P t = [] \<and> dropWhile ?P t = t"
      using that by (cases t) (auto simp: is_digit_def)
    then show ?thesis using show_int_chars [of n] by (simp add: takeWhile_append2 dropWhile_append2)
  qed
  have "show_int a = show_int b \<and> r = s" by (metis stop [OF assms(2)] stop [OF assms(3)] assms(1))
  then show ?thesis using show_int_inj by auto
qed


text \<open>Comma-separated items between brackets.\<close>

lemma join_prefix:
  assumes "list_all (\<lambda>a. prints_uniquely p Q a \<and> Q a) as" and "list_all Q bs"
    and start: "\<And>b. Q b \<Longrightarrow> \<exists>c t. p b = c # t \<and> c \<notin> set '',]}''"
    and "join_with (CHR '','') (map p as) @ e # r = join_with (CHR '','') (map p bs) @ e # s"
    and e: "e \<in> set '']}''"
  shows "as = bs \<and> r = s"
  using assms(1,2,4)
proof (induction as arbitrary: bs)
  case Nil
  show ?case
  proof (cases bs)
    case (Cons b bs')
    with Nil(2) have "Q b" by simp
    from start [OF this] obtain c t where "p b = c # t" "c \<notin> set '',]}''" by blast
    with Nil(3) Cons e show ?thesis by (cases bs') auto
  qed (use Nil in simp)
next
  case (Cons a as)
  from Cons.prems(1) have q: "prints_uniquely p Q a" "Q a" by simp_all
  from start [OF q(2)] obtain c t where a: "p a = c # t" "c \<notin> set '',]}''" by blast
  note a = a q
  show ?case
  proof (cases bs)
    case Nil
    with Cons.prems(3) a e show ?thesis by (cases as) auto
  next
    case bs: (Cons b bs')
    define x where "x = (if as = [] then e # r else CHR '','' # join_with (CHR '','') (map p as) @ e # r)"
    define y where "y = (if bs' = [] then e # s else CHR '','' # join_with (CHR '','') (map p bs') @ e # s)"
    have "join_with (CHR '','') (map p (a # as)) @ e # r = p a @ x" by (cases as) (auto simp: x_def)
    moreover have "join_with (CHR '','') (map p (b # bs')) @ e # s = p b @ y" by (cases bs') (auto simp: y_def)
    moreover have "ends_here x" "ends_here y" using e by (auto simp: x_def y_def)
    moreover have "Q b" using Cons.prems(2) bs by simp
    ultimately have ab: "a = b" "x = y" using Cons.prems(3) a(3) bs unfolding prints_uniquely_def by metis+
    show ?thesis
    proof (cases "as = []")
      case True
      with ab(2) e bs ab(1) show ?thesis by (auto simp: x_def y_def split: if_splits)
    next
      case False
      with ab(2) e have "bs' \<noteq> []" "join_with (CHR '','') (map p as) @ e # r = join_with (CHR '','') (map p bs') @ e # s"
        by (auto simp: x_def y_def split: if_splits)
      with Cons.IH [of bs'] Cons.prems(1,2) bs ab(1) show ?thesis by simp
    qed
  qed
qed


text \<open>The first character tells the kind of a value.\<close>

definition print_kind :: "char \<Rightarrow> nat" where
  "print_kind c = (if c = CHR ''n'' then 0 else if c = CHR ''t'' \<or> c = CHR ''f'' then 1
     else if c = CHR 0x22 then 3 else if c = CHR ''['' then 4 else if c = CHR ''{'' then 5 else 2)"

fun value_kind :: "js \<Rightarrow> nat" where
  "value_kind (JBool b) = 1" | "value_kind (JNum n) = 2" | "value_kind (JStr s) = 3"
| "value_kind (JArr vs) = 4" | "value_kind (JObj es) = 5" | "value_kind v = 0"

lemma stringify_start: "\<exists>c t. stringify v = c # t \<and> c \<notin> set '',]}'' \<and> print_kind c = value_kind v"
proof (cases v)
  case (JNum n)
  from show_int_chars [of n] obtain c t where t: "show_int n = c # t" by (cases "show_int n") auto
  with show_int_chars [of n] have "is_digit c \<or> c = CHR ''-''" by simp
  then have "c \<notin> set '',]}''" "print_kind c = 2" by (auto simp: print_kind_def is_digit_def)
  with t JNum show ?thesis by simp
qed (auto simp: print_kind_def json_string_def)

definition print_entry :: "string \<times> js \<Rightarrow> string" where
  "print_entry e = json_string (fst e) @ CHR '':'' # stringify (snd e)"

lemma print_entry_start: "\<exists>c t. print_entry e = c # t \<and> c \<notin> set '',]}''"
  by (simp add: print_entry_def json_string_def)

lemma clean_defined: "list_all (\<lambda>(k, v). clean v) es \<Longrightarrow> filter (\<lambda>(k, v). defined v) es = es"
  by (rule filter_True) (auto simp: list_all_iff defined_iff)

lemma stringify_clean:
  "list_all (\<lambda>(k, v). clean v) es \<Longrightarrow>
   stringify (JObj es) = CHR ''{'' # join_with (CHR '','') (map print_entry es) @ [CHR ''}'']"
  by (simp add: clean_defined print_entry_def [abs_def] case_prod_beta' list_all_iff filter_True defined_iff)
    (metis (mono_tags, lifting) clean.simps(1) filter_True)

lemma same_kind:
  assumes "stringify v @ r = stringify w @ s"
  shows "value_kind v = value_kind w"
proof -
  from stringify_start [of v] obtain c t where c: "stringify v = c # t" "print_kind c = value_kind v" by blast
  from stringify_start [of w] obtain c' t' where c': "stringify w = c' # t'" "print_kind c' = value_kind w" by blast
  from assms c(1) c'(1) have "c = c'" by simp
  with c(2) c'(2) show ?thesis by simp
qed

lemma scalar_unique:
  assumes "clean v" and "value_kind v < 4"
  shows "prints_uniquely stringify clean v"
  unfolding prints_uniquely_def
proof (intro allI impI)
  fix w r s assume w: "clean w" "ends_here r" "ends_here s" and eq: "stringify v @ r = stringify w @ s"
  note kind = same_kind [OF eq]
  show "v = w \<and> r = s"
  proof (cases v)
    case (JNum n)
    with kind obtain m where "w = JNum m" by (cases w) auto
    with JNum eq w(2,3) show ?thesis using show_int_prefix [of n r m s] by simp
  next
    case (JStr a)
    with kind obtain b where "w = JStr b" by (cases w) auto
    with JStr eq show ?thesis using json_string_prefix [of a r b s] by simp
  next
    case (JBool b)
    with kind obtain b' where "w = JBool b'" by (cases w) auto
    with JBool eq show ?thesis by (cases b; cases b') auto
  qed (use assms kind eq w in \<open>cases w; auto\<close>)+
qed

lemma stringify_unique: "clean v \<Longrightarrow> prints_uniquely stringify clean v"
proof (induction v)
  case (JArr vs)
  show ?case unfolding prints_uniquely_def
  proof (intro allI impI)
    fix w r s assume w: "clean w" "ends_here r" "ends_here s" and eq: "stringify (JArr vs) @ r = stringify w @ s"
    from same_kind [OF eq] have "value_kind w = 4" by simp
    then obtain ws where ws: "w = JArr ws" by (cases w) auto
    have "vs = ws \<and> r = s"
    proof (rule join_prefix [where p = stringify and Q = clean and e = "CHR '']''"])
      show "list_all (\<lambda>a. prints_uniquely stringify clean a \<and> clean a) vs" using JArr by (simp add: list_all_iff)
      show "\<exists>c t. stringify b = c # t \<and> c \<notin> set '',]}''" for b using stringify_start [of b] by blast
    qed (use w eq ws in auto)
    with ws show "JArr vs = w \<and> r = s" by simp
  qed
next
  case (JObj es)
  show ?case unfolding prints_uniquely_def
  proof (intro allI impI)
    fix w r s assume w: "clean w" "ends_here r" "ends_here s" and eq: "stringify (JObj es) @ r = stringify w @ s"
    from same_kind [OF eq] have "value_kind w = 5" by simp
    then obtain fs where fs: "w = JObj fs" by (cases w) auto
    have "es = fs \<and> r = s"
    proof (rule join_prefix [where p = print_entry and Q = "\<lambda>e. clean (snd e)" and e = "CHR ''}''"])
      have "prints_uniquely print_entry (\<lambda>e. clean (snd e)) e" if "e \<in> set es" "clean (snd e)" for e
      proof -
        have v: "prints_uniquely stringify clean (snd e)"
          using JObj.IH [of e "snd e"] that by (cases e) auto
        show ?thesis unfolding prints_uniquely_def
        proof (intro allI impI)
          fix f r s assume f: "clean (snd f)" "ends_here r" "ends_here s" "print_entry e @ r = print_entry f @ s"
          then have "json_string (fst e) @ CHR '':'' # stringify (snd e) @ r =
              json_string (fst f) @ CHR '':'' # stringify (snd f) @ s" by (simp add: print_entry_def)
          from json_string_prefix [OF this] have "fst e = fst f" "stringify (snd e) @ r = stringify (snd f) @ s" by auto
          with v f show "e = f \<and> r = s" unfolding prints_uniquely_def by (metis prod_eqI)
        qed
      qed
      then show "list_all (\<lambda>e. prints_uniquely print_entry (\<lambda>e. clean (snd e)) e \<and> clean (snd e)) es"
        using JObj.prems by (auto simp: list_all_iff)
      show "\<exists>c t. print_entry b = c # t \<and> c \<notin> set '',]}''" for b by (rule print_entry_start)
      have "list_all (\<lambda>(k, v). clean v) es" "list_all (\<lambda>(k, v). clean v) fs" using JObj.prems w fs by auto
      then show "join_with (CHR '','') (map print_entry es) @ CHR ''}'' # r =
          join_with (CHR '','') (map print_entry fs) @ CHR ''}'' # s"
        using eq fs by (simp add: stringify_clean del: stringify.simps)
    qed (use w fs in \<open>auto simp: list_all_iff\<close>)
    with fs show "JObj es = w \<and> r = s" by simp
  qed
qed (rule scalar_unique; simp)+

section \<open>Canonical forms\<close>

text \<open>JSON bodies: no element of an array is undefined.\<close>

fun json_body :: "js \<Rightarrow> bool" where
  "json_body (JArr vs) = list_all (\<lambda>v. v \<noteq> Undefined \<and> json_body v) vs"
| "json_body (JObj es) = list_all (\<lambda>(k, v). json_body v) es"
| "json_body v = True"

lemma clean_canonical: "json_body v \<Longrightarrow> v \<noteq> Undefined \<Longrightarrow> clean (canonical v)"
proof (induction v rule: canonical.induct)
  case (2 es)
  have "clean (canonical v)" if "(k, v) \<in> set es" "v \<noteq> Undefined" for k v
  proof -
    have "json_body v" using 2(2) that(1) by (auto simp: list_all_iff)
    moreover have "(k, v) \<in> set (sort_key fst (filter (\<lambda>(k, v). defined v) es))"
      using that by (simp add: defined_iff)
    ultimately show ?thesis using 2(1) that(2) by blast
  qed
  then show ?case by (auto simp: list_all_iff defined_iff)
qed (auto simp: list_all_iff)

lemma insort_key_map: "insort_key fst (k, f v) (map (\<lambda>(k, v). (k, f v)) xs) = map (\<lambda>(k, v). (k, f v)) (insort_key fst (k, v) xs)"
  by (induction xs) auto

lemma sort_key_map: "sort_key fst (map (\<lambda>(k, v). (k, f v)) xs) = map (\<lambda>(k, v). (k, f v)) (sort_key fst xs)"
  by (induction xs) (auto simp: insort_key_map)

text \<open>The entries of an object may come in any order, and be in any form with the same canonical form.\<close>

lemma canonical_JObj:
  "canonical (JObj es) = JObj (sort_key fst (map (\<lambda>(k, v). (k, canonical v)) (filter (\<lambda>(k, v). defined v) es)))"
  by (simp only: canonical.simps sort_key_map)

lemma canonical_order:
  assumes "mset es = mset fs" and "distinct (map fst es)"
  shows "canonical (JObj es) = canonical (JObj fs)"
proof -
  have sets: "set es = set fs" using assms(1) by (rule mset_eq_setD)
  have "distinct (map fst fs)" using assms by (metis mset_map mset_eq_imp_distinct_iff)
  then have d: "distinct (map fst (sort_key fst (filter P xs)))" if "xs = es \<or> xs = fs" for P xs
    using that assms(2) by (auto simp: distinct_map inj_on_filter_key_eq intro: inj_on_subset)
  have "sort_key fst (filter (\<lambda>(k, v). defined v) es) = sort_key fst (filter (\<lambda>(k, v). defined v) fs)"
  proof (rule map_sorted_distinct_set_unique [of fst])
    show "inj_on fst (set (sort_key fst (filter (\<lambda>(k, v). defined v) es)) \<union> set (sort_key fst (filter (\<lambda>(k, v). defined v) fs)))"
      using assms(2) sets by (auto simp: distinct_map intro: inj_on_subset)
  qed (use d sets in auto)
  then show ?thesis by simp
qed

lemma canonical_entries:
  "list_all2 (\<lambda>(k, v) (k', v'). k = k' \<and> canonical v = canonical v') es fs \<Longrightarrow> canonical (JObj es) = canonical (JObj fs)"
proof -
  assume "list_all2 (\<lambda>(k, v) (k', v'). k = k' \<and> canonical v = canonical v') es fs"
  then have "map (\<lambda>(k, v). (k, canonical v)) (filter (\<lambda>(k, v). defined v) es) =
      map (\<lambda>(k, v). (k, canonical v)) (filter (\<lambda>(k, v). defined v) fs)"
  proof (induction rule: list_all2_induct)
    case (Cons x xs y ys)
    then have "defined (snd x) = defined (snd y)" by (auto simp: case_prod_beta) (metis defined_canonical)+
    with Cons show ?case by (auto simp: case_prod_beta)
  qed simp
  then show ?thesis by (simp only: canonical_JObj)
qed

lemma hex_text_inj: "hex_text a = hex_text b \<longleftrightarrow> a = b"
proof -
  have digit: "hex_digit n = hex_digit m \<Longrightarrow> n < 16 \<Longrightarrow> m < 16 \<Longrightarrow> n = m" for n m by (metis hex_value_digit)
  have "hex_text a = hex_text b \<Longrightarrow> a = b"
  proof (induction a arbitrary: b)
    case (Cons c a)
    then obtain c' b' where b: "b = c' # b'" by (cases b) (auto simp: hex_text_def Let_def)
    let ?n = "of_char c :: nat" and ?m = "of_char c' :: nat"
    from Cons.prems b have "hex_digit (?n div 16) = hex_digit (?m div 16)" "hex_digit (?n mod 16) = hex_digit (?m mod 16)"
      "hex_text a = hex_text b'" by (auto simp: hex_text_def Let_def)
    moreover have "?n div 16 < 16" "?m div 16 < 16" using of_char_less_256 [of c] of_char_less_256 [of c']
      by (simp_all add: div_less_iff_less_mult)
    ultimately have "?n div 16 = ?m div 16" "?n mod 16 = ?m mod 16" by (auto dest: digit)
    then have "?n = ?m" by (metis div_mult_mod_eq)
    with Cons.IH [of b'] \<open>hex_text a = hex_text b'\<close> b show ?case by simp
  qed (cases b; simp add: hex_text_def Let_def)
  then show ?thesis by auto
qed

section \<open>Properties\<close>

text \<open>
  What the platform's hash functions are relied on for: they are deterministic, as functions
  are, and no two texts met in practice collide; the encoding of strings is injective.
\<close>

definition collision_free :: "hashes \<Rightarrow> bool" where
  "collision_free hs \<longleftrightarrow> inj (encode hs) \<and> inj (sha256 hs) \<and> (\<forall>key. inj (hmac_sha256 hs key))"

lemma fingerprint_Some:
  assumes "createIntentFingerprint hs input alg = Some x"
  obtains mode where "mode = (case alg of Some m \<Rightarrow> m | None \<Rightarrow> if hasSecretBoxKey hs then ''hmac-v1'' else ''public-v1'')"
    "mode \<in> {''hmac-v1'', ''public-v1''}"
    "x = mode @ CHR '':'' # hex_text (if mode = ''hmac-v1''
       then hmac_sha256 hs (secretBoxKey hs) (encode hs (''harakiri:create-intent:v1'' @ CHR 0x00 # stringify (canonical (create_intent input))))
       else sha256 hs (encode hs (stringify (canonical (create_intent input)))))"
  using assms by (auto simp: createIntentFingerprint_def Let_def split: if_splits)

lemma create_intent_defined: "create_intent input \<noteq> Undefined"
  by (simp add: create_intent_def)


end
