(* ===== verification/Creation.thy ===== *)
theory Creation
  imports Admission
begin

text \<open>
  Creating, renewing and deleting a sandbox (\<open>services/sandboxes.ts\<close>). A creation is admitted in
  one transaction (sandbox row, operation, slot and a preparation effect), its credentials and
  outbound policy are prepared outside any transaction under that effect, and only then may a
  worker or the caller dispatch it; whatever goes wrong before dispatch gives the slot back in
  the same transaction that settles the effect.
\<close>

section \<open>Source provenance\<close>

lemma starts_with_length: "starts_with p s \<Longrightarrow> length p \<le> length s"
  by (auto simp: starts_with_iff)

text \<open>\<open>url.replace(/\/\/[^/\s@]+@/g, "//")\<close>.\<close>

function strip_userinfo :: "string \<Rightarrow> string" where
  "strip_userinfo s =
    (if starts_with ''//'' s then
       (let rest = drop 2 s; run = takeWhile (\<lambda>c. c \<noteq> CHR ''/'' \<and> c \<noteq> CHR ''@'' \<and> \<not> js_space c) rest;
            after = drop (length run) rest in
        if run \<noteq> [] \<and> starts_with ''@'' after then ''//'' @ strip_userinfo (tl after)
        else hd s # strip_userinfo (tl s))
     else (case s of [] \<Rightarrow> [] | c # t \<Rightarrow> c # strip_userinfo t))"
  by pat_completeness auto

termination
proof (relation "measure length")
  show "wf (measure length)" by simp
qed (auto dest!: starts_with_length split: list.splits)

text \<open>
  \<open>url_text\<close> is the platform's URL parser: the text of the URL without its user name and
  password, or none where \<open>new URL\<close> throws. \<open>redact\<close> is \<open>redactText\<close> of \<open>redaction.ts\<close>.
\<close>

definition sanitizeGitUrl :: "(string \<Rightarrow> string option) \<Rightarrow> string \<Rightarrow> string" where
  "sanitizeGitUrl url_text url = (case url_text url of Some u \<Rightarrow> u | None \<Rightarrow> strip_userinfo url)"

definition gitTargetPath :: "js \<Rightarrow> js" where
  "gitTargetPath v = (case v of JStr s \<Rightarrow> if trim s \<noteq> [] then JStr s else JStr ''/workspace/project''
     | _ \<Rightarrow> JStr ''/workspace/project'')"

definition sourceStatuses :: "string list" where
  "sourceStatuses = [''requested'', ''cloning'', ''ready'', ''failed'']"

definition keep_field :: "(js \<Rightarrow> bool) \<Rightarrow> obj \<Rightarrow> string \<Rightarrow> obj" where
  "keep_field P m k = (if P (field m k) then [(k, field m k)] else [])"

definition is_string :: "js \<Rightarrow> bool" where
  "is_string v = (case v of JStr s \<Rightarrow> True | _ \<Rightarrow> False)"

definition is_number :: "js \<Rightarrow> bool" where
  "is_number v = (case v of JNum n \<Rightarrow> True | _ \<Rightarrow> False)"

definition sanitizeSourceProvenance ::
    "(string \<Rightarrow> string option) \<Rightarrow> (string \<Rightarrow> string) \<Rightarrow> obj option \<Rightarrow> obj option" where
  "sanitizeSourceProvenance url_text redact source =
    (case source of
       None \<Rightarrow> None
     | Some m \<Rightarrow>
         if field m ''type'' \<noteq> JStr ''git'' then None
         else Some (
           [(''type'', JStr ''git''),
            (''url'', JStr (sanitizeGitUrl url_text (case field m ''url'' of JStr u \<Rightarrow> u | _ \<Rightarrow> []))),
            (''targetPath'', gitTargetPath (field m ''targetPath'')),
            (''status'', case field m ''status'' of
               JStr s \<Rightarrow> if s \<in> set sourceStatuses then JStr s else JStr ''requested'' | _ \<Rightarrow> JStr ''requested'')] @
           keep_field js_truthy m ''branch'' @ keep_field js_truthy m ''commit'' @
           keep_field (\<lambda>v. v \<noteq> Undefined) m ''depth'' @ keep_field (\<lambda>v. v \<noteq> Undefined) m ''shallow'' @
           keep_field (\<lambda>v. v \<noteq> Undefined) m ''submodules'' @ keep_field js_truthy m ''credentialPersistence'' @
           keep_field (\<lambda>v. is_string v \<or> v = JNull) m ''startedAt'' @
           keep_field (\<lambda>v. is_string v \<or> v = JNull) m ''completedAt'' @
           keep_field (\<lambda>v. is_number v \<or> v = JNull) m ''durationMs'' @
           (case field m ''failureReason'' of
              JStr s \<Rightarrow> [(''failureReason'', JStr (redact s))]
            | JNull \<Rightarrow> [(''failureReason'', JNull)] | _ \<Rightarrow> [])))"

section \<open>Templates and credentials of a creation\<close>

record credential_slot =
  sl_id :: string
  sl_preset :: string
  sl_required :: bool
  sl_body :: js

text \<open>\<open>RuntimeTemplate\<close> as a creation sees it.\<close>

record create_template =
  ct_runtime :: runtime_template
  ct_status :: string
  ct_slots :: "credential_slot list"
  ct_policy :: "policy_input option"

definition templateCanCreateSandbox :: "create_template \<Rightarrow> bool" where
  "templateCanCreateSandbox t \<longleftrightarrow> ct_status t = ''ready'' \<and> truthy (rt_version (ct_runtime t))"

text \<open>The string of a key, when it is there and not empty.\<close>

definition text_field :: "obj \<Rightarrow> string \<Rightarrow> string option" where
  "text_field m k = (case field m k of JStr s \<Rightarrow> if s = [] then None else Some s | _ \<Rightarrow> None)"

definition selectMappedCredentialSlot :: "create_template \<Rightarrow> obj \<Rightarrow> string + credential_slot" where
  "selectMappedCredentialSlot template mapping =
    (let slotId = text_field mapping ''slotId''; preset = text_field mapping ''providerPresetId'';
         idMatch = (case slotId of None \<Rightarrow> None | Some i \<Rightarrow> first_row (filter (\<lambda>s. sl_id s = i) (ct_slots template)));
         presetMatches = (case preset of None \<Rightarrow> [] | Some p \<Rightarrow> filter (\<lambda>s. sl_preset s = p) (ct_slots template));
         name = rt_id (ct_runtime template) in
     case (slotId, idMatch) of
       (Some i, None) \<Rightarrow> Inl (''template credential slot '' @ i @ '' was not found on template '' @ name)
     | (_, Some s) \<Rightarrow>
         (case preset of
            Some p \<Rightarrow> if sl_preset s \<noteq> p
              then Inl (''template credential slot '' @ sl_id s @ '' uses '' @ sl_preset s @ '', not '' @ p) else Inr s
          | None \<Rightarrow> Inr s)
     | (None, None) \<Rightarrow>
         (case preset of
            None \<Rightarrow> Inl ''credential mapping requires slotId or providerPresetId''
          | Some p \<Rightarrow>
              (case presetMatches of
                 [] \<Rightarrow> Inl (''template '' @ name @ '' has no credential slot for '' @ p)
               | [s] \<Rightarrow> Inr s
               | _ \<Rightarrow> Inl (''template '' @ name @ '' has multiple '' @ p @ '' slots; use slotId''))))"

fun validateSlotsFrom :: "create_template \<Rightarrow> string list \<Rightarrow> obj list \<Rightarrow> string + credential_slot list" where
  "validateSlotsFrom template seen [] = Inr []"
| "validateSlotsFrom template seen (mapping # rest) =
    (case selectMappedCredentialSlot template mapping of
       Inl m \<Rightarrow> Inl m
     | Inr s \<Rightarrow>
         if sl_id s \<in> set seen then Inl (''template credential slot '' @ sl_id s @ '' is mapped more than once'')
         else (case validateSlotsFrom template (sl_id s # seen) rest of Inl m \<Rightarrow> Inl m | Inr ss \<Rightarrow> Inr (s # ss)))"

definition validateMappedCredentialSlots :: "create_template \<Rightarrow> obj list \<Rightarrow> string + credential_slot list" where
  "validateMappedCredentialSlots template mappings = validateSlotsFrom template [] mappings"

definition missingRequiredCredentialSlots :: "create_template \<Rightarrow> credential_slot list \<Rightarrow> string list" where
  "missingRequiredCredentialSlots template mapped =
     map sl_id (filter (\<lambda>s. sl_required s \<and> sl_id s \<notin> sl_id ` set mapped) (ct_slots template))"

text \<open>\<open>PreparedSandboxCredentialAttachment\<close>, as far as a creation reads it.\<close>

record prepared_credential =
  pc_binding :: string
  pc_credential :: string
  pc_fake_env :: "(string \<times> string) list"
  pc_hosts :: "string list"
  pc_body :: js

datatype preparation_failure =
    PSecretRequired string | PInvalidBinding string | PRequiredSlotMissing string "string list"
  | PSecretForbidden | PSecretNotFound | PSecretDisabled | PSecretDecryptionUnavailable string
  | PReferenceForbidden | PReferenceNotFound | PReferenceDisabled
  | PResolutionNotFound string | PResolutionForbidden string | PResolutionInvalid string | PResolverUnavailable string
  | PIssuerForbidden | PIssuerNotFound | PIssuerDisabled
  | PIssueNotFound string | PIssueForbidden string | PIssueInvalid string | PIssuerUnavailable string

text \<open>\<open>vs.join(sep)\<close>, as the pieces to concatenate.\<close>

fun separate_by :: "string \<Rightarrow> string list \<Rightarrow> string list" where
  "separate_by sep [] = []"
| "separate_by sep [v] = [v]"
| "separate_by sep (v # vs) = v # sep # separate_by sep vs"

text \<open>The first value that occurred before.\<close>

fun duplicateFrom :: "string list \<Rightarrow> string list \<Rightarrow> string option" where
  "duplicateFrom seen [] = None"
| "duplicateFrom seen (v # vs) = (if v \<in> set seen then Some v else duplicateFrom (v # seen) vs)"

definition duplicateValue :: "string list \<Rightarrow> string option" where
  "duplicateValue vs = duplicateFrom [] vs"

text \<open>
  \<open>merged[k] = v\<close> on an object: an existing key keeps its place. The names of the properties
  every JavaScript object inherits (\<open>constructor\<close>, \<open>toString\<close>) are outside the model.
\<close>

definition put :: "string \<Rightarrow> 'v \<Rightarrow> (string \<times> 'v) list \<Rightarrow> (string \<times> 'v) list" where
  "put k v m = (if k \<in> fst ` set m then map (\<lambda>(k', v'). (k', if k' = k then v else v')) m else m @ [(k, v)])"

fun mergeEntries :: "(string \<times> string) list \<Rightarrow> (string \<times> string) list \<Rightarrow> string + (string \<times> string) list" where
  "mergeEntries merged [] = Inr merged"
| "mergeEntries merged ((k, v) # es) =
    (if map_of merged k \<noteq> None \<and> map_of merged k \<noteq> Some v
     then Inl (''credential fake env '' @ k @ '' conflicts with sandbox env'')
     else mergeEntries (put k v merged) es)"

definition mergeCredentialFakeEnv ::
    "(string \<times> string) list \<Rightarrow> prepared_credential list \<Rightarrow> string + (string \<times> string) list" where
  "mergeCredentialFakeEnv env credentials = mergeEntries env (concat (map pc_fake_env credentials))"

definition credentialAwareEgressInput :: "policy_input \<Rightarrow> prepared_credential list \<Rightarrow> string + policy_input" where
  "credentialAwareEgressInput policy credentials =
    (if credentials = [] then Inr policy
     else if pi_mode policy = Some Blocked then Inl ''create-time credentials cannot be used with blocked outbound access''
     else Inr (policy\<lparr>pi_mode := (if pi_mode policy = Some Custom then Some Custom else Some Restricted),
       pi_allow := Some (dedupe (or_else (pi_allow policy) [] @ concat (map pc_hosts credentials)))\<rparr>))"

section \<open>Results\<close>

text \<open>
  \<open>CreateSandboxResult\<close>. A refusal is its \<open>kind\<close> with the other fields of the result.
\<close>

datatype create_result =
    Created sandbox_row "string list"
  | Pending sandbox_row operation string
  | ProvisionFailed "sandbox_row option" operation string
  | Refused string obj

definition refused_message :: "string \<Rightarrow> string \<Rightarrow> create_result" where
  "refused_message k m = Refused k [(''message'', JStr m)]"

fun mapCreateCredentialPreparationFailure :: "preparation_failure \<Rightarrow> create_result" where
  "mapCreateCredentialPreparationFailure (PSecretRequired m) = refused_message ''credential_vault_secret_required'' m"
| "mapCreateCredentialPreparationFailure (PInvalidBinding m) = refused_message ''credential_vault_invalid_binding'' m"
| "mapCreateCredentialPreparationFailure (PRequiredSlotMissing m missing) =
     Refused ''credential_vault_required_slot_missing'' [(''message'', JStr m), (''missingSlots'', JArr (map JStr missing))]"
| "mapCreateCredentialPreparationFailure PSecretForbidden = Refused ''credential_secret_forbidden'' []"
| "mapCreateCredentialPreparationFailure PSecretNotFound = Refused ''credential_secret_not_found'' []"
| "mapCreateCredentialPreparationFailure PSecretDisabled = Refused ''credential_secret_disabled'' []"
| "mapCreateCredentialPreparationFailure (PSecretDecryptionUnavailable m) =
     refused_message ''credential_secret_decryption_unavailable'' m"
| "mapCreateCredentialPreparationFailure PReferenceForbidden = Refused ''external_secret_reference_forbidden'' []"
| "mapCreateCredentialPreparationFailure PReferenceNotFound = Refused ''external_secret_reference_not_found'' []"
| "mapCreateCredentialPreparationFailure PReferenceDisabled = Refused ''external_secret_reference_disabled'' []"
| "mapCreateCredentialPreparationFailure (PResolutionNotFound m) = refused_message ''external_secret_resolution_not_found'' m"
| "mapCreateCredentialPreparationFailure (PResolutionForbidden m) = refused_message ''external_secret_resolution_forbidden'' m"
| "mapCreateCredentialPreparationFailure (PResolutionInvalid m) = refused_message ''external_secret_resolution_invalid'' m"
| "mapCreateCredentialPreparationFailure (PResolverUnavailable m) = refused_message ''external_secret_resolver_unavailable'' m"
| "mapCreateCredentialPreparationFailure PIssuerForbidden = Refused ''dynamic_credential_issuer_forbidden'' []"
| "mapCreateCredentialPreparationFailure PIssuerNotFound = Refused ''dynamic_credential_issuer_not_found'' []"
| "mapCreateCredentialPreparationFailure PIssuerDisabled = Refused ''dynamic_credential_issuer_disabled'' []"
| "mapCreateCredentialPreparationFailure (PIssueNotFound m) = refused_message ''dynamic_credential_issue_not_found'' m"
| "mapCreateCredentialPreparationFailure (PIssueForbidden m) = refused_message ''dynamic_credential_issue_forbidden'' m"
| "mapCreateCredentialPreparationFailure (PIssueInvalid m) = refused_message ''dynamic_credential_issue_invalid'' m"
| "mapCreateCredentialPreparationFailure (PIssuerUnavailable m) = refused_message ''dynamic_credential_issuer_unavailable'' m"

text \<open>The outcome of attaching one prepared credential; the attachment is its id.\<close>

datatype attach_result =
    Attached string
  | AProviderUnavailable string string
  | AUnsupported string | ASecretRequired string | AInvalidBinding string | AEgressConflict string
  | ANotRunning sandbox_status | ANotFound

fun mapCreateCredentialAttachFailure :: "attach_result \<Rightarrow> create_result" where
  "mapCreateCredentialAttachFailure (AProviderUnavailable m i) =
     Refused ''credential_vault_provider_unavailable'' [(''message'', JStr m), (''attachment'', JStr i)]"
| "mapCreateCredentialAttachFailure (AUnsupported m) = refused_message ''credential_vault_unsupported'' m"
| "mapCreateCredentialAttachFailure (ASecretRequired m) = refused_message ''credential_vault_secret_required'' m"
| "mapCreateCredentialAttachFailure (AInvalidBinding m) = refused_message ''credential_vault_invalid_binding'' m"
| "mapCreateCredentialAttachFailure (AEgressConflict m) = refused_message ''credential_vault_invalid_binding'' m"
| "mapCreateCredentialAttachFailure (ANotRunning st) =
     refused_message ''credential_vault_invalid_binding'' (''cannot attach credential to sandbox in state '' @ status_text st)"
| "mapCreateCredentialAttachFailure _ =
     refused_message ''credential_vault_invalid_binding'' ''sandbox disappeared before credential attach''"

definition egress_refusal :: "egress_validation \<Rightarrow> policy_summary + create_result" where
  "egress_refusal v =
    (case v of
       ValidPolicy s g \<Rightarrow> Inl s
     | InvalidPolicy m \<Rightarrow> Inr (refused_message ''egress_policy_invalid'' m)
     | PresetNotAllowed p \<Rightarrow> Inr (Refused ''egress_preset_not_allowed'' [(''preset'', JStr p)])
     | CustomDomainsDisabled \<Rightarrow> Inr (Refused ''egress_custom_domains_disabled'' [])
     | RuleLimitExceeded n \<Rightarrow> Inr (Refused ''egress_rule_limit_exceeded'' [(''limit'', JNum n)]))"

section \<open>What a creation depends on\<close>

text \<open>
  Platform functions, configuration, and the services that look up templates and resolve
  credentials, which the source takes as dependencies too. \<open>timer_first\<close> tells whether the
  timer of a bounded wait fires before the provisioning is over.
\<close>

record 'p create_deps =
  cd_hashes :: hashes
  cd_encrypt :: "string \<Rightarrow> secret_box"
  cd_workspaces :: workspace_config
  cd_url_text :: "string \<Rightarrow> string option"
  cd_redact :: "string \<Rightarrow> string"
  cd_resolve :: "string \<Rightarrow> string \<Rightarrow> ('p, create_template option) proc"
  cd_pin :: "create_template \<Rightarrow> ('p, create_template) proc"
  cd_source :: "create_request \<Rightarrow> obj \<Rightarrow> ('p, preparation_failure + prepared_credential) proc"
  cd_slot :: "create_request \<Rightarrow> credential_slot \<Rightarrow> obj \<Rightarrow> ('p, preparation_failure + prepared_credential) proc"
  cd_attach :: "create_request \<Rightarrow> string \<Rightarrow> prepared_credential \<Rightarrow> ('p, attach_result) proc"
  timer_first :: bool

definition getOperation :: "string \<Rightarrow> operation option dbtx" where
  "getOperation i = bindT (sel_operations (\<lambda>r. o_id r = i)) (\<lambda>rows. returnT (first_row rows))"

definition existingResult :: "string \<Rightarrow> operation \<Rightarrow> ('p, create_result) proc" where
  "existingResult org op =
     bindP (if truthy (o_sandbox op) then atomic (getSandbox org (the (o_sandbox op))) else retP None) (\<lambda>sandbox.
     retP (case sandbox of
         None \<Rightarrow> ProvisionFailed None op (or_else (o_error op) ''The accepted provision operation is no longer running.'')
       | Some s \<Rightarrow>
           if o_state op = Failed \<or> o_state op = Canceled then
             ProvisionFailed (Some s) op (or_else (o_error op) ''The accepted provision operation is no longer running.'')
           else if s_status s = SPending \<or> o_state op = Queued \<or> o_state op = Running then
             Pending s op ''sandbox provision is still pending''
           else Created s []))"

section \<open>Preparing credentials\<close>

fun prepareSources :: "'p create_deps \<Rightarrow> create_request \<Rightarrow> obj list \<Rightarrow>
    ('p, preparation_failure + prepared_credential list) proc" where
  "prepareSources dp input [] = retP (Inr [])"
| "prepareSources dp input (c # cs) =
     bindP (cd_source dp input c) (\<lambda>prepared.
     case prepared of
       Inl f \<Rightarrow> retP (Inl f)
     | Inr a \<Rightarrow> bindP (prepareSources dp input cs) (\<lambda>rest.
         retP (case rest of Inl f \<Rightarrow> Inl f | Inr as \<Rightarrow> Inr (a # as))))"

fun prepareSlots :: "'p create_deps \<Rightarrow> create_request \<Rightarrow> (credential_slot \<times> obj) list \<Rightarrow>
    ('p, preparation_failure + prepared_credential list) proc" where
  "prepareSlots dp input [] = retP (Inr [])"
| "prepareSlots dp input ((s, m) # rest) =
     bindP (cd_slot dp input s m) (\<lambda>prepared.
     case prepared of
       Inl f \<Rightarrow> retP (Inl f)
     | Inr a \<Rightarrow> bindP (prepareSlots dp input rest) (\<lambda>more.
         retP (case more of Inl f \<Rightarrow> Inl f | Inr as \<Rightarrow> Inr (a # as))))"

definition missing_message :: "create_template \<Rightarrow> string list \<Rightarrow> string" where
  "missing_message template missing =
     ''template '' @ rt_id (ct_runtime template) @ '' requires credential slot'' @
     (if length missing = 1 then [] else ''s'') @ '': '' @ concat (separate_by '', '' missing)"

definition check_duplicates :: "prepared_credential list \<Rightarrow> preparation_failure + prepared_credential list" where
  "check_duplicates as =
    (let binding = duplicateValue (map pc_binding as); credential = duplicateValue (map pc_credential as) in
     if truthy binding then Inl (PInvalidBinding (''binding '' @ the binding @ '' is already declared for this sandbox''))
     else if truthy credential
       then Inl (PInvalidBinding (''credential '' @ the credential @ '' is already declared for this sandbox''))
     else Inr as)"

definition prepareCreateCredentials ::
    "'p create_deps \<Rightarrow> create_request \<Rightarrow> create_template \<Rightarrow> ('p, preparation_failure + prepared_credential list) proc" where
  "prepareCreateCredentials dp input template =
     bindP (prepareSources dp input (cr_credentials input)) (\<lambda>sources.
     case sources of
       Inl f \<Rightarrow> retP (Inl f)
     | Inr as \<Rightarrow>
         (case validateMappedCredentialSlots template (cr_mappings input) of
            Inl m \<Rightarrow> retP (Inl (PInvalidBinding m))
          | Inr slots \<Rightarrow>
              let missing = missingRequiredCredentialSlots template slots in
              if missing \<noteq> [] then retP (Inl (PRequiredSlotMissing (missing_message template missing) missing))
              else bindP (prepareSlots dp input (zip slots (cr_mappings input))) (\<lambda>mapped.
                retP (case mapped of Inl f \<Rightarrow> Inl f | Inr bs \<Rightarrow> check_duplicates (as @ bs)))))"

section \<open>Admission\<close>

text \<open>
  INSERT INTO \<open>sandboxes\<close>: the trigger \<open>reserve_sandbox_workspace\<close>, whose exception the service
  translates, then the primary key and the foreign keys.
\<close>

definition reserve_sandbox_workspace :: "sandbox_row \<Rightarrow> unit dbtx" where
  "reserve_sandbox_workspace row =
    (case s_workspace row of
       None \<Rightarrow> returnT ()
     | Some w \<Rightarrow>
         bindT now (\<lambda>t.
         bindT (upd_workspaces (\<lambda>x. w_id x = w \<and> w_org x = s_org row \<and> w_archived_at x = None \<and> w_attached x = None)
           (\<lambda>x. x\<lparr>w_attached := Some (s_id row), w_attachment_attempted_at := None, w_updated_at := t\<rparr>)) (\<lambda>rowCount.
         requireT (rowCount \<noteq> 0)
           (WorkspaceError ''workspace_unavailable'' 409 ''Workspace was reserved by another sandbox''))))"

definition add_sandbox :: "sandbox_row \<Rightarrow> unit dbtx" where
  "add_sandbox row =
     bindT (getsT id) (\<lambda>d.
     if \<exists>s \<in> set (sandboxes d). s_id s = s_id row then throwT (DbError ''duplicate key value violates unique constraint'')
     else if \<not> (\<exists>r \<in> set (orgs d). org_id r = s_org row) \<or> \<not> (\<exists>r \<in> set (templates d). tp_id r = s_template row)
     then throwT (DbError ''violates foreign key constraint'')
     else modifyT (\<lambda>d. d\<lparr>sandboxes := sandboxes d @ [row]\<rparr>))"

definition insert_sandbox :: "sandbox_row \<Rightarrow> unit dbtx" where
  "insert_sandbox row = bindT (reserve_sandbox_workspace row) (\<lambda>_. add_sandbox row)"

text \<open>What the checks before the admission have found out.\<close>

record create_plan =
  pl_fingerprint :: string
  pl_snapshot :: "snapshot_row option"
  pl_template :: create_template
  pl_policy :: policy_input
  pl_summary :: policy_summary

definition credential_count :: "create_request \<Rightarrow> nat" where
  "credential_count input = length (cr_credentials input) + length (cr_mappings input)"

definition restore_metadata :: "create_plan \<Rightarrow> obj" where
  "restore_metadata plan = (case pl_snapshot plan of None \<Rightarrow> []
     | Some n \<Rightarrow> [(''restoreSnapshotId'', JStr (n_id n)), (''providerSnapshotId'', str_or_null (n_provider_snapshot n))])"

definition clean_source :: "'p create_deps \<Rightarrow> create_request \<Rightarrow> obj option" where
  "clean_source dp input = sanitizeSourceProvenance (cd_url_text dp) (cd_redact dp) (cr_source input)"

definition source_metadata :: "'p create_deps \<Rightarrow> create_request \<Rightarrow> obj" where
  "source_metadata dp input = (case clean_source dp input of None \<Rightarrow> [] | Some x \<Rightarrow> [(''source'', JObj x)])"

definition sandbox_name :: "create_request \<Rightarrow> create_plan \<Rightarrow> string" where
  "sandbox_name input plan = (case cr_name input of
     Some n \<Rightarrow> if trim n \<noteq> [] then trim n else rt_id (ct_runtime (pl_template plan)) @ ''-runner''
   | None \<Rightarrow> rt_id (ct_runtime (pl_template plan)) @ ''-runner'')"

definition new_sandbox_row :: "'p create_deps \<Rightarrow> create_request \<Rightarrow> create_plan \<Rightarrow> string \<Rightarrow> time \<Rightarrow> sandbox_row" where
  "new_sandbox_row dp input plan i t =
     (let template = ct_runtime (pl_template plan) in
      \<lparr>s_id = i, s_org = cr_org input, s_name = sandbox_name input plan,
       s_policy = Some (policyInputFromSummary (pl_summary plan)),
       s_egress = Some (runtimeEgressPolicyFromSummary (pl_summary plan)),
       s_owner = cr_user input, s_owner_label = cr_actor input,
       s_public_url = Some (i @ ''.sandbox.harakiri.local''), s_source = clean_source dp input,
       s_workspace = cr_workspace input, s_runtime_id = None, s_status = SPending, s_template = rt_id template,
       s_template_version = rt_version template, s_template_digest = rt_digest template,
       s_ttl_seconds = cr_ttl input, s_expires_at = None, s_provider_expires_at = None, s_started_at = None,
       s_last_active_at = Some t, s_updated_at = t\<rparr>)"

definition env_keys :: "(string \<times> string) list \<Rightarrow> js" where
  "env_keys env = JArr (map JStr (sort (map fst env)))"

definition create_request_obj :: "'p create_deps \<Rightarrow> create_request \<Rightarrow> create_plan \<Rightarrow> string \<Rightarrow> obj" where
  "create_request_obj dp input plan i =
     (let template = ct_runtime (pl_template plan) in
      [(''sandboxId'', JStr i), (''templateId'', JStr (rt_id template)),
       (''templateVersionId'', str_or_null (rt_version template)), (''imageDigest'', str_or_null (rt_digest template)),
       (''name'', JStr (sandbox_name input plan)), (''ttlSeconds'', JNum (cr_ttl input)),
       (''envKeys'', env_keys (cr_env input)), (''envReplayable'', JBool True), (''dispatchReady'', JBool False),
       (''nonReplayable'', JBool (0 < credential_count input)), (''intentFingerprint'', JStr (pl_fingerprint plan)),
       (''capacityProtocol'', JNum 1), (''actorUserId'', str_or_null (cr_user input)),
       (''actorLabel'', JStr (cr_actor input))] @ restore_metadata plan @ source_metadata dp input)"

definition env_json :: "(string \<times> string) list \<Rightarrow> string" where
  "env_json env = stringify (JObj (map (\<lambda>(k, v). (k, JStr v)) env))"

definition store_env :: "'p create_deps \<Rightarrow> operation \<Rightarrow> (string \<times> string) list \<Rightarrow> unit dbtx" where
  "store_env dp op env = whenT (env \<noteq> [])
     (bindT (storeSandboxOperationSecret (cd_encrypt dp) (o_id op) ''provision_env'' (env_json env)) (\<lambda>_. returnT ()))"

text \<open>The admission: the operation, and the preparation effect unless the request was accepted before.\<close>

definition admitCreate ::
    "'p create_deps \<Rightarrow> create_request \<Rightarrow> create_plan \<Rightarrow> string \<Rightarrow> 'p provider \<Rightarrow> (operation \<times> effect option) dbtx" where
  "admitCreate dp input plan i pr =
     bindT (lockCreateAdmission (cd_hashes dp) input) (\<lambda>reused.
     case reused of
       Some op \<Rightarrow> returnT (op, None)
     | None \<Rightarrow>
         bindT (whenT (truthy (cr_workspace input))
           (validateWorkspaceAttachment (cd_workspaces dp) (cr_org input) (the (cr_workspace input)) pr)) (\<lambda>_.
         bindT now (\<lambda>t.
         bindT (insert_sandbox (new_sandbox_row dp input plan i t)) (\<lambda>_.
         bindT (enqueueSandboxOperation (cr_org input) (Some i) KProvision (create_request_obj dp input plan i) (cr_key input)) (\<lambda>(op, _).
         bindT (reserveSandboxCapacity (cr_org input) i (o_id op)) (\<lambda>_.
         bindT (store_env dp op (cr_env input)) (\<lambda>_.
         bindT (beginRuntimeEffect (cr_org input) i EPrepare (Some op) []) (\<lambda>preparation.
         returnT (op, Some preparation)))))))))"

text \<open>Giving up before dispatch.\<close>

definition abandonPreparation :: "create_request \<Rightarrow> string \<Rightarrow> operation \<Rightarrow> effect \<Rightarrow> unit dbtx" where
  "abandonPreparation input i op preparation = finishRuntimeEffect preparation
     (bindT now (\<lambda>t.
      bindT (upd_sandboxes (\<lambda>s. s_id s = i \<and> s_org s = cr_org input \<and> s_runtime_id s = None)
        (\<lambda>s. s\<lparr>s_status := SError, s_updated_at := t\<rparr>)) (\<lambda>_.
      bindT (failSandboxOperation (o_id op) ''Sandbox preparation failed before runtime dispatch'' [] None) (\<lambda>_.
      bindT (releaseSandboxCapacity (cr_org input) i (e_generation preparation) CanceledBeforeDispatch) (\<lambda>_.
      bindT (upd_workspaces (\<lambda>w. w_attached w = Some i \<and> w_org w = cr_org input \<and> w_attachment_attempted_at w = None)
        (\<lambda>w. w\<lparr>w_attached := None, w_updated_at := t\<rparr>)) (\<lambda>_.
      returnT ()))))))"

text \<open>The end of the preparation: from here on a worker may dispatch the operation.\<close>

definition finishPreparation ::
    "'p create_deps \<Rightarrow> create_request \<Rightarrow> string \<Rightarrow> operation \<Rightarrow> effect \<Rightarrow> policy_summary \<Rightarrow> (string \<times> string) list \<Rightarrow>
     operation option dbtx" where
  "finishPreparation dp input i op preparation summary env = finishRuntimeEffect preparation
     (bindT now (\<lambda>t.
      bindT (upd_sandboxes (\<lambda>s. s_id s = i \<and> s_org s = cr_org input)
        (\<lambda>s. s\<lparr>s_policy := Some (policyInputFromSummary summary),
               s_egress := Some (runtimeEgressPolicyFromSummary summary)\<rparr>)) (\<lambda>_.
      bindT (store_env dp op env) (\<lambda>_.
      bindT (upd_operations (\<lambda>r. o_id r = o_id op \<and> o_state r = Queued)
        (\<lambda>r. r\<lparr>o_request := obj_merge (o_request r)
               [(''dispatchReady'', JBool True), (''envKeys'', env_keys env), (''envReplayable'', JBool True)],
               o_updated_at := t\<rparr>)) (\<lambda>_.
      getOperation (o_id op))))))"

section \<open>The checks before the admission\<close>

definition createCredentialSyncError :: "create_request \<Rightarrow> string option" where
  "createCredentialSyncError input =
    (if credential_count input = 0 then None
     else if cr_wait input = Some False
       then Some ''create-time credentials require synchronous sandbox creation; omit wait:false''
     else if cr_wait_timeout input \<noteq> None
       then Some ''create-time credentials cannot use waitTimeoutMs because credential attachments are not replayed asynchronously''
     else None)"

definition not_open :: "policy_input \<Rightarrow> bool" where
  "not_open p \<longleftrightarrow> pi_mode p \<noteq> Some Open"

definition requireIf :: "'p provider \<Rightarrow> bool \<Rightarrow> runtime_feature \<Rightarrow> ('p, unit) proc" where
  "requireIf pr b f = (if b then sumP (requireRuntimeFeature pr f) else retP ())"

text \<open>What the provider must offer; a result ends the creation.\<close>

definition createRequirements :: "create_request \<Rightarrow> 'p provider \<Rightarrow> ('p, create_result option) proc" where
  "createRequirements input pr =
     bindP (requireIf pr (truthy (cr_snapshot input)) FSnapshots) (\<lambda>_.
     bindP (requireIf pr (0 < credential_count input) FCredentialVault) (\<lambda>_.
     bindP (requireIf pr (case cr_egress input of None \<Rightarrow> False | Some p \<Rightarrow> not_open p) FEgress) (\<lambda>_.
     retP (case createCredentialSyncError input of
         Some m \<Rightarrow> Some (refused_message ''credential_vault_create_requires_sync'' m)
       | None \<Rightarrow>
           if 0 < credential_count input \<and> applyCredentialVault pr = None
           then Some (refused_message ''credential_vault_unsupported'' ''runtime provider does not expose Credential Vault injection'')
           else None))))"

text \<open>The snapshot to restore, or the refusal.\<close>

definition restoreSnapshot :: "create_request \<Rightarrow> 'p provider \<Rightarrow> ('p, create_result + snapshot_row option) proc" where
  "restoreSnapshot input pr =
    (if \<not> truthy (cr_snapshot input) then retP (Inr None)
     else
       bindP (atomic (getSandboxSnapshotForRestore (cr_org input) (the (cr_snapshot input)))) (\<lambda>found.
       retP (case found of
           None \<Rightarrow> Inl (Refused ''snapshot_not_found'' [(''snapshotId'', JStr (the (cr_snapshot input)))])
         | Some n \<Rightarrow>
             let not_ready = Refused ''snapshot_not_ready'' [(''snapshotId'', JStr (n_id n)), (''status'', JStr (snapshot_text (n_status n)))] in
             if n_status n \<noteq> SnReady then Inl not_ready
             else if n_provider n \<noteq> kind pr then
               Inl (Refused ''snapshot_provider_mismatch'' [(''snapshotId'', JStr (n_id n)), (''provider'', JStr (n_provider n)),
                 (''runtimeProvider'', JStr (kind pr))])
             else if \<not> truthy (n_provider_snapshot n) \<or> n_template n = [] then Inl not_ready
             else Inr (Some n))))"

definition templateRef :: "create_request \<Rightarrow> snapshot_row option \<Rightarrow> string" where
  "templateRef input snapshot = or_else (coalesce (cr_template input) (map_option n_template snapshot)) ''python-3.12-data''"

definition sandboxTemplate ::
    "'p create_deps \<Rightarrow> create_request \<Rightarrow> string \<Rightarrow> ('p, create_result + create_template) proc" where
  "sandboxTemplate dp input ref =
     bindP (cd_resolve dp ref (cr_org input)) (\<lambda>found.
     case found of
       None \<Rightarrow> retP (Inl (Refused ''template_not_found'' [(''template'', JStr ref)]))
     | Some unresolved \<Rightarrow>
         if \<not> templateCanCreateSandbox unresolved then
           retP (Inl (Refused ''template_not_ready'' [(''template'', JStr ref), (''status'', JStr (ct_status unresolved))]))
         else
           tryP (bindP (cd_pin dp unresolved) (\<lambda>t. retP (Inr t)))
             (\<lambda>_. retP (Inl (Refused ''template_image_digest_unresolved''
                [(''template'', JStr ref), (''message'', JStr ''Unable to resolve the template image digest.'')]))))"

definition base_policy :: "create_request \<Rightarrow> create_template \<Rightarrow> policy_input" where
  "base_policy input template = or_else (coalesce (cr_egress input) (ct_policy template)) defaultEgressPolicyInput"

definition fingerprint_refusal :: create_result where
  "fingerprint_refusal = refused_message ''sandbox_env_not_replayable''
     ''Create inputs containing env, source or credentials require CONTROL_PLANE_SECRET_KEY for safe idempotent admission. Inline credentials are never stored as replay input.''"

definition planCreate ::
    "'p create_deps \<Rightarrow> create_request \<Rightarrow> 'p provider \<Rightarrow> ('p, create_result + create_plan) proc" where
  "planCreate dp input pr =
    (case createIntentFingerprint (cd_hashes dp) input None of
       None \<Rightarrow> retP (Inl fingerprint_refusal)
     | Some fp \<Rightarrow>
         bindP (restoreSnapshot input pr) (\<lambda>restored.
         case restored of
           Inl r \<Rightarrow> retP (Inl r)
         | Inr snapshot \<Rightarrow>
             bindP (sandboxTemplate dp input (templateRef input snapshot)) (\<lambda>resolved.
             case resolved of
               Inl r \<Rightarrow> retP (Inl r)
             | Inr template \<Rightarrow>
                 let basePolicy = base_policy input template in
                 bindP (requireIf pr (not_open basePolicy) FEgress) (\<lambda>_.
                 if 0 < credential_count input \<and> pi_mode basePolicy = Some Blocked then
                   retP (Inl (refused_message ''credential_vault_invalid_binding''
                     ''create-time credentials cannot be used with blocked outbound access''))
                 else
                   bindP (atomic (validateEgressPolicyForOrganization (cr_org input) (Some basePolicy))) (\<lambda>v.
                   case egress_refusal v of
                     Inr r \<Rightarrow> retP (Inl r)
                   | Inl summary \<Rightarrow>
                       bindP (sumP (requireRuntimeNetworkPolicy pr (Some (runtimeEgressPolicyFromSummary summary)))) (\<lambda>_.
                       bindP (requireP (\<not> (truthy (cr_workspace input) \<and> truthy (cr_snapshot input)))
                         (WorkspaceError ''workspace_snapshot_conflict'' 400
                           ''Workspace attachment cannot be combined with snapshot restore'')) (\<lambda>_.
                       retP (Inr \<lparr>pl_fingerprint = fp, pl_snapshot = snapshot, pl_template = template,
                         pl_policy = basePolicy, pl_summary = summary\<rparr>))))))))"

section \<open>Preparing and provisioning\<close>

text \<open>
  The block under \<open>try\<close>: either a result to abandon with, or the prepared credentials, the
  environment, the compiled policy and the operation, now dispatchable. An error of the block
  itself is caught and abandons too.
\<close>

definition prepareCreate ::
    "'p create_deps \<Rightarrow> create_request \<Rightarrow> create_plan \<Rightarrow> string \<Rightarrow> operation \<Rightarrow> effect \<Rightarrow>
     ('p, create_result + prepared_credential list \<times> (string \<times> string) list \<times> policy_summary \<times> operation option) proc" where
  "prepareCreate dp input plan i op preparation =
     tryP
       (bindP (prepareCreateCredentials dp input (pl_template plan)) (\<lambda>prepared.
        case prepared of
          Inl f \<Rightarrow> retP (Inl (mapCreateCredentialPreparationFailure f))
        | Inr credentials \<Rightarrow>
            (case mergeCredentialFakeEnv (cr_env input) credentials of
               Inl m \<Rightarrow> retP (Inl (refused_message ''credential_vault_invalid_binding'' m))
             | Inr env \<Rightarrow>
                 bindP (case credentialAwareEgressInput (pl_policy plan) credentials of
                     Inl m \<Rightarrow> throwP (PlainError m) | Inr p \<Rightarrow> retP p) (\<lambda>policy.
                 bindP (atomic (validateEgressPolicyForOrganization (cr_org input) (Some policy))) (\<lambda>v.
                 case egress_refusal v of
                   Inr r \<Rightarrow> retP (Inl r)
                 | Inl summary \<Rightarrow>
                     bindP (atomic (finishPreparation dp input i op preparation summary env)) (\<lambda>current.
                     retP (Inr (credentials, env, summary, current))))))))
       (\<lambda>_. retP (Inl (ProvisionFailed None op ''Sandbox preparation failed before runtime dispatch.'')))"

definition create_input_of ::
    "'p create_deps \<Rightarrow> create_request \<Rightarrow> create_plan \<Rightarrow> string \<Rightarrow> (string \<times> string) list \<Rightarrow> policy_summary \<Rightarrow> 'p provider \<Rightarrow>
     ('p, create_input) proc" where
  "create_input_of dp input plan i env summary pr =
     bindP (if truthy (cr_workspace input)
            then bindP (atomic (prepareRuntimeWorkspace (cd_workspaces dp) (cr_org input) i pr)) (\<lambda>m. retP (Some m))
            else retP None) (\<lambda>mount.
     retP \<lparr>i_workspace = mount, i_template = ct_runtime (pl_template plan), i_ttl = cr_ttl input,
       i_name = sandbox_name input plan, i_organization = cr_org input,
       i_snapshot = Option.bind (pl_snapshot plan) (\<lambda>n. if truthy (n_provider_snapshot n) then n_provider_snapshot n else None),
       i_metadata = [(''harakiri.id'', i), (''harakiri.sandbox'', i), (''harakiri.org'', cr_org input),
           (''harakiri.organization'', cr_org input)] @
         (case pl_snapshot plan of None \<Rightarrow> [] | Some n \<Rightarrow> [(''harakiri.restore_snapshot'', n_id n)]),
       i_env = env, i_egress = Some (runtimeEgressPolicyFromSummary summary)\<rparr>)"

fun attachCreateCredentials ::
    "'p create_deps \<Rightarrow> create_request \<Rightarrow> string \<Rightarrow> prepared_credential list \<Rightarrow> ('p, create_result + string list) proc" where
  "attachCreateCredentials dp input i [] = retP (Inr [])"
| "attachCreateCredentials dp input i (c # cs) =
     bindP (cd_attach dp input i c) (\<lambda>r.
     case r of
       Attached a \<Rightarrow> bindP (attachCreateCredentials dp input i cs) (\<lambda>rest.
         retP (case rest of Inl f \<Rightarrow> Inl f | Inr as \<Rightarrow> Inr (a # as)))
     | failure \<Rightarrow> retP (Inl (mapCreateCredentialAttachFailure failure)))"

text \<open>The transaction of \<open>rollbackCredentialCreate\<close>: the failed start becomes a deletion.\<close>

definition rollback_start :: "create_request \<Rightarrow> string \<Rightarrow> operation \<Rightarrow> string \<Rightarrow> effect \<Rightarrow> effect dbtx" where
  "rollback_start input i op failureKind eff = finishRuntimeEffect eff
     (bindT now (\<lambda>t.
      bindT (upd_sandboxes (\<lambda>s. s_id s = i \<and> s_org s = cr_org input) (\<lambda>s. s\<lparr>s_status := SError, s_updated_at := t\<rparr>)) (\<lambda>_.
      bindT (failSandboxOperation (o_id op) ''Credential attachment failed; runtime cleanup requested.''
        [(''credentialFailure'', JStr failureKind), (''cleanup'', JStr ''pending'')] None) (\<lambda>_.
      bindT (beginRuntimeEffect (cr_org input) i EDelete None [(''failedProvisionOperationId'', JStr (o_id op))]) (\<lambda>deletion.
      bindT (upd_holds (\<lambda>h. h_sandbox h = i \<and> h_released_at h = None)
        (\<lambda>h. h\<lparr>h_phase := Releasing, h_reason := Some ''credential_attachment_failed'', h_updated_at := t\<rparr>)) (\<lambda>_.
      bindT (upd_attachments (\<lambda>a. a_sandbox a = i \<and> a_org a = cr_org input \<and> a_detached_at a = None)
        (\<lambda>a. a\<lparr>a_status := AFailed, a_updated_at := t\<rparr>)) (\<lambda>_.
      returnT deletion)))))))"

definition result_kind :: "create_result \<Rightarrow> string" where
  "result_kind r = (case r of Created s as \<Rightarrow> ''created'' | Pending s p m \<Rightarrow> ''pending''
     | ProvisionFailed s p m \<Rightarrow> ''sandbox_provision_failed'' | Refused k m \<Rightarrow> k)"

definition rollbackCredentialCreate ::
    "create_request \<Rightarrow> string \<Rightarrow> operation \<Rightarrow> create_result \<Rightarrow> effect \<Rightarrow> 'p provider \<Rightarrow> ('p, unit) proc" where
  "rollbackCredentialCreate input i op failure eff pr =
     bindP (atomic (rollback_start input i op (result_kind failure) eff)) (\<lambda>deletion.
     bindP (tryP (bindP (executeRuntimeDeletion deletion pr) (\<lambda>_. retP ())) (\<lambda>_. retP ())) (\<lambda>_.
     bindP (atomic (add_event (cr_org input) i ''error'')) (\<lambda>_.
     atomic (add_audit (cr_org input) i ''sandbox.create.credential_failed''))))"

text \<open>
  The result of a finished creation. (The refreshed sandbox that accompanies the refusal of an
  unavailable provider is left out.)
\<close>

definition create_result_obj ::
    "'p create_deps \<Rightarrow> create_request \<Rightarrow> create_plan \<Rightarrow> string list \<Rightarrow> runtime_created \<Rightarrow> obj" where
  "create_result_obj dp input plan attached made =
     [(''credentialAttachmentIds'', JArr (map JStr attached))] @ restore_metadata plan @ source_metadata dp input @
     [(''runtimeRegistryCredentialId'', str_or_null (t_registry_credential made)),
      (''runtimeImageAuthProvided'', JBool (t_image_auth made))]"

definition provisionCreate ::
    "'p create_deps \<Rightarrow> create_request \<Rightarrow> create_plan \<Rightarrow> string \<Rightarrow> operation \<Rightarrow> prepared_credential list \<Rightarrow>
     (string \<times> string) list \<Rightarrow> policy_summary \<Rightarrow> 'p provider \<Rightarrow> ('p, create_result) proc" where
  "provisionCreate dp input plan i active credentials env summary pr =
     bindP (tryP
       (bindP (provisionSandboxRuntime active (create_input_of dp input plan i env summary pr) pr) (\<lambda>x. retP (Inr x)))
       (\<lambda>_. bindP (atomic (failSandboxOperation (o_id active)
               ''Runtime provisioning could not be confirmed. The execution reservation is retained until safely reconciled.''
               [] (Some (o_attempts active)))) (\<lambda>failed.
            bindP (atomic (add_event (cr_org input) i ''error'')) (\<lambda>_.
            bindP (atomic (getSandbox (cr_org input) i)) (\<lambda>sandbox.
            retP (Inl (ProvisionFailed sandbox (or_else failed active)
              ''Runtime provisioning could not be confirmed. Inspect the accepted operation before retrying.''))))))) (\<lambda>outcome.
     case outcome of
       Inl r \<Rightarrow> retP r
     | Inr (eff, made) \<Rightarrow>
         bindP (atomic (getSandbox (cr_org input) i)) (\<lambda>found.
         case found of
           None \<Rightarrow> throwP (PlainError ''sandbox row missing after provider create'')
         | Some sandbox \<Rightarrow>
             bindP (tryP (attachCreateCredentials dp input i credentials)
               (\<lambda>_. retP (Inl (ProvisionFailed (Some sandbox) active ''Credential attachment could not be confirmed.'')))) (\<lambda>attached.
             case attached of
               Inl failure \<Rightarrow>
                 bindP (rollbackCredentialCreate input i active failure eff pr) (\<lambda>_. retP failure)
             | Inr ids \<Rightarrow>
                 bindP (atomic (completeSandboxProvision active eff made (kind pr)
                   (create_result_obj dp input plan ids made))) (\<lambda>_.
                 bindP (atomic (add_event (cr_org input) i ''created'')) (\<lambda>_.
                 bindP (atomic (add_audit (cr_org input) i ''sandbox.create'')) (\<lambda>_.
                 retP (Created sandbox ids)))))))"

text \<open>
  A wait that times out answers from the accepted operation while the provisioning goes on in
  the background; of the moments at which that read can happen the model takes the first.
\<close>

definition waitFor :: "bool \<Rightarrow> ('p, 'a) proc \<Rightarrow> ('p, 'a) proc \<Rightarrow> ('p, 'a) proc" where
  "waitFor late m on_timeout =
    (if late then bindP on_timeout (\<lambda>r w. (Inr r, snd (m w))) else m)"

definition createSandbox :: "'p create_deps \<Rightarrow> create_request \<Rightarrow> 'p provider \<Rightarrow> ('p, create_result) proc" where
  "createSandbox dp input pr =
     bindP (createRequirements input pr) (\<lambda>early.
     case early of
       Some r \<Rightarrow> retP r
     | None \<Rightarrow>
         bindP (atomic (findAcceptedCreate (cd_hashes dp) input)) (\<lambda>existing.
         case existing of
           Some op \<Rightarrow> existingResult (cr_org input) op
         | None \<Rightarrow>
             bindP (planCreate dp input pr) (\<lambda>planned.
             case planned of
               Inl r \<Rightarrow> retP r
             | Inr plan \<Rightarrow>
                 bindP (atomic (makeId ''sbx'')) (\<lambda>i.
                 bindP (atomic (admitCreate dp input plan i pr)) (\<lambda>(op, admitted).
                 case admitted of
                   None \<Rightarrow> existingResult (cr_org input) op
                 | Some preparation \<Rightarrow>
                     bindP (prepareCreate dp input plan i op preparation) (\<lambda>prepared.
                     case prepared of
                       Inl r \<Rightarrow> bindP (atomic (abandonPreparation input i op preparation)) (\<lambda>_. retP r)
                     | Inr (credentials, env, summary, None) \<Rightarrow>
                         throwP (PlainError ''Cannot read properties of undefined (reading 'id')'')
                     | Inr (credentials, env, summary, Some ready) \<Rightarrow>
                         if cr_wait input = Some False then
                           bindP (atomic (add_event (cr_org input) i ''queued'')) (\<lambda>_.
                           bindP (atomic (add_audit (cr_org input) i ''sandbox.create.queued'')) (\<lambda>_.
                           existingResult (cr_org input) ready))
                         else
                           bindP (atomic (claimSandboxOperationById (o_id ready) [KProvision] None)) (\<lambda>claimed.
                           case claimed of
                             None \<Rightarrow> bindP (atomic (getOperation (o_id ready))) (\<lambda>now_row.
                               existingResult (cr_org input) (or_else now_row ready))
                           | Some active \<Rightarrow>
                               (if cr_wait_timeout input \<noteq> None
                                then waitFor (timer_first dp)
                                       (provisionCreate dp input plan i active credentials env summary pr)
                                       (existingResult (cr_org input) active)
                                else provisionCreate dp input plan i active credentials env summary pr))))))))"

section \<open>Other operations on a sandbox\<close>

definition updateSandboxSource ::
    "'p create_deps \<Rightarrow> string \<Rightarrow> string \<Rightarrow> obj option \<Rightarrow> ('p, sandbox_row option) proc" where
  "updateSandboxSource dp org i source =
    (let clean = sanitizeSourceProvenance (cd_url_text dp) (cd_redact dp) source in
     bindP (atomic (bindT now (\<lambda>t. upd_sandboxes (\<lambda>s. s_id s = i \<and> s_org s = org)
       (\<lambda>s. s\<lparr>s_source := clean, s_updated_at := t\<rparr>)))) (\<lambda>rowCount.
     if rowCount = 0 then retP None
     else
       bindP (atomic (add_event org i (case clean of None \<Rightarrow> ''source.cleared''
         | Some m \<Rightarrow> ''source.'' @ (case field m ''status'' of JStr s \<Rightarrow> s | _ \<Rightarrow> [])))) (\<lambda>_.
       bindP (atomic (add_audit org i ''sandbox.source.update'')) (\<lambda>_.
       atomic (getSandbox org i)))))"

definition deleteSandbox :: "string \<Rightarrow> string \<Rightarrow> string option \<Rightarrow> 'p provider \<Rightarrow> ('p, bool) proc" where
  "deleteSandbox org i key pr =
     bindP (atomic (getSandbox org i)) (\<lambda>found.
     if found = None then retP False
     else
       bindP (requestSandboxTermination org i key pr) (\<lambda>_.
       bindP (atomic (add_event org i ''termination.requested'')) (\<lambda>_.
       bindP (atomic (add_audit org i ''sandbox.kill'')) (\<lambda>_.
       retP True))))"

definition getOwnOperation :: "string \<Rightarrow> string \<Rightarrow> operation option dbtx" where
  "getOwnOperation org i = bindT (sel_operations (\<lambda>r. o_id r = i \<and> o_org r = org)) (\<lambda>rows. returnT (first_row rows))"

definition renewSandbox :: "string \<Rightarrow> string \<Rightarrow> string option \<Rightarrow> 'p provider \<Rightarrow> ('p, bool) proc" where
  "renewSandbox org i key pr =
     bindP (atomic (getSandbox org i)) (\<lambda>found.
     case found of
       None \<Rightarrow> retP False
     | Some row \<Rightarrow>
         bindP (atomic (enqueueSandboxOperation org (Some i) KRenew
           [(''sandboxId'', JStr i), (''providerSandboxId'', str_or_null (s_runtime_id row)),
            (''ttlSeconds'', JNum (s_ttl_seconds row))] key)) (\<lambda>(op, _).
         if o_sandbox op \<noteq> Some i then throwP (LeaseError LeaseIdempotencyConflict)
         else if o_state op = Succeeded then retP True
         else
           bindP (atomic (claimSandboxOperationById (o_id op) [KRenew] None)) (\<lambda>claimed.
           case claimed of
             None \<Rightarrow>
               bindP (atomic (getOwnOperation org (o_id op))) (\<lambda>latest_row.
               let st = map_option o_state latest_row in
               if st = Some Succeeded then retP True
               else throwP (LeaseError (if st = Some Queued \<or> st = Some Running
                 then LeaseRenewInProgress else LeaseRenewFailed)))
           | Some active \<Rightarrow>
               bindP (tryP (bindP (renewSandboxLease org i (Some active) pr) (\<lambda>_. retP ()))
                 (\<lambda>e. if e = LeaseError LeaseRenewInProgress then throwP e
                   else bindP (atomic (failSandboxOperation (o_id active) (err_message e) [] (Some (o_attempts active)))) (\<lambda>_.
                        throwP e))) (\<lambda>_.
               bindP (atomic (add_event org i ''renewed'')) (\<lambda>_.
               retP True)))))"

section \<open>Refinement of the protocol\<close>

context store_invariant
begin

lemma insert_sandbox_kept [keeps_intro]: "keeps I (insert_sandbox row)"
proof -
  have add: "keeps I (modifyT (\<lambda>d. d\<lparr>sandboxes := f d\<rparr>))" for f
    by (rule framed) (simp add: modifyT_apply)
  show ?thesis unfolding insert_sandbox_def reserve_sandbox_workspace_def add_sandbox_def
    by (intro keeps_intro add)
qed

lemma store_env_kept [keeps_intro]: "keeps I (store_env dp op env)"
  unfolding store_env_def by (intro keeps_intro)

lemma find_accepted_kept [keeps_intro]:
  "keeps I (findAcceptedCreate hs input)" "keeps I (lockCreateAdmission hs input)"
  unfolding lockCreateAdmission_def findAcceptedCreate_def by (intro keeps_intro)+

lemma reads_kept [keeps_intro]:
  "keeps I (getSandbox org i)" "keeps I (getOperation i)" "keeps I (getOwnOperation org i)"
  "keeps I (validateEgressPolicyForOrganization org p)" "keeps I (getSandboxSnapshotForRestore org i)"
  "keeps I (validateWorkspaceAttachment cfg org i pr)"
  unfolding getSandbox_def getOperation_def getOwnOperation_def validateEgressPolicyForOrganization_def
    getEgressGovernance_def getSandboxSnapshotForRestore_def getSandboxSnapshot_def validateWorkspaceAttachment_def
  by (intro keeps_intro keeps_gets)+

lemma admit_kept [keeps_intro]: "keeps I (admitCreate dp input plan i pr)"
  unfolding admitCreate_def by (intro keeps_intro)

lemma abandon_kept [keeps_intro]: "keeps I (abandonPreparation input i op eff)"
  unfolding abandonPreparation_def by (intro keeps_intro)

lemma finish_preparation_kept [keeps_intro]: "keeps I (finishPreparation dp input i op eff summary env)"
  unfolding finishPreparation_def
  by (intro keeps_intro; simp add: patch_simps field_obj_merge)

lemma rollback_kept [keeps_intro]: "keeps I (rollback_start input i op k eff)"
  unfolding rollback_start_def by (intro keeps_intro; simp add: patch_simps)

end

text \<open>The services a creation calls keep to the protocol themselves.\<close>

definition deps_follow :: "(db \<Rightarrow> db \<Rightarrow> bool) \<Rightarrow> 'p create_deps \<Rightarrow> bool" where
  "deps_follow R dp \<longleftrightarrow> (\<forall>ref org. follows R (cd_resolve dp ref org)) \<and> (\<forall>t. follows R (cd_pin dp t)) \<and>
     (\<forall>input c. follows R (cd_source dp input c)) \<and> (\<forall>input s c. follows R (cd_slot dp input s c)) \<and>
     (\<forall>input i c. follows R (cd_attach dp input i c))"

context protocol
begin

lemma deps_followD [follows_intro]:
  assumes "deps_follow R dp"
  shows "follows R (cd_resolve dp ref org)" "follows R (cd_pin dp t)" "follows R (cd_source dp input c)"
    "follows R (cd_slot dp input s c)" "follows R (cd_attach dp input i a)"
  using assms by (simp_all add: deps_follow_def)

lemma existing_follows [follows_intro]: "follows R (existingResult org op)"
  unfolding existingResult_def by (intro follows_intro service_follows keeps_intro)

lemma prepare_credentials_follows [follows_intro]:
  assumes "deps_follow R dp"
  shows "follows R (prepareCreateCredentials dp input template)"
proof -
  have "follows R (prepareSources dp input cs)" for cs
    by (induction cs) (simp_all only: prepareSources.simps, auto intro!: follows_intro assms)
  moreover have "follows R (prepareSlots dp input ss)" for ss
    by (induction ss) (simp only: prepareSlots.simps follows_ret,
      clarify, simp only: prepareSlots.simps, auto intro!: follows_intro assms)
  ultimately show ?thesis unfolding prepareCreateCredentials_def by (intro follows_intro)
qed

lemma requirements_follow [follows_intro]: "follows R (requireIf pr b f)" "follows R (createRequirements input pr)"
  unfolding createRequirements_def requireIf_def by (intro follows_intro)+

lemma plan_follows [follows_intro]: "deps_follow R dp \<Longrightarrow> follows R (planCreate dp input pr)"
  unfolding planCreate_def restoreSnapshot_def sandboxTemplate_def
  by (intro follows_intro service_follows keeps_intro)

lemma prepare_create_follows [follows_intro]: "deps_follow R dp \<Longrightarrow> follows R (prepareCreate dp input plan i op eff)"
  unfolding prepareCreate_def by (intro follows_intro service_follows keeps_intro)

lemma input_of_follows [follows_intro]: "follows R (create_input_of dp input plan i env summary pr)"
  unfolding create_input_of_def by (intro follows_intro service_follows keeps_intro)

lemma attach_follows [follows_intro]:
  "deps_follow R dp \<Longrightarrow> follows R (attachCreateCredentials dp input i cs)"
  by (induction cs) (simp_all only: attachCreateCredentials.simps, auto split: attach_result.splits intro!: follows_intro)

lemma rollback_follows [follows_intro]: "follows R (rollbackCredentialCreate input i op r eff pr)"
  unfolding rollbackCredentialCreate_def by (intro follows_intro service_follows keeps_intro)

lemma provision_create_follows [follows_intro]:
  "deps_follow R dp \<Longrightarrow> follows R (provisionCreate dp input plan i op cs env summary pr)"
  unfolding provisionCreate_def by (intro follows_intro service_follows keeps_intro)

lemma background_follows: "follows R m \<Longrightarrow> follows R (\<lambda>w. (Inr r, snd (m w)))"
  unfolding follows_def by (metis prod.collapse prod.inject)

lemma wait_for_follows [follows_intro]: "follows R m \<Longrightarrow> follows R n \<Longrightarrow> follows R (waitFor late m n)"
  unfolding waitFor_def by (intro follows_if follows_bind background_follows)

lemma create_follows [follows_intro]: "deps_follow R dp \<Longrightarrow> follows R (createSandbox dp input pr)"
  unfolding createSandbox_def
  by (intro follows_intro service_follows keeps_intro)

lemma sandbox_services_follow [follows_intro]:
  "follows R (updateSandboxSource dp org i source)" "follows R (deleteSandbox org i key pr)"
  "follows R (renewSandbox org i key pr)"
  unfolding updateSandboxSource_def deleteSandbox_def renewSandbox_def Let_def
  by (intro follows_intro service_follows keeps_intro)+

end

end
