(* ===== verification/Accepted.thy ===== *)
theory Accepted
  imports Creation
begin

text \<open>
  What the admission of a creation guarantees: what one commits, that a request is accepted at
  most once under its idempotency key whatever happens in between, and that a creation given up
  before dispatch leaves no slot taken.
\<close>

section \<open>One admission\<close>

lemma validate_same:
  "validateWorkspaceAttachment cfg org w pr d = Inr (u, d') \<Longrightarrow> d' = d"
  by (auto simp: validateWorkspaceAttachment_def requireWorkspaceSupport_def getWorkspaceRow_def bindT_Inr_iff
      tx_simps getsT_apply returnT_apply throwT_apply split: if_splits)

lemma insert_sandbox_Inr:
  assumes "insert_sandbox row d = Inr (u, d')"
  obtains ws where "d' = d\<lparr>workspaces := ws, sandboxes := sandboxes d @ [row]\<rparr>"
    "\<forall>s \<in> set (sandboxes d). s_id s \<noteq> s_id row" "s_workspace row = None \<Longrightarrow> ws = workspaces d"
proof -
  from assms obtain x where w: "reserve_sandbox_workspace row d = Inr ((), x)" and a: "add_sandbox row x = Inr (u, d')"
    by (auto simp: insert_sandbox_def bindT_Inr_iff)
  from w have "\<exists>ws. x = d\<lparr>workspaces := ws\<rparr> \<and> (s_workspace row = None \<longrightarrow> ws = workspaces d)"
  proof (cases "s_workspace row")
    case None
    with w have "x = d" by (simp add: reserve_sandbox_workspace_def returnT_apply)
    then show ?thesis by (intro exI [of _ "workspaces d"]) simp
  next
    case (Some v)
    with w show ?thesis
      by (simp add: reserve_sandbox_workspace_def bindT_Inr_iff now_Inr upd_workspaces_Inr requireT_Inr_iff) blast
  qed
  moreover from a have "\<forall>s \<in> set (sandboxes x). s_id s \<noteq> s_id row" "d' = x\<lparr>sandboxes := sandboxes x @ [row]\<rparr>"
    by (simp_all add: add_sandbox_def bindT_def getsT_apply throwT_apply modifyT_apply split: if_splits)
  ultimately show thesis using that by (elim exE conjE) simp
qed

lemma store_env_Inr:
  "store_env dp op env d = Inr (u, d') \<Longrightarrow> \<exists>xs. d' = d\<lparr>secrets := xs\<rparr>"
  by (auto simp: store_env_def whenT_def storeSandboxOperationSecret_def bindT_Inr_iff getsT_apply modifyT_apply
      returnT_apply throwT_apply Let_def split: if_splits intro: exI [of _ "secrets d"])

lemma findAccepted_Inr:
  "findAcceptedCreate hs input d = Inr (r, d') \<Longrightarrow> d' = d \<and>
     (r = None \<longrightarrow> truthy (cr_key input) \<longrightarrow> (\<forall>q \<in> set (operations d). \<not> same_key (cr_org input) KProvision (cr_key input) q)) \<and>
     (\<forall>q. r = Some q \<longrightarrow> q \<in> set (operations d) \<and> same_key (cr_org input) KProvision (cr_key input) q \<and> same_intent hs input q)"
proof (cases "truthy (cr_key input)")
  case True
  let ?rows = "filter (same_key (cr_org input) KProvision (cr_key input)) (operations d)"
  assume found: "findAcceptedCreate hs input d = Inr (r, d')"
  show ?thesis
  proof (cases "first_row ?rows")
    case None
    with True found show ?thesis
      by (simp add: findAcceptedCreate_def bindT_def sel_Inr returnT_apply filter_empty_conv)
  next
    case (Some q)
    with True found have "same_intent hs input q" "r = Some q" "d' = d"
      by (auto simp: findAcceptedCreate_def bindT_Inr_iff sel_Inr returnT_apply requireT_Inr_iff)
    with first_row_filter_Some [OF Some] show ?thesis by simp
  qed
qed (auto simp: findAcceptedCreate_def returnT_apply)

lemma lockCreate_Inr:
  "lockCreateAdmission hs input d = Inr (r, d') \<longleftrightarrow>
     org_of d (cr_org input) \<noteq> None \<and> findAcceptedCreate hs input d = Inr (r, d')"
  by (auto simp: lockCreateAdmission_def bindT_Inr_iff lockOrganizationCapacity_iff)

text \<open>The tables' foreign keys: rows of other tables name existing sandboxes.\<close>

definition references_ok :: "db \<Rightarrow> bool" where
  "references_ok d \<longleftrightarrow> (\<forall>h \<in> set (holds d). \<exists>s \<in> set (sandboxes d). s_id s = h_sandbox h) \<and>
     (\<forall>e \<in> set (effects d). \<exists>s \<in> set (sandboxes d). s_id s = e_sandbox e)"

lemma admit_Inr:
  assumes "admitCreate dp input plan i pr d = Inr ((op, Some e), d')" and "references_ok d" and "phases_ok d"
  obtains h row where
    "op = fresh_operation (clock d) (''op_'' @ rand d (rand_pos d)) (cr_org input) (Some i) KProvision (cr_key input)
       (create_request_obj dp input plan i)"
    "\<forall>q \<in> set (operations d). o_id q \<noteq> o_id op \<and> \<not> same_key (cr_org input) KProvision (cr_key input) q"
    "operations d' = operations d @ [op]" "orgs d' = orgs d"
    "sandboxes d' = sandboxes d @ [new_sandbox_row dp input plan i (clock d)]"
    "\<forall>s \<in> set (sandboxes d). s_id s \<noteq> i"
    "holds d' = holds d @ [h]" "h_org h = cr_org input" "h_sandbox h = i" "h_operation h = Some (o_id op)"
    "h_phase h = Reserved" "h_released_at h = None"
    "org_of d (cr_org input) = Some row" "int (held d (cr_org input)) < max_concurrency row" "admits row"
    "effects d' = effects d @ [e]" "e_org e = cr_org input" "e_sandbox e = i" "e_kind e = EPrepare"
    "e_generation e = h_generation h" "e_operation e = Some (o_id op)" "e_settled_at e = None" "e_dispatched_at e = None"
    "\<forall>q \<in> set (effects d). e_id q \<noteq> e_id e"
proof -
  let ?org = "cr_org input" and ?row = "new_sandbox_row dp input plan i (clock d)"
  from assms(1) obtain reused dl where lock: "lockCreateAdmission (cd_hashes dp) input d = Inr (reused, dl)"
    by (auto simp: admitCreate_def bindT_Inr_iff)
  then have found: "findAcceptedCreate (cd_hashes dp) input d = Inr (reused, dl)" by (simp add: lockCreate_Inr)
  then have "dl = d" by (blast dest: findAccepted_Inr)
  note lock = lock [unfolded this] found [unfolded this]
  have none: "reused = None" using assms(1) lock by (auto simp: admitCreate_def bindT_def returnT_apply split: option.splits)
  let ?check = "whenT (truthy (cr_workspace input))
    (validateWorkspaceAttachment (cd_workspaces dp) ?org (the (cr_workspace input)) pr)"
  have "d'' = d" if "?check d = Inr (v, d'')" for v d''
    using that by (auto simp: whenT_def returnT_apply split: if_splits dest: validate_same)
  with assms(1) lock none obtain d1 d2 d3 d4 h u where
    ins: "insert_sandbox ?row d = Inr ((), d1)"
    and enq: "enqueueSandboxOperation ?org (Some i) KProvision (create_request_obj dp input plan i) (cr_key input) d1 = Inr ((op, u), d2)"
    and res: "reserveSandboxCapacity ?org i (o_id op) d2 = Inr (h, d3)"
    and env: "store_env dp op (cr_env input) d3 = Inr ((), d4)"
    and eff: "beginRuntimeEffect ?org i EPrepare (Some op) [] d4 = Inr (e, d')"
    unfolding admitCreate_def bindT_Inr_iff
    by (simp add: bindT_Inr_iff now_Inr returnT_apply split: prod.splits) metis
  from ins obtain ws where d1: "d1 = d\<lparr>workspaces := ws, sandboxes := sandboxes d @ [?row]\<rparr>"
    and new: "\<forall>s \<in> set (sandboxes d). s_id s \<noteq> i"
    by (rule insert_sandbox_Inr) (auto simp: new_sandbox_row_def Let_def)
  have fresh_key: "truthy (cr_key input) \<Longrightarrow> q \<in> set (operations d) \<Longrightarrow> \<not> same_key ?org KProvision (cr_key input) q" for q
    using findAccepted_Inr [OF lock(2)] none by blast
  from enq have op: "d2 = d1\<lparr>rand_pos := Suc (rand_pos d), operations := operations d @ [op]\<rparr>"
    "op = fresh_operation (clock d) (''op_'' @ rand d (rand_pos d)) ?org (Some i) KProvision (cr_key input) (create_request_obj dp input plan i)"
    "\<forall>q \<in> set (operations d). o_id q \<noteq> o_id op \<and> \<not> same_key ?org KProvision (cr_key input) q"
    by (cases rule: enqueue_cases; use fresh_key in \<open>simp add: d1\<close>)+
  have no_hold: "own_hold d2 ?org i = None"
    using assms(2) new by (auto simp: own_hold_def filter_empty_conv op(1) d1 references_ok_def)
  have ph: "phases_ok d2" using assms(3) by (simp add: op(1) d1 phases_ok_def)
  from res no_hold obtain row where row: "org_of d2 ?org = Some row" "admits row" "int (held d2 ?org) < max_concurrency row"
    and hold: "insert_hold ?org i (max_generation i (holds d2) + 1) (Some (o_id op)) Reserved None d2 = Inr (h, d3)"
    by (auto simp: reserveSandboxCapacity_eq [OF ph] split: option.splits if_splits)
  from insert_hold_Inr [OF hold] have h: "h_org h = ?org" "h_sandbox h = i" "h_operation h = Some (o_id op)"
    "h_phase h = Reserved" "h_released_at h = None" and d3: "d3 = d2\<lparr>holds := holds d2 @ [h]\<rparr>" by auto
  from store_env_Inr [OF env] obtain xs where d4: "d4 = d3\<lparr>secrets := xs\<rparr>" by blast
  have only: "q \<in> set (holds d4) \<Longrightarrow> h_sandbox q = i \<Longrightarrow> q = h" for q
    using assms(2) new by (auto simp: d4 d3 op(1) d1 references_ok_def)
  from eff obtain h' where h': "h' \<in> set (holds d4)" "h_sandbox h' = i"
    and e: "\<forall>q \<in> set (effects d4). e_id q \<noteq> e_id e"
      "d' = d4\<lparr>rand_pos := Suc (rand_pos d4), effects := effects d4 @ [e]\<rparr>" "e_org e = ?org" "e_sandbox e = i"
      "e_kind e = EPrepare" "e_generation e = h_generation h'" "e_operation e = Some (o_id op)"
      "e_settled_at e = None" "e_dispatched_at e = None"
    by (rule beginRuntimeEffect_Inr) auto
  have "h' = h" using only h' by blast
  show thesis
    by (rule that [of h row])
      (use op new h row e \<open>h' = h\<close> in \<open>auto simp: d4 d3 d1 org_of_def held_def\<close>)
qed

section \<open>Accepted requests\<close>

text \<open>The request under a key was accepted as this operation, for this intent.\<close>

definition accepted_as :: "string \<Rightarrow> string option \<Rightarrow> string \<Rightarrow> string \<Rightarrow> string \<Rightarrow> db \<Rightarrow> bool" where
  "accepted_as org key i sbx fp d \<longleftrightarrow> (\<exists>r \<in> set (operations d). same_key org KProvision key r \<and> o_id r = i \<and>
     o_sandbox r = Some sbx \<and> field (o_request r) ''intentFingerprint'' = JStr fp)"

interpretation accepted: limit_free "accepted_as org key i sbx fp" for org key i sbx fp
proof (rule queue_only)
  show "accepted_as org key i sbx fp (d\<lparr>operations := update_rows P f (operations d)\<rparr>)"
    if "operation_patch P f" "accepted_as org key i sbx fp d" for P f d
    using that unfolding accepted_as_def
    by simp (subst bex_update_rows, auto simp: operation_patch_def same_key_def)
  show "keeps (accepted_as org key i sbx fp) (insert_operation i' org' sbx' k key' req)" for i' org' sbx' k key' req
    by (rule keeps_insert_operation) (auto simp: accepted_as_def)
qed (simp add: accepted_as_def)

lemma same_key_unique:
  assumes "keys_ok d" and "r \<in> set (operations d)" "same_key org k key r" and "q \<in> set (operations d)" "same_key org k key q"
  shows "q = r"
proof -
  have "key_of q = key_of r" "q \<in> set (filter (\<lambda>r. o_key r \<noteq> None) (operations d))"
    "r \<in> set (filter (\<lambda>r. o_key r \<noteq> None) (operations d))"
    using assms by (auto simp: same_key_def key_of_def)
  with assms(1) show ?thesis unfolding keys_ok_def by (metis key_unique)
qed

lemma findAccepted_accepted:
  assumes "accepted_as (cr_org input) (cr_key input) i sbx fp d" and "keys_ok d" and "truthy (cr_key input)"
  obtains r where "o_id r = i" "o_sandbox r = Some sbx" "findAcceptedCreate hs input d =
    (if createIntentFingerprint hs input (Some (stored_algorithm fp)) = Some fp then Inr (Some r, d)
     else Inl (CapacityError IdempotencyConflict ''This key identifies a different or unverifiable create intent. Inspect the existing operation before choosing a new key.''))"
proof -
  let ?P = "same_key (cr_org input) KProvision (cr_key input)"
  from assms(1) obtain r where r: "r \<in> set (operations d)" "?P r" "o_id r = i" "o_sandbox r = Some sbx"
    "field (o_request r) ''intentFingerprint'' = JStr fp" by (auto simp: accepted_as_def)
  have "filter ?P (operations d) \<noteq> []" using r by (auto simp: filter_empty_conv)
  then obtain q where q: "first_row (filter ?P (operations d)) = Some q" by (cases "filter ?P (operations d)") auto
  from first_row_filter_Some [OF q] have "q = r" by (intro same_key_unique [OF assms(2) r(1,2)]) auto
  with q r(5) assms(3) that [OF r(3,4)] show thesis
    by (simp add: findAcceptedCreate_def bindT_def sel_Inr requireT_def throwT_apply returnT_apply same_intent_def)
qed

lemma request_fingerprint: "field (create_request_obj dp input plan i) ''intentFingerprint'' = JStr (pl_fingerprint plan)"
  by (simp add: create_request_obj_def Let_def)

lemma request_not_ready: "field_text_is (create_request_obj dp input plan i) ''dispatchReady'' ''false''"
  by (simp add: create_request_obj_def Let_def field_text_is_def)

section \<open>Properties\<close>

text \<open>
  C12. The admission of a creation is exact. One that commits adds one pending sandbox, one queued
  operation for it, one reserved slot owned by the operation and one unsettled preparation
  effect, and nothing else to these tables; the slots in use grow by one and stay within the
  organization's limit; and no worker can claim the operation, neither by its identity nor as
  the next one, before the preparation is over.
\<close>

theorem admission_exact:
  assumes "admitCreate dp input plan i pr d = Inr ((op, Some e), d')" and "references_ok d" and "phases_ok d"
  shows "held d' (cr_org input) = held d (cr_org input) + 1 \<and>
    (\<exists>row. org_of d (cr_org input) = Some row \<and> int (held d' (cr_org input)) \<le> max_concurrency row) \<and>
    sandboxes d' = sandboxes d @ [new_sandbox_row dp input plan i (clock d)] \<and>
    operations d' = operations d @ [op] \<and> o_state op = Queued \<and> o_sandbox op = Some i \<and>
    (\<exists>h. holds d' = holds d @ [h] \<and> h_sandbox h = i \<and> h_operation h = Some (o_id op) \<and> h_phase h = Reserved \<and>
       e_generation e = h_generation h) \<and>
    effects d' = effects d @ [e] \<and> e_sandbox e = i \<and> e_kind e = EPrepare \<and> e_settled_at e = None \<and>
    \<not> claimable_by_id (o_id op) kinds m (effects d') op \<and> \<not> claimable_next t kinds m stale (effects d') op"
proof -
  from assms obtain h row where
    op: "op = fresh_operation (clock d) (''op_'' @ rand d (rand_pos d)) (cr_org input) (Some i) KProvision (cr_key input)
       (create_request_obj dp input plan i)"
    and rest: "operations d' = operations d @ [op]"
    "sandboxes d' = sandboxes d @ [new_sandbox_row dp input plan i (clock d)]"
    "holds d' = holds d @ [h]" "h_org h = cr_org input" "h_sandbox h = i" "h_operation h = Some (o_id op)"
    "h_phase h = Reserved" "h_released_at h = None"
    "org_of d (cr_org input) = Some row" "int (held d (cr_org input)) < max_concurrency row"
    "effects d' = effects d @ [e]" "e_sandbox e = i" "e_kind e = EPrepare"
    "e_generation e = h_generation h" "e_settled_at e = None"
    by (rule admit_Inr)
  have "held d' (cr_org input) = held d (cr_org input) + 1"
    using rest by (simp add: held_def count_rows_Cons held_row_def)
  moreover have "field_text_is (o_request op) ''dispatchReady'' ''false''" using op request_not_ready by simp
  ultimately show ?thesis using rest op by (auto simp: claimable_by_id_def claimable_next_def)
qed

text \<open>
  C10. A create request is accepted once. After an admission under an idempotency key, and after
  anything all services and administrators did since, a request of the organization under the
  same key finds the operation of that admission when its fingerprint is the stored one, and is
  refused as a conflict otherwise; in no case is it admitted a second time.
\<close>

theorem accepted_once:
  assumes "admitCreate dp input plan i pr d = Inr ((op, Some e), d1)" and "well_formed d" and "references_ok d"
    and "inventory_step\<^sup>*\<^sup>* d1 d2" and "truthy (cr_key input)"
    and "cr_org again = cr_org input" and "cr_key again = cr_key input"
  shows "(\<exists>r. o_id r = o_id op \<and> o_sandbox r = Some i \<and> findAcceptedCreate hs again d2 =
      (if createIntentFingerprint hs again (Some (stored_algorithm (pl_fingerprint plan))) = Some (pl_fingerprint plan)
       then Inr (Some r, d2)
       else Inl (CapacityError IdempotencyConflict ''This key identifies a different or unverifiable create intent. Inspect the existing operation before choosing a new key.''))) \<and>
    admitCreate dp' again plan' j pr' d2 \<noteq> Inr ((op', Some e'), d3)"
proof -
  have "keys_ok d" and ph: "phases_ok d" using assms(2) by (simp_all add: well_formed_def)
  then have keys: "keys_ok d1" by (blast intro: keepsD [OF keys.admit_kept _ assms(1)])
  from assms(1,3) ph have op: "op = fresh_operation (clock d) (''op_'' @ rand d (rand_pos d)) (cr_org input)
      (Some i) KProvision (cr_key input) (create_request_obj dp input plan i)" "operations d1 = operations d @ [op]"
    by (auto elim: admit_Inr)
  have "accepted_as (cr_org input) (cr_key input) (o_id op) i (pl_fingerprint plan) d1"
    using op assms(5) request_fingerprint by (auto simp: accepted_as_def same_key_def truthy_def)
  then have acc: "accepted_as (cr_org again) (cr_key again) (o_id op) i (pl_fingerprint plan) d2"
    using accepted.kept_by_inventory [OF assms(4)] assms(6,7) by simp
  have k2: "keys_ok d2" by (rule keys.kept_by_inventory [OF assms(4) keys])
  have "truthy (cr_key again)" using assms(5,7) by simp
  note found = findAccepted_accepted [OF acc k2 this]
  from found [of hs] have 1: "\<exists>r. o_id r = o_id op \<and> o_sandbox r = Some i \<and> findAcceptedCreate hs again d2 =
      (if createIntentFingerprint hs again (Some (stored_algorithm (pl_fingerprint plan))) = Some (pl_fingerprint plan)
       then Inr (Some r, d2)
       else Inl (CapacityError IdempotencyConflict ''This key identifies a different or unverifiable create intent. Inspect the existing operation before choosing a new key.''))"
    by blast
  have "admitCreate dp' again plan' j pr' d2 \<noteq> Inr ((op', Some e'), d3)"
  proof
    assume "admitCreate dp' again plan' j pr' d2 = Inr ((op', Some e'), d3)"
    moreover from found [of "cd_hashes dp'"] obtain x where
      "findAcceptedCreate (cd_hashes dp') again d2 = Inr (Some x, d2) \<or> isl (findAcceptedCreate (cd_hashes dp') again d2)"
      by (metis sum.disc(1))
    ultimately show False
      by (auto simp: admitCreate_def bindT_Inr_iff lockCreate_Inr returnT_apply)
  qed
  with 1 show ?thesis by blast
qed

lemma list_all_update_rows: "list_all Q (update_rows P f xs) \<longleftrightarrow> list_all (\<lambda>x. Q (if P x then f x else x)) xs"
  by (simp add: update_rows_def list.pred_map comp_def)

text \<open>Settling the only unsettled effect of a sandbox leaves none.\<close>

lemma settle_only:
  assumes "one_effect d" and "e \<in> set (effects d)" and "e_settled_at e = None"
  obtains es where "settle_effect e d = Inr ((), d\<lparr>effects := es\<rparr>)" "\<forall>q \<in> set es. \<not> unsettled_on (e_sandbox e) q"
proof -
  let ?P = "\<lambda>q. e_id q = e_id e \<and> e_generation q = e_generation e \<and> e_settled_at q = None"
  let ?f = "\<lambda>q. q\<lparr>e_settled_at := Some (clock d), e_updated_at := clock d\<rparr>"
  have one: "q = e" if "q \<in> set (effects d)" "unsettled_on (e_sandbox e) q" for q
    by (rule count_rows_unique [of "unsettled_on (e_sandbox e)" "effects d"])
      (use that assms in \<open>auto simp: unsettled_on_def one_effect_def\<close>)
  have "\<not> unsettled_on (e_sandbox e) q" if "q \<in> set (update_rows ?P ?f (effects d))" for q
  proof
    assume q: "unsettled_on (e_sandbox e) q"
    from that obtain r where r: "r \<in> set (effects d)" "q = (if ?P r then ?f r else r)"
      unfolding in_update_rows by blast
    with q have "\<not> ?P r" "unsettled_on (e_sandbox e) r" by (auto simp: unsettled_on_def split: if_splits)
    with one [OF r(1)] assms(3) show False by simp
  qed
  moreover have "settle_effect e d = Inr ((), d\<lparr>effects := update_rows ?P ?f (effects d)\<rparr>)"
    using assms(2,3) by (auto simp: settle_effect_Inr Let_def)
  ultimately show thesis using that by blast
qed

text \<open>Releasing the only open reservation of a sandbox that has no unsettled effect.\<close>

lemma release_only:
  assumes "one_hold d" and "h \<in> set (holds d)" and "h_org h = org" "h_sandbox h = i" "h_generation h = g" "h_released_at h = None"
    and "\<forall>q \<in> set (effects d). \<not> unsettled_on i q" and "org_of d org \<noteq> None"
  obtains hs where "releaseSandboxCapacity org i g reason d = Inr (True, d\<lparr>holds := hs\<rparr>)"
    "\<forall>q \<in> set hs. h_sandbox q = i \<longrightarrow> h_released_at q \<noteq> None"
    "held d org = held (d\<lparr>holds := hs\<rparr>) org + 1"
proof -
  let ?C = "release_cond org i g (effects d)" and ?f = "mark_released (clock d) reason"
  have only: "q = h" if "q \<in> set (holds d)" "h_sandbox q = i" "h_released_at q = None" for q
    by (rule count_rows_unique [of "\<lambda>h. h_sandbox h = i \<and> h_released_at h = None" "holds d"])
      (use that assms in \<open>auto simp: one_hold_def\<close>)
  have C: "?C h" using assms by (simp add: release_cond_def)
  with assms(2) have "\<exists>r \<in> set (holds d). ?C r" by blast
  with assms(8) have run: "releaseSandboxCapacity org i g reason d = Inr (True, d\<lparr>holds := update_rows ?C ?f (holds d)\<rparr>)"
    by (simp only: releaseSandboxCapacity_Inr simp_thms)
  have "h_released_at q \<noteq> None" if "q \<in> set (update_rows ?C ?f (holds d))" "h_sandbox q = i" for q
  proof -
    from that(1) obtain r where r: "r \<in> set (holds d)" "q = (if ?C r then ?f r else r)" unfolding in_update_rows by blast
    show ?thesis
    proof (cases "?C r")
      case False
      with r that(2) only [OF r(1)] C show ?thesis by auto
    qed (use r in \<open>simp add: mark_released_def\<close>)
  qed
  with that [OF run] release_exact [OF assms(1) run, of org] show thesis by simp
qed

text \<open>The work of an abandoned preparation once its effect is settled.\<close>

definition given_up :: "time \<Rightarrow> operation \<Rightarrow> operation" where
  "given_up t r = r\<lparr>o_state := Failed, o_error := Some ''Sandbox preparation failed before runtime dispatch'',
     o_result := obj_merge (o_result r) [], o_completed_at := Some t, o_locked_at := None, o_updated_at := t\<rparr>"

lemma abandon_run:
  fixes d input i op
  defines "P \<equiv> \<lambda>s. s_id s = i \<and> s_org s = cr_org input \<and> s_runtime_id s = None"
  defines "d2 \<equiv> d\<lparr>sandboxes := update_rows P (\<lambda>s. s\<lparr>s_status := SError, s_updated_at := clock d\<rparr>) (sandboxes d),
      operations := update_rows (failable (o_id op) None) (given_up (clock d)) (operations d)\<rparr>"
  assumes "lockEffectSandbox (e_org e) (e_sandbox e) d0 = Inr (s', d0)" and "settle_effect e d0 = Inr ((), d)"
    and "releaseSandboxCapacity (cr_org input) i (e_generation e) CanceledBeforeDispatch d2 = Inr (b, d3)"
  shows "\<exists>ws. abandonPreparation input i op e d0 = Inr ((), d3\<lparr>workspaces := ws\<rparr>)"
proof -
  define d1 where "d1 = d\<lparr>sandboxes := update_rows P (\<lambda>s. s\<lparr>s_status := SError, s_updated_at := clock d\<rparr>) (sandboxes d)\<rparr>"
  have mark: "upd_sandboxes P (\<lambda>s. s\<lparr>s_status := SError, s_updated_at := clock d\<rparr>) d = Inr (count_rows P (sandboxes d), d1)"
    by (simp add: upd_Inr d1_def)
  have "failSandboxOperation (o_id op) ''Sandbox preparation failed before runtime dispatch'' [] None d1 =
      Inr (first_row (map (given_up (clock d)) (filter (failable (o_id op) None) (operations d1))), d2)"
    by (simp add: failSandboxOperation_def bindT_def now_Inr upd_operations_returning_Inr returnT_apply d1_def d2_def
        given_up_def [abs_def])
  with mark assms(3-5) show ?thesis
    unfolding abandonPreparation_def finishRuntimeEffect_def
    by (simp only: bindT_def now_Inr P_def upd_workspaces_Inr returnT_apply sum.case prod.case sum.inject prod.inject
        simp_thms ex_simps) blast
qed

text \<open>
  C13. A creation given up before dispatch leaves no slot taken. While its preparation effect is
  unsettled, abandoning succeeds: the slot is released, the effect settled, the operation failed
  and the sandbox without a runtime in error, all in one transaction.
\<close>

theorem abandoned_creation_frees_slot:
  assumes "well_formed d" and "e \<in> set (effects d)" and "e_settled_at e = None" and "e_kind e = EPrepare"
    and "e_org e = cr_org input" and "e_sandbox e = i" and "org_of d (cr_org input) \<noteq> None"
    and "s \<in> set (sandboxes d)" and "s_id s = i" and "s_org s = cr_org input"
  shows "\<exists>d'. abandonPreparation input i op e d = Inr ((), d') \<and>
    held d (cr_org input) = held d' (cr_org input) + 1 \<and>
    list_all (\<lambda>h. h_sandbox h = i \<longrightarrow> h_released_at h \<noteq> None) (holds d') \<and>
    list_all (\<lambda>q. \<not> unsettled_on i q) (effects d') \<and>
    list_all (\<lambda>r. o_id r = o_id op \<longrightarrow> o_state r = Failed) (operations d') \<and>
    list_all (\<lambda>s. s_id s = i \<and> s_org s = cr_org input \<and> s_runtime_id s = None \<longrightarrow> s_status s = SError) (sandboxes d')"
proof -
  let ?org = "cr_org input" and ?P = "\<lambda>s. s_id s = i \<and> s_org s = cr_org input \<and> s_runtime_id s = None"
  from assms(1) have inv: "one_effect d" "one_hold d" "fenced d" by (simp_all add: well_formed_def)
  obtain es where settle: "settle_effect e d = Inr ((), d\<lparr>effects := es\<rparr>)" and quiet: "\<forall>q \<in> set es. \<not> unsettled_on i q"
    using settle_only [OF inv(1) assms(2,3)] assms(6) by metis
  from assms obtain s' where lock: "lockEffectSandbox (e_org e) (e_sandbox e) d = Inr (s', d)"
    by (cases "filter (\<lambda>s. s_id s = i \<and> s_org s = ?org) (sandboxes d)") (auto simp: lockEffectSandbox_Inr filter_empty_conv)
  from inv(3) assms obtain h where h: "h \<in> set (holds d)" "h_org h = ?org" "h_sandbox h = i"
    "h_generation h = e_generation e" "h_released_at h = None" by (auto simp: fenced_def)
  define d1 where "d1 = d\<lparr>effects := es\<rparr>"
  define d2 where "d2 = d1\<lparr>sandboxes := update_rows ?P (\<lambda>s. s\<lparr>s_status := SError, s_updated_at := clock d1\<rparr>) (sandboxes d1),
    operations := update_rows (failable (o_id op) None) (given_up (clock d1)) (operations d1)\<rparr>"
  have pre: "one_hold d2" "h \<in> set (holds d2)" "\<forall>q \<in> set (effects d2). \<not> unsettled_on i q" "org_of d2 ?org \<noteq> None"
    using inv(2) h quiet assms(7) by (simp_all add: d2_def d1_def one_hold_def org_of_def)
  obtain hs where rel: "releaseSandboxCapacity ?org i (e_generation e) CanceledBeforeDispatch d2 = Inr (True, d2\<lparr>holds := hs\<rparr>)"
    and closed: "\<forall>q \<in> set hs. h_sandbox q = i \<longrightarrow> h_released_at q \<noteq> None" and less: "held d2 ?org = held (d2\<lparr>holds := hs\<rparr>) ?org + 1"
    by (rule release_only [OF pre(1,2) h(2-5) pre(3,4)])
  have ops: "list_all (\<lambda>r. o_id r = o_id op \<longrightarrow> o_state r = Failed) (operations d2)"
    by (simp add: list_all_update_rows d2_def failable_def given_up_def list.pred_True)
  have sbx: "list_all (\<lambda>s. ?P s \<longrightarrow> s_status s = SError) (sandboxes d2)"
    by (simp add: list_all_update_rows d2_def, simp add: list_all_iff)
      (metis option.distinct(1))
  have "\<exists>ws. abandonPreparation input i op e d = Inr ((), d2\<lparr>holds := hs, workspaces := ws\<rparr>)"
    using abandon_run [OF lock settle [folded d1_def] rel [unfolded d2_def]] by (simp only: d2_def)
  then obtain ws where run: "abandonPreparation input i op e d = Inr ((), d2\<lparr>holds := hs, workspaces := ws\<rparr>)" ..
  have "held d ?org = held (d2\<lparr>holds := hs, workspaces := ws\<rparr>) ?org + 1" using less by (simp add: held_def d2_def d1_def)
  moreover have "list_all (\<lambda>h. h_sandbox h = i \<longrightarrow> h_released_at h \<noteq> None) hs" using closed by (simp add: list_all_iff)
  moreover have "list_all (\<lambda>q. \<not> unsettled_on i q) (effects d2)" using pre(3) by (simp add: list_all_iff)
  ultimately show ?thesis using ops sbx by (intro exI [of _ "d2\<lparr>holds := hs, workspaces := ws\<rparr>"]) (simp add: run)
qed


section \<open>Witnesses\<close>

text \<open>A store with one organization and one template, and dependencies that do little.\<close>

definition plain_row :: template_row where
  "plain_row = \<lparr>tp_id = ''base'', tp_org = None, tp_name = ''base'', tp_description = [], tp_image = ''img'', tp_digest = None,
     tp_icon = [], tp_tags = [], tp_aliases = [], tp_boot_ms = 0, tp_visibility = TPublic, tp_entrypoint = [], tp_cpu = 1,
     tp_memory = 1024, tp_workdir = ''/w'', tp_ports = [], tp_family = ''linux''\<rparr>"

definition create_db :: db where
  "create_db = empty_db\<lparr>orgs := [new_org ''org'' 2], templates := [plain_row]\<rparr>"

definition plain_runtime :: runtime_template where
  "plain_runtime = \<lparr>rt_id = ''base'', rt_name = ''base'', rt_description = [], rt_image = ''img'', rt_digest = None,
     rt_icon = [], rt_tags = [], rt_aliases = [], rt_boot_ms = 0, rt_visibility = TPublic, rt_owner = OwnPlatform,
     rt_entrypoint = [], rt_cpu = 1, rt_memory = 1024, rt_workdir = ''/w'', rt_ports = [], rt_family = ''linux'',
     rt_version = Some ''v1''\<rparr>"

definition open_summary :: policy_summary where
  "open_summary = \<lparr>ps_mode = Open, ps_presets = [], ps_allow = [], ps_deny = [], ps_rules = [], ps_compiled = None\<rparr>"

definition plain_hashes :: hashes where
  "plain_hashes = \<lparr>controlPlaneSecretKey = ''key'', base64_bytes = id, encode = id, sha256 = id, hmac_sha256 = (\<lambda>k. id)\<rparr>"

definition plain_request :: create_request where
  "plain_request = \<lparr>cr_workspace = None, cr_org = ''org'', cr_user = None, cr_api_key = None, cr_actor = ''me'',
     cr_template = Some ''base'', cr_snapshot = None, cr_name = None, cr_ttl = 60, cr_env = [(''B'', ''2''), (''A'', ''1'')],
     cr_key = Some ''k'', cr_wait = None, cr_wait_timeout = None, cr_egress = None, cr_source = None,
     cr_credentials = [], cr_mappings = []\<rparr>"

definition plain_plan :: create_plan where
  "plain_plan = \<lparr>pl_fingerprint = ''hmac-v1:00'', pl_snapshot = None,
     pl_template = \<lparr>ct_runtime = plain_runtime, ct_status = ''ready'', ct_slots = [], ct_policy = None\<rparr>,
     pl_policy = defaultEgressPolicyInput, pl_summary = open_summary\<rparr>"

definition plain_deps :: "unit create_deps" where
  "plain_deps = \<lparr>cd_hashes = plain_hashes, cd_encrypt = (\<lambda>v. (v, [], [])),
     cd_workspaces = \<lparr>workspaceSizeGiB = 0, workspaceMaxPerOrganization = 0, workspaceStorageClass = None,
       persistentWorkspacesEnabled = False, openSandboxAllowFallback = False\<rparr>,
     cd_url_text = (\<lambda>u. None), cd_redact = id, cd_resolve = (\<lambda>ref org. retP (Some (pl_template plain_plan))),
     cd_pin = retP, cd_source = (\<lambda>r c. retP (Inl PSecretForbidden)), cd_slot = (\<lambda>r s c. retP (Inl PSecretForbidden)),
     cd_attach = (\<lambda>r i c. retP ANotFound), timer_first = False\<rparr>"

lemma create_db_ok: "references_ok create_db" "phases_ok create_db" "well_formed create_db" "bounded ''org'' 2 create_db"
  by (simp_all add: create_db_def new_row_defs references_ok_def well_formed_def one_hold_def generations_ok_def
      phases_ok_def one_effect_def effect_ids_ok_def fenced_def ids_ok_def keys_ok_def bounded_def within_limit_def held_def)

lemma create_db_admits:
  "\<exists>op e d'. admitCreate plain_deps plain_request plain_plan ''sbx_1'' (quiet_provider True) create_db = Inr ((op, Some e), d')"
proof -
  have "(case admitCreate plain_deps plain_request plain_plan ''sbx_1'' (quiet_provider True) create_db of
      Inr ((op, Some e), d') \<Rightarrow> True | _ \<Rightarrow> False)"
    by code_simp
  then show ?thesis by (auto split: sum.splits option.splits prod.splits)
qed

theorem admission_exact_witness:
  "\<exists>op e d'. admitCreate plain_deps plain_request plain_plan ''sbx_1'' (quiet_provider True) create_db = Inr ((op, Some e), d') \<and>
     held d' ''org'' = held create_db ''org'' + 1"
proof -
  obtain op e d' where run: "admitCreate plain_deps plain_request plain_plan ''sbx_1'' (quiet_provider True) create_db =
      Inr ((op, Some e), d')" using create_db_admits by blast
  from admission_exact [OF run create_db_ok(1,2)] run show ?thesis by (auto simp: plain_request_def)
qed

theorem accepted_once_witness:
  "\<exists>op e d'. admitCreate plain_deps plain_request plain_plan ''sbx_1'' (quiet_provider True) create_db = Inr ((op, Some e), d') \<and>
     admitCreate plain_deps plain_request plain_plan ''sbx_2'' (quiet_provider True) d' \<noteq> Inr ((op, Some e), d')"
proof -
  obtain op e d' where run: "admitCreate plain_deps plain_request plain_plan ''sbx_1'' (quiet_provider True) create_db =
      Inr ((op, Some e), d')" using create_db_admits by blast
  have key: "truthy (cr_key plain_request)" by (simp add: plain_request_def truthy_def)
  from accepted_once [OF run create_db_ok(3,1) rtranclp.rtrancl_refl key refl refl] run show ?thesis by blast
qed

theorem abandoned_creation_frees_slot_witness:
  "\<exists>op e d1 d2. admitCreate plain_deps plain_request plain_plan ''sbx_1'' (quiet_provider True) create_db = Inr ((op, Some e), d1) \<and>
     abandonPreparation plain_request ''sbx_1'' op e d1 = Inr ((), d2) \<and> held d1 ''org'' = held d2 ''org'' + 1"
proof -
  obtain op e d1 where run: "admitCreate plain_deps plain_request plain_plan ''sbx_1'' (quiet_provider True) create_db =
      Inr ((op, Some e), d1)" using create_db_admits by blast
  have "store_step\<^sup>*\<^sup>* create_db d1" by (rule keepsD [OF services.reach.admit_kept rtranclp.rtrancl_refl run])
  then have "inventory_step\<^sup>*\<^sup>* create_db d1" by (rule mono_rtranclp [rule_format, rotated]) (rule any_service)
  then have wf: "well_formed d1"
    using create_db_ok(3) unfolding well_formed_def
    by (blast intro: slots.kept_by_inventory gens.kept_by_inventory phases.kept_by_inventory single.kept_by_inventory
        eids.kept_by_inventory fence.kept_by_inventory ids.kept_by_inventory keys.kept_by_inventory)
  from run create_db_ok(1,2) have e: "e \<in> set (effects d1)" "e_settled_at e = None" "e_kind e = EPrepare"
    "e_org e = cr_org plain_request" "e_sandbox e = ''sbx_1''" "orgs d1 = orgs create_db"
    "new_sandbox_row plain_deps plain_request plain_plan ''sbx_1'' 0 \<in> set (sandboxes d1)"
    by (auto elim!: admit_Inr simp: create_db_def empty_db_def)
  have "org_of d1 (cr_org plain_request) \<noteq> None"
    by (simp add: org_of_def e(6) create_db_def new_org_def plain_request_def)
  from abandoned_creation_frees_slot [OF wf e(1-5) this e(7), of op]
  obtain d2 where "abandonPreparation plain_request ''sbx_1'' op e d1 = Inr ((), d2)"
    "held d1 ''org'' = held d2 ''org'' + 1"
    by (auto simp: new_sandbox_row_def Let_def plain_request_def)
  with run show ?thesis by blast
qed



end
