(* ===== verification/Identity.thy ===== *)
theory Identity
  imports World
begin

text \<open>
  Who acts: users, memberships, invitations and API keys, the scopes of keys, the principal a
  request runs as, and the lookups every other service makes of it (\<open>authorization.ts\<close> of
  \<open>packages/shared\<close>, \<open>auth-context.ts\<close>, \<open>services/api-key-principals.ts\<close>,
  \<open>services/organization-access.ts\<close>). These tables are disjoint from those the services of
  sandboxes write, so they form a store of their own; of \<open>organizations\<close> and \<open>sandboxes\<close> it has
  the columns the code of this part reads or writes.
\<close>

section \<open>Scopes\<close>

definition apiKeyScopes :: "string list" where
  "apiKeyScopes = [''sandboxes:read'', ''sandboxes:write'', ''templates:read'', ''templates:write'',
     ''workspaces:read'', ''workspaces:write'', ''credentials:use'', ''credentials:manage'',
     ''registry:manage'', ''audit:read'', ''org:read'']"

definition defaultApiKeyScopes :: "string list" where
  "defaultApiKeyScopes = [''sandboxes:read'', ''sandboxes:write'', ''templates:read'', ''templates:write'',
     ''workspaces:read'', ''workspaces:write'', ''credentials:use'', ''org:read'']"

definition apiKeyDefaultLifetimeDays :: int where "apiKeyDefaultLifetimeDays = 90"

definition apiKeyMaxLifetimeDays :: int where "apiKeyMaxLifetimeDays = 365"

definition allowedApiKeyScopes :: "string \<Rightarrow> string list" where
  "allowedApiKeyScopes role = (if role = ''admin'' then apiKeyScopes
     else if role = ''member'' then defaultApiKeyScopes else [])"

definition effectiveApiKeyScopes :: "string list \<Rightarrow> string \<Rightarrow> string list" where
  "effectiveApiKeyScopes scopes role = filter (\<lambda>s. s \<in> set scopes) (allowedApiKeyScopes role)"

section \<open>Principals\<close>

record principal =
  p_org :: string
  p_label :: string
  p_expires :: "time option"
  p_subject :: "string option"

datatype human_source = Keycloak | Dev

text \<open>\<open>AuthContext\<close>: a person with a role, or an API key with its scopes.\<close>

datatype auth_context =
    Human principal human_source string "string option"
  | KeyAuth principal string "string list"

fun auth_principal :: "auth_context \<Rightarrow> principal" where
  "auth_principal (Human p src u role) = p"
| "auth_principal (KeyAuth p k scopes) = p"

fun auth_user :: "auth_context \<Rightarrow> string option" where
  "auth_user (Human p src u role) = Some u"
| "auth_user (KeyAuth p k scopes) = None"

fun auth_key :: "auth_context \<Rightarrow> string option" where
  "auth_key (Human p src u role) = None"
| "auth_key (KeyAuth p k scopes) = Some k"

section \<open>Tables\<close>

record user_row =
  u_id :: string
  u_email :: string
  u_name :: string
  u_subject :: "string option"
  u_onboarded :: "time option"
  u_updated_at :: time

record member_row =
  m_id :: string
  m_user :: string
  m_org :: string
  m_role :: string
  m_joined :: time

record key_row =
  ak_id :: string
  ak_org :: string
  ak_name :: string
  ak_hash :: string
  ak_prefix :: string
  ak_last_four :: string
  ak_created_at :: time
  ak_used_at :: "time option"
  ak_revoked_at :: "time option"
  ak_creator :: "string option"
  ak_scopes :: "string list"
  ak_expires_at :: "time option"
  ak_legacy :: bool

datatype invitation_status = IvPending | IvSent | IvSendFailed | IvAccepted | IvCanceled | IvExpired

record invitation_row =
  iv_id :: string
  iv_org :: string
  iv_email :: string
  iv_display :: string
  iv_role :: string
  iv_status :: invitation_status
  iv_keycloak :: "string option"
  iv_inviter :: "string option"
  iv_accepted_user :: "string option"
  iv_error :: "string option"
  iv_created_at :: time
  iv_expires_at :: "time option"
  iv_sent_at :: "time option"
  iv_accepted_at :: "time option"
  iv_canceled_at :: "time option"
  iv_updated_at :: time

record ticket_row =
  tk_hash :: string
  tk_sandbox :: string
  tk_org :: string
  tk_user :: "string option"
  tk_label :: string
  tk_type :: string
  tk_expires_at :: time
  tk_used_at :: "time option"
  tk_key :: "string option"
  tk_auth_expires_at :: "time option"
  tk_subject :: "string option"

record account_org =
  g_id :: string
  g_name :: string
  g_slug :: string
  g_template :: string
  g_idle_ttl :: int
  g_concurrency :: int

record box_row =
  b_id :: string
  b_org :: string
  b_status :: sandbox_status

record iddb =
  users :: "user_row list"
  members :: "member_row list"
  api_keys :: "key_row list"
  invitations :: "invitation_row list"
  tickets :: "ticket_row list"
  account_orgs :: "account_org list"
  boxes :: "box_row list"
  audit_log :: "(string \<times> string) list"
  id_clock :: time
  id_rand :: "nat \<Rightarrow> string"
  id_rand_pos :: nat

type_synonym 'a idtx = "(iddb, err, 'a) tx"

type_synonym ('p, 'a) idproc = "(iddb, 'p, 'a) gproc"

section \<open>Statements\<close>

definition id_now :: "time idtx" where
  "id_now = getsT id_clock"

text \<open>\<open>gen_random_uuid()\<close>, and the random characters of \<open>makeId\<close> and \<open>createApiKey\<close>.\<close>

definition id_draw :: "string idtx" where
  "id_draw = bindT (getsT (\<lambda>d. id_rand d (id_rand_pos d))) (\<lambda>v.
     bindT (modifyT (\<lambda>d. d\<lparr>id_rand_pos := Suc (id_rand_pos d)\<rparr>)) (\<lambda>_. returnT v))"

definition unique_violation :: err where
  "unique_violation = DbError ''duplicate key value violates unique constraint''"

definition foreign_key_violation :: err where
  "foreign_key_violation = DbError ''violates foreign key constraint''"

definition sel_members :: "(member_row \<Rightarrow> bool) \<Rightarrow> member_row list idtx" where
  "sel_members P = getsT (\<lambda>d. filter P (members d))"

definition sel_users :: "(user_row \<Rightarrow> bool) \<Rightarrow> user_row list idtx" where
  "sel_users P = getsT (\<lambda>d. filter P (users d))"

definition sel_invitations :: "(invitation_row \<Rightarrow> bool) \<Rightarrow> invitation_row list idtx" where
  "sel_invitations P = getsT (\<lambda>d. filter P (invitations d))"

definition upd_api_keys :: "(key_row \<Rightarrow> bool) \<Rightarrow> (key_row \<Rightarrow> key_row) \<Rightarrow> nat idtx" where
  "upd_api_keys P f = bindT (getsT (\<lambda>d. count_rows P (api_keys d))) (\<lambda>n.
     bindT (modifyT (\<lambda>d. d\<lparr>api_keys := update_rows P f (api_keys d)\<rparr>)) (\<lambda>_. returnT n))"

text \<open>\<open>UPDATE ... RETURNING\<close>: the updated rows.\<close>

definition upd_invitations :: "(invitation_row \<Rightarrow> bool) \<Rightarrow> (invitation_row \<Rightarrow> invitation_row) \<Rightarrow> invitation_row list idtx" where
  "upd_invitations P f = bindT (getsT (\<lambda>d. filter P (invitations d))) (\<lambda>rs.
     bindT (modifyT (\<lambda>d. d\<lparr>invitations := update_rows P f (invitations d)\<rparr>)) (\<lambda>_. returnT (map f rs)))"

text \<open>The membership of a user in an organization; the table has one row per pair.\<close>

definition member_of :: "iddb \<Rightarrow> string \<Rightarrow> string \<Rightarrow> member_row option" where
  "member_of d org u = first_row (filter (\<lambda>m. m_org m = org \<and> m_user m = u) (members d))"

definition role_of :: "iddb \<Rightarrow> string \<Rightarrow> string \<Rightarrow> string option" where
  "role_of d org u = map_option m_role (member_of d org u)"

text \<open>\<open>INSERT INTO memberships ... ON CONFLICT (user_id, organization_id) DO NOTHING\<close>: the number of rows added.\<close>

definition add_member :: "string \<Rightarrow> string \<Rightarrow> string \<Rightarrow> nat idtx" where
  "add_member u org role = bindT id_draw (\<lambda>i. \<lambda>d.
     if member_of d org u \<noteq> None then Inr (0, d)
     else if \<exists>m \<in> set (members d). m_id m = i then Inl unique_violation
     else if \<not> (\<exists>x \<in> set (users d). u_id x = u) \<or> \<not> (\<exists>g \<in> set (account_orgs d). g_id g = org) then Inl foreign_key_violation
     else Inr (1, d\<lparr>members := members d @
       [\<lparr>m_id = i, m_user = u, m_org = org, m_role = role, m_joined = id_clock d\<rparr>]\<rparr>))"

definition add_audit_row :: "string \<Rightarrow> string \<Rightarrow> unit idtx" where
  "add_audit_row org action = modifyT (\<lambda>d. d\<lparr>audit_log := audit_log d @ [(org, action)]\<rparr>)"

lemmas id_stmts = id_now_def sel_members_def sel_users_def sel_invitations_def add_audit_row_def

lemma id_now_Inr [tx_simps]: "id_now d = Inr (id_clock d, d)"
  and sel_members_Inr [tx_simps]: "sel_members P d = Inr (filter P (members d), d)"
  and sel_users_Inr [tx_simps]: "sel_users P' d = Inr (filter P' (users d), d)"
  and sel_invitations_Inr [tx_simps]: "sel_invitations Q d = Inr (filter Q (invitations d), d)"
  and upd_api_keys_Inr [tx_simps]: "upd_api_keys K f d =
    Inr (count_rows K (api_keys d), d\<lparr>api_keys := update_rows K f (api_keys d)\<rparr>)"
  and upd_invitations_Inr [tx_simps]: "upd_invitations Q g d =
    Inr (map g (filter Q (invitations d)), d\<lparr>invitations := update_rows Q g (invitations d)\<rparr>)"
  and id_draw_Inr [tx_simps]: "id_draw d = Inr (id_rand d (id_rand_pos d), d\<lparr>id_rand_pos := Suc (id_rand_pos d)\<rparr>)"
  and add_audit_row_Inr [tx_simps]: "add_audit_row o' a d = Inr ((), d\<lparr>audit_log := audit_log d @ [(o', a)]\<rparr>)"
  by (simp_all add: id_stmts upd_api_keys_def upd_invitations_def id_draw_def bindT_def getsT_apply modifyT_apply returnT_apply)

section \<open>The principal of an API key\<close>

datatype key_lookup = ById string "string option" | ByHash string

fun key_matches :: "key_lookup \<Rightarrow> key_row \<Rightarrow> bool" where
  "key_matches (ById i org) k \<longleftrightarrow> ak_id k = i"
| "key_matches (ByHash h) k \<longleftrightarrow> ak_hash k = h"

text \<open>The role of the key's creator in the key's organization, by the join with \<open>memberships\<close>.\<close>

definition creator_role :: "iddb \<Rightarrow> key_row \<Rightarrow> string option" where
  "creator_role d k = (case ak_creator k of None \<Rightarrow> None | Some u \<Rightarrow> role_of d (ak_org k) u)"

definition key_valid :: "iddb \<Rightarrow> key_row \<Rightarrow> bool" where
  "key_valid d k \<longleftrightarrow> ak_revoked_at k = None \<and>
     (case ak_expires_at k of None \<Rightarrow> True | Some t \<Rightarrow> id_clock d < t) \<and>
     (ak_legacy k \<or> creator_role d k = Some ''admin'' \<or> creator_role d k = Some ''member'')"

definition key_auth :: "iddb \<Rightarrow> key_row \<Rightarrow> auth_context option" where
  "key_auth d k =
    (let scopes = effectiveApiKeyScopes (if ak_legacy k then defaultApiKeyScopes else ak_scopes k)
           (if ak_legacy k then ''member'' else or_else (creator_role d k) []) in
     if \<not> ak_legacy k \<and> ak_expires_at k = None then None
     else if scopes = [] then None
     else Some (KeyAuth \<lparr>p_org = ak_org k, p_label = ''api-key:'' @ ak_id k, p_expires = ak_expires_at k,
       p_subject = None\<rparr> (ak_id k) scopes))"

definition readApiKeyPrincipal :: "key_lookup \<Rightarrow> auth_context option idtx" where
  "readApiKeyPrincipal lookup = getsT (\<lambda>d.
     case first_row (filter (\<lambda>k. key_matches lookup k \<and> key_valid d k) (api_keys d)) of
       None \<Rightarrow> None
     | Some k \<Rightarrow>
         (case lookup of
            ById i (Some org) \<Rightarrow> if org \<noteq> [] \<and> ak_org k \<noteq> org then None else key_auth d k
          | _ \<Rightarrow> key_auth d k))"

section \<open>Access to an organization\<close>

definition organizationMembershipRole :: "string \<Rightarrow> string option \<Rightarrow> string option idtx" where
  "organizationMembershipRole org actor =
    (if \<not> truthy actor then returnT None
     else getsT (\<lambda>d. case role_of d org (the actor) of
       Some r \<Rightarrow> if r = ''admin'' \<or> r = ''member'' then Some r else None | None \<Rightarrow> None))"

definition isOrganizationAdmin :: "string \<Rightarrow> string option \<Rightarrow> bool idtx" where
  "isOrganizationAdmin org actor =
     bindT (organizationMembershipRole org actor) (\<lambda>r. returnT (r = Some ''admin''))"

fun key_scopes :: "auth_context option \<Rightarrow> string list" where
  "key_scopes (Some (KeyAuth p k scopes)) = scopes"
| "key_scopes _ = []"

definition credentialAccessRole :: "string \<Rightarrow> string option \<Rightarrow> string option \<Rightarrow> string option idtx" where
  "credentialAccessRole org actor apiKey =
    (if truthy actor \<and> truthy apiKey then returnT None
     else if truthy apiKey then
       bindT (readApiKeyPrincipal (ById (the apiKey) (Some org))) (\<lambda>key.
       returnT (if ''credentials:manage'' \<in> set (key_scopes key) then Some ''admin''
                else if ''credentials:use'' \<in> set (key_scopes key) then Some ''member'' else None))
     else organizationMembershipRole org actor)"

definition canManageCredentials :: "string \<Rightarrow> string option \<Rightarrow> string option \<Rightarrow> bool idtx" where
  "canManageCredentials org actor apiKey =
     bindT (credentialAccessRole org actor apiKey) (\<lambda>r. returnT (r = Some ''admin''))"

section \<open>What a key can be used for\<close>

lemma allowed_default: "set (allowedApiKeyScopes ''member'') \<subseteq> set (allowedApiKeyScopes ''admin'')"
  by (simp add: allowedApiKeyScopes_def defaultApiKeyScopes_def apiKeyScopes_def)

lemma effective_subset: "set (effectiveApiKeyScopes scopes role) \<subseteq> set scopes \<inter> set (allowedApiKeyScopes role)"
  by (auto simp: effectiveApiKeyScopes_def)

lemma readApiKeyPrincipal_Some:
  assumes "readApiKeyPrincipal lookup d = Inr (Some auth, d')"
  obtains k scopes where "d' = d" "k \<in> set (api_keys d)" "key_matches lookup k" "key_valid d k"
    "auth = KeyAuth \<lparr>p_org = ak_org k, p_label = ''api-key:'' @ ak_id k, p_expires = ak_expires_at k,
       p_subject = None\<rparr> (ak_id k) scopes" "scopes \<noteq> []"
    "ak_legacy k \<or> ak_expires_at k \<noteq> None"
    "scopes = effectiveApiKeyScopes (if ak_legacy k then defaultApiKeyScopes else ak_scopes k)
       (if ak_legacy k then ''member'' else or_else (creator_role d k) [])"
    "\<And>i org. lookup = ById i (Some org) \<Longrightarrow> org \<noteq> [] \<Longrightarrow> ak_org k = org"
proof -
  define found where "found = first_row (filter (\<lambda>k. key_matches lookup k \<and> key_valid d k) (api_keys d))"
  from assms have run: "Inr (case found of None \<Rightarrow> None | Some k \<Rightarrow>
      (case lookup of ById i (Some org) \<Rightarrow> if org \<noteq> [] \<and> ak_org k \<noteq> org then None else key_auth d k
       | _ \<Rightarrow> key_auth d k), d) = (Inr (Some auth, d') :: err + auth_context option \<times> iddb)"
    unfolding readApiKeyPrincipal_def getsT_apply found_def .
  then obtain k where k: "found = Some k" by (cases found) auto
  from run k have auth: "key_auth d k = Some auth" "d' = d" "\<And>i org. lookup = ById i (Some org) \<Longrightarrow> org \<noteq> [] \<Longrightarrow> ak_org k = org"
    by (auto split: key_lookup.splits option.splits if_splits)
  define scopes where "scopes = effectiveApiKeyScopes (if ak_legacy k then defaultApiKeyScopes else ak_scopes k)
       (if ak_legacy k then ''member'' else or_else (creator_role d k) [])"
  from auth(1) have "auth = KeyAuth \<lparr>p_org = ak_org k, p_label = ''api-key:'' @ ak_id k, p_expires = ak_expires_at k,
       p_subject = None\<rparr> (ak_id k) scopes" "scopes \<noteq> []" "ak_legacy k \<or> ak_expires_at k \<noteq> None"
    unfolding key_auth_def Let_def scopes_def [symmetric] by (simp_all split: if_splits)
  with first_row_filter_Some [OF k [unfolded found_def]] auth(2,3) scopes_def show thesis
    by (intro that [of k scopes]) blast+
qed

lemma readApiKeyPrincipal_same: "readApiKeyPrincipal lookup d = Inr (r, d') \<Longrightarrow> d' = d"
  by (simp add: readApiKeyPrincipal_def getsT_apply)

lemma organizationMembershipRole_Inr:
  "organizationMembershipRole org actor d = Inr (r, d') \<longleftrightarrow> d' = d \<and>
     r = (if truthy actor \<and> (role_of d org (the actor) = Some ''admin'' \<or> role_of d org (the actor) = Some ''member'')
          then role_of d org (the actor) else None)"
  by (auto simp: organizationMembershipRole_def returnT_apply getsT_apply split: option.splits)

end
