(* ===== verification/Authorization.thy ===== *)
theory Authorization
  imports Identity
begin

text \<open>
  Which principal may call which route (\<open>apps/api/src/authorization.ts\<close>): the table of
  permissions, built in the order of the source (a later entry for the same route replaces an
  earlier one, as in a \<open>Map\<close>), and the decision made before every handler.
\<close>

section \<open>The permission table\<close>

record route_permission =
  rp_scopes :: "string list"
  human_only :: bool
  admin_only :: bool

definition add_routes :: "string \<Rightarrow> string list \<Rightarrow> route_permission \<Rightarrow> (string \<times> route_permission) list" where
  "add_routes meth paths permission = map (\<lambda>path. (meth @ '' '' @ path, permission)) paths"

definition with_scopes :: "string list \<Rightarrow> route_permission" where
  "with_scopes scopes = \<lparr>rp_scopes = scopes, human_only = False, admin_only = False\<rparr>"

definition humans :: route_permission where
  "humans = \<lparr>rp_scopes = [], human_only = True, admin_only = False\<rparr>"

definition admins :: route_permission where
  "admins = \<lparr>rp_scopes = [], human_only = True, admin_only = True\<rparr>"

definition accountRoutes :: "(string \<times> route_permission) list" where
  "accountRoutes =
     add_routes ''GET'' [''/v1/me''] humans @
     add_routes ''POST'' [''/v1/me/onboarding/complete''] humans @
     concat (map (\<lambda>m. add_routes m [''/v1/api-keys''] humans) [''GET'', ''POST'']) @
     add_routes ''DELETE'' [''/v1/api-keys/:id''] humans @
     add_routes ''GET'' [''/v1/org/settings'', ''/v1/org/capacity'', ''/v1/usage'', ''/v1/usage/history''] (with_scopes [''org:read'']) @
     add_routes ''PATCH'' [''/v1/org/settings''] admins @
     add_routes ''GET'' [''/v1/org/members''] admins @
     add_routes ''POST'' [''/v1/org/members'', ''/v1/org/invitations'', ''/v1/org/invitations/:id/resend'',
       ''/v1/org/invitations/:id/cancel''] admins @
     add_routes ''DELETE'' [''/v1/org/members/:id''] admins @
     add_routes ''GET'' [''/v1/audit-events''] (with_scopes [''audit:read''])"

definition templateRoutes :: "(string \<times> route_permission) list" where
  "templateRoutes =
     add_routes ''GET'' [''/v1/templates'', ''/v1/templates/:id'', ''/v1/templates/:id/versions'', ''/v1/template-builds'',
       ''/v1/template-builds/:id'', ''/v1/template-builds/:id/logs''] (with_scopes [''templates:read'']) @
     add_routes ''POST'' [''/v1/templates'', ''/v1/templates/:id/builds'', ''/v1/templates/:id/promote'',
       ''/v1/templates/:id/archive'', ''/v1/template-builds/:id/context'', ''/v1/template-builds/:id/cancel'',
       ''/v1/template-builds/:id/retry''] (with_scopes [''templates:write'']) @
     add_routes ''PATCH'' [''/v1/templates/:id/egress''] (with_scopes [''templates:write'']) @
     add_routes ''GET'' [''/v1/registry-credentials''] (with_scopes [''registry:manage'']) @
     add_routes ''POST'' [''/v1/registry-credentials''] (with_scopes [''registry:manage'']) @
     add_routes ''DELETE'' [''/v1/registry-credentials/:id''] (with_scopes [''registry:manage''])"

definition sandboxPath :: "string \<Rightarrow> string" where
  "sandboxPath path = ''/v1/sandboxes/:id/'' @ path"

definition sandboxRoutes :: "(string \<times> route_permission) list" where
  "sandboxRoutes =
     add_routes ''GET'' [''/v1/workspaces'', ''/v1/workspaces/:id''] (with_scopes [''workspaces:read'']) @
     add_routes ''POST'' [''/v1/workspaces'', ''/v1/workspaces/:id/archive''] (with_scopes [''workspaces:write'']) @
     add_routes ''GET'' [''/v1/sandboxes'', ''/v1/sandboxes/:id'', ''/v1/snapshots'', ''/v1/snapshots/:snapshotId'',
       ''/v1/runtime/capabilities''] (with_scopes [''sandboxes:read'']) @
     add_routes ''GET'' [''/v1/sandboxes/:id/readiness''] (with_scopes [''sandboxes:read'']) @
     add_routes ''POST'' [''/v1/sandboxes'', ''/v1/sandboxes/:id/pause'', ''/v1/sandboxes/:id/resume'',
       ''/v1/sandboxes/:id/snapshots'', ''/v1/sandboxes/:id/renew''] (with_scopes [''sandboxes:write'']) @
     add_routes ''DELETE'' [''/v1/sandboxes/:id'', ''/v1/snapshots/:snapshotId''] (with_scopes [''sandboxes:write'']) @
     add_routes ''PATCH'' [''/v1/sandboxes/:id/source''] (with_scopes [''sandboxes:write'']) @
     add_routes ''GET'' (map sandboxPath [''commands'', ''commands/:commandId'', ''commands/:commandId/logs'',
       ''commands/:commandId/events'', ''logs'', ''files'', ''files/stat'', ''files/read'', ''files/download'', ''metrics'',
       ''egress'', ''routes'']) (with_scopes [''sandboxes:read'']) @
     add_routes ''POST'' (map sandboxPath [''run'', ''commands'', ''command-sessions'', ''command-sessions/:sessionId/run'',
       ''files/upload'', ''files/mkdir'', ''files/rename'', ''egress/test'', ''routes'', ''terminal/attach-ticket''])
       (with_scopes [''sandboxes:write'']) @
     add_routes ''PUT'' [''/v1/sandboxes/:id/files''] (with_scopes [''sandboxes:write'']) @
     add_routes ''PATCH'' [''/v1/sandboxes/:id/egress''] (with_scopes [''sandboxes:write'']) @
     add_routes ''DELETE'' (map sandboxPath [''commands/:commandId'', ''command-sessions/:sessionId'', ''files'', ''routes/:port''])
       (with_scopes [''sandboxes:write'']) @
     add_routes ''GET'' [''/v1/sandboxes/:id/terminal/attach''] (with_scopes [''sandboxes:write''])"

definition resourceRoutes :: "string \<Rightarrow> (string \<times> route_permission) list" where
  "resourceRoutes resource =
     add_routes ''GET'' [''/v1/'' @ resource, ''/v1/'' @ resource @ ''/:id''] (with_scopes [''credentials:use'']) @
     add_routes ''POST'' ((''/v1/'' @ resource) # map (\<lambda>action. ''/v1/'' @ resource @ ''/:id/'' @ action)
       ([''enable'', ''disable''] @ (if resource = ''credential-secrets'' then [''rotate''] else [''validate''])))
       (with_scopes [''credentials:manage'']) @
     add_routes ''PATCH'' [''/v1/'' @ resource @ ''/:id''] (with_scopes [''credentials:manage'']) @
     add_routes ''DELETE'' [''/v1/'' @ resource @ ''/:id''] (with_scopes [''credentials:manage''])"

definition credentialRoutes :: "(string \<times> route_permission) list" where
  "credentialRoutes =
     add_routes ''GET'' [''/v1/credential-presets'', ''/v1/credential-presets/:id''] (with_scopes [''credentials:use'']) @
     concat (map resourceRoutes [''credential-secrets'', ''external-secret-references'', ''dynamic-credential-issuers'']) @
     add_routes ''GET'' [''/v1/sandboxes/:id/credentials''] (with_scopes [''sandboxes:read'', ''credentials:use'']) @
     add_routes ''POST'' (map sandboxPath [''credentials'', ''credentials/inspect'', ''credentials/rehydrate'',
       ''credentials/:attachmentId/refresh'', ''credentials/:attachmentId/test'']) (with_scopes [''sandboxes:write'', ''credentials:use'']) @
     add_routes ''DELETE'' [''/v1/sandboxes/:id/credentials/:attachmentId''] (with_scopes [''sandboxes:write'', ''credentials:use''])"

definition permissions :: "(string \<times> route_permission) list" where
  "permissions = accountRoutes @ templateRoutes @ sandboxRoutes @ credentialRoutes"

text \<open>The path is undefined when no route matched.\<close>

definition routePermission :: "string \<Rightarrow> string option \<Rightarrow> route_permission option" where
  "routePermission meth path =
     map_of (rev permissions) ((if meth = ''HEAD'' then ''GET'' else meth) @ '' '' @ or_else path ''undefined'')"

section \<open>The decision\<close>

fun hasScope :: "auth_context \<Rightarrow> string \<Rightarrow> bool" where
  "hasScope (Human p src u role) scope \<longleftrightarrow>
     role = Some ''admin'' \<or> (role = Some ''member'' \<and> scope \<in> set defaultApiKeyScopes)"
| "hasScope (KeyAuth p k scopes) scope \<longleftrightarrow>
     scope \<in> set scopes \<or> (scope = ''credentials:use'' \<and> ''credentials:manage'' \<in> set scopes)"

fun is_key :: "auth_context \<Rightarrow> bool" where
  "is_key (Human p src u role) = False"
| "is_key (KeyAuth p k scopes) = True"

fun auth_role :: "auth_context \<Rightarrow> string option" where
  "auth_role (Human p src u role) = role"
| "auth_role (KeyAuth p k scopes) = None"

definition permits :: "auth_context \<Rightarrow> route_permission option \<Rightarrow> bool" where
  "permits auth permission = (case permission of
     None \<Rightarrow> False
   | Some rp \<Rightarrow>
       if is_key auth \<and> (human_only rp \<or> admin_only rp) then False
       else if \<not> is_key auth \<and> auth_role auth \<noteq> Some ''admin'' \<and> auth_role auth \<noteq> Some ''member'' then False
       else if admin_only rp \<and> auth_role auth \<noteq> Some ''admin'' then False
       else list_all (hasScope auth) (rp_scopes rp))"

text \<open>\<open>authorizeRequest\<close>: the message of the 403 answer, or none when the request goes on.\<close>

definition authorizeRequest :: "auth_context \<Rightarrow> string \<Rightarrow> string option \<Rightarrow> js \<Rightarrow> string option" where
  "authorizeRequest auth meth url body =
    (if \<not> permits auth (routePermission meth url) then
       Some ''Your identity does not have permission for this operation.''
     else if meth = ''POST'' \<and> url = Some ''/v1/sandboxes'' then
       let m = (case body of JObj m \<Rightarrow> m | _ \<Rightarrow> []) in
       if ((js_nonempty (field m ''credentials'') \<or> js_nonempty (field m ''credentialMappings'')) \<and> \<not> hasScope auth ''credentials:use'') \<or>
          (js_truthy (field m ''workspaceId'') \<and> \<not> hasScope auth ''workspaces:write'')
       then Some ''Credential use and workspace attachment require their corresponding scopes.''
       else None
     else None)"

section \<open>Keys and their creators\<close>

lemma manage_is_admin: "''credentials:manage'' \<in> set (allowedApiKeyScopes role) \<Longrightarrow> role = ''admin''"
  by (auto simp: allowedApiKeyScopes_def defaultApiKeyScopes_def split: if_splits)

lemma allowed_role:
  "s \<in> set (allowedApiKeyScopes role) \<Longrightarrow> role = ''admin'' \<or> (role = ''member'' \<and> s \<in> set defaultApiKeyScopes)"
  by (auto simp: allowedApiKeyScopes_def split: if_splits)

lemma key_scope_within:
  assumes "set scopes \<subseteq> set (allowedApiKeyScopes role)" and "hasScope (KeyAuth p k scopes) s"
  shows "hasScope (Human p' src u (Some role)) s"
  using assms allowed_role [of s role] manage_is_admin [of role] by auto

lemma key_permits_within:
  assumes "set scopes \<subseteq> set (allowedApiKeyScopes role)" and "role = ''admin'' \<or> role = ''member''"
    and "permits (KeyAuth p k scopes) rp"
  shows "permits (Human p' src u (Some role)) rp"
proof -
  from assms(3) obtain q where q: "rp = Some q" "\<not> human_only q" "\<not> admin_only q"
      "list_all (hasScope (KeyAuth p k scopes)) (rp_scopes q)"
    by (auto simp: permits_def split: option.splits if_splits)
  from q(4) key_scope_within [OF assms(1)] have "list_all (hasScope (Human p' src u (Some role))) (rp_scopes q)"
    unfolding list_all_iff by blast
  with q assms(2) show ?thesis by (simp add: permits_def)
qed

text \<open>
  C26. A key never does more than its creator. When the principal read for a key passes the
  authorization of a request, then the key is not revoked and not expired, and a person with the
  role its creator holds in that organization at that moment (a plain member, for a legacy key)
  would pass the authorization of the same request; so demoting or removing the creator takes the
  rights of all his keys with it.
\<close>

theorem key_within_creator:
  assumes "readApiKeyPrincipal lookup d = Inr (Some (KeyAuth p k scopes), d')"
    and "authorizeRequest (KeyAuth p k scopes) meth url body = None"
  shows "\<exists>row role. row \<in> set (api_keys d) \<and> ak_id row = k \<and> ak_org row = p_org p \<and> ak_revoked_at row = None \<and>
    (case ak_expires_at row of None \<Rightarrow> ak_legacy row | Some t \<Rightarrow> id_clock d < t) \<and>
    (if ak_legacy row then role = ''member'' else creator_role d row = Some role) \<and>
    authorizeRequest (Human p src u (Some role)) meth url body = None"
proof -
  from assms(1) obtain row where row: "row \<in> set (api_keys d)" "key_valid d row" "k = ak_id row"
      "p = \<lparr>p_org = ak_org row, p_label = ''api-key:'' @ ak_id row, p_expires = ak_expires_at row, p_subject = None\<rparr>"
      "scopes \<noteq> []" "ak_legacy row \<or> ak_expires_at row \<noteq> None" "scopes = effectiveApiKeyScopes (if ak_legacy row then defaultApiKeyScopes else ak_scopes row)
         (if ak_legacy row then ''member'' else or_else (creator_role d row) [])"
    by (elim readApiKeyPrincipal_Some) simp
  define role where "role = (if ak_legacy row then ''member'' else or_else (creator_role d row) [])"
  from row(2) have role: "role = ''admin'' \<or> role = ''member''" "\<not> ak_legacy row \<Longrightarrow> creator_role d row = Some role"
    by (auto simp: key_valid_def role_def or_else_def)
  have sub: "set scopes \<subseteq> set (allowedApiKeyScopes role)"
    unfolding row(7) role_def [symmetric] using effective_subset by blast
  note within = key_scope_within [OF sub, of p k _ p src u]
  from assms(2) have "permits (KeyAuth p k scopes) (routePermission meth url)"
    by (auto simp: authorizeRequest_def split: if_splits)
  from key_permits_within [OF sub role(1) this]
  have "permits (Human p src u (Some role)) (routePermission meth url)" .
  with assms(2) within have pass: "authorizeRequest (Human p src u (Some role)) meth url body = None"
    unfolding authorizeRequest_def Let_def by (simp split: if_splits) blast
  show ?thesis
    using pass row role by (intro exI [of _ row] exI [of _ role]) (auto simp: key_valid_def role_def split: option.splits)
qed

section \<open>Read-only keys\<close>

definition readScopes :: "string list" where
  "readScopes = filter (ends_with '':read'') apiKeyScopes"

definition safe_entry :: "string \<times> route_permission \<Rightarrow> bool" where
  "safe_entry e \<longleftrightarrow> takeWhile (\<lambda>c. c \<noteq> CHR '' '') (fst e) = ''GET'' \<or> human_only (snd e) \<or>
     list_ex (\<lambda>s. s \<notin> set readScopes) (rp_scopes (snd e))"

lemma permissions_safe: "list_all safe_entry permissions"
  by code_simp

text \<open>
  A key that only reads changes nothing. Whatever routes there are, a request by a key all of
  whose scopes are read scopes passes the authorization only with the methods GET and HEAD.
\<close>

lemma read_keys_cannot_write:
  assumes "set scopes \<subseteq> set readScopes" and "CHR '' '' \<notin> set meth"
    and "authorizeRequest (KeyAuth p k scopes) meth url body = None"
  shows "meth = ''GET'' \<or> meth = ''HEAD''"
proof (rule ccontr)
  assume m: "\<not> (meth = ''GET'' \<or> meth = ''HEAD'')"
  from assms(3) have "permits (KeyAuth p k scopes) (routePermission meth url)"
    by (auto simp: authorizeRequest_def split: if_splits)
  then obtain rp where rp: "routePermission meth url = Some rp" "\<not> human_only rp"
      "list_all (hasScope (KeyAuth p k scopes)) (rp_scopes rp)"
    by (auto simp: permits_def split: option.splits if_splits)
  from rp(1) m have "(meth @ '' '' @ or_else url ''undefined'', rp) \<in> set permissions"
    by (auto simp: routePermission_def dest: map_of_SomeD)
  with permissions_safe have "safe_entry (meth @ '' '' @ or_else url ''undefined'', rp)"
    by (auto simp: list_all_iff)
  moreover from assms(2) have "takeWhile (\<lambda>c. c \<noteq> CHR '' '') (meth @ '' '' @ or_else url ''undefined'') = meth"
    by (subst takeWhile_append2) auto
  ultimately obtain s where s: "s \<in> set (rp_scopes rp)" "s \<notin> set readScopes"
    using m rp(2) by (auto simp: safe_entry_def list_ex_iff)
  with rp(3) have "hasScope (KeyAuth p k scopes) s" by (auto simp: list_all_iff)
  moreover have "''credentials:manage'' \<notin> set readScopes" by code_simp
  ultimately show False using s(2) assms(1) by auto
qed

end
