(* ===== verification/ApiKeys.thy ===== *)
theory ApiKeys
  imports Authorization
begin

text \<open>
  API keys (\<open>apps/api/src/services/api-keys.ts\<close>, \<open>createApiKey\<close> and \<open>hashApiKey\<close> of
  \<open>crypto.ts\<close>): listing, creation and revocation. Every query is a statement of its own, so
  other work may come between the check of the actor's role and the write. The hash function and
  \<open>Date.parse\<close> are parameters.
\<close>

record key_env =
  sha256_hex :: "string \<Rightarrow> string"
  parse_date :: "string \<Rightarrow> int option"

definition hashApiKey :: "key_env \<Rightarrow> string \<Rightarrow> string" where
  "hashApiKey env key = sha256_hex env key"

record new_key =
  nk_token :: string
  nk_prefix :: string
  nk_last_four :: string
  nk_hash :: string

definition createApiKey :: "key_env \<Rightarrow> string \<Rightarrow> new_key idtx" where
  "createApiKey env mode = bindT id_draw (\<lambda>v.
     let token = ''hk_'' @ mode @ ''_'' @ v in
     returnT \<lparr>nk_token = token, nk_prefix = take 12 token, nk_last_four = drop (length token - 4) token,
       nk_hash = hashApiKey env token\<rparr>)"

text \<open>\<open>ApiKeySummary\<close>: the row without its hash.\<close>

record api_key_summary =
  kn_id :: string
  kn_name :: string
  kn_prefix :: string
  kn_last_four :: string
  kn_created_at :: time
  kn_used_at :: "time option"
  kn_revoked_at :: "time option"
  kn_scopes :: "string list"
  kn_expires_at :: "time option"
  kn_creator :: "string option"
  kn_legacy :: bool

definition mapApiKey :: "key_row \<Rightarrow> api_key_summary" where
  "mapApiKey k = \<lparr>kn_id = ak_id k, kn_name = ak_name k, kn_prefix = ak_prefix k, kn_last_four = ak_last_four k,
     kn_created_at = ak_created_at k, kn_used_at = ak_used_at k, kn_revoked_at = ak_revoked_at k,
     kn_scopes = ak_scopes k, kn_expires_at = ak_expires_at k, kn_creator = ak_creator k, kn_legacy = ak_legacy k\<rparr>"

definition requireKeyOwner :: "string \<Rightarrow> string option \<Rightarrow> ('p, string) idproc" where
  "requireKeyOwner org actor =
     bindP (atomic (organizationMembershipRole org actor)) (\<lambda>role.
     if role \<noteq> Some ''admin'' \<and> role \<noteq> Some ''member'' then
       throwP (AuthorizationError 403 ''forbidden'' ''A current organization member is required to manage API keys.'')
     else retP (the role))"

text \<open>The keys an actor sees or may revoke: all of the organization for an admin, else his own.\<close>

definition own_key :: "string \<Rightarrow> string \<Rightarrow> string option \<Rightarrow> key_row \<Rightarrow> bool" where
  "own_key org role actor k \<longleftrightarrow> ak_org k = org \<and> (role = ''admin'' \<or> (actor \<noteq> None \<and> ak_creator k = actor))"

definition listApiKeys :: "string \<Rightarrow> string option \<Rightarrow> ('p, api_key_summary list) idproc" where
  "listApiKeys org actor =
     bindP (requireKeyOwner org actor) (\<lambda>role.
     bindP (atomic (getsT (\<lambda>d. sort_key (\<lambda>k. - ak_created_at k) (filter (own_key org role actor) (api_keys d))))) (\<lambda>rows.
     retP (map mapApiKey rows)))"

definition insert_key :: "key_row \<Rightarrow> unit idtx" where
  "insert_key k = (\<lambda>d.
     if \<exists>q \<in> set (api_keys d). ak_id q = ak_id k \<or> ak_hash q = ak_hash k then Inl unique_violation
     else if \<not> (\<exists>g \<in> set (account_orgs d). g_id g = ak_org k) \<or>
       (case ak_creator k of None \<Rightarrow> False | Some u \<Rightarrow> \<not> (\<exists>x \<in> set (users d). u_id x = u)) then Inl foreign_key_violation
     else Inr ((), d\<lparr>api_keys := api_keys d @ [k]\<rparr>))"

definition key_lifetime :: "key_env \<Rightarrow> time \<Rightarrow> string option \<Rightarrow> int option" where
  "key_lifetime env t expiresAt = (if truthy expiresAt then parse_date env (the expiresAt)
     else Some (t + apiKeyDefaultLifetimeDays * 86400000))"

definition expiry_ok :: "time \<Rightarrow> int option \<Rightarrow> bool" where
  "expiry_ok t e = (case e of None \<Rightarrow> False | Some x \<Rightarrow> t < x \<and> x \<le> t + apiKeyMaxLifetimeDays * 86400000)"

definition id_date :: "('p, time) idproc" where
  "id_date = (\<lambda>w. (Inr (id_clock (wdb w)), w))"

definition store_key ::
    "key_env \<Rightarrow> string \<Rightarrow> string option \<Rightarrow> string \<Rightarrow> string list \<Rightarrow> int option \<Rightarrow> (key_row \<times> string) idtx" where
  "store_key env org actor name scopes expiry =
     bindT (createApiKey env ''live'') (\<lambda>key.
     bindT id_draw (\<lambda>i.
     bindT id_now (\<lambda>created.
     let row = \<lparr>ak_id = i, ak_org = org, ak_name = name, ak_hash = nk_hash key, ak_prefix = nk_prefix key,
       ak_last_four = nk_last_four key, ak_created_at = created, ak_used_at = None, ak_revoked_at = None,
       ak_creator = actor, ak_scopes = scopes, ak_expires_at = expiry, ak_legacy = False\<rparr> in
     bindT (insert_key row) (\<lambda>_. returnT (row, nk_token key)))))"

definition createApiKeyRecord ::
    "key_env \<Rightarrow> string \<Rightarrow> string option \<Rightarrow> string \<Rightarrow> string list option \<Rightarrow> string option \<Rightarrow>
     ('p, api_key_summary \<times> string) idproc" where
  "createApiKeyRecord env org actor name scopes expiresAt =
     bindP (requireKeyOwner org actor) (\<lambda>role.
     let requested = or_else scopes defaultApiKeyScopes; allowed = allowedApiKeyScopes role in
     bindP (requireP (requested \<noteq> [] \<and> list_all (\<lambda>s. s \<in> set allowed) requested)
       (AuthorizationError 403 ''forbidden'' ''The requested API-key scopes exceed your permissions.'')) (\<lambda>_.
     let granted = filter (\<lambda>s. s \<in> set requested) allowed in
     bindP id_date (\<lambda>t.
     let expiry = key_lifetime env t expiresAt in
     bindP (requireP (expiry_ok t expiry)
       (AuthorizationError 400 ''validation_error'' ''Key expiry must be in the future and within 365 days.'')) (\<lambda>_.
     bindP (requireP (trim name \<noteq> [] \<and> length (trim name) \<le> 100)
       (AuthorizationError 400 ''validation_error'' ''Key name must contain 1 to 100 characters.'')) (\<lambda>_.
     bindP (atomic (store_key env org actor (trim name) granted expiry)) (\<lambda>(row, token).
     retP (mapApiKey row, token)))))))"

definition revoke_row :: "time \<Rightarrow> key_row \<Rightarrow> key_row" where
  "revoke_row t k = k\<lparr>ak_revoked_at := coalesce (ak_revoked_at k) (Some t)\<rparr>"

definition revokeApiKey :: "string \<Rightarrow> string option \<Rightarrow> string \<Rightarrow> ('p, bool) idproc" where
  "revokeApiKey org actor i =
     bindP (requireKeyOwner org actor) (\<lambda>role.
     bindP (atomic (bindT id_now (\<lambda>t. upd_api_keys (\<lambda>k. ak_id k = i \<and> own_key org role actor k) (revoke_row t)))) (\<lambda>rowCount.
     retP (rowCount \<noteq> 0)))"

section \<open>A created key\<close>

lemma mapApiKey_simps [simp]:
  "kn_id (mapApiKey k) = ak_id k" "kn_scopes (mapApiKey k) = ak_scopes k" "kn_expires_at (mapApiKey k) = ak_expires_at k"
  "kn_name (mapApiKey k) = ak_name k" "kn_creator (mapApiKey k) = ak_creator k"
  by (simp_all add: mapApiKey_def)

lemma bindP_Inr_iff:
  "bindP m f w = (Inr b, w') \<longleftrightarrow> (\<exists>a w1. m w = (Inr a, w1) \<and> f a w1 = (Inr b, w'))"
  by (auto simp: bindP_def split: prod.splits sum.splits)

lemma requireP_Inr_iff: "requireP b e w = (Inr u, w') \<longleftrightarrow> b \<and> w' = w"
  by (auto simp: requireP_def retP_def throwP_def)

lemma id_date_Inr_iff: "id_date w = (Inr t, w') \<longleftrightarrow> t = id_clock (wdb w) \<and> w' = w"
  by (auto simp: id_date_def)

lemma atomic_Inr_iff:
  "atomic m w = (Inr a, w') \<longleftrightarrow> (\<exists>d. m (wdb (interfere w)) = Inr (a, d) \<and> w' = (interfere w)\<lparr>wdb := d\<rparr>)"
  by (auto simp: atomic_def Let_def split: sum.splits prod.splits)

lemma requireKeyOwner_Inr:
  assumes "requireKeyOwner org actor w = (Inr role, w')"
  shows "w' = interfere w \<and> truthy actor \<and> (role = ''admin'' \<or> role = ''member'') \<and> role_of (wdb w') org (the actor) = Some role"
proof -
  from assms obtain r w1 where 1: "atomic (organizationMembershipRole org actor) w = (Inr r, w1)"
      and 2: "(if r \<noteq> Some ''admin'' \<and> r \<noteq> Some ''member'' then
        throwP (AuthorizationError 403 ''forbidden'' ''A current organization member is required to manage API keys.'')
      else retP (the r)) w1 = (Inr role, w')"
    by (auto simp: requireKeyOwner_def bindP_Inr_iff)
  from 2 have "w' = w1" "r = Some role" "role = ''admin'' \<or> role = ''member''"
    by (auto simp: throwP_def retP_def split: if_splits)
  with 1 show ?thesis
    by (auto simp: atomic_Inr_iff organizationMembershipRole_Inr split: if_splits)
qed

lemma store_key_Inr:
  assumes "store_key env org actor name scopes expiry d = Inr ((row, token), d')"
  shows "insert_key row (d\<lparr>id_rand_pos := Suc (Suc (id_rand_pos d))\<rparr>) = Inr ((), d')"
    and "ak_hash row = hashApiKey env token" "ak_org row = org" "ak_name row = name" "ak_creator row = actor"
    "ak_scopes row = scopes" "ak_expires_at row = expiry" "\<not> ak_legacy row" "ak_revoked_at row = None"
  using assms
  by (auto simp: store_key_def createApiKey_def bindT_Inr_iff Let_def id_draw_Inr id_now_Inr returnT_apply)

lemma insert_key_Inr:
  "insert_key k d = Inr (u, d') \<longleftrightarrow> (\<forall>q \<in> set (api_keys d). ak_id q \<noteq> ak_id k \<and> ak_hash q \<noteq> ak_hash k) \<and>
     (\<exists>g \<in> set (account_orgs d). g_id g = ak_org k) \<and>
     (case ak_creator k of None \<Rightarrow> True | Some u \<Rightarrow> \<exists>x \<in> set (users d). u_id x = u) \<and>
     d' = d\<lparr>api_keys := api_keys d @ [k]\<rparr>"
  by (auto simp: insert_key_def split: option.splits)

text \<open>What a creation that succeeds has stored.\<close>

lemma createApiKeyRecord_Inr:
  assumes "createApiKeyRecord env org actor name scopes expiresAt w = (Inr (summary, token), w')"
  obtains row x role t d n where "summary = mapApiKey row" "ak_hash row = hashApiKey env token" "ak_org row = org"
    "ak_creator row = actor" "\<not> ak_legacy row" "ak_revoked_at row = None" "ak_expires_at row = Some x"
    "t < x" "x \<le> t + 365 * 86400000" "role = ''admin'' \<or> role = ''member''"
    "ak_scopes row = filter (\<lambda>s. s \<in> set (or_else scopes defaultApiKeyScopes)) (allowedApiKeyScopes role)"
    "set (or_else scopes defaultApiKeyScopes) \<subseteq> set (allowedApiKeyScopes role)" "or_else scopes defaultApiKeyScopes \<noteq> []"
    "truthy actor" "role_of (wdb (interfere w)) org (the actor) = Some role" "t = id_clock (wdb (interfere w))"
    "\<forall>q \<in> set (api_keys d). ak_id q \<noteq> ak_id row \<and> ak_hash q \<noteq> ak_hash row"
    "wdb w' = d\<lparr>api_keys := api_keys d @ [row]\<rparr>" "d = (wdb (interfere (interfere w)))\<lparr>id_rand_pos := n\<rparr>"
    "ak_name row = trim name" "trim name \<noteq> []" "length (trim name) \<le> 100"
proof -
  let ?requested = "or_else scopes defaultApiKeyScopes"
  note unfolded = assms [unfolded createApiKeyRecord_def Let_def bindP_Inr_iff requireP_Inr_iff id_date_Inr_iff]
  from unfolded obtain role w1 t row tk w2 where own: "requireKeyOwner org actor w = (Inr role, w1)"
    and checks: "?requested \<noteq> []" "list_all (\<lambda>s. s \<in> set (allowedApiKeyScopes role)) ?requested"
      "expiry_ok t (key_lifetime env t expiresAt)" "trim name \<noteq> []" "length (trim name) \<le> 100" "t = id_clock (wdb w1)"
    and tx: "atomic (store_key env org actor (trim name) (filter (\<lambda>s. s \<in> set ?requested) (allowedApiKeyScopes role))
        (key_lifetime env t expiresAt)) w1 = (Inr (row, tk), w2)" "w2 = w'" "mapApiKey row = summary" "tk = token"
    by (auto simp: retP_def)
  from requireKeyOwner_Inr [OF own] have w1: "w1 = interfere w" "truthy actor" "role = ''admin'' \<or> role = ''member''"
    "role_of (wdb (interfere w)) org (the actor) = Some role" by auto
  from checks(3) obtain x where x: "key_lifetime env t expiresAt = Some x" "t < x" "x \<le> t + 365 * 86400000"
    by (auto simp: expiry_ok_def apiKeyMaxLifetimeDays_def split: option.splits)
  from tx(1,2) obtain d where d: "store_key env org actor (trim name) (filter (\<lambda>s. s \<in> set ?requested) (allowedApiKeyScopes role))
      (key_lifetime env t expiresAt) (wdb (interfere w1)) = Inr ((row, tk), d)" "wdb w' = d"
    by (auto simp: atomic_Inr_iff)
  note stored = store_key_Inr [OF d(1)]
  from stored(1) d(2) have "\<forall>q \<in> set (api_keys (wdb (interfere w1))). ak_id q \<noteq> ak_id row \<and> ak_hash q \<noteq> ak_hash row"
    "wdb w' = (wdb (interfere w1))\<lparr>id_rand_pos := Suc (Suc (id_rand_pos (wdb (interfere w1)))),
       api_keys := api_keys (wdb (interfere w1)) @ [row]\<rparr>"
    by (auto simp: insert_key_Inr)
  with stored(2-) w1 checks x tx(3,4) show thesis
    by (intro that [where d = "(wdb (interfere w1))\<lparr>id_rand_pos := Suc (Suc (id_rand_pos (wdb (interfere w1))))\<rparr>"])
      (simp_all add: list_all_iff subset_eq)
qed

text \<open>
  C29. A created API key is what was asked for. A creation that succeeds, whatever happened
  between its steps, was made for a current admin or member, stores one key of his with exactly
  the requested scopes, all of them within his role, expiring within a year, under the hash of
  the token it returns; and that token then authenticates as this key, for as long as it is not
  expired, with the requested scopes the creator's role still allows, and as nothing else.
\<close>

theorem created_key_authenticates:
  assumes "createApiKeyRecord env org actor name scopes expiresAt w = (Inr (summary, token), w')"
  shows "\<exists>row x granted. row \<in> set (api_keys (wdb w')) \<and> summary = mapApiKey row \<and> ak_org row = org \<and> ak_creator row = actor \<and>
    (\<exists>role. role_of (wdb (interfere w)) org (the actor) = Some role \<and> set (ak_scopes row) \<subseteq> set (allowedApiKeyScopes role)) \<and>
    set (ak_scopes row) = set (or_else scopes defaultApiKeyScopes) \<and> ak_expires_at row = Some x \<and>
    id_clock (wdb (interfere w)) < x \<and> x \<le> id_clock (wdb (interfere w)) + 365 * 86400000 \<and>
    granted = effectiveApiKeyScopes (ak_scopes row) (or_else (creator_role (wdb w') row) []) \<and>
    readApiKeyPrincipal (ByHash (hashApiKey env token)) (wdb w') = Inr
      (if id_clock (wdb w') < x \<and> granted \<noteq> []
       then Some (KeyAuth \<lparr>p_org = org, p_label = ''api-key:'' @ ak_id row, p_expires = Some x, p_subject = None\<rparr> (ak_id row) granted)
       else None, wdb w')"
proof -
  from assms obtain row x role t d n where row: "summary = mapApiKey row" "ak_hash row = hashApiKey env token" "ak_org row = org"
    "ak_creator row = actor" "\<not> ak_legacy row" "ak_revoked_at row = None" "ak_expires_at row = Some x"
    "t < x" "x \<le> t + 365 * 86400000"
    "ak_scopes row = filter (\<lambda>s. s \<in> set (or_else scopes defaultApiKeyScopes)) (allowedApiKeyScopes role)"
    "set (or_else scopes defaultApiKeyScopes) \<subseteq> set (allowedApiKeyScopes role)"
    "role_of (wdb (interfere w)) org (the actor) = Some role" "t = id_clock (wdb (interfere w))"
    "\<forall>q \<in> set (api_keys d). ak_id q \<noteq> ak_id row \<and> ak_hash q \<noteq> ak_hash row"
    "wdb w' = d\<lparr>api_keys := api_keys d @ [row]\<rparr>"
    by (elim createApiKeyRecord_Inr) blast
  define granted where "granted = effectiveApiKeyScopes (ak_scopes row) (or_else (creator_role (wdb w') row) [])"
  have role_ok: "granted \<noteq> [] \<Longrightarrow> creator_role (wdb w') row = Some ''admin'' \<or> creator_role (wdb w') row = Some ''member''"
    by (auto simp: granted_def effectiveApiKeyScopes_def allowedApiKeyScopes_def or_else_def split: option.splits if_splits)
  have own: "filter (\<lambda>k. key_matches (ByHash (hashApiKey env token)) k \<and> key_valid (wdb w') k) (api_keys (wdb w')) =
      (if key_valid (wdb w') row then [row] else [])"
    unfolding arg_cong [OF row(15), of api_keys]
    using row(2,14) by (simp add: filter_empty_conv)
  have valid: "key_valid (wdb w') row \<longleftrightarrow> id_clock (wdb w') < x \<and>
      (creator_role (wdb w') row = Some ''admin'' \<or> creator_role (wdb w') row = Some ''member'')"
    using row(5-7) by (simp add: key_valid_def)
  have "readApiKeyPrincipal (ByHash (hashApiKey env token)) (wdb w') = Inr
      (if id_clock (wdb w') < x \<and> granted \<noteq> []
       then Some (KeyAuth \<lparr>p_org = org, p_label = ''api-key:'' @ ak_id row, p_expires = Some x, p_subject = None\<rparr> (ak_id row) granted)
       else None, wdb w')"
    using role_ok row(3,5,7) unfolding readApiKeyPrincipal_def getsT_apply own valid
    by (auto simp: key_auth_def granted_def [symmetric] Let_def)
  moreover have "set (ak_scopes row) = set (or_else scopes defaultApiKeyScopes)" using row(10,11) by auto
  moreover have "row \<in> set (api_keys (wdb w'))" by (simp add: row(15))
  ultimately show ?thesis
    using row granted_def by (intro exI [of _ row] exI [of _ x] exI [of _ granted] conjI exI [of _ role]) auto
qed

end
