(* ===== verification/Accounts.thy ===== *)
theory Accounts
  imports ApiKeys
begin

text \<open>
  Members and invitations of an organization (\<open>apps/api/src/services/account.ts\<close>). Every query
  is a statement of its own and calls to the identity provider come in between; the provider's
  administration client is a parameter with a state of its own.
\<close>

section \<open>Names\<close>

definition normalizeEmail :: "string \<Rightarrow> string" where
  "normalizeEmail email = to_lower (trim email)"

definition local_part :: "string \<Rightarrow> string" where
  "local_part email = hd (split_on (CHR ''@'') email)"

definition non_empty :: "string \<Rightarrow> string \<Rightarrow> string" where
  "non_empty s d = (if s = [] then d else s)"

definition name_sep :: "char \<Rightarrow> bool" where
  "name_sep c \<longleftrightarrow> c = CHR ''.'' \<or> c = CHR ''_'' \<or> c = CHR ''-''"

text \<open>The maximal runs of characters that are no separators: \<open>split(...).filter(Boolean)\<close>.\<close>

fun pieces :: "(char \<Rightarrow> bool) \<Rightarrow> string \<Rightarrow> string list" where
  "pieces P [] = []"
| "pieces P (c # s) =
    (if P c then pieces P s
     else (case s of [] \<Rightarrow> [[c]]
           | d # _ \<Rightarrow> if P d then [c] # pieces P s
               else (case pieces P s of [] \<Rightarrow> [[c]] | w # ws \<Rightarrow> (c # w) # ws)))"

definition capitalize :: "string \<Rightarrow> string" where
  "capitalize part = to_upper (take 1 part) @ drop 1 part"

definition displayNameFromEmail :: "string \<Rightarrow> string" where
  "displayNameFromEmail email =
     non_empty (join_with (CHR '' '') (map capitalize (pieces name_sep (non_empty (local_part email) email)))) email"

definition splitEmailName :: "string \<Rightarrow> string \<times> string" where
  "splitEmailName email =
    (let label = displayNameFromEmail email in
     case pieces js_space label of
       [] \<Rightarrow> (label, [])
     | first # rest \<Rightarrow> (first, join_with (CHR '' '') rest))"

section \<open>Views\<close>

datatype person_actions = Actions (can_resend: bool) (can_cancel: bool) (can_remove: bool)

text \<open>\<open>OrganizationMemberSummary\<close>: a member or an invitation.\<close>

datatype member_summary =
    MemberView member_row user_row person_actions
  | InvitationView invitation_row invitation_status person_actions

definition mapMember :: "member_row \<Rightarrow> user_row \<Rightarrow> string option \<Rightarrow> nat \<Rightarrow> member_summary" where
  "mapMember m u actor adminCount = MemberView m u
     (Actions False False (Some (m_user m) \<noteq> actor \<and> \<not> (m_role m = ''admin'' \<and> adminCount \<le> 1)))"

definition isExpired :: "time \<Rightarrow> time option \<Rightarrow> bool" where
  "isExpired t x = (case x of None \<Rightarrow> False | Some e \<Rightarrow> e \<le> t)"

definition open_invitation :: "invitation_status \<Rightarrow> bool" where
  "open_invitation st \<longleftrightarrow> st = IvPending \<or> st = IvSent \<or> st = IvSendFailed"

definition mapInvitation :: "time \<Rightarrow> invitation_row \<Rightarrow> member_summary" where
  "mapInvitation t i =
    (let st = (if open_invitation (iv_status i) \<and> isExpired t (iv_expires_at i) then IvExpired else iv_status i) in
     InvitationView i st (Actions (st \<in> {IvPending, IvSendFailed, IvExpired})
       (st \<in> {IvPending, IvSent, IvSendFailed, IvExpired}) False))"

definition capabilitiesForRole :: "string \<Rightarrow> bool \<times> bool \<times> bool \<times> bool" where
  "capabilitiesForRole role = (role = ''admin'', role = ''admin'', role = ''admin'', role = ''admin'')"

section \<open>Reading\<close>

text \<open>\<open>membersSelect\<close>: memberships joined with their users.\<close>

definition join_members :: "iddb \<Rightarrow> (member_row \<Rightarrow> user_row \<Rightarrow> bool) \<Rightarrow> (member_row \<times> user_row) list" where
  "join_members d P = concat (map (\<lambda>m. map (\<lambda>u. (m, u)) (filter (\<lambda>u. u_id u = m_user m \<and> P m u) (users d))) (members d))"

definition adminCheck :: "string \<Rightarrow> string option \<Rightarrow> bool idtx" where
  "adminCheck org actor = getsT (\<lambda>d. case actor of None \<Rightarrow> False | Some u \<Rightarrow> role_of d org u = Some ''admin'')"

definition admin_count :: "iddb \<Rightarrow> string \<Rightarrow> nat" where
  "admin_count d org = count_rows (\<lambda>m. m_org m = org \<and> m_role m = ''admin'') (members d)"

definition adminCountForOrg :: "string \<Rightarrow> nat idtx" where
  "adminCountForOrg org = getsT (\<lambda>d. admin_count d org)"

definition fetchMemberByUserId :: "string \<Rightarrow> string \<Rightarrow> string option \<Rightarrow> ('p, member_summary option) idproc" where
  "fetchMemberByUserId org u actor =
     bindP (atomic (getsT (\<lambda>d. first_row (join_members d (\<lambda>m x. m_org m = org \<and> u_id x = u))))) (\<lambda>found.
     case found of
       None \<Rightarrow> retP None
     | Some (m, x) \<Rightarrow> bindP (atomic (adminCountForOrg org)) (\<lambda>n. retP (Some (mapMember m x actor n))))"

definition fetchInvitationRow :: "string \<Rightarrow> string \<Rightarrow> invitation_row option idtx" where
  "fetchInvitationRow org i =
     bindT (sel_invitations (\<lambda>r. iv_org r = org \<and> iv_id r = i)) (\<lambda>rows. returnT (first_row rows))"

datatype account_view = AccountView user_row string "bool \<times> bool \<times> bool \<times> bool" account_org

definition getCurrentAccount :: "string \<Rightarrow> string \<Rightarrow> ('p, account_view) idproc" where
  "getCurrentAccount org user =
     bindP (atomic (getsT (\<lambda>d. first_row (filter (\<lambda>g. g_id g = org) (account_orgs d))))) (\<lambda>g.
     bindP (atomic (getsT (\<lambda>d. first_row (filter (\<lambda>u. u_id u = user) (users d))))) (\<lambda>u.
     bindP (atomic (getsT (\<lambda>d. role_of d org user))) (\<lambda>r.
     case (g, u) of
       (None, _) \<Rightarrow> throwP (PlainError ''organization not found for authenticated request'')
     | (_, None) \<Rightarrow> throwP (PlainError ''user not found for authenticated request'')
     | (Some org_row, Some user_row) \<Rightarrow>
         let role = or_else r ''member'' in
         retP (AccountView user_row role (capabilitiesForRole role) org_row))))"

datatype 'a answer = Answer 'a | Forbidden | NotFound | LastAdmin | SelfRemove

definition listOrganizationMembers :: "string \<Rightarrow> string \<Rightarrow> ('p, member_summary list answer) idproc" where
  "listOrganizationMembers org actor =
     bindP (atomic (adminCheck org (Some actor))) (\<lambda>ok.
     if \<not> ok then retP Forbidden
     else
       bindP (atomic (adminCountForOrg org)) (\<lambda>n.
       bindP (atomic (getsT (\<lambda>d. sort_key (\<lambda>(m, u). if m_role m = ''admin'' then 0 else 1 :: nat)
         (sort_key (\<lambda>(m, u). m_joined m) (join_members d (\<lambda>m u. m_org m = org)))))) (\<lambda>ms.
       bindP (atomic (getsT (\<lambda>d. sort_key iv_created_at
         (filter (\<lambda>i. iv_org i = org \<and> open_invitation (iv_status i)) (invitations d))))) (\<lambda>is.
       bindP id_date (\<lambda>t.
       retP (Answer (map (\<lambda>(m, u). mapMember m u (Some actor) n) ms @ map (mapInvitation t) is)))))))"
section \<open>Writing\<close>

text \<open>
  \<open>INSERT INTO users ... ON CONFLICT (email) DO UPDATE ... WHERE may RETURNING id\<close>: the row's
  identity, or none when the update's condition excludes the existing row. Subjects are unique.
\<close>

definition save_user :: "(user_row \<Rightarrow> bool) \<Rightarrow> bool \<Rightarrow> string \<Rightarrow> string \<Rightarrow> string \<Rightarrow> string option idtx" where
  "save_user may touch email name subject = bindT id_draw (\<lambda>i. \<lambda>d.
     case first_row (filter (\<lambda>u. u_email u = email) (users d)) of
       None \<Rightarrow>
         if \<exists>u \<in> set (users d). u_subject u = Some subject \<or> u_id u = i then Inl unique_violation
         else Inr (Some i, d\<lparr>users := users d @ [\<lparr>u_id = i, u_email = email, u_name = name, u_subject = Some subject,
           u_onboarded = None, u_updated_at = id_clock d\<rparr>]\<rparr>)
     | Some u \<Rightarrow>
         if \<not> may u then Inr (None, d)
         else if \<exists>q \<in> set (users d). u_email q \<noteq> email \<and> u_subject q = Some subject then Inl unique_violation
         else Inr (Some (u_id u), d\<lparr>users := update_rows (\<lambda>q. u_email q = email)
           (\<lambda>q. q\<lparr>u_name := name, u_subject := Some subject,
                  u_updated_at := if touch then id_clock d else u_updated_at q\<rparr>) (users d)\<rparr>))"

record keycloak_user =
  kc_id :: string
  kc_email :: string
  kc_first :: string
  kc_last :: string

text \<open>\<open>KeycloakAdminClient\<close> over a state \<open>'p\<close> of its own; the redirect and lifespan of the mail are fixed by the configuration.\<close>

record 'p keycloak_admin =
  findUserByEmail :: "string \<Rightarrow> 'p \<Rightarrow> (string + keycloak_user option) \<times> 'p"
  createUser :: "string \<Rightarrow> string \<times> string \<Rightarrow> 'p \<Rightarrow> (string + keycloak_user) \<times> 'p"
  executeActionsEmail :: "string \<Rightarrow> string list \<Rightarrow> 'p \<Rightarrow> (string + unit) \<times> 'p"

definition full_name :: "keycloak_user \<Rightarrow> string" where
  "full_name k = trim (join_with (CHR '' '') (filter (\<lambda>s. s \<noteq> []) [kc_first k, kc_last k]))"

definition localUserForKeycloakUser :: "keycloak_user \<Rightarrow> ('p, string) idproc" where
  "localUserForKeycloakUser k =
    (let email = normalizeEmail (kc_email k) in
     bindP (atomic (save_user (\<lambda>u. True) True email (non_empty (full_name k) (displayNameFromEmail email)) (kc_id k))) (\<lambda>saved.
     case saved of None \<Rightarrow> throwP (PlainError ''Cannot read properties of undefined (reading 'id')'') | Some u \<Rightarrow> retP u))"

text \<open>The partial unique index: one open invitation per organization and address.\<close>

definition one_open_invitation :: "invitation_row list \<Rightarrow> bool" where
  "one_open_invitation is \<longleftrightarrow> distinct (map (\<lambda>i. (iv_org i, iv_email i)) (filter (\<lambda>i. open_invitation (iv_status i)) is))"

definition update_invitations ::
    "(invitation_row \<Rightarrow> bool) \<Rightarrow> (invitation_row \<Rightarrow> invitation_row) \<Rightarrow> invitation_row option idtx" where
  "update_invitations P f = bindT (upd_invitations P f) (\<lambda>rows. \<lambda>d.
     if one_open_invitation (invitations d) then Inr (first_row rows, d) else Inl unique_violation)"

definition insert_invitation :: "invitation_row \<Rightarrow> unit idtx" where
  "insert_invitation i = (\<lambda>d.
     if (\<exists>q \<in> set (invitations d). iv_id q = iv_id i) \<or> \<not> one_open_invitation (invitations d @ [i]) then Inl unique_violation
     else if \<not> (\<exists>g \<in> set (account_orgs d). g_id g = iv_org i) \<or>
       (case iv_inviter i of None \<Rightarrow> False | Some u \<Rightarrow> \<not> (\<exists>x \<in> set (users d). u_id x = u)) then Inl foreign_key_violation
     else Inr ((), d\<lparr>invitations := invitations d @ [i]\<rparr>))"

definition markInvitationSendFailure :: "string \<Rightarrow> string \<Rightarrow> err \<Rightarrow> ('p, invitation_row option) idproc" where
  "markInvitationSendFailure org i e = atomic (bindT id_now (\<lambda>t.
     update_invitations (\<lambda>r. iv_org r = org \<and> iv_id r = i)
       (\<lambda>r. r\<lparr>iv_status := IvSendFailed, iv_error := Some (take 500 (err_message e)), iv_updated_at := t\<rparr>)))"

definition keycloak_user_for :: "'p keycloak_admin \<Rightarrow> string \<Rightarrow> ('p, keycloak_user) idproc" where
  "keycloak_user_for kc email =
     bindP (callP (findUserByEmail kc email)) (\<lambda>found.
     case found of Some k \<Rightarrow> retP k | None \<Rightarrow> callP (createUser kc email (splitEmailName email)))"

definition undefined_row :: "('p, 'a) idproc" where
  "undefined_row = throwP (PlainError ''Cannot read properties of undefined'')"

definition sendInvitationActions :: "'p keycloak_admin option \<Rightarrow> string \<Rightarrow> invitation_row \<Rightarrow> ('p, invitation_row option) idproc" where
  "sendInvitationActions admin org invitation = (case admin of
     None \<Rightarrow> throwP (PlainError ''Keycloak admin integration is not configured'')
   | Some kc \<Rightarrow>
       bindP (keycloak_user_for kc (normalizeEmail (iv_display invitation))) (\<lambda>k.
       bindP (callP (executeActionsEmail kc (kc_id k) [''UPDATE_PASSWORD'', ''VERIFY_EMAIL''])) (\<lambda>_.
       atomic (bindT id_now (\<lambda>t.
         update_invitations (\<lambda>r. iv_id r = iv_id invitation \<and> iv_org r = org)
           (\<lambda>r. r\<lparr>iv_status := IvSent, iv_keycloak := Some (kc_id k), iv_sent_at := Some t, iv_error := None,
                  iv_updated_at := t\<rparr>))))))"

text \<open>
  Sending and the record of its outcome; \<open>sent.id\<close> of a row that is gone throws inside the
  \<open>try\<close>, so it ends as a failure, and the same row missing again throws to the caller.
\<close>

definition send_or_mark ::
    "'p keycloak_admin option \<Rightarrow> string \<Rightarrow> invitation_row \<Rightarrow> string \<Rightarrow> string \<Rightarrow> ('p, member_summary) idproc" where
  "send_or_mark admin org invitation sent_action failed_action =
     tryP
       (bindP (sendInvitationActions admin org invitation) (\<lambda>sent.
        case sent of
          None \<Rightarrow> undefined_row
        | Some r \<Rightarrow> bindP (atomic (add_audit_row org sent_action)) (\<lambda>_.
            bindP id_date (\<lambda>t. retP (mapInvitation t r)))))
       (\<lambda>e. bindP (markInvitationSendFailure org (iv_id invitation) e) (\<lambda>failed.
        case failed of
          None \<Rightarrow> undefined_row
        | Some r \<Rightarrow> bindP (atomic (add_audit_row org failed_action)) (\<lambda>_.
            bindP id_date (\<lambda>t. retP (mapInvitation t r)))))"

definition invite_existing ::
    "string \<Rightarrow> string option \<Rightarrow> keycloak_user \<Rightarrow> ('p, (member_summary \<times> bool) answer) idproc" where
  "invite_existing org actor k =
     bindP (localUserForKeycloakUser k) (\<lambda>u.
     bindP (atomic (add_member u org ''member'')) (\<lambda>rowCount.
     bindP (fetchMemberByUserId org u actor) (\<lambda>found.
     bindP (if rowCount \<noteq> 0 then atomic (add_audit_row org ''org.member.add'') else retP ()) (\<lambda>_.
     case found of None \<Rightarrow> undefined_row | Some m \<Rightarrow> retP (Answer (m, rowCount \<noteq> 0))))))"

definition new_invitation :: "string \<Rightarrow> string \<Rightarrow> string option \<Rightarrow> int \<Rightarrow> invitation_row idtx" where
  "new_invitation org email actor lifespan =
     bindT id_draw (\<lambda>i.
     bindT id_now (\<lambda>t.
     let row = \<lparr>iv_id = i, iv_org = org, iv_email = email, iv_display = email, iv_role = ''member'', iv_status = IvPending,
       iv_keycloak = None, iv_inviter = actor, iv_accepted_user = None, iv_error = None, iv_created_at = t,
       iv_expires_at = Some (t + lifespan * 1000), iv_sent_at = None, iv_accepted_at = None, iv_canceled_at = None,
       iv_updated_at = t\<rparr> in
     bindT (insert_invitation row) (\<lambda>_. returnT row)))"

definition createOrganizationInvitation ::
    "'p keycloak_admin option \<Rightarrow> int \<Rightarrow> string \<Rightarrow> string option \<Rightarrow> string \<Rightarrow> ('p, (member_summary \<times> bool) answer) idproc" where
  "createOrganizationInvitation admin lifespan org actor address =
     bindP (atomic (adminCheck org actor)) (\<lambda>ok.
     if \<not> ok then retP Forbidden
     else
       let email = normalizeEmail address in
       bindP (atomic (getsT (\<lambda>d. first_row (join_members d (\<lambda>m u. m_org m = org \<and> to_lower (u_email u) = email))))) (\<lambda>existing.
       case existing of
         Some (m, u) \<Rightarrow> bindP (atomic (adminCountForOrg org)) (\<lambda>n. retP (Answer (mapMember m u actor n, False)))
       | None \<Rightarrow>
           bindP (case admin of None \<Rightarrow> retP None
             | Some kc \<Rightarrow> tryP (callP (findUserByEmail kc email)) (\<lambda>_. retP None)) (\<lambda>known.
           case known of
             Some k \<Rightarrow> invite_existing org actor k
           | None \<Rightarrow>
               bindP (atomic (sel_invitations (\<lambda>i. iv_org i = org \<and> iv_email i = email \<and> open_invitation (iv_status i)))) (\<lambda>pending.
               case pending of
                 i # _ \<Rightarrow> bindP id_date (\<lambda>t. retP (Answer (mapInvitation t i, False)))
               | [] \<Rightarrow>
                   bindP (atomic (new_invitation org email actor lifespan)) (\<lambda>invitation.
                   bindP (atomic (add_audit_row org ''org.invitation.create'')) (\<lambda>_.
                   bindP (send_or_mark admin org invitation ''org.invitation.send'' ''org.invitation.send_failed'') (\<lambda>view.
                   retP (Answer (view, True)))))))))"

definition resendOrganizationInvitation ::
    "'p keycloak_admin option \<Rightarrow> string \<Rightarrow> string option \<Rightarrow> string \<Rightarrow> ('p, member_summary answer) idproc" where
  "resendOrganizationInvitation admin org actor i =
     bindP (atomic (adminCheck org actor)) (\<lambda>ok.
     if \<not> ok then retP Forbidden
     else
       bindP (atomic (fetchInvitationRow org i)) (\<lambda>found.
       case found of
         None \<Rightarrow> retP NotFound
       | Some invitation \<Rightarrow>
           if iv_status invitation = IvAccepted \<or> iv_status invitation = IvCanceled then retP NotFound
           else
             bindP (send_or_mark admin org invitation ''org.invitation.resend'' ''org.invitation.resend_failed'') (\<lambda>view.
             retP (Answer view))))"

definition cancelOrganizationInvitation :: "string \<Rightarrow> string option \<Rightarrow> string \<Rightarrow> ('p, member_summary answer) idproc" where
  "cancelOrganizationInvitation org actor i =
     bindP (atomic (adminCheck org actor)) (\<lambda>ok.
     if \<not> ok then retP Forbidden
     else
       bindP (atomic (bindT id_now (\<lambda>t.
         update_invitations (\<lambda>r. iv_org r = org \<and> iv_id r = i \<and> open_invitation (iv_status r))
           (\<lambda>r. r\<lparr>iv_status := IvCanceled, iv_canceled_at := Some t, iv_updated_at := t\<rparr>)))) (\<lambda>canceled.
       case canceled of
         None \<Rightarrow> retP NotFound
       | Some r \<Rightarrow> bindP (atomic (add_audit_row org ''org.invitation.cancel'')) (\<lambda>_.
           bindP id_date (\<lambda>t. retP (Answer (mapInvitation t r))))))"

definition delete_member :: "string \<Rightarrow> string \<Rightarrow> unit idtx" where
  "delete_member org i = modifyT (\<lambda>d. d\<lparr>members := filter (\<lambda>m. \<not> (m_org m = org \<and> m_id m = i)) (members d)\<rparr>)"

definition removeOrganizationMember :: "string \<Rightarrow> string option \<Rightarrow> string \<Rightarrow> ('p, member_summary answer) idproc" where
  "removeOrganizationMember org actor i =
     bindP (atomic (adminCheck org actor)) (\<lambda>ok.
     if \<not> ok then retP Forbidden
     else
       bindP (atomic (getsT (\<lambda>d. first_row (join_members d (\<lambda>m u. m_org m = org \<and> m_id m = i))))) (\<lambda>found.
       case found of
         None \<Rightarrow> retP NotFound
       | Some (m, u) \<Rightarrow>
           if Some (m_user m) = actor then retP SelfRemove
           else
             bindP (if m_role m = ''admin''
                    then bindP (atomic (adminCountForOrg org)) (\<lambda>n. retP (n \<le> 1)) else retP False) (\<lambda>last_one.
             if last_one then retP LastAdmin
             else
               bindP (atomic (delete_member org i)) (\<lambda>_.
               bindP (atomic (add_audit_row org ''org.member.remove'')) (\<lambda>_.
               bindP (atomic (adminCountForOrg org)) (\<lambda>n. retP (Answer (mapMember m u actor n))))))))"

definition accept_invitation :: "string \<Rightarrow> string \<Rightarrow> invitation_row \<Rightarrow> ('p, unit) idproc" where
  "accept_invitation user subject i =
     bindP (atomic (add_member user (iv_org i) (iv_role i))) (\<lambda>_.
     bindP (atomic (bindT id_now (\<lambda>t. update_invitations (\<lambda>r. iv_id r = iv_id i)
       (\<lambda>r. r\<lparr>iv_status := IvAccepted, iv_accepted_user := Some user, iv_accepted_at := Some t,
              iv_keycloak := coalesce (iv_keycloak r) (Some subject), iv_updated_at := t\<rparr>)))) (\<lambda>_. retP ()))"

fun accept_each :: "string \<Rightarrow> string \<Rightarrow> invitation_row list \<Rightarrow> ('p, unit) idproc" where
  "accept_each user subject [] = retP ()"
| "accept_each user subject (i # is) = bindP (accept_invitation user subject i) (\<lambda>_. accept_each user subject is)"

definition acceptable :: "time \<Rightarrow> string \<Rightarrow> invitation_row \<Rightarrow> bool" where
  "acceptable t email i \<longleftrightarrow> iv_email i = email \<and> open_invitation (iv_status i) \<and> \<not> isExpired t (iv_expires_at i)"

definition acceptPendingOrganizationInvitations :: "string \<Rightarrow> string \<Rightarrow> string \<Rightarrow> ('p, nat) idproc" where
  "acceptPendingOrganizationInvitations user address subject =
     bindP (atomic (getsT (\<lambda>d. sort_key iv_created_at (filter (acceptable (id_clock d) (normalizeEmail address)) (invitations d))))) (\<lambda>is.
     bindP (accept_each user subject is) (\<lambda>_. retP (length is)))"

definition completeOnboarding :: "string \<Rightarrow> string \<Rightarrow> ('p, user_row) idproc" where
  "completeOnboarding org user =
     bindP (atomic (\<lambda>d. Inr (map (\<lambda>u. u\<lparr>u_onboarded := coalesce (u_onboarded u) (Some (id_clock d)), u_updated_at := id_clock d\<rparr>)
         (filter (\<lambda>u. u_id u = user) (users d)),
       d\<lparr>users := update_rows (\<lambda>u. u_id u = user)
         (\<lambda>u. u\<lparr>u_onboarded := coalesce (u_onboarded u) (Some (id_clock d)), u_updated_at := id_clock d\<rparr>) (users d)\<rparr>))) (\<lambda>rows.
     bindP (atomic (add_audit_row org ''onboarding.complete'')) (\<lambda>_.
     case rows of [] \<Rightarrow> undefined_row | u # _ \<Rightarrow> retP u))"

end
