(* ===== verification/Signin.thy ===== *)
theory Signin
  imports Accounts
begin

text \<open>
  Authentication (\<open>apps/api/src/auth.ts\<close>): from the headers of a request to its principal, the
  workspace created at a first sign-in, and the later revalidation of a principal that holds a
  connection open. The verification of a token's signature is a parameter.
\<close>

section \<open>Tokens\<close>

record claims =
  cl_sub :: js
  cl_email :: js
  cl_name :: js
  cl_verified :: js
  cl_exp :: int

text \<open>
  The configuration, and \<open>jwtVerify\<close> of the JOSE library: the claims of a token it accepts for
  the allowed issuers, the audience and the algorithms, or the message it throws.
\<close>

record auth_config =
  keycloakIssuerAllowlist :: "string list"
  keycloakAudience :: string
  keycloakJwksUrl :: string
  keycloakSigningAlgorithms :: "string list"
  authDevAllow :: bool
  jwtVerify :: "string \<Rightarrow> string list \<Rightarrow> string \<Rightarrow> string list \<Rightarrow> string + claims"
  hash_env :: key_env

definition verifyAccessToken :: "auth_config \<Rightarrow> string \<Rightarrow> string + claims" where
  "verifyAccessToken cfg token =
    (if keycloakAudience cfg = [] \<or> keycloakIssuerAllowlist cfg = [] \<or> keycloakSigningAlgorithms cfg = [] then
       Inl ''JWT issuer, audience and signing algorithms must be configured''
     else if keycloakJwksUrl cfg = [] then Inl ''JWT keys are not configured''
     else case jwtVerify cfg token (keycloakIssuerAllowlist cfg) (keycloakAudience cfg) (keycloakSigningAlgorithms cfg) of
       Inl m \<Rightarrow> Inl m
     | Inr c \<Rightarrow> (case cl_sub c of JStr s \<Rightarrow> if trim s = [] then Inl ''JWT subject is missing'' else Inr c
                | _ \<Rightarrow> Inl ''JWT subject is missing''))"

section \<open>A workspace for a new user\<close>

text \<open>\<open>.replace(/[^a-z0-9]+/g, "-")\<close> and the removal of dashes at both ends.\<close>

fun slug_runs :: "bool \<Rightarrow> string \<Rightarrow> string" where
  "slug_runs inside [] = []"
| "slug_runs inside (c # s) =
     (if alnum c then c # slug_runs False s
      else if inside then slug_runs True s else CHR ''-'' # slug_runs True s)"

definition strip_dashes :: "string \<Rightarrow> string" where
  "strip_dashes s = rev (dropWhile (\<lambda>c. c = CHR ''-'') (rev (dropWhile (\<lambda>c. c = CHR ''-'') s)))"

definition slugify :: "string \<Rightarrow> string" where
  "slugify value = take 48 (strip_dashes (slug_runs False (to_lower value)))"

definition workspaceBase :: "string \<Rightarrow> string" where
  "workspaceBase email = non_empty (slugify (non_empty (local_part email) ''workspace'')) ''workspace'' @ ''-labs''"

definition workspaceName :: "string \<Rightarrow> string \<Rightarrow> string" where
  "workspaceName email name =
    (let label = (if trim name \<noteq> [] then trim name else non_empty (local_part email) ''Harakiri'') in
     non_empty (takeWhile (\<lambda>c. \<not> js_space c) label) ''Harakiri'' @ '' Labs'')"

text \<open>\<open>INSERT INTO organizations ... ON CONFLICT (slug) DO NOTHING RETURNING id\<close>.\<close>

definition add_account_org :: "string \<Rightarrow> string \<Rightarrow> string option idtx" where
  "add_account_org name slug = bindT id_draw (\<lambda>i. \<lambda>d.
     if \<exists>g \<in> set (account_orgs d). g_slug g = slug then Inr (None, d)
     else if \<exists>g \<in> set (account_orgs d). g_id g = i then Inl unique_violation
     else Inr (Some i, d\<lparr>account_orgs := account_orgs d @ [\<lparr>g_id = i, g_name = name, g_slug = slug,
       g_template = ''python-3.12-data'', g_idle_ttl = 300, g_concurrency = 200\<rparr>]\<rparr>))"

definition attempt_slug :: "string \<Rightarrow> nat \<Rightarrow> string" where
  "attempt_slug base attempt = (if attempt = 0 then base else base @ ''-'' @ show_int (int attempt + 1))"

fun workspace_attempts :: "string \<Rightarrow> string \<Rightarrow> string \<Rightarrow> nat list \<Rightarrow> ('p, string) idproc" where
  "workspace_attempts user name base [] = throwP (PlainError ''unable_to_create_workspace'')"
| "workspace_attempts user name base (attempt # rest) =
     bindP (atomic (add_account_org name (attempt_slug base attempt))) (\<lambda>created.
     case created of
       None \<Rightarrow> workspace_attempts user name base rest
     | Some org \<Rightarrow>
         if org = [] then workspace_attempts user name base rest
         else bindP (atomic (add_member user org ''admin'')) (\<lambda>_. retP org))"

definition ensureWorkspaceForUser :: "string \<Rightarrow> string \<Rightarrow> string \<Rightarrow> ('p, string) idproc" where
  "ensureWorkspaceForUser user email name =
     workspace_attempts user (workspaceName email name) (workspaceBase email) [0..<10]"

text \<open>The development identity: the user by address, the organization by slug.\<close>

definition save_dev_org :: "string idtx" where
  "save_dev_org = bindT id_draw (\<lambda>i. \<lambda>d.
     case first_row (filter (\<lambda>g. g_slug g = ''development-labs'') (account_orgs d)) of
       Some g \<Rightarrow> Inr (g_id g, d\<lparr>account_orgs := update_rows (\<lambda>g. g_slug g = ''development-labs'')
         (\<lambda>g. g\<lparr>g_name := ''Development Labs''\<rparr>) (account_orgs d)\<rparr>)
     | None \<Rightarrow>
         if \<exists>g \<in> set (account_orgs d). g_id g = i then Inl unique_violation
         else Inr (i, d\<lparr>account_orgs := account_orgs d @ [\<lparr>g_id = i, g_name = ''Development Labs'', g_slug = ''development-labs'',
           g_template = ''python-3.12-data'', g_idle_ttl = 300, g_concurrency = 200\<rparr>]\<rparr>))"

definition ensureDevIdentity :: "('p, string \<times> string) idproc" where
  "ensureDevIdentity =
     bindP (atomic (save_user (\<lambda>u. True) False ''dev@harakiri.local'' ''Development User'' ''dev-local'')) (\<lambda>saved.
     bindP (atomic save_dev_org) (\<lambda>org.
     case saved of
       None \<Rightarrow> undefined_row
     | Some user \<Rightarrow> bindP (atomic (add_member user org ''admin'')) (\<lambda>_. retP (user, org))))"

section \<open>The principal of a request\<close>

text \<open>The membership a person signs in with: the oldest with a known role.\<close>

definition home_of :: "iddb \<Rightarrow> string \<Rightarrow> member_row option" where
  "home_of d user = first_row (sort_key m_joined (filter (\<lambda>m. m_user m = user \<and> (m_role m = ''admin'' \<or> m_role m = ''member'')) (members d)))"

text \<open>The user a token may act as: the same subject, or no subject yet and a verified address.\<close>

definition may_sign_in :: "string \<Rightarrow> bool \<Rightarrow> user_row \<Rightarrow> bool" where
  "may_sign_in subject verified u \<longleftrightarrow> u_subject u = Some subject \<or> (u_subject u = None \<and> verified)"

definition authFromJwt :: "auth_config \<Rightarrow> string \<Rightarrow> ('p, auth_context option) idproc" where
  "authFromJwt cfg token = (case verifyAccessToken cfg token of
     Inl m \<Rightarrow> throwP (PlainError m)
   | Inr payload \<Rightarrow>
       let email = (case cl_email payload of JStr e \<Rightarrow> to_lower (trim e) | _ \<Rightarrow> []);
           name = (case cl_name payload of JStr n \<Rightarrow> n | _ \<Rightarrow> email);
           subject = (case cl_sub payload of JStr s \<Rightarrow> s | _ \<Rightarrow> []);
           verified = (cl_verified payload = JBool True) in
       if email = [] then retP None
       else
         bindP (atomic (save_user (may_sign_in subject verified) False email name subject)) (\<lambda>saved.
         case saved of
           None \<Rightarrow> retP None
         | Some user \<Rightarrow>
             bindP (if verified then bindP (acceptPendingOrganizationInvitations user email subject) (\<lambda>_. retP ()) else retP ()) (\<lambda>_.
             bindP (atomic (getsT (\<lambda>d. home_of d user))) (\<lambda>home.
             let identity = (\<lambda>org. \<lparr>p_org = org, p_label = email, p_expires = Some (cl_exp payload * 1000), p_subject = Some subject\<rparr>) in
             case home of
               Some m \<Rightarrow> retP (Some (Human (identity (m_org m)) Keycloak user (Some (m_role m))))
             | None \<Rightarrow> bindP (ensureWorkspaceForUser user email name) (\<lambda>org.
                 retP (Some (Human (identity org) Keycloak user (Some ''admin''))))))))"

text \<open>A header: absent, one value, or repeated.\<close>

datatype header = NoHeader | HeaderText string | HeaderList "string list"

definition bearer :: "string \<Rightarrow> string" where
  "bearer h = (if starts_with ''Bearer '' h then drop 7 h else h)"

text \<open>\<open>createAuthHandler\<close>: the principal, or none for a 401 answer.\<close>

definition requireAuth :: "auth_config \<Rightarrow> header \<Rightarrow> header \<Rightarrow> ('p, auth_context option) idproc" where
  "requireAuth cfg x_api_key authorization =
    (case (if x_api_key = NoHeader then authorization else x_api_key) of
       NoHeader \<Rightarrow>
         if authDevAllow cfg then
           bindP ensureDevIdentity (\<lambda>(user, org).
           retP (Some (Human \<lparr>p_org = org, p_label = ''dev@harakiri.local'', p_expires = None, p_subject = None\<rparr>
             Dev user (Some ''admin''))))
         else retP None
     | HeaderList hs \<Rightarrow> retP None
     | HeaderText h \<Rightarrow>
         if trim h = [] then retP None
         else
           let raw = bearer h in
           bindP (if starts_with ''hk_'' raw
                  then atomic (readApiKeyPrincipal (ByHash (hashApiKey (hash_env cfg) raw)))
                  else tryP (authFromJwt cfg raw) (\<lambda>_. retP None)) (\<lambda>context.
           case context of
             Some (KeyAuth p k scopes) \<Rightarrow>
               bindP (atomic (bindT id_now (\<lambda>t. upd_api_keys (\<lambda>r. ak_id r = k) (\<lambda>r. r\<lparr>ak_used_at := Some t\<rparr>)))) (\<lambda>_.
               retP context)
           | _ \<Rightarrow> retP context))"

section \<open>Revalidation\<close>

definition set_role :: "auth_context \<Rightarrow> string \<Rightarrow> auth_context" where
  "set_role auth r = (case auth of Human p src u role \<Rightarrow> Human p src u (Some r) | KeyAuth p k scopes \<Rightarrow> auth)"

definition current_role :: "iddb \<Rightarrow> string \<Rightarrow> string \<Rightarrow> string option \<Rightarrow> string option" where
  "current_role d org user subject = map_option (\<lambda>(m, u). m_role m)
     (first_row (join_members d (\<lambda>m u. m_org m = org \<and> m_user m = user \<and> (m_role m = ''admin'' \<or> m_role m = ''member'') \<and>
        (case subject of None \<Rightarrow> True | Some s \<Rightarrow> u_subject u = Some s))))"

definition revalidatePrincipal :: "auth_config \<Rightarrow> auth_context \<Rightarrow> auth_context option idtx" where
  "revalidatePrincipal cfg auth = (case auth of
     KeyAuth p k scopes \<Rightarrow> readApiKeyPrincipal (ById k (Some (p_org p)))
   | Human p src u role \<Rightarrow>
       if src = Dev \<and> \<not> authDevAllow cfg then returnT None
       else bindT id_now (\<lambda>t.
         if src = Keycloak \<and> (\<not> truthy (p_subject p) \<or> (case p_expires p of None \<Rightarrow> True | Some e \<Rightarrow> \<not> t < e)) then returnT None
         else getsT (\<lambda>d. map_option (set_role auth)
           (current_role d (p_org p) u (if src = Keycloak then p_subject p else None)))))"

definition header_value :: "header \<Rightarrow> string option" where
  "header_value h = (case h of NoHeader \<Rightarrow> None | HeaderText s \<Rightarrow> Some s
     | HeaderList hs \<Rightarrow> (case hs of [] \<Rightarrow> None | s # _ \<Rightarrow> Some s))"

text \<open>\<open>streamAuthValid\<close>: the refreshed principal of a stream, or none when it must end.\<close>

definition streamAuthValid :: "auth_config \<Rightarrow> auth_context \<Rightarrow> header \<Rightarrow> header \<Rightarrow> ('p, auth_context option) idproc" where
  "streamAuthValid cfg auth x_api_key authorization =
    (let h = header_value (if x_api_key = NoHeader then authorization else x_api_key);
         token_ok = (case auth of
             Human p Keycloak u role \<Rightarrow> truthy h \<and>
               (case verifyAccessToken cfg (bearer (the h)) of Inl m \<Rightarrow> False
                | Inr c \<Rightarrow> (case cl_sub c of JStr s \<Rightarrow> p_subject p = Some s | _ \<Rightarrow> False))
           | _ \<Rightarrow> True) in
     if \<not> token_ok then retP None else tryP (atomic (revalidatePrincipal cfg auth)) (\<lambda>_. retP None))"

end
