(* ===== verification/Tickets.thy ===== *)
theory Tickets
  imports Signin
begin

text \<open>
  Attaching a terminal (\<open>services/terminal-attach-tickets.ts\<close>): a browser cannot send headers
  when it opens a socket, so it first obtains a short-lived single-use ticket and presents it in
  the URL. The URL itself is built by the platform.
\<close>

record ticket_config =
  terminalAttachTicketTtlSeconds :: int
  ticket_auth :: auth_config

definition terminalAttachTicketTtlMs :: "ticket_config \<Rightarrow> int" where
  "terminalAttachTicketTtlMs cfg = max 5 (terminalAttachTicketTtlSeconds cfg) * 1000"

datatype ticket_answer = TicketIssued string time | TicketNotFound | TicketForbidden | TicketNotRunning sandbox_status

definition source_text :: "auth_context \<Rightarrow> string" where
  "source_text auth = (case auth of KeyAuth p k scopes \<Rightarrow> ''api_key''
     | Human p src u role \<Rightarrow> (case src of Keycloak \<Rightarrow> ''keycloak'' | Dev \<Rightarrow> ''dev''))"

definition insert_ticket :: "ticket_row \<Rightarrow> unit idtx" where
  "insert_ticket t = (\<lambda>d.
     if \<exists>q \<in> set (tickets d). tk_hash q = tk_hash t then Inl unique_violation
     else if \<not> (\<exists>b \<in> set (boxes d). b_id b = tk_sandbox t) \<or> \<not> (\<exists>g \<in> set (account_orgs d). g_id g = tk_org t) \<or>
       (case tk_key t of None \<Rightarrow> False | Some k \<Rightarrow> \<not> (\<exists>q \<in> set (api_keys d). ak_id q = k)) then Inl foreign_key_violation
     else Inr ((), d\<lparr>tickets := tickets d @ [t]\<rparr>))"

definition createTerminalAttachTicket :: "ticket_config \<Rightarrow> string \<Rightarrow> auth_context \<Rightarrow> ('p, ticket_answer) idproc" where
  "createTerminalAttachTicket cfg sbx auth0 =
     bindP (atomic (revalidatePrincipal (ticket_auth cfg) auth0)) (\<lambda>current.
     case current of
       None \<Rightarrow> retP TicketForbidden
     | Some auth \<Rightarrow>
         if \<not> hasScope auth ''sandboxes:write'' then retP TicketForbidden
         else
           bindP (atomic (getsT (\<lambda>d. first_row (filter (\<lambda>b. b_id b = sbx \<and> b_org b = p_org (auth_principal auth0)) (boxes d))))) (\<lambda>found.
           case found of
             None \<Rightarrow> retP TicketNotFound
           | Some b \<Rightarrow>
               if b_status b \<noteq> SRunning \<and> b_status b \<noteq> SIdle then retP (TicketNotRunning (b_status b))
               else
                 bindP (atomic id_draw) (\<lambda>v.
                 let ticket = ''hat_'' @ v in
                 bindP id_date (\<lambda>t.
                 let limit = t + terminalAttachTicketTtlMs cfg;
                     expires = (case p_expires (auth_principal auth) of None \<Rightarrow> limit | Some e \<Rightarrow> min limit e) in
                 bindP (atomic (insert_ticket
                   \<lparr>tk_hash = hashApiKey (hash_env (ticket_auth cfg)) ticket, tk_sandbox = sbx, tk_org = p_org (auth_principal auth0),
                    tk_user = auth_user auth0, tk_label = p_label (auth_principal auth0), tk_type = source_text auth0,
                    tk_expires_at = expires, tk_used_at = None, tk_key = auth_key auth,
                    tk_auth_expires_at = p_expires (auth_principal auth), tk_subject = p_subject (auth_principal auth)\<rparr>)) (\<lambda>_.
                 retP (TicketIssued ticket expires))))))"

text \<open>The statement that consumes a ticket: only one unused, unexpired, of this sandbox.\<close>

definition use_ticket :: "string \<Rightarrow> string \<Rightarrow> ticket_row option idtx" where
  "use_ticket h sbx = (\<lambda>d.
     let P = (\<lambda>t. tk_hash t = h \<and> tk_sandbox t = sbx \<and> tk_used_at t = None \<and> id_clock d < tk_expires_at t) in
     Inr (first_row (filter P (tickets d)),
       d\<lparr>tickets := update_rows P (\<lambda>t. t\<lparr>tk_used_at := Some (id_clock d)\<rparr>) (tickets d)\<rparr>))"

text \<open>Whom a ticket was issued to.\<close>

definition ticket_candidate :: "ticket_row \<Rightarrow> auth_context option" where
  "ticket_candidate row =
    (let identity = \<lparr>p_org = tk_org row, p_label = tk_label row, p_expires = tk_auth_expires_at row, p_subject = tk_subject row\<rparr> in
     if tk_type row = ''api_key'' \<and> truthy (tk_key row) \<and> \<not> truthy (tk_user row) then
       Some (KeyAuth identity (the (tk_key row)) [])
     else if (tk_type row = ''keycloak'' \<or> tk_type row = ''dev'') \<and> truthy (tk_user row) \<and> \<not> truthy (tk_key row) then
       Some (Human identity (if tk_type row = ''dev'' then Dev else Keycloak) (the (tk_user row)) None)
     else None)"

definition consumeTerminalAttachTicket :: "ticket_config \<Rightarrow> string \<Rightarrow> string option \<Rightarrow> ('p, auth_context option) idproc" where
  "consumeTerminalAttachTicket cfg sbx ticket =
    (if \<not> truthy ticket then retP None
     else
       bindP (atomic (use_ticket (hashApiKey (hash_env (ticket_auth cfg)) (the ticket)) sbx)) (\<lambda>consumed.
       case Option.bind consumed ticket_candidate of
         None \<Rightarrow> retP None
       | Some candidate \<Rightarrow>
           bindP (atomic (revalidatePrincipal (ticket_auth cfg) candidate)) (\<lambda>current.
           retP (case current of None \<Rightarrow> None
             | Some auth \<Rightarrow> if hasScope auth ''sandboxes:write'' then Some auth else None))))"

end
