(* ===== verification/Rely.thy ===== *)
theory Rely
  imports World
begin

text \<open>
  Asynchronous code under an assumption: \<open>runs R P m Q\<close> holds when a run of \<open>m\<close> that starts where
  \<open>P\<close> holds, while everything else keeps to the steps \<open>R\<close>, changes the store by \<open>R\<close>-steps only and
  ends with \<open>Q\<close> of its result. A property \<open>R\<close>-steps keep is called stable; \<open>keeps_to R P m\<close> is the
  frequent case of a stable assumption that still holds afterwards.
\<close>

definition stable :: "('s \<Rightarrow> 's \<Rightarrow> bool) \<Rightarrow> ('s \<Rightarrow> bool) \<Rightarrow> bool" where
  "stable R P \<longleftrightarrow> (\<forall>d d'. R d d' \<longrightarrow> P d \<longrightarrow> P d')"

definition runs ::
    "('s \<Rightarrow> 's \<Rightarrow> bool) \<Rightarrow> ('s \<Rightarrow> bool) \<Rightarrow> ('s, 'p, 'a) gproc \<Rightarrow> ('a \<Rightarrow> 's \<Rightarrow> bool) \<Rightarrow> bool" where
  "runs R P m Q \<longleftrightarrow> (\<forall>w r w'. foreign_ok R w \<longrightarrow> P (wdb w) \<longrightarrow> m w = (r, w') \<longrightarrow>
     R\<^sup>*\<^sup>* (wdb w) (wdb w') \<and> foreign_ok R w' \<and> (\<forall>a. r = Inr a \<longrightarrow> Q a (wdb w')))"

definition keeps_to :: "('s \<Rightarrow> 's \<Rightarrow> bool) \<Rightarrow> ('s \<Rightarrow> bool) \<Rightarrow> ('s, 'p, 'a) gproc \<Rightarrow> bool" where
  "keeps_to R P m \<longleftrightarrow> runs R P m (\<lambda>a. P)"

named_theorems keeps_to_intro \<open>assumptions kept, construct by construct\<close>

lemma stable_star: "stable R P \<Longrightarrow> R\<^sup>*\<^sup>* d d' \<Longrightarrow> P d \<Longrightarrow> P d'"
  by (erule rtranclp_keeps [where I = P]) (auto simp: stable_def)

lemma stable_conj: "stable R P \<Longrightarrow> stable R Q \<Longrightarrow> stable R (\<lambda>d. P d \<and> Q d)"
  by (auto simp: stable_def)

lemma runsD:
  assumes "runs R P m Q" and "foreign_ok R w" and "P (wdb w)" and "m w = (r, w')"
  shows "R\<^sup>*\<^sup>* (wdb w) (wdb w')" "foreign_ok R w'" "r = Inr a \<Longrightarrow> Q a (wdb w')"
  using assms by (auto simp: runs_def)

lemma runs_weaken: "runs R P' m Q' \<Longrightarrow> (\<And>d. P d \<Longrightarrow> P' d) \<Longrightarrow> (\<And>a d. Q' a d \<Longrightarrow> Q a d) \<Longrightarrow> runs R P m Q"
  unfolding runs_def by blast

lemma runs_ret: "(\<And>d. P d \<Longrightarrow> Q a d) \<Longrightarrow> runs R P (retP a) Q"
  by (simp add: runs_def retP_def)

lemma runs_throw: "runs R P (throwP e) Q"
  by (simp add: runs_def throwP_def)

lemma runs_bind:
  assumes "runs R P m Q" and "\<And>a. runs R (Q a) (f a) S"
  shows "runs R P (bindP m f) S"
  unfolding runs_def
proof (intro allI impI)
  fix w r w' assume w: "foreign_ok R w" "P (wdb w)" and b: "bindP m f w = (r, w')"
  obtain x w1 where m: "m w = (x, w1)" by (cases "m w")
  note first = runsD [OF assms(1) w m]
  show "R\<^sup>*\<^sup>* (wdb w) (wdb w') \<and> foreign_ok R w' \<and> (\<forall>a. r = Inr a \<longrightarrow> S a (wdb w'))"
  proof (cases x)
    case (Inl e)
    with b m first show ?thesis by (auto simp: bindP_def)
  next
    case (Inr a)
    with b m have "f a w1 = (r, w')" by (simp add: bindP_def)
    from runsD [OF assms(2) first(2) first(3) [OF Inr] this] first(1) show ?thesis
      by (auto intro: rtranclp_trans)
  qed
qed

lemma runs_try:
  assumes "runs R P m Q" and "\<And>e. runs R P (h e) Q" and "stable R P"
  shows "runs R P (tryP m h) Q"
  unfolding runs_def
proof (intro allI impI)
  fix w r w' assume w: "foreign_ok R w" "P (wdb w)" and b: "tryP m h w = (r, w')"
  obtain x w1 where m: "m w = (x, w1)" by (cases "m w")
  note first = runsD [OF assms(1) w m]
  show "R\<^sup>*\<^sup>* (wdb w) (wdb w') \<and> foreign_ok R w' \<and> (\<forall>a. r = Inr a \<longrightarrow> Q a (wdb w'))"
  proof (cases x)
    case (Inl e)
    with b m have "h e w1 = (r, w')" by (simp add: tryP_def)
    from runsD [OF assms(2) first(2) stable_star [OF assms(3) first(1) w(2)] this] first(1) show ?thesis
      by (auto intro: rtranclp_trans)
  next
    case (Inr a)
    with b m first show ?thesis by (auto simp: tryP_def)
  qed
qed

lemma runs_call: "(\<And>a d. P d \<Longrightarrow> Q a d) \<Longrightarrow> runs R P (callP f) Q"
  by (auto simp: runs_def callP_def foreign_ok_def split: prod.splits sum.splits)

lemma runs_atomic:
  assumes "stable R P" and "\<And>d a d'. P d \<Longrightarrow> m d = Inr (a, d') \<Longrightarrow> R\<^sup>*\<^sup>* d d' \<and> Q a d'"
  shows "runs R P (atomic m) Q"
  unfolding runs_def
proof (intro allI impI)
  fix w r w' assume w: "foreign_ok R w" "P (wdb w)" and b: "atomic m w = (r, w')"
  from interfere_follows [OF w(1)] have 1: "R\<^sup>*\<^sup>* (wdb w) (wdb (interfere w))" "foreign_ok R (interfere w)" by auto
  from stable_star [OF assms(1) 1(1) w(2)] have p: "P (wdb (interfere w))" .
  show "R\<^sup>*\<^sup>* (wdb w) (wdb w') \<and> foreign_ok R w' \<and> (\<forall>a. r = Inr a \<longrightarrow> Q a (wdb w'))"
  proof (cases "m (wdb (interfere w))")
    case (Inl e)
    with b 1 show ?thesis by (auto simp: atomic_def Let_def)
  next
    case (Inr x)
    then obtain a d where x: "m (wdb (interfere w)) = Inr (a, d)" by (cases x) auto
    from assms(2) [OF p x] have "R\<^sup>*\<^sup>* (wdb w) d" "Q a d" using 1(1) by (auto intro: rtranclp_trans)
    with b 1(2) x show ?thesis by (auto simp: atomic_def Let_def foreign_ok_def)
  qed
qed

lemma keeps_to_ret [keeps_to_intro]: "keeps_to R P (retP a)"
  and keeps_to_throw [keeps_to_intro]: "keeps_to R P (throwP e)"
  and keeps_to_require [keeps_to_intro]: "keeps_to R P (requireP b e)"
  and keeps_to_call [keeps_to_intro]: "keeps_to R P (callP f)"
  unfolding keeps_to_def requireP_def by (auto intro: runs_ret runs_throw runs_call)

lemma keeps_to_bind [keeps_to_intro]:
  "keeps_to R P m \<Longrightarrow> (\<And>a. keeps_to R P (f a)) \<Longrightarrow> keeps_to R P (bindP m f)"
  unfolding keeps_to_def by (rule runs_bind)

text \<open>A first part that also establishes something stable about its result.\<close>

lemma keeps_to_bind_post:
  assumes "runs R P m (\<lambda>a d. P d \<and> Q a)" and "\<And>a. Q a \<Longrightarrow> keeps_to R P (f a)"
  shows "keeps_to R P (bindP m f)"
  unfolding keeps_to_def
proof (rule runs_bind [OF assms(1)])
  fix a show "runs R (\<lambda>d. P d \<and> Q a) (f a) (\<lambda>a. P)"
  proof (cases "Q a")
    case True
    with assms(2) show ?thesis unfolding keeps_to_def by (auto intro: runs_weaken)
  qed (simp add: runs_def)
qed

lemma keeps_to_try: "keeps_to R P m \<Longrightarrow> (\<And>e. keeps_to R P (h e)) \<Longrightarrow> stable R P \<Longrightarrow> keeps_to R P (tryP m h)"
  unfolding keeps_to_def by (rule runs_try)

lemma keeps_to_atomic:
  assumes "stable R P" and "\<And>d a d'. P d \<Longrightarrow> m d = Inr (a, d') \<Longrightarrow> R\<^sup>*\<^sup>* d d'"
  shows "keeps_to R P (atomic m)"
  unfolding keeps_to_def
  by (rule runs_atomic [OF assms(1)]) (metis assms stable_star)

lemma keeps_to_option [keeps_to_intro]:
  "(x = None \<Longrightarrow> keeps_to R P m) \<Longrightarrow> (\<And>a. x = Some a \<Longrightarrow> keeps_to R P (f a)) \<Longrightarrow>
   keeps_to R P (case x of None \<Rightarrow> m | Some a \<Rightarrow> f a)"
  by (cases x) auto

lemma keeps_to_sum [keeps_to_intro]:
  "(\<And>a. x = Inl a \<Longrightarrow> keeps_to R P (m a)) \<Longrightarrow> (\<And>a. x = Inr a \<Longrightarrow> keeps_to R P (f a)) \<Longrightarrow>
   keeps_to R P (case x of Inl a \<Rightarrow> m a | Inr a \<Rightarrow> f a)"
  by (cases x) auto

lemma keeps_to_prod [keeps_to_intro]:
  "(\<And>a b. x = (a, b) \<Longrightarrow> keeps_to R P (f a b)) \<Longrightarrow> keeps_to R P (case x of (a, b) \<Rightarrow> f a b)"
  by (cases x) auto

lemma keeps_to_list [keeps_to_intro]:
  "(x = [] \<Longrightarrow> keeps_to R P m) \<Longrightarrow> (\<And>a as. x = a # as \<Longrightarrow> keeps_to R P (f a as)) \<Longrightarrow>
   keeps_to R P (case x of [] \<Rightarrow> m | a # as \<Rightarrow> f a as)"
  by (cases x) auto

lemma keeps_to_if [keeps_to_intro]:
  "(b \<Longrightarrow> keeps_to R P m) \<Longrightarrow> (\<not> b \<Longrightarrow> keeps_to R P n) \<Longrightarrow> keeps_to R P (if b then m else n)"
  by simp

lemma keeps_to_let [keeps_to_intro]: "(\<And>x. x = e \<Longrightarrow> keeps_to R P (f x)) \<Longrightarrow> keeps_to R P (let x = e in f x)"
  by (simp add: Let_def)

end
