(* ===== verification/IdentitySteps.thy ===== *)
theory IdentitySteps
  imports Tickets Rely
begin

text \<open>
  What the services of accounts, keys, sign-in and tickets do to their tables, one statement at
  a time, whoever else works at the same time; and what follows for any sequence of their calls.
\<close>

section \<open>The steps\<close>

text \<open>
  The steps are relative to the organizations \<open>S\<close> that existed at some moment and the roles \<open>G\<close>
  that invitations offered at that moment: in an organization of \<open>S\<close> a membership beyond plain
  member comes from one of these offers.
\<close>

inductive id_step :: "string set \<Rightarrow> (string \<times> string) set \<Rightarrow> iddb \<Rightarrow> iddb \<Rightarrow> bool"
  for S :: "string set" and G :: "(string \<times> string) set" where
  key_added: "\<forall>q \<in> set (api_keys d). ak_id q \<noteq> ak_id k \<and> ak_hash q \<noteq> ak_hash k \<Longrightarrow>
    id_step S G d (d\<lparr>api_keys := api_keys d @ [k]\<rparr>)"
| key_used: "id_step S G d (d\<lparr>api_keys := update_rows P (\<lambda>k. k\<lparr>ak_used_at := Some t\<rparr>) (api_keys d)\<rparr>)"
| key_revoked: "id_step S G d (d\<lparr>api_keys := update_rows P (revoke_row t) (api_keys d)\<rparr>)"
| ticket_added: "\<forall>q \<in> set (tickets d). tk_hash q \<noteq> tk_hash t \<Longrightarrow> id_step S G d (d\<lparr>tickets := tickets d @ [t]\<rparr>)"
| ticket_used: "(\<And>t. P t \<Longrightarrow> tk_used_at t = None) \<Longrightarrow>
    id_step S G d (d\<lparr>tickets := update_rows P (\<lambda>t. t\<lparr>tk_used_at := Some x\<rparr>) (tickets d)\<rparr>)"
| member_added: "member_of d org u = None \<Longrightarrow> (org \<in> S \<Longrightarrow> role = ''member'' \<or> (org, role) \<in> G) \<Longrightarrow>
    id_step S G d (d\<lparr>members := members d @ [\<lparr>m_id = i, m_user = u, m_org = org, m_role = role, m_joined = t\<rparr>]\<rparr>)"
| member_removed: "id_step S G d (d\<lparr>members := filter P (members d)\<rparr>)"
| user_added: "\<forall>q \<in> set (users d). u_id q \<noteq> u_id u \<and> u_email q \<noteq> u_email u \<and> u_subject q \<noteq> u_subject u \<Longrightarrow>
    u_subject u \<noteq> None \<Longrightarrow> id_step S G d (d\<lparr>users := users d @ [u]\<rparr>)"
| user_saved: "\<forall>q \<in> set (users d). u_email q \<noteq> email \<longrightarrow> u_subject q \<noteq> Some subject \<Longrightarrow>
    id_step S G d (d\<lparr>users := update_rows (\<lambda>q. u_email q = email)
      (\<lambda>q. q\<lparr>u_name := name, u_subject := Some subject, u_updated_at := g q\<rparr>) (users d)\<rparr>)"
| user_onboarded: "id_step S G d (d\<lparr>users := update_rows P (\<lambda>u. u\<lparr>u_onboarded := g u, u_updated_at := t\<rparr>) (users d)\<rparr>)"
| org_added: "\<forall>q \<in> set (account_orgs d). g_id q \<noteq> g_id o' \<and> g_slug q \<noteq> g_slug o' \<Longrightarrow>
    id_step S G d (d\<lparr>account_orgs := account_orgs d @ [o']\<rparr>)"
| org_renamed: "id_step S G d (d\<lparr>account_orgs := update_rows P (\<lambda>o'. o'\<lparr>g_name := name\<rparr>) (account_orgs d)\<rparr>)"
| invitation_added: "iv_role i = ''member'' \<Longrightarrow> one_open_invitation (invitations d @ [i]) \<Longrightarrow>
    \<forall>q \<in> set (invitations d). iv_id q \<noteq> iv_id i \<Longrightarrow> id_step S G d (d\<lparr>invitations := invitations d @ [i]\<rparr>)"
| invitation_updated: "(\<And>i. iv_id (f i) = iv_id i \<and> iv_org (f i) = iv_org i \<and> iv_email (f i) = iv_email i \<and> iv_role (f i) = iv_role i) \<Longrightarrow>
    one_open_invitation (update_rows P f (invitations d)) \<Longrightarrow>
    id_step S G d (d\<lparr>invitations := update_rows P f (invitations d)\<rparr>)"
| elsewhere: "id_clock d \<le> t \<Longrightarrow> id_step S G d (d\<lparr>boxes := bs, audit_log := as, id_clock := t, id_rand_pos := n\<rparr>)"

text \<open>What the relative steps need: the organizations of \<open>S\<close> exist, and invitations offer no more than \<open>G\<close>.\<close>

definition offers_ok :: "string set \<Rightarrow> (string \<times> string) set \<Rightarrow> iddb \<Rightarrow> bool" where
  "offers_ok S G d \<longleftrightarrow> S \<subseteq> g_id ` set (account_orgs d) \<and>
     (\<forall>i \<in> set (invitations d). iv_org i \<in> S \<longrightarrow> iv_role i = ''member'' \<or> (iv_org i, iv_role i) \<in> G)"

lemma offers_stable: "stable (id_step S G) (offers_ok S G)"
  unfolding stable_def
proof (intro allI impI)
  fix d d' assume "id_step S G d d'" and o: "offers_ok S G d"
  then show "offers_ok S G d'"
  proof cases
    case (org_renamed P name)
    have "g_id ` set (update_rows P (\<lambda>o'. o'\<lparr>g_name := name\<rparr>) (account_orgs d)) = g_id ` set (account_orgs d)"
      using arg_cong [OF map_update_rows [of "account_orgs d" P g_id "\<lambda>o'. o'\<lparr>g_name := name\<rparr>"], of set] by simp
    with o show ?thesis unfolding org_renamed(1) by (simp add: offers_ok_def)
  next
    case (invitation_updated f P)
    have "iv_org i \<in> S \<longrightarrow> iv_role i = ''member'' \<or> (iv_org i, iv_role i) \<in> G"
      if "i \<in> set (update_rows P f (invitations d))" for i
    proof -
      from that obtain q where "q \<in> set (invitations d)" "i = (if P q then f q else q)"
        unfolding in_update_rows by blast
      with o invitation_updated(2) [of q] show ?thesis by (auto simp: offers_ok_def)
    qed
    with o show ?thesis unfolding invitation_updated(1) by (simp add: offers_ok_def)
  qed (auto simp: offers_ok_def)
qed

section \<open>The statements are steps\<close>

abbreviation id_steps :: "string set \<Rightarrow> (string \<times> string) set \<Rightarrow> iddb \<Rightarrow> iddb \<Rightarrow> bool" where
  "id_steps S G \<equiv> (id_step S G)\<^sup>*\<^sup>*"

lemma step_rand: "id_steps S G d (d\<lparr>id_rand_pos := n\<rparr>)"
proof -
  have "d\<lparr>id_rand_pos := n\<rparr> = d\<lparr>boxes := boxes d, audit_log := audit_log d, id_clock := id_clock d, id_rand_pos := n\<rparr>" by simp
  then show ?thesis using elsewhere [where d = d and t = "id_clock d" and bs = "boxes d" and as = "audit_log d" and n = n] by (metis order_refl r_into_rtranclp)
qed

lemma step_audit: "id_steps S G d (d\<lparr>audit_log := as\<rparr>)"
proof -
  have "d\<lparr>audit_log := as\<rparr> = d\<lparr>boxes := boxes d, audit_log := as, id_clock := id_clock d, id_rand_pos := id_rand_pos d\<rparr>" by simp
  then show ?thesis using elsewhere [where d = d and t = "id_clock d" and bs = "boxes d" and as = as and n = "id_rand_pos d"] by (metis order_refl r_into_rtranclp)
qed

lemma steps_after: "id_steps S G d d1 \<Longrightarrow> id_step S G d1 d2 \<Longrightarrow> id_steps S G d d2"
  by (rule rtranclp.rtrancl_into_rtrancl)

lemma step_add_member:
  assumes "add_member u org role d = Inr (n, d')" and "org \<in> S \<Longrightarrow> role = ''member'' \<or> (org, role) \<in> G"
  shows "id_steps S G d d'"
proof -
  let ?d = "d\<lparr>id_rand_pos := Suc (id_rand_pos d)\<rparr>"
  from assms(1) have "d' = ?d \<or> (member_of ?d org u = None \<and> d' = ?d\<lparr>members := members ?d @
      [\<lparr>m_id = id_rand d (id_rand_pos d), m_user = u, m_org = org, m_role = role, m_joined = id_clock d\<rparr>]\<rparr>)"
    by (auto simp: add_member_def bindT_def id_draw_Inr split: if_splits)
  then show ?thesis
    using step_rand steps_after [OF step_rand member_added [of ?d org u S role G]] assms(2) by metis
qed

text \<open>A statement that draws an identity first.\<close>

lemma drawn: "id_step S G (d\<lparr>id_rand_pos := n\<rparr>) d' \<Longrightarrow> id_steps S G d d'"
  by (rule steps_after [OF step_rand])

lemma user_added_drawn: "\<forall>q \<in> set (users d). u_id q \<noteq> u_id u \<and> u_email q \<noteq> u_email u \<and> u_subject q \<noteq> u_subject u \<Longrightarrow>
    u_subject u \<noteq> None \<Longrightarrow> id_steps S G d (d\<lparr>id_rand_pos := n, users := users d @ [u]\<rparr>)"
  by (rule drawn) (use user_added [where d = "d\<lparr>id_rand_pos := n\<rparr>"] in simp)

lemma user_saved_drawn: "\<forall>q \<in> set (users d). u_email q \<noteq> email \<longrightarrow> u_subject q \<noteq> Some subject \<Longrightarrow>
    id_steps S G d (d\<lparr>id_rand_pos := n, users := update_rows (\<lambda>q. u_email q = email)
      (\<lambda>q. q\<lparr>u_name := name, u_subject := Some subject, u_updated_at := g q\<rparr>) (users d)\<rparr>)"
  by (rule drawn) (use user_saved [where d = "d\<lparr>id_rand_pos := n\<rparr>"] in simp)

lemma org_added_drawn: "\<forall>q \<in> set (account_orgs d). g_id q \<noteq> g_id o' \<and> g_slug q \<noteq> g_slug o' \<Longrightarrow>
    id_steps S G d (d\<lparr>id_rand_pos := n, account_orgs := account_orgs d @ [o']\<rparr>)"
  by (rule drawn) (use org_added [where d = "d\<lparr>id_rand_pos := n\<rparr>"] in simp)

lemma org_renamed_drawn: "id_steps S G d (d\<lparr>id_rand_pos := n, account_orgs := update_rows P (\<lambda>o'. o'\<lparr>g_name := name\<rparr>) (account_orgs d)\<rparr>)"
  by (rule drawn) (use org_renamed [where d = "d\<lparr>id_rand_pos := n\<rparr>"] in simp)

lemma invitation_added_drawn: "iv_role i = ''member'' \<Longrightarrow> one_open_invitation (invitations d @ [i]) \<Longrightarrow>
    \<forall>q \<in> set (invitations d). iv_id q \<noteq> iv_id i \<Longrightarrow>
    id_steps S G d (d\<lparr>id_rand_pos := n, invitations := invitations d @ [i]\<rparr>)"
  by (rule drawn) (use invitation_added [where d = "d\<lparr>id_rand_pos := n\<rparr>"] in simp)

lemma key_added_drawn: "\<forall>q \<in> set (api_keys d). ak_id q \<noteq> ak_id k \<and> ak_hash q \<noteq> ak_hash k \<Longrightarrow>
    id_steps S G d (d\<lparr>id_rand_pos := n, api_keys := api_keys d @ [k]\<rparr>)"
  by (rule drawn) (use key_added [where d = "d\<lparr>id_rand_pos := n\<rparr>"] in simp)

lemma first_email:
  "first_row (filter (\<lambda>u. u_email u = email) us) = None \<longleftrightarrow> (\<forall>q \<in> set us. u_email q \<noteq> email)"
  by (auto simp: filter_empty_conv)

lemma step_save_user:
  assumes "save_user may touch email name subject d = Inr (r, d')"
  shows "id_steps S G d d'"
proof -
  let ?d = "d\<lparr>id_rand_pos := Suc (id_rand_pos d)\<rparr>" let ?i = "id_rand d (id_rand_pos d)"
  note run = assms [unfolded save_user_def, simplified bindT_Inr [OF id_draw_Inr]]
  show ?thesis
  proof (cases "first_row (filter (\<lambda>u. u_email u = email) (users d))")
    case None
    with first_email [of email "users d"] have "\<forall>q \<in> set (users d). u_email q \<noteq> email" by blast
    with None run show ?thesis by (auto split: if_splits intro!: user_added_drawn)
  next
    case (Some u)
    with run show ?thesis by (auto split: if_splits intro!: step_rand user_saved_drawn)
  qed
qed

lemma step_add_org:
  "add_account_org name slug d = Inr (r, d') \<Longrightarrow> id_steps S G d d'"
  by (auto simp: add_account_org_def bindT_def id_draw_Inr split: if_splits intro!: step_rand org_added_drawn)

lemma first_slug:
  "first_row (filter (\<lambda>g. g_slug g = slug) gs) = None \<longleftrightarrow> (\<forall>g \<in> set gs. g_slug g \<noteq> slug)"
  by (auto simp: filter_empty_conv)

lemma step_save_dev_org: "save_dev_org d = Inr (r, d') \<Longrightarrow> id_steps S G d d'"
  using first_slug [of "''development-labs''" "account_orgs d"]
  by (cases "first_row (filter (\<lambda>g. g_slug g = ''development-labs'') (account_orgs d))")
    (auto simp: save_dev_org_def bindT_def id_draw_Inr split: if_splits intro!: org_added_drawn org_renamed_drawn)

lemma step_update_invitations:
  assumes "update_invitations P f d = Inr (r, d')"
    and "\<And>i. iv_id (f i) = iv_id i \<and> iv_org (f i) = iv_org i \<and> iv_email (f i) = iv_email i \<and> iv_role (f i) = iv_role i"
  shows "id_steps S G d d'"
  using assms
  by (auto simp: update_invitations_def bindT_def upd_invitations_Inr split: if_splits
      intro!: r_into_rtranclp invitation_updated)

lemma step_new_invitation: "new_invitation org email actor lifespan d = Inr (r, d') \<Longrightarrow> id_steps S G d d'"
  by (auto simp: new_invitation_def insert_invitation_def bindT_def id_draw_Inr id_now_Inr Let_def returnT_apply
      split: if_splits option.splits intro!: invitation_added_drawn)

lemma step_store_key:
  assumes "store_key env org actor name scopes expiry d = Inr ((row, token), d')"
  shows "id_steps S G d d'"
  using store_key_Inr(1) [OF assms]
  by (auto simp: insert_key_Inr intro!: key_added_drawn)

lemma step_use_ticket: "use_ticket h sbx d = Inr (r, d') \<Longrightarrow> id_steps S G d d'"
  by (auto simp: use_ticket_def Let_def intro!: r_into_rtranclp ticket_used)

lemma step_insert_ticket: "insert_ticket t d = Inr (r, d') \<Longrightarrow> id_steps S G d d'"
  by (auto simp: insert_ticket_def split: if_splits option.splits intro!: r_into_rtranclp ticket_added)

section \<open>The services keep to the steps\<close>

abbreviation kept :: "string set \<Rightarrow> (string \<times> string) set \<Rightarrow> ('p, 'a) idproc \<Rightarrow> bool" where
  "kept S G \<equiv> keeps_to (id_step S G) (offers_ok S G)"

lemma step_atomic: "(\<And>d a d'. m d = Inr (a, d') \<Longrightarrow> id_steps S G d d') \<Longrightarrow> kept S G (atomic m)"
  by (rule keeps_to_atomic [OF offers_stable])

lemma kept_read: "(\<And>d a d'. m d = Inr (a, d') \<Longrightarrow> d' = d) \<Longrightarrow> kept S G (atomic m)"
  by (rule step_atomic) blast

lemma kept_gets [keeps_to_intro]: "kept S G (atomic (getsT f))"
  by (rule kept_read) (simp add: getsT_apply)

lemma kept_try [keeps_to_intro]: "kept S G m \<Longrightarrow> (\<And>e. kept S G (h e)) \<Longrightarrow> kept S G (tryP m h)"
  by (rule keeps_to_try [OF _ _ offers_stable])

lemma kept_date [keeps_to_intro]: "kept S G id_date"
  by (simp add: keeps_to_def runs_def id_date_def)

lemma revalidate_same: "revalidatePrincipal cfg auth d = Inr (r, d') \<Longrightarrow> d' = d"
  by (auto simp: revalidatePrincipal_def readApiKeyPrincipal_same bindT_def id_now_Inr getsT_apply returnT_apply
      split: auth_context.splits if_splits)

lemma fetchInvitationRow_same: "fetchInvitationRow org i d = Inr (r, d') \<Longrightarrow> d' = d"
  by (auto simp: fetchInvitationRow_def bindT_def sel_invitations_Inr returnT_apply)

lemma kept_reads [keeps_to_intro]:
  "kept S G (atomic (organizationMembershipRole org actor))"
  "kept S G (atomic (readApiKeyPrincipal lookup))"
  "kept S G (atomic (revalidatePrincipal cfg auth))"
  "kept S G (atomic (adminCheck org actor))"
  "kept S G (atomic (adminCountForOrg org))"
  "kept S G (atomic (fetchInvitationRow org i))"
  "kept S G (atomic (sel_invitations Q))"
  by (rule kept_read, simp add: organizationMembershipRole_Inr readApiKeyPrincipal_same revalidate_same
      adminCheck_def adminCountForOrg_def getsT_apply fetchInvitationRow_same sel_invitations_Inr)+

lemma step_key_used: "bindT id_now (\<lambda>t. upd_api_keys P (\<lambda>r. r\<lparr>ak_used_at := Some t\<rparr>)) d = Inr (n, d') \<Longrightarrow> id_steps S G d d'"
  by (auto simp: bindT_def id_now_Inr upd_api_keys_Inr intro!: r_into_rtranclp key_used)

lemma step_key_revoked: "bindT id_now (\<lambda>t. upd_api_keys P (revoke_row t)) d = Inr (n, d') \<Longrightarrow> id_steps S G d d'"
  by (auto simp: bindT_def id_now_Inr upd_api_keys_Inr intro!: r_into_rtranclp key_revoked)

lemma step_send_mark: "bindT id_now (\<lambda>t. update_invitations P (f t)) d = Inr (r, d') \<Longrightarrow>
    (\<And>t i. iv_id (f t i) = iv_id i \<and> iv_org (f t i) = iv_org i \<and> iv_email (f t i) = iv_email i \<and> iv_role (f t i) = iv_role i) \<Longrightarrow>
    id_steps S G d d'"
  unfolding bindT_Inr [OF id_now_Inr] by (erule step_update_invitations)

lemma kept_writes [keeps_to_intro]:
  "kept S G (atomic id_draw)"
  "kept S G (atomic (add_audit_row org action))"
  "kept S G (atomic (bindT id_now (\<lambda>t. upd_api_keys P (\<lambda>r. r\<lparr>ak_used_at := Some t\<rparr>))))"
  "kept S G (atomic (bindT id_now (\<lambda>t. upd_api_keys P (revoke_row t))))"
  "kept S G (atomic (add_member u org ''member''))"
  "kept S G (atomic (save_user may touch email name subject))"
  "kept S G (atomic (add_account_org name slug))"
  "kept S G (atomic (new_invitation org email actor lifespan))"
  "kept S G (atomic (use_ticket h sbx))"
  "kept S G (atomic (insert_ticket t))"
  "kept S G (atomic (delete_member org i))"
  by (rule step_atomic, auto simp: id_draw_Inr add_audit_row_Inr delete_member_def modifyT_apply
      intro: step_rand step_audit step_key_used step_key_revoked step_add_member step_save_user step_add_org
        step_new_invitation step_use_ticket step_insert_ticket r_into_rtranclp member_removed)+

lemma kept_update [keeps_to_intro]:
  assumes "\<And>t i. iv_id (f t i) = iv_id i \<and> iv_org (f t i) = iv_org i \<and> iv_email (f t i) = iv_email i \<and> iv_role (f t i) = iv_role i"
  shows "kept S G (atomic (bindT id_now (\<lambda>t. update_invitations P (f t))))"
  by (rule step_atomic) (erule step_send_mark, rule assms)

lemma kept_store_key [keeps_to_intro]: "kept S G (atomic (store_key env org actor name scopes expiry))"
  by (rule step_atomic) (metis step_store_key surj_pair)

lemma kept_onboard [keeps_to_intro]:
  "kept S G (atomic (\<lambda>d. Inr (f d, d\<lparr>users := update_rows P (\<lambda>u. u\<lparr>u_onboarded := g u (id_clock d), u_updated_at := id_clock d\<rparr>) (users d)\<rparr>)))"
  by (rule step_atomic) (auto intro!: r_into_rtranclp user_onboarded)

lemma kept_keys [keeps_to_intro]:
  "kept S G (requireKeyOwner org actor)"
  "kept S G (listApiKeys org actor)"
  "kept S G (createApiKeyRecord env org actor name scopes expiresAt)"
  "kept S G (revokeApiKey org actor i)"
  unfolding listApiKeys_def createApiKeyRecord_def revokeApiKey_def requireKeyOwner_def by (intro keeps_to_intro)+

lemma kept_send [keeps_to_intro]:
  "kept S G (send_or_mark admin org invitation a b)"
  unfolding send_or_mark_def sendInvitationActions_def markInvitationSendFailure_def keycloak_user_for_def undefined_row_def
  by (intro keeps_to_intro) simp_all

lemma kept_accounts [keeps_to_intro]:
  "kept S G (fetchMemberByUserId org u actor)"
  "kept S G (getCurrentAccount org user)"
  "kept S G (listOrganizationMembers org user)"
  "kept S G (localUserForKeycloakUser k)"
  "kept S G (removeOrganizationMember org actor i)"
  "kept S G (cancelOrganizationInvitation org actor i)"
  "kept S G (resendOrganizationInvitation admin org actor i)"
  "kept S G (completeOnboarding org user)"
  unfolding fetchMemberByUserId_def getCurrentAccount_def listOrganizationMembers_def localUserForKeycloakUser_def
    removeOrganizationMember_def cancelOrganizationInvitation_def resendOrganizationInvitation_def completeOnboarding_def Let_def
    undefined_row_def
  by (intro keeps_to_intro; simp)+

lemma kept_invite [keeps_to_intro]:
  "kept S G (createOrganizationInvitation admin lifespan org actor address)"
  unfolding createOrganizationInvitation_def invite_existing_def undefined_row_def Let_def by (intro keeps_to_intro)

text \<open>Accepting gives the role an invitation offers, and offers do not change.\<close>

definition offered :: "string set \<Rightarrow> (string \<times> string) set \<Rightarrow> invitation_row \<Rightarrow> bool" where
  "offered S G i \<longleftrightarrow> (iv_org i \<in> S \<longrightarrow> iv_role i = ''member'' \<or> (iv_org i, iv_role i) \<in> G)"

lemma kept_accept_each: "list_all (offered S G) rows \<Longrightarrow> kept S G (accept_each user subject rows)"
proof (induction rows)
  case (Cons i rows)
  have "kept S G (atomic (add_member user (iv_org i) (iv_role i)))"
    using Cons.prems by (intro step_atomic) (auto simp: offered_def intro: step_add_member)
  then have "kept S G (accept_invitation user subject i)"
    unfolding accept_invitation_def by (intro keeps_to_intro; simp)
  with Cons show ?case unfolding accept_each.simps by (intro keeps_to_intro) simp_all
qed (simp add: keeps_to_ret)

lemma kept_accept [keeps_to_intro]: "kept S G (acceptPendingOrganizationInvitations user address subject)"
  unfolding acceptPendingOrganizationInvitations_def
proof (rule keeps_to_bind_post)
  show "runs (id_step S G) (offers_ok S G)
      (atomic (getsT (\<lambda>d. sort_key iv_created_at (filter (acceptable (id_clock d) (normalizeEmail address)) (invitations d)))))
      (\<lambda>is d. offers_ok S G d \<and> list_all (offered S G) is)"
    by (rule runs_atomic [OF offers_stable]) (auto simp: getsT_apply offers_ok_def offered_def list_all_iff)
qed (intro keeps_to_intro kept_accept_each)

lemma kept_attempts: "kept S G (workspace_attempts user name base attempts)"
proof (induction attempts)
  case (Cons n attempts)
  have "runs (id_step S G) (offers_ok S G) (atomic (add_account_org name (attempt_slug base n)))
      (\<lambda>r d. offers_ok S G d \<and> (\<forall>org. r = Some org \<longrightarrow> org \<notin> S))"
  proof (rule runs_atomic [OF offers_stable])
    fix d r d' assume o: "offers_ok S G d" and a: "add_account_org name (attempt_slug base n) d = Inr (r, d')"
    have "org \<notin> S" if "r = Some org" for org
    proof -
      from a that have "\<forall>g \<in> set (account_orgs d). g_id g \<noteq> org"
        by (auto simp: add_account_org_def bindT_def id_draw_Inr split: if_splits)
      with o show ?thesis by (auto simp: offers_ok_def)
    qed
    with step_add_org [OF a] stable_star [OF offers_stable step_add_org [OF a] o]
    show "id_steps S G d d' \<and> offers_ok S G d' \<and> (\<forall>org. r = Some org \<longrightarrow> org \<notin> S)" by blast
  qed
  then show ?case
    unfolding workspace_attempts.simps
  proof (rule keeps_to_bind_post, goal_cases)
    case (1 r)
    then have "kept S G (atomic (add_member user org ''admin''))" if "r = Some org" for org
      using that by (intro step_atomic) (auto intro: step_add_member)
    then show ?case by (intro keeps_to_intro Cons.IH)
  qed
qed (simp add: keeps_to_throw)

lemma kept_jwt [keeps_to_intro]: "kept S G (authFromJwt cfg token)"
  unfolding authFromJwt_def Let_def ensureWorkspaceForUser_def by (intro keeps_to_intro kept_attempts)

lemma kept_context [keeps_to_intro]:
  "(\<And>p s u r. kept S G (f p s u r)) \<Longrightarrow> (\<And>p k ss. kept S G (g p k ss)) \<Longrightarrow> kept S G (case_auth_context f g a)"
  by (cases a) simp_all

lemma kept_header:
  "(h = NoHeader \<Longrightarrow> kept S G m) \<Longrightarrow> (\<And>t. kept S G (f t)) \<Longrightarrow> (\<And>ts. kept S G (g ts)) \<Longrightarrow> kept S G (case_header m f g h)"
  by (cases h) simp_all

lemma kept_auth:
  assumes "\<not> authDevAllow cfg"
  shows "kept S G (requireAuth cfg a b)"
  unfolding requireAuth_def Let_def
  using assms by (intro keeps_to_intro kept_header) simp_all

lemma kept_stream [keeps_to_intro]: "kept S G (streamAuthValid cfg auth a b)"
  unfolding streamAuthValid_def Let_def by (intro keeps_to_intro)

lemma kept_tickets [keeps_to_intro]:
  "kept S G (createTerminalAttachTicket tc sbx auth)"
  "kept S G (consumeTerminalAttachTicket tc sbx ticket)"
  unfolding createTerminalAttachTicket_def consumeTerminalAttachTicket_def Let_def by (intro keeps_to_intro)+

end
