(* ===== verification/Access.thy ===== *)
theory Access
  imports IdentitySteps
begin

text \<open>
  What holds of accounts, keys, sign-in and tickets whatever sequence of calls is served and
  whatever happens in between.
\<close>

section \<open>Sequences of calls\<close>

datatype id_call =
    Authenticate header header
  | Stream auth_context header header
  | CreateKey string "string option" string "string list option" "string option"
  | ListKeys string "string option"
  | RevokeKey string "string option" string
  | Invite string "string option" string
  | Resend string "string option" string
  | CancelInvitation string "string option" string
  | RemoveMember string "string option" string
  | ListMembers string string
  | CurrentAccount string string
  | Onboard string string
  | IssueTicket string auth_context
  | UseTicket string "string option"

record 'p account_services =
  sv_auth :: auth_config
  sv_tickets :: ticket_config
  sv_keycloak :: "'p keycloak_admin option"
  sv_lifespan :: int
  sv_keys :: key_env

text \<open>A call answered: its result or error is the client's.\<close>

definition answered :: "('p, 'a) idproc \<Rightarrow> ('p, unit) idproc" where
  "answered m = tryP (bindP m (\<lambda>_. retP ())) (\<lambda>_. retP ())"

lemma answered_always: "\<exists>w'. answered m w = (Inr (), w')"
  by (auto simp: answered_def tryP_def bindP_def retP_def split: prod.splits sum.splits)

fun serve :: "'p account_services \<Rightarrow> id_call \<Rightarrow> ('p, unit) idproc" where
  "serve sv (Authenticate a b) = answered (requireAuth (sv_auth sv) a b)"
| "serve sv (Stream auth a b) = answered (streamAuthValid (sv_auth sv) auth a b)"
| "serve sv (CreateKey org actor name scopes e) = answered (createApiKeyRecord (sv_keys sv) org actor name scopes e)"
| "serve sv (ListKeys org actor) = answered (listApiKeys org actor)"
| "serve sv (RevokeKey org actor i) = answered (revokeApiKey org actor i)"
| "serve sv (Invite org actor a) = answered (createOrganizationInvitation (sv_keycloak sv) (sv_lifespan sv) org actor a)"
| "serve sv (Resend org actor i) = answered (resendOrganizationInvitation (sv_keycloak sv) org actor i)"
| "serve sv (CancelInvitation org actor i) = answered (cancelOrganizationInvitation org actor i)"
| "serve sv (RemoveMember org actor i) = answered (removeOrganizationMember org actor i)"
| "serve sv (ListMembers org actor) = answered (listOrganizationMembers org actor)"
| "serve sv (CurrentAccount org user) = answered (getCurrentAccount org user)"
| "serve sv (Onboard org user) = answered (completeOnboarding org user)"
| "serve sv (IssueTicket sbx auth) = answered (createTerminalAttachTicket (sv_tickets sv) sbx auth)"
| "serve sv (UseTicket sbx ticket) = answered (consumeTerminalAttachTicket (sv_tickets sv) sbx ticket)"

fun serve_all :: "'p account_services \<Rightarrow> id_call list \<Rightarrow> ('p, unit) idproc" where
  "serve_all sv [] = retP ()"
| "serve_all sv (c # cs) = bindP (serve sv c) (\<lambda>_. serve_all sv cs)"

lemma kept_answered: "kept S G m \<Longrightarrow> kept S G (answered m)"
  unfolding answered_def by (intro keeps_to_intro)

lemma kept_serve: "\<not> authDevAllow (sv_auth sv) \<Longrightarrow> kept S G (serve sv c)"
  by (cases c) (simp_all add: kept_answered keeps_to_intro kept_auth)

lemma kept_serve_all: "\<not> authDevAllow (sv_auth sv) \<Longrightarrow> kept S G (serve_all sv cs)"
  by (induction cs) (simp_all add: keeps_to_ret keeps_to_bind kept_serve)

section \<open>Nobody is made an administrator\<close>

definition orgs_of :: "iddb \<Rightarrow> string set" where
  "orgs_of d = g_id ` set (account_orgs d)"

definition offers_of :: "iddb \<Rightarrow> (string \<times> string) set" where
  "offers_of d = (\<lambda>i. (iv_org i, iv_role i)) ` set (invitations d)"

lemma offers_ok_now: "offers_ok (orgs_of d) (offers_of d) d"
  by (auto simp: offers_ok_def orgs_of_def offers_of_def)

definition admins_known :: "string set \<Rightarrow> (string \<times> string) set \<Rightarrow> member_row set \<Rightarrow> iddb \<Rightarrow> bool" where
  "admins_known S G M d \<longleftrightarrow> (\<forall>m \<in> set (members d). m_role m = ''admin'' \<longrightarrow> m_org m \<in> S \<longrightarrow>
     (m_org m, ''admin'') \<in> G \<or> m \<in> M)"

lemma admins_known_stable: "stable (id_step S G) (admins_known S G M)"
  unfolding stable_def by (auto elim!: id_step.cases simp: admins_known_def)


section \<open>Revoked keys\<close>

definition revoked :: "string \<Rightarrow> iddb \<Rightarrow> bool" where
  "revoked i d \<longleftrightarrow> (\<exists>k \<in> set (api_keys d). ak_id k = i) \<and> (\<forall>k \<in> set (api_keys d). ak_id k = i \<longrightarrow> ak_revoked_at k \<noteq> None)"

lemma revoked_update:
  assumes "revoked i d" and "\<And>k. ak_id (f k) = ak_id k" and "\<And>k. ak_revoked_at k \<noteq> None \<Longrightarrow> ak_revoked_at (f k) \<noteq> None"
  shows "revoked i (d\<lparr>api_keys := update_rows P f (api_keys d)\<rparr>)"
proof -
  have "(\<exists>k \<in> set (update_rows P f (api_keys d)). ak_id k = i) \<longleftrightarrow> (\<exists>k \<in> set (api_keys d). ak_id k = i)"
    by (rule bex_update_rows) (simp add: assms(2))
  moreover have "\<forall>k \<in> set (update_rows P f (api_keys d)). ak_id k = i \<longrightarrow> ak_revoked_at k \<noteq> None"
    using assms by (intro ball_update_rows) (auto simp: revoked_def)
  ultimately show ?thesis using assms(1) by (simp add: revoked_def)
qed

lemma revoke_row_revoked: "ak_revoked_at k \<noteq> None \<Longrightarrow> ak_revoked_at (revoke_row t k) \<noteq> None"
  "ak_revoked_at (revoke_row t k) \<noteq> None" "ak_id (revoke_row t k) = ak_id k"
  by (auto simp: revoke_row_def coalesce_def split: option.splits)

lemma revoked_stable: "stable (id_step S G) (revoked i)"
  unfolding stable_def
proof (intro allI impI)
  fix d d' assume "id_step S G d d'" and r: "revoked i d"
  then show "revoked i d'"
  proof cases
    case (key_used P t)
    then show ?thesis using revoked_update [OF r] by simp
  next
    case (key_revoked P t)
    then show ?thesis using revoked_update [OF r, of "revoke_row t"] by (simp add: revoke_row_revoked)
  qed (use r in \<open>auto simp: revoked_def\<close>)
qed

definition key_ids_unique :: "iddb \<Rightarrow> bool" where
  "key_ids_unique d \<longleftrightarrow> distinct (map ak_id (api_keys d))"

lemma key_ids_stable: "stable (id_step S G) key_ids_unique"
  unfolding stable_def
proof (intro allI impI)
  fix d d' assume "id_step S G d d'" and "key_ids_unique d"
  then show "key_ids_unique d'"
    by cases (auto simp: key_ids_unique_def map_update_rows revoke_row_def)
qed

text \<open>
  C27. A revoked key is dead. Once a revocation has been answered, no later state of the tables,
  whatever is done in between, lets the key authenticate a request, keep a stream open or back a
  terminal ticket.
\<close>

theorem revoked_key_dead:
  assumes "revokeApiKey org actor i w = (Inr True, w')" and "foreign_ok (id_step S G) w" and "key_ids_unique (wdb w)"
    and "id_steps S G (wdb w') d"
  shows "readApiKeyPrincipal lookup d \<noteq> Inr (Some (KeyAuth p i scopes), d') \<and>
    revalidatePrincipal cfg (KeyAuth p i scopes) d = Inr (None, d)"
proof -
  from assms(1) obtain role w1 n where own: "requireKeyOwner org actor w = (Inr role, w1)"
    and upd: "atomic (bindT id_now (\<lambda>t. upd_api_keys (\<lambda>k. ak_id k = i \<and> own_key org role actor k) (revoke_row t))) w1 = (Inr n, w')" "n \<noteq> 0"
    by (auto simp: revokeApiKey_def bindP_Inr_iff retP_def)
  let ?d = "wdb (interfere w1)" let ?P = "\<lambda>k. ak_id k = i \<and> own_key org role actor k"
  from upd have w': "wdb w' = ?d\<lparr>api_keys := update_rows ?P (revoke_row (id_clock ?d)) (api_keys ?d)\<rparr>" "count_rows ?P (api_keys ?d) = n"
    by (auto simp: atomic_Inr_iff bindT_def id_now_Inr upd_api_keys_Inr)
  from requireKeyOwner_Inr [OF own] have w1: "w1 = interfere w" by simp
  note f1 = interfere_follows [OF assms(2)]
  note f2 = interfere_follows [OF conjunct2 [OF f1]]
  have unique: "key_ids_unique ?d"
    unfolding w1 by (intro stable_star [OF key_ids_stable conjunct1 [OF f2]] stable_star [OF key_ids_stable conjunct1 [OF f1]] assms(3))
  from w'(2) upd(2) obtain k where k: "k \<in> set (api_keys ?d)" "?P k"
    using count_rows_pos [of ?P "api_keys ?d"] by auto
  have only: "q = k" if "q \<in> set (api_keys ?d)" "ak_id q = i" for q
    using key_unique [of ak_id "api_keys ?d" q k] unique k that by (simp add: key_ids_unique_def)
  have "revoked i (wdb w')"
    unfolding revoked_def w'(1)
  proof
    show "\<exists>q \<in> set (api_keys (?d\<lparr>api_keys := update_rows ?P (revoke_row (id_clock ?d)) (api_keys ?d)\<rparr>)). ak_id q = i"
      using k bex_update_rows [of ?P "\<lambda>q. ak_id q = i" "revoke_row (id_clock ?d)" "api_keys ?d"]
      by (auto simp: revoke_row_revoked)
    show "\<forall>q \<in> set (api_keys (?d\<lparr>api_keys := update_rows ?P (revoke_row (id_clock ?d)) (api_keys ?d)\<rparr>)).
        ak_id q = i \<longrightarrow> ak_revoked_at q \<noteq> None"
    proof (intro ballI impI)
      fix q assume "q \<in> set (api_keys (?d\<lparr>api_keys := update_rows ?P (revoke_row (id_clock ?d)) (api_keys ?d)\<rparr>))" and i: "ak_id q = i"
      then obtain x where x: "x \<in> set (api_keys ?d)" "q = (if ?P x then revoke_row (id_clock ?d) x else x)"
        by (auto simp: in_update_rows)
      then have "ak_id x = i" using i by (simp add: revoke_row_revoked split: if_splits)
      with only x k(2) show "ak_revoked_at q \<noteq> None" by (simp add: revoke_row_revoked del: not_None_eq)
    qed
  qed
  from stable_star [OF revoked_stable assms(4) this] have dead: "revoked i d" .
  have none: "readApiKeyPrincipal lk d \<noteq> Inr (Some (KeyAuth q i ss), d2)" for lk q ss d2
  proof
    assume "readApiKeyPrincipal lk d = Inr (Some (KeyAuth q i ss), d2)"
    then obtain k where "k \<in> set (api_keys d)" "key_valid d k" "ak_id k = i" by (elim readApiKeyPrincipal_Some) simp
    with dead show False by (auto simp: revoked_def key_valid_def)
  qed
  have "revalidatePrincipal cfg (KeyAuth p i scopes) d = Inr (None, d)"
  proof -
    obtain r where r: "readApiKeyPrincipal (ById i (Some (p_org p))) d = Inr (r, d)"
      by (simp add: readApiKeyPrincipal_def getsT_apply)
    have "r = None"
    proof (rule ccontr)
      assume "r \<noteq> None"
      then obtain a where a: "r = Some a" by blast
      from r [unfolded a] obtain k ss q where "key_matches (ById i (Some (p_org p))) k" "a = KeyAuth q (ak_id k) ss"
        by (elim readApiKeyPrincipal_Some) blast
      with r a none show False by auto
    qed
    with r show ?thesis by (simp add: revalidatePrincipal_def)
  qed
  with none show ?thesis by blast
qed

section \<open>Single-use tickets\<close>

definition spent :: "string \<Rightarrow> iddb \<Rightarrow> bool" where
  "spent h d \<longleftrightarrow> (\<exists>t \<in> set (tickets d). tk_hash t = h) \<and> (\<forall>t \<in> set (tickets d). tk_hash t = h \<longrightarrow> tk_used_at t \<noteq> None)"

definition ticket_hashes_unique :: "iddb \<Rightarrow> bool" where
  "ticket_hashes_unique d \<longleftrightarrow> distinct (map tk_hash (tickets d))"

lemma hashes_stable: "stable (id_step S G) ticket_hashes_unique"
  unfolding stable_def
proof (intro allI impI)
  fix d d' assume "id_step S G d d'" and "ticket_hashes_unique d"
  then show "ticket_hashes_unique d'"
    by cases (auto simp: ticket_hashes_unique_def map_update_rows)
qed

lemma spent_stable: "stable (id_step S G) (spent h)"
  unfolding stable_def
proof (intro allI impI)
  fix d d' assume "id_step S G d d'" and r: "spent h d"
  then show "spent h d'"
  proof cases
    case (ticket_used P x)
    have "(\<exists>t \<in> set (update_rows P (\<lambda>t. t\<lparr>tk_used_at := Some x\<rparr>) (tickets d)). tk_hash t = h) \<longleftrightarrow> (\<exists>t \<in> set (tickets d). tk_hash t = h)"
      by (rule bex_update_rows) simp
    moreover have "\<forall>t \<in> set (update_rows P (\<lambda>t. t\<lparr>tk_used_at := Some x\<rparr>) (tickets d)). tk_hash t = h \<longrightarrow> tk_used_at t \<noteq> None"
      using r by (intro ball_update_rows) (auto simp: spent_def)
    ultimately show ?thesis using r ticket_used by (simp add: spent_def)
  qed (use r in \<open>auto simp: spent_def\<close>)
qed

lemma use_ticket_spends:
  assumes "use_ticket h sbx d = Inr (Some t, d')" and "ticket_hashes_unique d"
  shows "spent h d' \<and> t \<in> set (tickets d) \<and> tk_hash t = h \<and> tk_sandbox t = sbx \<and> tk_used_at t = None \<and> id_clock d < tk_expires_at t"
proof -
  let ?P = "\<lambda>t. tk_hash t = h \<and> tk_sandbox t = sbx \<and> tk_used_at t = None \<and> id_clock d < tk_expires_at t"
  let ?f = "\<lambda>t. t\<lparr>tk_used_at := Some (id_clock d)\<rparr>"
  from assms(1) have f: "first_row (filter ?P (tickets d)) = Some t" and d': "d' = d\<lparr>tickets := update_rows ?P ?f (tickets d)\<rparr>"
    by (simp_all add: use_ticket_def Let_def)
  from first_row_filter_Some [OF f] have t: "t \<in> set (tickets d)" "?P t" by blast+
  have only: "q = t" if "q \<in> set (tickets d)" "tk_hash q = h" for q
    using key_unique [of tk_hash "tickets d" q t] assms(2) t that by (simp add: ticket_hashes_unique_def)
  have "(\<exists>q \<in> set (update_rows ?P ?f (tickets d)). tk_hash q = h) \<longleftrightarrow> (\<exists>q \<in> set (tickets d). tk_hash q = h)"
    by (rule bex_update_rows) simp
  moreover have "tk_used_at q \<noteq> None" if q: "q \<in> set (update_rows ?P ?f (tickets d))" "tk_hash q = h" for q
  proof -
    from q(1) obtain x where x: "x \<in> set (tickets d)" "q = (if ?P x then ?f x else x)" by (auto simp: in_update_rows)
    with q(2) have "tk_hash x = h" by (simp split: if_splits)
    with only x t(2) show ?thesis by (simp del: not_None_eq)
  qed
  ultimately show ?thesis using t unfolding spent_def d' by (simp del: not_None_eq) blast
qed

lemma use_spent: "spent h d \<Longrightarrow> use_ticket h sbx d = Inr (r, d') \<Longrightarrow> r = None"
  by (auto simp: use_ticket_def Let_def spent_def filter_empty_conv)

text \<open>
  C28. A terminal ticket admits once. When a ticket has been accepted, the principal may write to
  sandboxes at that moment; and whatever happens afterwards, presenting the same ticket again, for
  this or any other sandbox, is refused.
\<close>

theorem ticket_once:
  assumes "consumeTerminalAttachTicket cfg sbx ticket w = (Inr (Some auth), w')"
    and "foreign_ok (id_step S G) w" and "ticket_hashes_unique (wdb w)"
    and "id_steps S G (wdb w') (wdb w2)" and "foreign_ok (id_step S G) w2"
    and "consumeTerminalAttachTicket cfg sbx2 ticket w2 = (r, w3)"
  shows "hasScope auth ''sandboxes:write'' \<and> r = Inr None"
proof -
  define h where "h = hashApiKey (hash_env (ticket_auth cfg)) (the ticket)"
  note unfolded = assms(1) [unfolded consumeTerminalAttachTicket_def h_def [symmetric]]
  then have tr: "truthy ticket" by (auto simp: retP_def split: if_splits)
  with unfolded obtain t w1 a where use: "atomic (use_ticket h sbx) w = (Inr t, w1)" and a: "Option.bind t ticket_candidate = Some a"
    and rest: "bindP (atomic (revalidatePrincipal (ticket_auth cfg) a)) (\<lambda>current.
        retP (case current of None \<Rightarrow> None | Some auth \<Rightarrow> if hasScope auth ''sandboxes:write'' then Some auth else None)) w1
      = (Inr (Some auth), w')"
    by (auto simp: bindP_Inr_iff retP_def split: option.splits)
  from rest obtain cur where cur: "atomic (revalidatePrincipal (ticket_auth cfg) a) w1 = (Inr cur, w')" "cur = Some auth"
      "hasScope auth ''sandboxes:write''"
    by (auto simp: bindP_Inr_iff retP_def split: option.splits if_splits)
  note f1 = interfere_follows [OF assms(2)]
  have unique: "ticket_hashes_unique (wdb (interfere w))"
    by (rule stable_star [OF hashes_stable conjunct1 [OF f1] assms(3)])
  from a obtain row where row: "t = Some row" by (cases t) auto
  from use row obtain d where d: "use_ticket h sbx (wdb (interfere w)) = Inr (Some row, d)" "w1 = (interfere w)\<lparr>wdb := d\<rparr>"
    by (auto simp: atomic_Inr_iff)
  from use_ticket_spends [OF d(1) unique] d(2) have s1: "spent h (wdb w1)" by simp
  have ok1: "foreign_ok (id_step S G) w1" using f1 d(2) by (simp add: foreign_ok_def)
  from cur(1) have w': "wdb w' = wdb (interfere w1)" by (auto simp: atomic_Inr_iff dest: revalidate_same)
  from stable_star [OF spent_stable conjunct1 [OF interfere_follows [OF ok1]] s1] have "spent h (wdb w')" unfolding w' .
  from stable_star [OF spent_stable assms(4) this] have "spent h (wdb w2)" .
  from stable_star [OF spent_stable conjunct1 [OF interfere_follows [OF assms(5)]] this] have s2: "spent h (wdb (interfere w2))" .
  obtain x d2 where x: "use_ticket h sbx2 (wdb (interfere w2)) = Inr (x, d2)" by (simp add: use_ticket_def Let_def)
  from use_spent [OF s2 x] have "x = None" .
  with x tr assms(6) have "r = Inr None"
    unfolding consumeTerminalAttachTicket_def h_def [symmetric] by (simp add: bindP_def atomic_def Let_def retP_def)
  with cur(3) show ?thesis by blast
qed

section \<open>The last administrator\<close>

lemma admin_count_removed:
  assumes "member_of d org u = Some m" and "m_role m = ''admin''" and "m_id m \<noteq> i"
  shows "0 < admin_count (d\<lparr>members := filter (\<lambda>m. \<not> (m_org m = org \<and> m_id m = i)) (members d)\<rparr>) org"
proof -
  from first_row_filter_Some [OF assms(1) [unfolded member_of_def]] have m: "m \<in> set (members d)" "m_org m = org" by auto
  with assms(2,3) have "m \<in> set (filter (\<lambda>m. \<not> (m_org m = org \<and> m_id m = i)) (members d))" by simp
  with m(2) assms(2) show ?thesis unfolding admin_count_def by (auto simp: count_rows_pos)
qed

text \<open>Two removals that interleave: each of two administrators removes the other.\<close>

definition race_db :: iddb where
  "race_db = \<lparr>users = map (\<lambda>u. \<lparr>u_id = u, u_email = u @ ''@x.io'', u_name = u, u_subject = None, u_onboarded = None, u_updated_at = 0\<rparr>)
       [''a'', ''b''],
     members = [\<lparr>m_id = ''ma'', m_user = ''a'', m_org = ''o'', m_role = ''admin'', m_joined = 0\<rparr>,
       \<lparr>m_id = ''mb'', m_user = ''b'', m_org = ''o'', m_role = ''admin'', m_joined = 1\<rparr>],
     api_keys = [], invitations = [], tickets = [],
     account_orgs = [\<lparr>g_id = ''o'', g_name = ''o'', g_slug = ''o'', g_template = [], g_idle_ttl = 0, g_concurrency = 1\<rparr>],
     boxes = [], audit_log = [], id_clock = 0, id_rand = (\<lambda>n. ''r''), id_rand_pos = 0\<rparr>"

definition alone :: "iddb \<Rightarrow> (iddb, unit) gworld" where
  "alone d = \<lparr>wdb = d, prv = (), foreign = []\<rparr>"

definition removal_by_b :: "iddb \<Rightarrow> iddb" where
  "removal_by_b d = wdb (snd (removeOrganizationMember ''o'' (Some ''b'') ''ma'' (alone d)))"

definition race_world :: "(iddb, unit) gworld" where
  "race_world = \<lparr>wdb = race_db, prv = (), foreign = [id, id, id, removal_by_b]\<rparr>"

lemmas race_simps = removeOrganizationMember_def bindP_def atomic_def interfere_def Let_def adminCheck_def getsT_apply
  role_of_def member_of_def join_members_def adminCountForOrg_def admin_count_def count_rows_def retP_def delete_member_def
  modifyT_apply add_audit_row_Inr mapMember_def

lemma race_by_b: "removal_by_b race_db = race_db\<lparr>members := [\<lparr>m_id = ''mb'', m_user = ''b'', m_org = ''o'', m_role = ''admin'', m_joined = 1\<rparr>],
    audit_log := [(''o'', ''org.member.remove'')]\<rparr>"
  by (simp add: removal_by_b_def alone_def race_db_def race_simps)

lemma free_atomic:
  "(\<And>d a d'. m d = Inr (a, d') \<Longrightarrow> id_steps S G d d') \<Longrightarrow> keeps_to (id_step S G) (\<lambda>d. True) (atomic m)"
  by (rule keeps_to_atomic) (auto simp: stable_def)

lemma removal_free: "keeps_to (id_step S G) (\<lambda>d. True) (removeOrganizationMember org actor i)"
proof -
  have reads: "keeps_to (id_step S G) (\<lambda>d. True) (atomic (adminCheck org actor))"
    "keeps_to (id_step S G) (\<lambda>d. True) (atomic (adminCountForOrg org))"
    "keeps_to (id_step S G) (\<lambda>d. True) (atomic (getsT f))" for f :: "iddb \<Rightarrow> (member_row \<times> user_row) option"
    by (rule free_atomic, simp add: adminCheck_def adminCountForOrg_def getsT_apply)+
  have writes: "keeps_to (id_step S G) (\<lambda>d. True) (atomic (delete_member org i))"
    "keeps_to (id_step S G) (\<lambda>d. True) (atomic (add_audit_row org a))" for a
    by (rule free_atomic, auto simp: delete_member_def modifyT_apply add_audit_row_Inr intro: step_audit r_into_rtranclp member_removed)+
  show ?thesis
    unfolding removeOrganizationMember_def by (intro keeps_to_intro reads writes)
qed

lemma quiet_atomic:
  "foreign w = [] \<Longrightarrow> atomic m w = (Inr a, w') \<longleftrightarrow> (\<exists>d. m (wdb w) = Inr (a, d) \<and> w' = w\<lparr>wdb := d\<rparr>)"
  by (auto simp: atomic_Inr_iff interfere_def)

lemma quiet_eval:
  assumes "foreign w = []"
  shows "atomic (getsT f) w = (Inr (f (wdb w)), w)"
    and "atomic (modifyT g) w = (Inr (), w\<lparr>wdb := g (wdb w)\<rparr>)"
    and "atomic (add_audit_row org a) w = (Inr (), w\<lparr>wdb := (wdb w)\<lparr>audit_log := audit_log (wdb w) @ [(org, a)]\<rparr>\<rparr>)"
  using assms by (simp_all add: atomic_def interfere_def getsT_apply modifyT_apply add_audit_row_Inr)

definition without :: "string \<Rightarrow> string \<Rightarrow> iddb \<Rightarrow> iddb" where
  "without org i d = d\<lparr>members := filter (\<lambda>m. \<not> (m_org m = org \<and> m_id m = i)) (members d),
     audit_log := audit_log d @ [(org, ''org.member.remove'')]\<rparr>"

lemma quiet_bind: "foreign w = [] \<Longrightarrow> bindP (atomic (getsT f)) g w = g (f (wdb w)) w"
  by (simp add: bindP_def atomic_def interfere_def getsT_apply)

lemma bind_assoc: "bindP (bindP m f) g = bindP m (\<lambda>a. bindP (f a) g)"
  by (auto simp: bindP_def fun_eq_iff split: prod.splits sum.splits)

lemma ret_bind: "bindP (retP a) f = f a" and ret_apply: "retP a w = (Inr a, w)" and if_apply: "(if b then m else n) w = (if b then m w else n w)"
  by (simp_all add: bindP_def retP_def)

lemma quiet_removal:
  "foreign w = [] \<Longrightarrow> bindP (atomic (delete_member org i)) (\<lambda>_. bindP (atomic (add_audit_row org ''org.member.remove'')) g) w
    = g () (w\<lparr>wdb := without org i (wdb w)\<rparr>)"
  by (simp add: bindP_def delete_member_def quiet_eval without_def)

lemma removal_eval:
  assumes "foreign w = []"
  shows "removeOrganizationMember org actor i w =
    (if \<not> (case actor of None \<Rightarrow> False | Some u \<Rightarrow> role_of (wdb w) org u = Some ''admin'') then (Inr Forbidden, w)
     else case first_row (join_members (wdb w) (\<lambda>m u. m_org m = org \<and> m_id m = i)) of
       None \<Rightarrow> (Inr NotFound, w)
     | Some (m, u) \<Rightarrow>
         if Some (m_user m) = actor then (Inr SelfRemove, w)
         else if m_role m = ''admin'' \<and> admin_count (wdb w) org \<le> 1 then (Inr LastAdmin, w)
         else (Inr (Answer (mapMember m u actor (admin_count (without org i (wdb w)) org))), w\<lparr>wdb := without org i (wdb w)\<rparr>))"
  unfolding removeOrganizationMember_def adminCheck_def adminCountForOrg_def
  by (simp add: quiet_bind quiet_removal assms bind_assoc ret_bind ret_apply if_apply split: option.splits prod.splits)

lemma removal_alone:
  assumes "removeOrganizationMember org actor i w = (Inr (Answer v), w')" and "foreign w = []"
  shows "\<exists>x m. actor = Some x \<and> role_of (wdb w) org x = Some ''admin'' \<and> m \<in> set (members (wdb w)) \<and> m_id m = i \<and>
    m_user m \<noteq> x \<and> members (wdb w') = filter (\<lambda>m. \<not> (m_org m = org \<and> m_id m = i)) (members (wdb w))"
proof -
  note run = assms(1) [unfolded removal_eval [OF assms(2)]]
  then obtain x where x: "actor = Some x" "role_of (wdb w) org x = Some ''admin''" by (cases actor) (auto split: if_splits)
  with run obtain m u where mu: "first_row (join_members (wdb w) (\<lambda>m u. m_org m = org \<and> m_id m = i)) = Some (m, u)"
    by (cases "first_row (join_members (wdb w) (\<lambda>m u. m_org m = org \<and> m_id m = i))") auto
  then have "(m, u) \<in> set (join_members (wdb w) (\<lambda>m u. m_org m = org \<and> m_id m = i))" by (rule first_row_Some)
  then have "m \<in> set (members (wdb w))" "m_id m = i" by (auto simp: join_members_def)
  with run x mu show ?thesis by (auto simp: without_def split: if_splits)
qed

lemma member_of_filter:
  assumes "member_of d org x = Some m" and "distinct (map m_id (members d))" and "m_id m \<noteq> i"
    and "members d' = filter (\<lambda>m. \<not> (m_org m = org \<and> m_id m = i)) (members d)"
  shows "member_of d' org x = Some m"
proof -
  from assms(1) obtain ms where ms: "filter (\<lambda>m. m_org m = org \<and> m_user m = x) (members d) = m # ms"
    by (auto simp: member_of_def first_row_def split: list.splits)
  have "filter (\<lambda>m. m_org m = org \<and> m_user m = x) (members d') = filter (\<lambda>m. \<not> (m_org m = org \<and> m_id m = i))
      (filter (\<lambda>m. m_org m = org \<and> m_user m = x) (members d))"
    unfolding assms(4) filter_filter by (rule filter_cong) auto
  with ms assms(3) show ?thesis by (simp add: member_of_def)
qed

text \<open>
  A removal leaves an administrator. A removal of a member that is answered, with nothing in
  between its steps, leaves the organization with one administrator at least; nobody removes
  himself, nor is anyone but an administrator of the organization heard. (Two removals that
  interleave can remove each other's authors: see the lemma after this one.)
\<close>

lemma removal_keeps_admin:
  assumes "removeOrganizationMember org actor i w = (Inr (Answer v), w')" and "foreign w = []"
    and "distinct (map m_id (members (wdb w)))"
  shows "\<exists>u. actor = Some u \<and> role_of (wdb w') org u = Some ''admin'' \<and> 0 < admin_count (wdb w') org"
proof -
  from removal_alone [OF assms(1,2)] obtain x m where x: "actor = Some x" "role_of (wdb w) org x = Some ''admin''"
      and m: "m \<in> set (members (wdb w))" "m_id m = i" "m_user m \<noteq> x"
      and w': "members (wdb w') = filter (\<lambda>m. \<not> (m_org m = org \<and> m_id m = i)) (members (wdb w))" by blast
  from x(2) obtain mx where mx: "member_of (wdb w) org x = Some mx" "m_role mx = ''admin''" by (auto simp: role_of_def)
  from first_row_filter_Some [OF mx(1) [unfolded member_of_def]]
  have mx2: "mx \<in> set (members (wdb w))" "m_org mx = org" "m_user mx = x" by auto
  have other: "m_id mx \<noteq> i" using key_unique [OF assms(3) mx2(1) m(1)] m(2,3) mx2(3) by auto
  have "member_of (wdb w') org x = Some mx"
    by (rule member_of_filter [OF mx(1) assms(3) other w'])
  moreover have "0 < admin_count (wdb w') org"
    using admin_count_removed [OF mx other] by (simp add: admin_count_def w')
  ultimately show ?thesis using x(1) mx(2) by (auto simp: role_of_def)
qed

lemma removals_race:
  "admin_count race_db ''o'' = 2 \<and> foreign_ok (id_step S G) race_world \<and>
   (\<exists>v w'. removeOrganizationMember ''o'' (Some ''a'') ''mb'' race_world = (Inr (Answer v), w') \<and> admin_count (wdb w') ''o'' = 0)"
proof (intro conjI)
  show "admin_count race_db ''o'' = 2" by (simp add: race_db_def admin_count_def count_rows_def)
  have "id_steps S G d (removal_by_b d)" for d
    using runsD(1) [OF removal_free [unfolded keeps_to_def], of S G "alone d"]
    by (auto simp: removal_by_b_def alone_def foreign_ok_def split_paired_all prod_eq_iff)
  then show "foreign_ok (id_step S G) race_world" by (auto simp: race_world_def foreign_ok_def)
  show "\<exists>v w'. removeOrganizationMember ''o'' (Some ''a'') ''mb'' race_world = (Inr (Answer v), w') \<and> admin_count (wdb w') ''o'' = 0"
    using race_by_b by (simp add: race_world_def race_simps) (simp add: race_db_def race_simps)
qed

section \<open>Whose account a token opens\<close>

text \<open>What others may do while a person signs in: anything that changes no user and removes no membership.\<close>

definition calm :: "iddb \<Rightarrow> iddb \<Rightarrow> bool" where
  "calm d d' \<longleftrightarrow> users d' = users d \<and> set (members d) \<subseteq> set (members d') \<and> orgs_of d \<subseteq> orgs_of d'"

definition settled :: "user_row list \<Rightarrow> string set \<Rightarrow> iddb \<Rightarrow> bool" where
  "settled us S d \<longleftrightarrow> users d = us \<and> S \<subseteq> orgs_of d"

lemma settled_stable: "stable calm (settled us S)"
  by (auto simp: stable_def calm_def settled_def)

lemma calm_refl: "calm d d"
  by (simp add: calm_def)

lemma calm_atomic: "(\<And>d a d'. m d = Inr (a, d') \<Longrightarrow> calm d d') \<Longrightarrow> keeps_to calm (settled us S) (atomic m)"
  by (rule keeps_to_atomic [OF settled_stable]) blast

lemma calm_add_member: "add_member u org role d = Inr (n, d') \<Longrightarrow> calm d d'"
  by (auto simp: add_member_def bindT_def id_draw_Inr calm_def orgs_of_def split: if_splits)

lemma calm_update_invitations:
  "bindT id_now (\<lambda>t. update_invitations P (f t)) d = Inr (r, d') \<Longrightarrow> calm d d'"
  by (auto simp: bindT_def id_now_Inr update_invitations_def upd_invitations_Inr calm_def orgs_of_def split: if_splits)

lemma calm_accept_each: "keeps_to calm (settled us S) (accept_each user subject rows)"
  by (induction rows) (simp_all add: accept_invitation_def keeps_to_ret keeps_to_bind calm_atomic calm_add_member calm_update_invitations)

lemma calm_accept: "keeps_to calm (settled us S) (acceptPendingOrganizationInvitations user address subject)"
  unfolding acceptPendingOrganizationInvitations_def
  by (intro keeps_to_intro calm_accept_each calm_atomic) (simp add: getsT_apply calm_refl)

lemma runs_new_workspace:
  "runs calm (settled us S) (workspace_attempts user name base attempts)
     (\<lambda>org d. settled us S d \<and> org \<notin> S \<and> (\<exists>m \<in> set (members d). m_user m = user \<and> m_org m = org))"
proof (induction attempts)
  case (Cons n attempts)
  have org: "runs calm (settled us S) (atomic (add_account_org name (attempt_slug base n)))
      (\<lambda>r d. settled us S d \<and> (\<forall>org. r = Some org \<longrightarrow> org \<notin> S))"
  proof (rule runs_atomic [OF settled_stable])
    fix d r d' assume o: "settled us S d" and a: "add_account_org name (attempt_slug base n) d = Inr (r, d')"
    from a have c: "calm d d'"
      by (auto simp: add_account_org_def bindT_def id_draw_Inr calm_def orgs_of_def split: if_splits)
    have "org \<notin> S" if "r = Some org" for org
    proof -
      from a that have "org \<notin> orgs_of d"
        by (auto simp: add_account_org_def bindT_def id_draw_Inr orgs_of_def split: if_splits)
      with o show ?thesis by (auto simp: settled_def)
    qed
    moreover from c o have "settled us S d'" by (auto simp: settled_def calm_def)
    ultimately show "calm\<^sup>*\<^sup>* d d' \<and> settled us S d' \<and> (\<forall>org. r = Some org \<longrightarrow> org \<notin> S)" using c by blast
  qed
  have member: "runs calm (\<lambda>d. settled us S d \<and> org \<notin> S) (atomic (add_member user org role))
      (\<lambda>n d. settled us S d \<and> org \<notin> S \<and> (\<exists>m \<in> set (members d). m_user m = user \<and> m_org m = org))" for org role
  proof (rule runs_atomic)
    show "stable calm (\<lambda>d. settled us S d \<and> org \<notin> S)" using settled_stable by (auto simp: stable_def)
    fix d n d' assume o: "settled us S d \<and> org \<notin> S" and a: "add_member user org role d = Inr (n, d')"
    from calm_add_member [OF a] have c: "calm d d'" .
    from a have "\<exists>m \<in> set (members d'). m_user m = user \<and> m_org m = org"
      by (auto simp: add_member_def bindT_def id_draw_Inr member_of_def filter_empty_conv split: if_splits)
    with o c show "calm\<^sup>*\<^sup>* d d' \<and> settled us S d' \<and> org \<notin> S \<and> (\<exists>m \<in> set (members d'). m_user m = user \<and> m_org m = org)"
      by (auto simp: settled_def calm_def)
  qed
  show ?case
    unfolding workspace_attempts.simps
  proof (rule runs_bind [OF org], goal_cases)
    case (1 r)
    show ?case
    proof (cases r)
      case None
      then show ?thesis by (auto intro: runs_weaken [OF Cons.IH])
    next
      case (Some org)
      have "runs calm (\<lambda>d. settled us S d \<and> org \<notin> S) (bindP (atomic (add_member user org ''admin'')) (\<lambda>_. retP org))
          (\<lambda>org d. settled us S d \<and> org \<notin> S \<and> (\<exists>m \<in> set (members d). m_user m = user \<and> m_org m = org))"
        by (rule runs_bind [OF member]) (rule runs_ret)
      then show ?thesis using Some by (auto intro: runs_weaken [OF Cons.IH] elim: runs_weaken)
    qed
  qed
qed (simp add: runs_throw)

lemma updated_row: "q \<in> set rs \<Longrightarrow> P q \<Longrightarrow> Q (f q) \<Longrightarrow> \<exists>r \<in> set (update_rows P f rs). Q r"
  unfolding update_rows_def by force

lemma save_user_Some:
  assumes "save_user may touch email name subject d = Inr (Some user, d')" and "distinct (map u_email (users d))"
  shows "(\<exists>row \<in> set (users d'). u_id row = user \<and> u_email row = email \<and> u_subject row = Some subject) \<and>
    list_all may (filter (\<lambda>u. u_email u = email) (users d)) \<and> members d' = members d \<and> account_orgs d' = account_orgs d"
proof (cases "first_row (filter (\<lambda>u. u_email u = email) (users d))")
  case None
  then show ?thesis using assms(1) by (auto simp: save_user_def bindT_def id_draw_Inr split: if_splits)
next
  case (Some u)
  from first_row_filter_Some [OF Some] have u: "u \<in> set (users d)" "u_email u = email" by auto
  from u(2) filter_key_unique [OF assms(2) u(1)] have "filter (\<lambda>q. u_email q = email) (users d) = [u]" by simp
  with Some assms(1) u show ?thesis
    by (auto simp: save_user_def bindT_def id_draw_Inr split: if_splits intro!: updated_row [OF u(1)])
qed

text \<open>The header a request authenticates with.\<close>

definition presented :: "header \<Rightarrow> header \<Rightarrow> string option" where
  "presented a b = (case (if a = NoHeader then b else a) of HeaderText h \<Rightarrow> Some (bearer h) | _ \<Rightarrow> None)"

lemma jwt_runs:
  assumes "distinct (map u_email (users (wdb w)))" and "foreign_ok calm w"
    and "authFromJwt cfg token w = (Inr (Some auth), w')"
  obtains payload subject email user p role where "verifyAccessToken cfg token = Inr payload" "cl_sub payload = JStr subject"
    "auth = Human p Keycloak user role" "p_subject p = Some subject" "p_label p = email" "p_expires p = Some (cl_exp payload * 1000)"
    "\<exists>row \<in> set (users (wdb w')). u_id row = user \<and> u_email row = email \<and> u_subject row = Some subject"
    "list_all (may_sign_in subject (cl_verified payload = JBool True)) (filter (\<lambda>u. u_email u = email) (users (wdb w)))"
    "\<exists>m \<in> set (members (wdb w')). m_user m = user \<and> m_org m = p_org p \<and> (role = Some (m_role m) \<or> m_org m \<notin> orgs_of (wdb w))"
proof -
  from assms(3) obtain payload where v: "verifyAccessToken cfg token = Inr payload"
    by (auto simp: authFromJwt_def throwP_def split: sum.splits)
  from v obtain subject where subject: "cl_sub payload = JStr subject"
    by (auto simp: verifyAccessToken_def split: if_splits sum.splits js.splits)
  define email where "email = (case cl_email payload of JStr e \<Rightarrow> to_lower (trim e) | _ \<Rightarrow> [])"
  define name where "name = (case cl_name payload of JStr n \<Rightarrow> n | _ \<Rightarrow> email)"
  define verified where "verified = (cl_verified payload = JBool True)"
  define identity where "identity = (\<lambda>org. \<lparr>p_org = org, p_label = email, p_expires = Some (cl_exp payload * 1000), p_subject = Some subject\<rparr>)"
  define rest where "rest = ((\<lambda>user. bindP (if verified then bindP (acceptPendingOrganizationInvitations user email subject) (\<lambda>_. retP ()) else retP ()) (\<lambda>_.
     bindP (atomic (getsT (\<lambda>d. home_of d user))) (\<lambda>home. case home of
         Some m \<Rightarrow> retP (Some (Human (identity (m_org m)) Keycloak user (Some (m_role m))))
       | None \<Rightarrow> bindP (ensureWorkspaceForUser user email name) (\<lambda>org.
           retP (Some (Human (identity org) Keycloak user (Some ''admin''))))))) :: string \<Rightarrow> ('a, auth_context option) idproc)"
  from assms(3) have run: "(if email = [] then retP None else bindP (atomic (save_user (may_sign_in subject verified) False email name subject))
      (\<lambda>saved. case saved of None \<Rightarrow> retP None | Some user \<Rightarrow> rest user)) w = (Inr (Some auth), w')"
    unfolding authFromJwt_def v sum.case Let_def subject js.case email_def [symmetric] name_def [symmetric] verified_def [symmetric] rest_def
      identity_def .
  then obtain user w1 where save: "atomic (save_user (may_sign_in subject verified) False email name subject) w = (Inr (Some user), w1)"
    and more: "rest user w1 = (Inr (Some auth), w')"
    by (auto simp: bindP_Inr_iff retP_def split: if_splits option.splits)
  note f = interfere_follows [OF assms(2)]
  define us where "us = users (wdb w)" define S where "S = orgs_of (wdb w)"
  have "settled us S (wdb (interfere w))"
    by (rule stable_star [OF settled_stable conjunct1 [OF f]]) (simp add: settled_def us_def S_def)
  then have i: "users (wdb (interfere w)) = us" "S \<subseteq> orgs_of (wdb (interfere w))" by (simp_all add: settled_def)
  from save obtain d where d: "save_user (may_sign_in subject verified) False email name subject (wdb (interfere w)) = Inr (Some user, d)"
      "w1 = (interfere w)\<lparr>wdb := d\<rparr>" by (auto simp: atomic_Inr_iff)
  from save_user_Some [OF d(1)] assms(1) i(1) us_def have saved:
      "\<exists>row \<in> set (users d). u_id row = user \<and> u_email row = email \<and> u_subject row = Some subject"
      "list_all (may_sign_in subject verified) (filter (\<lambda>u. u_email u = email) us)" "account_orgs d = account_orgs (wdb (interfere w))"
    by auto
  have ok1: "foreign_ok calm w1" using f d(2) by (simp add: foreign_ok_def)
  have s1: "settled (users d) S (wdb w1)" using d(2) saved(3) i(2) by (simp add: settled_def orgs_of_def)
  let ?Q = "\<lambda>a e. settled (users d) S e \<and> (\<exists>org role. a = Some (Human (identity org) Keycloak user role) \<and>
    (\<exists>m \<in> set (members e). m_user m = user \<and> m_org m = org \<and> (role = Some (m_role m) \<or> org \<notin> S)))"
  have "runs calm (settled (users d) S) (rest user) ?Q"
    unfolding rest_def
  proof (rule runs_bind)
    show "runs calm (settled (users d) S) (if verified then bindP (acceptPendingOrganizationInvitations user email subject) (\<lambda>_. retP ()) else retP ())
      (\<lambda>a. settled (users d) S)"
      unfolding keeps_to_def [symmetric] by (intro keeps_to_intro calm_accept)
    show "runs calm (settled (users d) S) (bindP (atomic (getsT (\<lambda>d. home_of d user))) (\<lambda>home. case home of
         Some m \<Rightarrow> retP (Some (Human (identity (m_org m)) Keycloak user (Some (m_role m))))
       | None \<Rightarrow> bindP (ensureWorkspaceForUser user email name) (\<lambda>org.
           retP (Some (Human (identity org) Keycloak user (Some ''admin'')))))) ?Q"
    proof (rule runs_bind)
      show "runs calm (settled (users d) S) (atomic (getsT (\<lambda>d. home_of d user)))
        (\<lambda>r e. settled (users d) S e \<and> (\<forall>m. r = Some m \<longrightarrow> m \<in> set (members e) \<and> m_user m = user))"
        by (rule runs_atomic [OF settled_stable]) (auto simp: getsT_apply home_of_def dest!: first_row_Some)
      fix r
      show "runs calm (\<lambda>e. settled (users d) S e \<and> (\<forall>m. r = Some m \<longrightarrow> m \<in> set (members e) \<and> m_user m = user))
        (case r of Some m \<Rightarrow> retP (Some (Human (identity (m_org m)) Keycloak user (Some (m_role m))))
       | None \<Rightarrow> bindP (ensureWorkspaceForUser user email name) (\<lambda>org.
           retP (Some (Human (identity org) Keycloak user (Some ''admin''))))) ?Q"
      proof (cases r)
        case None
        have "runs calm (settled (users d) S) (bindP (ensureWorkspaceForUser user email name) (\<lambda>org.
           retP (Some (Human (identity org) Keycloak user (Some ''admin''))))) ?Q"
          unfolding ensureWorkspaceForUser_def by (rule runs_bind [OF runs_new_workspace]) (rule runs_ret, auto)
        with None show ?thesis by (auto elim: runs_weaken)
      next
        case (Some m)
        then show ?thesis by (auto intro!: runs_ret)
      qed
    qed
  qed
  note after = runsD [OF this ok1 s1 more]
  from after(3) [OF refl] obtain org role m where fin: "auth = Human (identity org) Keycloak user role" "users (wdb w') = users d"
      "m \<in> set (members (wdb w'))" "m_user m = user" "m_org m = org" "role = Some (m_role m) \<or> org \<notin> S"
    by (auto simp: settled_def)
  show thesis
    by (rule that [OF v subject fin(1)])
      (use saved fin in \<open>auto simp: identity_def verified_def us_def S_def\<close>)
qed


section \<open>The properties at concrete inputs\<close>

definition demo_letters :: "nat \<Rightarrow> string" where
  "demo_letters n = replicate (Suc n) (CHR ''a'')"

definition demo_key :: key_row where
  "demo_key = \<lparr>ak_id = ''k1'', ak_org = ''o'', ak_name = ''ci'', ak_hash = ''hk_old'', ak_prefix = [], ak_last_four = [],
     ak_created_at = 0, ak_used_at = None, ak_revoked_at = None, ak_creator = Some ''u1'', ak_scopes = [''sandboxes:write''],
     ak_expires_at = Some 1000, ak_legacy = False\<rparr>"

definition demo_ticket :: ticket_row where
  "demo_ticket = \<lparr>tk_hash = ''hat_1'', tk_sandbox = ''s1'', tk_org = ''o'', tk_user = None, tk_label = ''api-key:k1'', tk_type = ''api_key'',
     tk_expires_at = 500, tk_used_at = None, tk_key = Some ''k1'', tk_auth_expires_at = Some 1000, tk_subject = None\<rparr>"

definition demo_iddb :: iddb where
  "demo_iddb = \<lparr>users = [\<lparr>u_id = ''u1'', u_email = ''a@x.io'', u_name = ''A'', u_subject = Some ''sub1'', u_onboarded = None, u_updated_at = 0\<rparr>,
       \<lparr>u_id = ''u2'', u_email = ''b@x.io'', u_name = ''B'', u_subject = None, u_onboarded = None, u_updated_at = 0\<rparr>],
     members = [\<lparr>m_id = ''m1'', m_user = ''u1'', m_org = ''o'', m_role = ''admin'', m_joined = 0\<rparr>,
       \<lparr>m_id = ''m2'', m_user = ''u2'', m_org = ''o'', m_role = ''member'', m_joined = 1\<rparr>],
     api_keys = [demo_key], invitations = [], tickets = [demo_ticket],
     account_orgs = [\<lparr>g_id = ''o'', g_name = ''o'', g_slug = ''o'', g_template = [], g_idle_ttl = 0, g_concurrency = 1\<rparr>],
     boxes = [\<lparr>b_id = ''s1'', b_org = ''o'', b_status = SRunning\<rparr>], audit_log = [], id_clock = 0, id_rand = demo_letters, id_rand_pos = 0\<rparr>"

definition demo_env :: key_env where
  "demo_env = \<lparr>sha256_hex = (\<lambda>s. s), parse_date = (\<lambda>s. None)\<rparr>"

definition demo_claims :: claims where
  "demo_claims = \<lparr>cl_sub = JStr ''sub1'', cl_email = JStr ''a@x.io'', cl_name = JStr ''A'', cl_verified = JBool False, cl_exp = 9\<rparr>"

definition demo_config :: auth_config where
  "demo_config = \<lparr>keycloakIssuerAllowlist = [''iss''], keycloakAudience = ''api'', keycloakJwksUrl = ''url'',
     keycloakSigningAlgorithms = [''RS256''], authDevAllow = False, jwtVerify = (\<lambda>t is a as. if t = ''jwt'' then Inr demo_claims else Inl ''bad''),
     hash_env = demo_env\<rparr>"

definition demo_auth :: auth_context where
  "demo_auth = KeyAuth \<lparr>p_org = ''o'', p_label = ''api-key:k1'', p_expires = Some 1000, p_subject = None\<rparr> ''k1'' [''sandboxes:write'']"

lemmas demo_simps = demo_iddb_def demo_key_def demo_ticket_def demo_env_def demo_config_def demo_auth_def demo_claims_def

lemma demo_principal: "readApiKeyPrincipal (ById ''k1'' None) demo_iddb = Inr (Some demo_auth, demo_iddb)"
  by (simp add: readApiKeyPrincipal_def getsT_apply demo_simps key_valid_def creator_role_def role_of_def member_of_def key_auth_def
      effectiveApiKeyScopes_def allowedApiKeyScopes_def apiKeyScopes_def or_else_def)

lemma demo_allowed: "authorizeRequest demo_auth ''POST'' (Some ''/v1/sandboxes'') (JObj []) = None"
  by code_simp

theorem key_within_creator_witness:
  "\<exists>row role. row \<in> set (api_keys demo_iddb) \<and> creator_role demo_iddb row = Some role \<and>
     authorizeRequest (Human (auth_principal demo_auth) Keycloak ''u1'' (Some role)) ''POST'' (Some ''/v1/sandboxes'') (JObj []) = None"
proof -
  have "\<not> ak_legacy row" if "row \<in> set (api_keys demo_iddb)" for row using that by (simp add: demo_iddb_def demo_key_def)
  with key_within_creator [OF demo_principal [unfolded demo_auth_def] demo_allowed [unfolded demo_auth_def],
    where src = Keycloak and u = "''u1''"]
  show ?thesis unfolding demo_auth_def auth_principal.simps by fastforce
qed

definition demo_world :: "(iddb, unit) gworld" where
  "demo_world = alone demo_iddb"

lemma demo_quiet [simp]: "foreign demo_world = []" "wdb demo_world = demo_iddb"
  by (simp_all add: demo_world_def alone_def)

lemma demo_create:
  "\<exists>summary w'. createApiKeyRecord demo_env ''o'' (Some ''u1'') ''deploy'' (Some [''org:read'']) None demo_world = (Inr (summary, ''hk_live_a''), w')"
  by (simp add: createApiKeyRecord_def requireKeyOwner_def bindP_def atomic_def interfere_def Let_def organizationMembershipRole_def truthy_def
      getsT_apply role_of_def member_of_def demo_iddb_def demo_key_def demo_ticket_def requireP_def retP_def or_else_def allowedApiKeyScopes_def apiKeyScopes_def
      id_date_def expiry_ok_def key_lifetime_def apiKeyDefaultLifetimeDays_def apiKeyMaxLifetimeDays_def trim_def js_space_def
      store_key_def createApiKey_def bindT_def id_draw_Inr id_now_Inr insert_key_def returnT_apply demo_letters_def hashApiKey_def demo_env_def)

theorem created_key_authenticates_witness:
  "\<exists>w' row. readApiKeyPrincipal (ByHash (hashApiKey demo_env ''hk_live_a'')) (wdb (w' :: (iddb, unit) gworld)) \<noteq> Inr (None, demo_iddb) \<and>
     row \<in> set (api_keys (wdb w')) \<and> ak_creator row = Some ''u1'' \<and> set (ak_scopes row) = {''org:read''}"
proof -
  from demo_create obtain summary w' where
    "createApiKeyRecord demo_env ''o'' (Some ''u1'') ''deploy'' (Some [''org:read'']) None demo_world = (Inr (summary, ''hk_live_a''), w')" by blast
  from created_key_authenticates [OF this] obtain row where row: "row \<in> set (api_keys (wdb w'))" "ak_creator row = Some ''u1''"
      "set (ak_scopes row) = set (or_else (Some [''org:read'']) defaultApiKeyScopes)" by blast
  have "set (ak_scopes row) = {''org:read''}" using row(3) by (simp add: or_else_def)
  note row = row(1,2) this
  have "wdb w' \<noteq> demo_iddb"
  proof
    assume "wdb w' = demo_iddb"
    with row(1) have "row = demo_key" by (simp add: demo_iddb_def)
    with row(3) show False by (simp add: demo_key_def)
  qed
  moreover have "readApiKeyPrincipal lk d = Inr (r, d2) \<Longrightarrow> d2 = d" for lk r d d2 by (rule readApiKeyPrincipal_same)
  ultimately have "readApiKeyPrincipal (ByHash (hashApiKey demo_env ''hk_live_a'')) (wdb w') \<noteq> Inr (None, demo_iddb)" by metis
  with row show ?thesis by blast
qed


lemma demo_revoke: "\<exists>w'. revokeApiKey ''o'' (Some ''u1'') ''k1'' demo_world = (Inr True, w')"
  by (simp add: revokeApiKey_def requireKeyOwner_def bindP_def atomic_def interfere_def Let_def organizationMembershipRole_def truthy_def
      getsT_apply role_of_def member_of_def demo_iddb_def demo_key_def demo_ticket_def retP_def bindT_def id_now_Inr upd_api_keys_Inr
      own_key_def count_rows_def)

theorem revoked_key_dead_witness:
  "\<exists>w'. revokeApiKey ''o'' (Some ''u1'') ''k1'' demo_world = (Inr True, w') \<and>
     revalidatePrincipal demo_config demo_auth (wdb w') = Inr (None, wdb w')"
proof -
  from demo_revoke obtain w' where w': "revokeApiKey ''o'' (Some ''u1'') ''k1'' demo_world = (Inr True, w')" by blast
  have "foreign_ok (id_step {} {}) demo_world" "key_ids_unique (wdb demo_world)"
    by (simp_all add: foreign_ok_def key_ids_unique_def demo_iddb_def)
  from revoked_key_dead [OF w' this rtranclp.rtrancl_refl] w' show ?thesis unfolding demo_auth_def by blast
qed

lemma demo_consume:
  "\<exists>auth w'. consumeTerminalAttachTicket \<lparr>terminalAttachTicketTtlSeconds = 60, ticket_auth = demo_config\<rparr> ''s1'' (Some ''hat_1'') demo_world
     = (Inr (Some auth), w') \<and> foreign w' = []"
  by (simp add: consumeTerminalAttachTicket_def truthy_def use_ticket_def bindP_def atomic_def interfere_def Let_def demo_simps hashApiKey_def
      ticket_candidate_def retP_def revalidatePrincipal_def readApiKeyPrincipal_def getsT_apply key_valid_def creator_role_def role_of_def
      member_of_def key_auth_def effectiveApiKeyScopes_def allowedApiKeyScopes_def apiKeyScopes_def or_else_def update_rows_def)

theorem ticket_once_witness:
  "\<exists>cfg auth w' w3. consumeTerminalAttachTicket cfg ''s1'' (Some ''hat_1'') demo_world = (Inr (Some auth), w') \<and>
     consumeTerminalAttachTicket cfg ''s2'' (Some ''hat_1'') w' = (Inr None, w3)"
proof -
  let ?cfg = "\<lparr>terminalAttachTicketTtlSeconds = 60, ticket_auth = demo_config\<rparr>"
  from demo_consume obtain auth w' where w': "consumeTerminalAttachTicket ?cfg ''s1'' (Some ''hat_1'') demo_world = (Inr (Some auth), w')"
    "foreign w' = []" by blast
  obtain r w3 where again: "consumeTerminalAttachTicket ?cfg ''s2'' (Some ''hat_1'') w' = (r, w3)"
    by (cases "consumeTerminalAttachTicket ?cfg ''s2'' (Some ''hat_1'') w'")
  have "foreign_ok (id_step {} {}) demo_world" "ticket_hashes_unique (wdb demo_world)" "foreign_ok (id_step {} {}) w'"
    using w'(2) by (simp_all add: foreign_ok_def ticket_hashes_unique_def demo_iddb_def)
  from ticket_once [OF w'(1) this(1,2) rtranclp.rtrancl_refl this(3) again] w'(1) again show ?thesis by blast
qed

lemma demo_sign_in:
  "\<exists>p w'. requireAuth demo_config NoHeader (HeaderText ''Bearer jwt'') demo_world = (Inr (Some (Human p Keycloak ''u1'' (Some ''admin''))), w')"
  by (simp add: requireAuth_def trim_def js_space_def Let_def bearer_def starts_with_def bindP_def tryP_def authFromJwt_def verifyAccessToken_def
      demo_config_def demo_claims_def to_lower_def lower_char_def atomic_def interfere_def save_user_def bindT_def id_draw_Inr demo_iddb_def
      may_sign_in_def update_rows_def getsT_apply home_of_def retP_def)


end
