(* ===== verification/Readiness.thy ===== *)
theory Readiness
  imports World
begin

text \<open>
  Whether a sandbox answers (\<open>services/sandbox-readiness.ts\<close>): a probe of the provider between two
  readings of the sandbox and of its runtime fence, without locks or writes. The service only
  reads, so it is stated over any store that has the control plane's tables in it, given by
  \<open>get\<close>. The caller's abort signal is not modelled; a probe that throws or times out is one that
  answers \<open>Inl\<close>.
\<close>

datatype readiness_status = RdStarting | RdReady | RdNotRunning | RdUnsupported | RdUnavailable

record readiness_reply =
  rd_sandbox :: sandbox_row
  rd_status :: readiness_status
  rd_checked_at :: time

text \<open>A statement on the control plane's tables within a larger store, which it only reads.\<close>

definition reading :: "('s \<Rightarrow> db) \<Rightarrow> 'a dbtx \<Rightarrow> ('s, err, 'a) tx" where
  "reading get m = (\<lambda>s. case m (get s) of Inl e \<Rightarrow> Inl e | Inr (a, d) \<Rightarrow> Inr (a, s))"

definition dateOf :: "('s \<Rightarrow> db) \<Rightarrow> ('s, 'p, time) gproc" where
  "dateOf get = (\<lambda>w. (Inr (clock (get (wdb w))), w))"

type_synonym 'p probe = "string \<Rightarrow> 'p \<Rightarrow> (string + bool) \<times> 'p"

definition observed :: "('s \<Rightarrow> db) \<Rightarrow> readiness_status \<Rightarrow> sandbox_row \<Rightarrow> ('s, 'p, readiness_reply option) gproc" where
  "observed get st s = bindP (dateOf get) (\<lambda>t. retP (Some \<lparr>rd_sandbox = s, rd_status = st, rd_checked_at = t\<rparr>))"

definition is_up :: "sandbox_status \<Rightarrow> bool" where
  "is_up st \<longleftrightarrow> st = SRunning \<or> st = SIdle"

definition is_coming :: "sandbox_status \<Rightarrow> bool" where
  "is_coming st \<longleftrightarrow> st = SPending \<or> st = SResuming"

text \<open>The probe's answer, once the sandbox and the fence have been read again.\<close>

definition confirm_readiness ::
    "('s \<Rightarrow> db) \<Rightarrow> string \<Rightarrow> string \<Rightarrow> sandbox_row \<Rightarrow> runtime_fence \<Rightarrow> readiness_status \<Rightarrow> ('s, 'p, readiness_reply option) gproc" where
  "confirm_readiness get org sbx sandbox before status =
     bindP (atomic (reading get (getSandbox org sbx))) (\<lambda>found.
     case found of
       None \<Rightarrow> retP None
     | Some current \<Rightarrow>
         bindP (atomic (reading get (readRuntimeFence (s_id sandbox)))) (\<lambda>fence.
         if \<not> (is_up (s_status current) \<or> is_coming (s_status current)) then observed get RdNotRunning current
         else if f_busy fence \<or> f_version before \<noteq> f_version fence \<or> s_status current \<noteq> s_status sandbox \<or>
             s_runtime_id current \<noteq> s_runtime_id sandbox then observed get RdStarting current
         else observed get status current))"

definition getSandboxReadiness ::
    "('s \<Rightarrow> db) \<Rightarrow> 'p probe option \<Rightarrow> string \<Rightarrow> string \<Rightarrow> ('s, 'p, readiness_reply option) gproc" where
  "getSandboxReadiness get isReady org sbx =
     bindP (atomic (reading get (getSandbox org sbx))) (\<lambda>found.
     case found of
       None \<Rightarrow> retP None
     | Some sandbox \<Rightarrow>
         if is_coming (s_status sandbox) then observed get RdStarting sandbox
         else if \<not> is_up (s_status sandbox) then observed get RdNotRunning sandbox
         else if \<not> truthy (s_runtime_id sandbox) then observed get RdStarting sandbox
         else (case isReady of
             None \<Rightarrow> observed get RdUnsupported sandbox
           | Some probe \<Rightarrow>
               bindP (atomic (reading get (readRuntimeFence (s_id sandbox)))) (\<lambda>before.
               if f_busy before then observed get RdStarting sandbox
               else
                 bindP (tryP (bindP (callP (probe (the (s_runtime_id sandbox)))) (\<lambda>b. retP (if b then RdReady else RdStarting)))
                     (\<lambda>_. retP RdUnavailable)) (\<lambda>status.
                 confirm_readiness get org sbx sandbox before status))))"

text \<open>
  Waiting for an answer that will not change by itself: the time limit is the source's timeout,
  the list the moments at which it looks again, and the last answer is returned when they end.
\<close>

definition settled_answer :: "readiness_reply option \<Rightarrow> bool" where
  "settled_answer r = (case r of None \<Rightarrow> True | Some x \<Rightarrow> rd_status x = RdReady \<or> rd_status x = RdNotRunning \<or> rd_status x = RdUnsupported)"

fun poll_readiness ::
    "('s \<Rightarrow> db) \<Rightarrow> 'p probe option \<Rightarrow> string \<Rightarrow> string \<Rightarrow> ('s, 'p, unit) gproc \<Rightarrow> nat \<Rightarrow> readiness_reply option \<Rightarrow> ('s, 'p, readiness_reply option) gproc" where
  "poll_readiness get isReady org sbx delay 0 seen = retP seen"
| "poll_readiness get isReady org sbx delay (Suc n) seen =
     bindP (getSandboxReadiness get isReady org sbx) (\<lambda>r.
     if settled_answer r then retP r
     else bindP delay (\<lambda>_. poll_readiness get isReady org sbx delay n r))"

definition waitForSandboxReadiness ::
    "('s \<Rightarrow> db) \<Rightarrow> 'p probe option \<Rightarrow> string \<Rightarrow> string \<Rightarrow> ('s, 'p, unit) gproc \<Rightarrow> int \<Rightarrow> nat \<Rightarrow> ('s, 'p, readiness_reply option) gproc" where
  "waitForSandboxReadiness get isReady org sbx delay timeoutMs looks =
    (if timeoutMs \<le> 0 then retP None else poll_readiness get isReady org sbx delay looks None)"

section \<open>What an answer means\<close>

lemma reading_Inr: "reading get m s = Inr (a, s') \<Longrightarrow> s' = s \<and> (\<exists>d. m (get s) = Inr (a, d))"
  by (auto simp: reading_def split: sum.splits prod.splits)

lemma atomic_reading: "atomic (reading get m) w = (Inr a, w') \<Longrightarrow>
    w' = interfere w \<and> (\<exists>d. m (get (wdb w')) = Inr (a, d))"
  by (auto simp: atomic_def Let_def dest!: reading_Inr split: sum.splits)

lemma observed_Inr: "observed get st s w = (Inr r, w') \<Longrightarrow> w' = w \<and> (\<exists>t. r = Some \<lparr>rd_sandbox = s, rd_status = st, rd_checked_at = t\<rparr>)"
  by (auto simp: observed_def bindP_def retP_def dateOf_def)

lemma prv_interfere [simp]: "prv (interfere w) = prv w"
  by (simp add: interfere_def split: list.splits)

lemma bindP_InrD: "bindP m f w = (Inr b, w') \<Longrightarrow> \<exists>a w1. m w = (Inr a, w1) \<and> f a w1 = (Inr b, w')"
  by (auto simp: bindP_def split: prod.splits sum.splits)

lemma fence_read: "readRuntimeFence sbx d = Inr (f, d') \<Longrightarrow>
    f_busy f = list_ex (\<lambda>e. e_sandbox e = sbx \<and> e_settled_at e = None) (effects d) \<and> f_version f = length (filter (\<lambda>e. e_sandbox e = sbx) (effects d))"
  by (auto simp: readRuntimeFence_def tx_defs sel_effects_def list_ex_iff)

lemma confirm_ready:
  assumes "confirm_readiness get org sbx s before st w = (Inr (Some r), w')" and "rd_status r = RdReady" and "is_up (s_status s)"
  shows "st = RdReady \<and> is_up (s_status (rd_sandbox r)) \<and> s_runtime_id (rd_sandbox r) = s_runtime_id s \<and> prv w' = prv w \<and>
    \<not> list_ex (\<lambda>e. e_sandbox e = s_id s \<and> e_settled_at e = None) (effects (get (wdb w'))) \<and>
    length (filter (\<lambda>e. e_sandbox e = s_id s) (effects (get (wdb w')))) = f_version before"
proof -
  from bindP_InrD [OF assms(1) [unfolded confirm_readiness_def]] obtain found w1
    where 1: "atomic (reading get (getSandbox org sbx)) w = (Inr found, w1)"
      and rest: "(case found of None \<Rightarrow> retP None | Some current \<Rightarrow>
         bindP (atomic (reading get (readRuntimeFence (s_id s)))) (\<lambda>fence.
         if \<not> (is_up (s_status current) \<or> is_coming (s_status current)) then observed get RdNotRunning current
         else if f_busy fence \<or> f_version before \<noteq> f_version fence \<or> s_status current \<noteq> s_status s \<or>
             s_runtime_id current \<noteq> s_runtime_id s then observed get RdStarting current
         else observed get st current)) w1 = (Inr (Some r), w')" by blast
  from rest obtain current where current: "found = Some current" by (cases found) (auto simp: retP_def)
  from bindP_InrD [OF rest [unfolded current option.simps]] obtain fence w2
    where 2: "atomic (reading get (readRuntimeFence (s_id s))) w1 = (Inr fence, w2)"
      and last: "(if \<not> (is_up (s_status current) \<or> is_coming (s_status current)) then observed get RdNotRunning current
         else if f_busy fence \<or> f_version before \<noteq> f_version fence \<or> s_status current \<noteq> s_status s \<or>
             s_runtime_id current \<noteq> s_runtime_id s then observed get RdStarting current
         else observed get st current) w2 = (Inr (Some r), w')" by blast
  have guards: "\<not> f_busy fence" "f_version before = f_version fence" "s_status current = s_status s" "s_runtime_id current = s_runtime_id s"
    and reply: "observed get st current w2 = (Inr (Some r), w')"
    using last assms(2) by (auto dest!: observed_Inr split: if_splits)
  from observed_Inr [OF reply] assms(2) have r: "w' = w2" "rd_sandbox r = current" "st = RdReady" by auto
  from atomic_reading [OF 1] have w1: "w1 = interfere w" by simp
  from atomic_reading [OF 2] obtain d where w2: "w2 = interfere w1" "readRuntimeFence (s_id s) (get (wdb w2)) = Inr (fence, d)" by blast
  from fence_read [OF w2(2)] guards r w1 w2(1) assms(3) show ?thesis by simp
qed

text \<open>
  C33. "Ready" is answered only for a sandbox that runs, whose provider was asked about the very
  runtime the answer names and said yes, and which has no runtime effect in flight when the answer
  is given: a pause, a deletion or a renewal that has begun is never reported as ready.
\<close>
theorem readiness_honest:
  assumes "getSandboxReadiness get (Some probe) org sbx w = (Inr (Some r), w')" and "rd_status r = RdReady"
  shows "is_up (s_status (rd_sandbox r)) \<and>
    fst (probe (the (s_runtime_id (rd_sandbox r))) (prv w)) = Inr True \<and>
    \<not> list_ex (\<lambda>e. e_sandbox e = sbx \<and> e_settled_at e = None) (effects (get (wdb w')))"
proof -
  from bindP_InrD [OF assms(1) [unfolded getSandboxReadiness_def]] obtain found w1
    where 1: "atomic (reading get (getSandbox org sbx)) w = (Inr found, w1)"
      and rest: "(case found of None \<Rightarrow> retP None | Some sandbox \<Rightarrow>
         if is_coming (s_status sandbox) then observed get RdStarting sandbox
         else if \<not> is_up (s_status sandbox) then observed get RdNotRunning sandbox
         else if \<not> truthy (s_runtime_id sandbox) then observed get RdStarting sandbox
         else (case Some probe of
             None \<Rightarrow> observed get RdUnsupported sandbox
           | Some probe \<Rightarrow>
               bindP (atomic (reading get (readRuntimeFence (s_id sandbox)))) (\<lambda>before.
               if f_busy before then observed get RdStarting sandbox
               else
                 bindP (tryP (bindP (callP (probe (the (s_runtime_id sandbox)))) (\<lambda>b. retP (if b then RdReady else RdStarting)))
                     (\<lambda>_. retP RdUnavailable)) (\<lambda>status.
                 confirm_readiness get org sbx sandbox before status)))) w1 = (Inr (Some r), w')" by blast
  from rest obtain s where s: "found = Some s" by (cases found) (auto simp: retP_def)
  from atomic_reading [OF 1] obtain d where w1: "w1 = interfere w" and "getSandbox org sbx (get (wdb w1)) = Inr (Some s, d)" using s by blast
  then have id: "s_id s = sbx" by (auto simp: getSandbox_def tx_defs sel_sandboxes_def dest: first_row_filter_Some)
  have up: "is_up (s_status s)" using rest assms(2) by (auto simp: s dest!: observed_Inr split: if_splits)
  have "bindP (atomic (reading get (readRuntimeFence (s_id s)))) (\<lambda>before.
               if f_busy before then observed get RdStarting s
               else
                 bindP (tryP (bindP (callP (probe (the (s_runtime_id s)))) (\<lambda>b. retP (if b then RdReady else RdStarting)))
                     (\<lambda>_. retP RdUnavailable)) (\<lambda>status.
                 confirm_readiness get org sbx s before status)) w1 = (Inr (Some r), w')"
    using rest assms(2) by (auto simp: s dest!: observed_Inr split: if_splits)
  from bindP_InrD [OF this] obtain before w2
    where 2: "atomic (reading get (readRuntimeFence (s_id s))) w1 = (Inr before, w2)"
      and branch: "(if f_busy before then observed get RdStarting s else
                 bindP (tryP (bindP (callP (probe (the (s_runtime_id s)))) (\<lambda>b. retP (if b then RdReady else RdStarting)))
                     (\<lambda>_. retP RdUnavailable)) (\<lambda>status.
                 confirm_readiness get org sbx s before status)) w2 = (Inr (Some r), w')" by blast
  have "bindP (tryP (bindP (callP (probe (the (s_runtime_id s)))) (\<lambda>b. retP (if b then RdReady else RdStarting)))
                     (\<lambda>_. retP RdUnavailable)) (\<lambda>status.
                 confirm_readiness get org sbx s before status) w2 = (Inr (Some r), w')"
    using branch assms(2) by (auto dest!: observed_Inr split: if_splits)
  from bindP_InrD [OF this] obtain st w3
    where 3: "tryP (bindP (callP (probe (the (s_runtime_id s)))) (\<lambda>b. retP (if b then RdReady else RdStarting))) (\<lambda>_. retP RdUnavailable) w2 = (Inr st, w3)"
      and 4: "confirm_readiness get org sbx s before st w3 = (Inr (Some r), w')" by blast
  note ready = confirm_ready [OF 4 assms(2) up]
  have "prv w2 = prv w" using atomic_reading [OF 2] w1 by simp
  moreover have "fst (probe (the (s_runtime_id s)) (prv w2)) = Inr True"
    using 3 ready by (auto simp: tryP_def bindP_def callP_def retP_def Let_def split: prod.splits sum.splits if_splits)
  ultimately show ?thesis using ready id by simp
qed

lemma demo_ready:
  "getSandboxReadiness id (Some (\<lambda>_ p. (Inr True, p))) ''acme'' ''s2'' \<lparr>wdb = demo_db, prv = (), foreign = []\<rparr> =
    (Inr (Some \<lparr>rd_sandbox = new_sandbox ''s2'' ''acme'' (Some ''rt1'') SRunning, rd_status = RdReady, rd_checked_at = clock demo_db\<rparr>),
     \<lparr>wdb = demo_db, prv = (), foreign = []\<rparr>)"
  by (simp add: getSandboxReadiness_def confirm_readiness_def observed_def dateOf_def reading_def proc_defs atomic_def callP_def interfere_def
      getSandbox_def readRuntimeFence_def sel_sandboxes_def sel_effects_def tx_defs demo_simps is_up_def is_coming_def truthy_def Let_def)

theorem readiness_honest_witness:
  "fst ((\<lambda>_ p. (Inr True, p)) (the (Some ''rt1'')) ()) = (Inr True :: string + bool) \<and>
   is_up (s_status (new_sandbox ''s2'' ''acme'' (Some ''rt1'') SRunning))"
  using readiness_honest [OF demo_ready] by (simp add: new_sandbox_def)

end
