(* ===== verification/UsageHistory.thy ===== *)
theory UsageHistory
  imports Store
begin

text \<open>
  The usage history of an organization (\<open>services/usage-history.ts\<close>): from the intervals in which
  the observer was running, the reservations and the operations of a period, buckets with the
  time covered, the slots held, their peak and the counts of operations. Times are milliseconds;
  amounts the source keeps in seconds (milliseconds divided by 1000) are kept in milliseconds, and
  an average as the pair of its numerator and denominator.
\<close>

section \<open>Intervals\<close>

type_synonym usage_interval = "int \<times> int"

datatype usage_resolution = Res1m | Res15m | Res1h

fun usageResolutionMs :: "usage_resolution \<Rightarrow> int" where
  "usageResolutionMs Res1m = 60000"
| "usageResolutionMs Res15m = 900000"
| "usageResolutionMs Res1h = 3600000"

definition usageSourceRowLimit :: nat where "usageSourceRowLimit = 100000"

text \<open>\<open>Math.ceil(a / b)\<close> for a positive divisor.\<close>

definition ceil_div :: "int \<Rightarrow> int \<Rightarrow> int" where
  "ceil_div a b = - ((- a) div b)"

text \<open>\<open>usageHistoryQuery\<close>: whether a window passes the schema.\<close>

definition usageHistoryQuery :: "int \<Rightarrow> int \<Rightarrow> usage_resolution \<Rightarrow> bool" where
  "usageHistoryQuery from to res \<longleftrightarrow> from < to \<and> to - from \<le> 30 * 86400000 \<and>
     ceil_div to (usageResolutionMs res) - from div usageResolutionMs res \<le> 1500"

fun mergeFrom :: "usage_interval \<Rightarrow> usage_interval list \<Rightarrow> usage_interval list" where
  "mergeFrom p [] = [p]"
| "mergeFrom p (x # xs) =
    (if fst x \<le> snd p then mergeFrom (fst p, max (snd p) (snd x)) xs else p # mergeFrom x xs)"

definition mergeUsageIntervals :: "usage_interval list \<Rightarrow> int \<Rightarrow> int \<Rightarrow> usage_interval list" where
  "mergeUsageIntervals intervals from to =
    (case sort_key fst (filter (\<lambda>(a, b). a < b) (map (\<lambda>(a, b). (max from a, min to b)) intervals)) of
       [] \<Rightarrow> []
     | x # xs \<Rightarrow> mergeFrom x xs)"

text \<open>The binary search: the first index whose interval begins after the value.\<close>

function search_from :: "usage_interval list \<Rightarrow> int \<Rightarrow> nat \<Rightarrow> nat \<Rightarrow> nat" where
  "search_from intervals v low high =
    (if low < high then
       let mid = (low + high) div 2 in
       if fst (intervals ! mid) \<le> v then search_from intervals v (mid + 1) high
       else search_from intervals v low mid
     else low)"
  by auto
termination by (relation "measure (\<lambda>(intervals, v, low, high). high - low)") auto

declare search_from.simps [simp del]

definition contains :: "usage_interval list \<Rightarrow> int \<Rightarrow> bool" where
  "contains intervals v =
    (let low = search_from intervals v 0 (length intervals) in 0 < low \<and> v < snd (intervals ! (low - 1)))"

section \<open>Aggregation\<close>

record usage_hold =
  uh_created :: int
  uh_released :: "int option"

record usage_operation =
  uo_resume :: bool
  uo_restored :: bool
  uo_state :: operation_state
  uo_created :: int
  uo_completed :: "int option"
  uo_unsupported :: bool
  uo_ready :: "int option"
  uo_observed :: "int option"

record bucket =
  bk_from :: int
  bk_to :: int
  bk_covered :: int
  bk_held :: int
  bk_peak :: int
  bk_create :: nat
  bk_restore :: nat
  bk_resume :: nat
  bk_succeeded :: nat
  bk_failed :: nat
  bk_canceled :: nat

text \<open>The parts of a period no window covers.\<close>

fun gaps_from :: "int \<Rightarrow> int \<Rightarrow> usage_interval list \<Rightarrow> usage_interval list" where
  "gaps_from to cursor [] = (if cursor < to then [(cursor, to)] else [])"
| "gaps_from to cursor (r # rs) = (if cursor < fst r then [(cursor, fst r)] else []) @ gaps_from to (snd r) rs"

definition empty_bucket :: "int \<Rightarrow> int \<Rightarrow> bucket" where
  "empty_bucket a b = \<lparr>bk_from = a, bk_to = b, bk_covered = 0, bk_held = 0, bk_peak = 0, bk_create = 0, bk_restore = 0,
     bk_resume = 0, bk_succeeded = 0, bk_failed = 0, bk_canceled = 0\<rparr>"

lemma next_boundary: "0 < step \<Longrightarrow> start < (start div step + 1) * (step :: int)"
proof -
  assume "0 < step"
  then have "start mod step < step" by simp
  with div_mult_mod_eq [of start step] show ?thesis unfolding distrib_right mult_1 by linarith
qed

function buckets_from :: "int \<Rightarrow> int \<Rightarrow> int \<Rightarrow> bucket list" where
  "buckets_from step start to =
    (if 0 < step \<and> start < to then
       let end' = min to ((start div step + 1) * step) in empty_bucket start end' # buckets_from step end' to
     else [])"
  by auto
termination
  by (relation "measure (\<lambda>(step, start, to). nat (to - start))") (auto dest!: next_boundary simp: min_def)

declare buckets_from.simps [simp del]

text \<open>The map of event points: \<open>points.set\<close> replaces or adds, holds add to what is there.\<close>

type_synonym points = "(int \<times> int) list"

definition point_at :: "points \<Rightarrow> int \<Rightarrow> int" where
  "point_at ps x = (case map_of ps x of None \<Rightarrow> 0 | Some v \<Rightarrow> v)"

fun set_point :: "int \<Rightarrow> int \<Rightarrow> points \<Rightarrow> points" where
  "set_point x v [] = [(x, v)]"
| "set_point x v (p # ps) = (if fst p = x then (x, v) # ps else p # set_point x v ps)"

definition hold_range :: "int \<Rightarrow> int \<Rightarrow> int \<Rightarrow> usage_hold \<Rightarrow> int \<times> int" where
  "hold_range from to now_ms h =
     (max from (uh_created h), min to (case uh_released h of Some r \<Rightarrow> r | None \<Rightarrow> now_ms))"

definition add_hold :: "int \<times> int \<Rightarrow> points \<Rightarrow> points" where
  "add_hold r ps =
    (if snd r \<le> fst r then ps
     else let ps = set_point (fst r) (point_at ps (fst r) + 1) ps in set_point (snd r) (point_at ps (snd r) - 1) ps)"

definition event_points :: "int \<Rightarrow> int \<Rightarrow> bucket list \<Rightarrow> usage_interval list \<Rightarrow> (int \<times> int) list \<Rightarrow> points" where
  "event_points from to buckets windows ranges =
    (let ps = set_point to 0 (set_point from 0 []);
         ps = fold (\<lambda>b ps. set_point (bk_to b) 0 (set_point (bk_from b) 0 ps)) buckets ps;
         ps = fold (\<lambda>r ps. set_point (snd r) 0 (set_point (fst r) 0 ps)) windows ps in
     fold add_hold ranges ps)"

definition ordered_points :: "int \<Rightarrow> int \<Rightarrow> points \<Rightarrow> points" where
  "ordered_points from to ps = sort_key fst (filter (\<lambda>(at, d). from \<le> at \<and> at \<le> to) ps)"

text \<open>The last bucket that has begun.\<close>

function advance :: "bucket list \<Rightarrow> int \<Rightarrow> nat \<Rightarrow> nat" where
  "advance buckets at i =
    (if i + 1 < length buckets \<and> bk_from (buckets ! (i + 1)) \<le> at then advance buckets at (i + 1) else i)"
  by auto
termination by (relation "measure (\<lambda>(buckets, at, i). length buckets - i)") auto

declare advance.simps [simp del]

definition add_stretch :: "int \<Rightarrow> int \<Rightarrow> bucket \<Rightarrow> bucket" where
  "add_stretch held ms b = b\<lparr>bk_covered := bk_covered b + ms, bk_held := bk_held b + held * ms, bk_peak := max (bk_peak b) held\<rparr>"

fun sweep :: "usage_interval list \<Rightarrow> int \<Rightarrow> nat \<Rightarrow> points \<Rightarrow> bucket list \<Rightarrow> bucket list" where
  "sweep windows held i ((at, delta) # (nx, d) # rest) buckets =
    (let held = held + delta; i = advance buckets at i;
         buckets = (if contains windows at then buckets[i := add_stretch held (nx - at) (buckets ! i)] else buckets) in
     sweep windows held i ((nx, d) # rest) buckets)"
| "sweep windows held i _ buckets = buckets"

definition find_bucket :: "usage_interval list \<Rightarrow> int \<Rightarrow> int \<Rightarrow> int \<Rightarrow> int \<Rightarrow> nat option" where
  "find_bucket windows from to step at =
    (if at < from \<or> to \<le> at \<or> \<not> contains windows at then None else Some (nat (at div step - from div step)))"

record readiness_tally =
  rt_samples :: "int list"
  rt_unobserved :: nat
  rt_unsupported :: nat

definition count_accepted :: "usage_operation \<Rightarrow> bucket \<Rightarrow> bucket" where
  "count_accepted p b = (if uo_resume p then b\<lparr>bk_resume := bk_resume b + 1\<rparr>
     else if uo_restored p then b\<lparr>bk_restore := bk_restore b + 1\<rparr> else b\<lparr>bk_create := bk_create b + 1\<rparr>)"

definition count_outcome :: "operation_state \<Rightarrow> bucket \<Rightarrow> bucket" where
  "count_outcome st b = (if st = Succeeded then b\<lparr>bk_succeeded := bk_succeeded b + 1\<rparr>
     else if st = Failed then b\<lparr>bk_failed := bk_failed b + 1\<rparr> else b\<lparr>bk_canceled := bk_canceled b + 1\<rparr>)"

definition unready :: "usage_interval list \<Rightarrow> int \<Rightarrow> int \<Rightarrow> usage_operation \<Rightarrow> readiness_tally \<Rightarrow> readiness_tally" where
  "unready windows to now_ms p t =
    (case uo_observed p of
       Some q \<Rightarrow>
         if uo_unsupported p \<and> uo_created p \<le> q \<and> q \<le> now_ms \<and> q < to
         then t\<lparr>rt_unsupported := rt_unsupported t + 1\<rparr> else t\<lparr>rt_unobserved := rt_unobserved t + 1\<rparr>
     | None \<Rightarrow> t\<lparr>rt_unobserved := rt_unobserved t + 1\<rparr>)"

definition tally_readiness :: "usage_interval list \<Rightarrow> int \<Rightarrow> int \<Rightarrow> usage_operation \<Rightarrow> readiness_tally \<Rightarrow> readiness_tally" where
  "tally_readiness windows to now_ms p t =
    (case uo_ready p of
       Some r \<Rightarrow>
         if uo_created p \<le> r \<and> r < to \<and> r \<le> now_ms \<and> contains windows r
         then t\<lparr>rt_samples := rt_samples t @ [r - uo_created p]\<rparr>
         else unready windows to now_ms p t
     | None \<Rightarrow> unready windows to now_ms p t)"

definition count_operation ::
    "usage_interval list \<Rightarrow> int \<Rightarrow> int \<Rightarrow> int \<Rightarrow> int \<Rightarrow> usage_operation \<Rightarrow> bucket list \<times> readiness_tally \<Rightarrow> bucket list \<times> readiness_tally" where
  "count_operation windows from to step now_ms p = (\<lambda>(buckets, t).
     let (buckets, t) = (case find_bucket windows from to step (uo_created p) of
           None \<Rightarrow> (buckets, t)
         | Some i \<Rightarrow> (buckets[i := count_accepted p (buckets ! i)], tally_readiness windows to now_ms p t)) in
     case uo_completed p of
       None \<Rightarrow> (buckets, t)
     | Some c \<Rightarrow>
         if uo_state p = Succeeded \<or> uo_state p = Failed \<or> uo_state p = Canceled then
           (case find_bucket windows from to step c of
              None \<Rightarrow> (buckets, t)
            | Some i \<Rightarrow> (buckets[i := count_outcome (uo_state p) (buckets ! i)], t))
         else (buckets, t))"

section \<open>The response\<close>

datatype usage_coverage = Unavailable | Partial | Complete

datatype observer_status = ObserverDisabled | ObserverNotStarted | ObserverStale | ObserverActive

record usage_bucket =
  ub_from :: int
  ub_to :: int
  ub_coverage :: usage_coverage
  ub_covered :: int
  ub_held :: "int option"
  ub_average :: "(int \<times> int) option"
  ub_peak :: "int option"
  ub_accepted :: "(nat \<times> nat \<times> nat) option"
  ub_outcomes :: "(nat \<times> nat \<times> nat) option"

definition accepted_of :: "bucket \<Rightarrow> nat \<times> nat \<times> nat" where
  "accepted_of b = (bk_create b, bk_restore b, bk_resume b)"

definition outcomes_of :: "bucket \<Rightarrow> nat \<times> nat \<times> nat" where
  "outcomes_of b = (bk_succeeded b, bk_failed b, bk_canceled b)"

definition finish_bucket :: "bucket \<Rightarrow> usage_bucket" where
  "finish_bucket b =
    (if bk_covered b = 0 then
       \<lparr>ub_from = bk_from b, ub_to = bk_to b, ub_coverage = Unavailable, ub_covered = 0, ub_held = None, ub_average = None,
        ub_peak = None, ub_accepted = None, ub_outcomes = None\<rparr>
     else
       \<lparr>ub_from = bk_from b, ub_to = bk_to b, ub_coverage = (if bk_covered b = bk_to b - bk_from b then Complete else Partial),
        ub_covered = bk_covered b, ub_held = Some (bk_held b), ub_average = Some (bk_held b, bk_covered b),
        ub_peak = Some (bk_peak b), ub_accepted = Some (accepted_of b), ub_outcomes = Some (outcomes_of b)\<rparr>)"

text \<open>\<open>percentile(n / d)\<close> of the sorted samples.\<close>

definition percentile :: "int list \<Rightarrow> nat \<Rightarrow> nat \<Rightarrow> int option" where
  "percentile samples n d = (if samples = [] then None
     else Some (sort samples ! ((length samples * n + d - 1) div d - 1)))"

record usage_history =
  us_from :: int
  us_to :: int
  us_status :: usage_coverage
  us_available_from :: int
  us_observed_at :: "int option"
  us_retention :: int
  us_observer :: observer_status
  us_gaps :: "usage_interval list"
  us_covered :: int
  us_held :: "int option"
  us_peak :: "int option"
  us_accepted :: "(nat \<times> nat \<times> nat) option"
  us_outcomes :: "(nat \<times> nat \<times> nat) option"
  us_readiness :: usage_coverage
  us_samples :: nat
  us_unobserved :: nat
  us_unsupported :: nat
  us_p50 :: "int option"
  us_p95 :: "int option"
  us_buckets :: "usage_bucket list"

record usage_input =
  ui_from :: int
  ui_to :: int
  ui_resolution :: usage_resolution
  ui_available_from :: int
  ui_observed_at :: "int option"
  ui_observer_enabled :: bool
  ui_now :: int
  ui_retention :: int
  ui_windows :: "usage_interval list"
  ui_holds :: "usage_hold list"
  ui_operations :: "usage_operation list"

definition usage_windows :: "usage_input \<Rightarrow> usage_interval list" where
  "usage_windows x = mergeUsageIntervals (ui_windows x) (max (ui_from x) (ui_available_from x)) (min (ui_to x) (ui_now x))"

definition hold_ranges :: "usage_input \<Rightarrow> (int \<times> int) list" where
  "hold_ranges x = map (hold_range (ui_from x) (ui_to x) (ui_now x)) (ui_holds x)"

text \<open>The buckets after the sweep over the event points.\<close>

definition swept_buckets :: "usage_input \<Rightarrow> bucket list" where
  "swept_buckets x =
    (let buckets = buckets_from (usageResolutionMs (ui_resolution x)) (ui_from x) (ui_to x) in
     sweep (usage_windows x) 0 0
       (ordered_points (ui_from x) (ui_to x) (event_points (ui_from x) (ui_to x) buckets (usage_windows x) (hold_ranges x))) buckets)"

definition counted :: "usage_input \<Rightarrow> bucket list \<times> readiness_tally" where
  "counted x = fold (count_operation (usage_windows x) (ui_from x) (ui_to x) (usageResolutionMs (ui_resolution x)) (ui_now x))
     (ui_operations x) (swept_buckets x, \<lparr>rt_samples = [], rt_unobserved = 0, rt_unsupported = 0\<rparr>)"

definition add3 :: "nat \<times> nat \<times> nat \<Rightarrow> nat \<times> nat \<times> nat \<Rightarrow> nat \<times> nat \<times> nat" where
  "add3 a b = (case (a, b) of ((a1, a2, a3), (b1, b2, b3)) \<Rightarrow> (a1 + b1, a2 + b2, a3 + b3))"

definition when_covered :: "int \<Rightarrow> 'a \<Rightarrow> 'a option" where
  "when_covered covered v = (if covered = 0 then None else Some v)"

definition aggregateUsageHistory :: "usage_input \<Rightarrow> usage_history" where
  "aggregateUsageHistory x =
    (let windows = usage_windows x;
         gaps = gaps_from (ui_to x) (ui_from x) windows;
         (buckets, t) = counted x;
         seen = filter (\<lambda>b. bk_covered b \<noteq> 0) buckets;
         covered = sum_list (map bk_covered seen);
         status = (if covered = 0 then Unavailable else if gaps \<noteq> [] then Partial else Complete) in
     \<lparr>us_from = ui_from x, us_to = ui_to x, us_status = status, us_available_from = ui_available_from x,
      us_observed_at = ui_observed_at x, us_retention = ui_retention x,
      us_observer = (if \<not> ui_observer_enabled x then ObserverDisabled
        else (case ui_observed_at x of None \<Rightarrow> ObserverNotStarted
          | Some q \<Rightarrow> if 30000 < ui_now x - q then ObserverStale else ObserverActive)),
      us_gaps = gaps, us_covered = covered,
      us_held = when_covered covered (sum_list (map bk_held seen)),
      us_peak = when_covered covered (fold (\<lambda>b p. max p (bk_peak b)) seen 0),
      us_accepted = when_covered covered (fold (\<lambda>b c. add3 c (accepted_of b)) seen (0, 0, 0)),
      us_outcomes = when_covered covered (fold (\<lambda>b c. add3 c (outcomes_of b)) seen (0, 0, 0)),
      us_readiness = (if rt_samples t = [] then Unavailable
        else if status \<noteq> Complete \<or> rt_unobserved t \<noteq> 0 \<or> rt_unsupported t \<noteq> 0 then Partial else Complete),
      us_samples = length (rt_samples t), us_unobserved = rt_unobserved t, us_unsupported = rt_unsupported t,
      us_p50 = percentile (rt_samples t) 1 2, us_p95 = percentile (rt_samples t) 19 20,
      us_buckets = map finish_bucket buckets\<rparr>)"

end
