(* ===== verification/UsageExact.thy ===== *)
theory UsageExact
  imports UsageHistory
begin

text \<open>
  The usage history against its definition by single milliseconds: a moment is covered when the
  observer was running, and the slots held at a moment are the reservations open at it. The
  merging of intervals, the binary search and the sweep over event points agree with it.
\<close>

section \<open>Intervals as sets of moments\<close>

definition in_ivs :: "usage_interval list \<Rightarrow> int \<Rightarrow> bool" where
  "in_ivs ivs t \<longleftrightarrow> list_ex (\<lambda>(a, b). a \<le> t \<and> t < b) ivs"

definition separated :: "usage_interval list \<Rightarrow> bool" where
  "separated ivs \<longleftrightarrow> sorted_wrt (\<lambda>p q. snd p < fst q) ivs \<and> list_all (\<lambda>p. fst p < snd p) ivs"

lemma in_ivs_Cons [simp]: "in_ivs (p # ps) t \<longleftrightarrow> (fst p \<le> t \<and> t < snd p) \<or> in_ivs ps t"
  and in_ivs_Nil [simp]: "\<not> in_ivs [] t"
  by (auto simp: in_ivs_def split: prod.splits)

lemma in_ivs_iff: "in_ivs ivs t \<longleftrightarrow> (\<exists>p \<in> set ivs. fst p \<le> t \<and> t < snd p)"
  by (induction ivs) auto

lemma separated_Nil [simp]: "separated []"
  by (simp add: separated_def)

lemma separated_Cons: "separated (p # ps) \<longleftrightarrow> fst p < snd p \<and> (\<forall>q \<in> set ps. snd p < fst q) \<and> separated ps"
  by (auto simp: separated_def)

lemma mergeFrom_correct:
  assumes "sorted (map fst (p # xs))" and "\<forall>q \<in> set (p # xs). fst q < snd q"
  shows "separated (mergeFrom p xs) \<and> (\<forall>q \<in> set (mergeFrom p xs). fst p \<le> fst q) \<and> (\<forall>t. in_ivs (mergeFrom p xs) t \<longleftrightarrow> in_ivs (p # xs) t)"
  using assms
proof (induction p xs rule: mergeFrom.induct)
  case (1 p)
  then show ?case by (simp add: separated_Cons)
next
  case (2 p x xs)
  show ?case
  proof (cases "fst x \<le> snd p")
    case True
    have "sorted (map fst ((fst p, max (snd p) (snd x)) # xs))" "\<forall>q \<in> set ((fst p, max (snd p) (snd x)) # xs). fst q < snd q"
      using "2.prems" by auto
    note IH = "2.IH"(1) [OF True this]
    from "2.prems" True have "(fst p \<le> t \<and> t < max (snd p) (snd x)) \<longleftrightarrow> (fst p \<le> t \<and> t < snd p) \<or> (fst x \<le> t \<and> t < snd x)" for t
      by auto
    with IH True show ?thesis by simp
  next
    case False
    from "2.prems" have "sorted (map fst (x # xs))" "\<forall>q \<in> set (x # xs). fst q < snd q" by auto
    note IH = "2.IH"(2) [OF False this]
    have "snd p < fst q" if "q \<in> set (mergeFrom x xs)" for q using IH False that by force
    with IH False "2.prems" show ?thesis by (force simp: separated_Cons)
  qed
qed

lemma merge_correct:
  shows "separated (mergeUsageIntervals ivs from to)"
    and "in_ivs (mergeUsageIntervals ivs from to) t \<longleftrightarrow> from \<le> t \<and> t < to \<and> in_ivs ivs t"
proof -
  let ?c = "filter (\<lambda>(a, b). a < b) (map (\<lambda>(a, b). (max from a, min to b)) ivs)"
  have clip: "in_ivs ?c t \<longleftrightarrow> from \<le> t \<and> t < to \<and> in_ivs ivs t" for t
    by (induction ivs) (auto simp: in_ivs_def split: prod.splits)
  have set: "in_ivs xs t \<longleftrightarrow> in_ivs ys t" if "set xs = set ys" for xs ys t
    using that by (auto simp: in_ivs_def list_ex_iff)
  have "separated (mergeUsageIntervals ivs from to) \<and> (\<forall>t. in_ivs (mergeUsageIntervals ivs from to) t \<longleftrightarrow> in_ivs ?c t)"
  proof (cases "sort_key fst ?c")
    case Nil
    then have "?c = []" by simp
    with Nil show ?thesis by (simp add: mergeUsageIntervals_def)
  next
    case (Cons x xs)
    have "sorted (map fst (x # xs))" using Cons by (metis sorted_sort_key)
    have members: "set (x # xs) = set ?c" by (metis Cons set_sort)
    then have "\<forall>q \<in> set (x # xs). fst q < snd q" by auto
    note merged = mergeFrom_correct [OF \<open>sorted (map fst (x # xs))\<close> this]
    have "mergeUsageIntervals ivs from to = mergeFrom x xs" unfolding mergeUsageIntervals_def Cons by simp
    with merged set [OF members] show ?thesis by metis
  qed
  then show "separated (mergeUsageIntervals ivs from to)"
    "in_ivs (mergeUsageIntervals ivs from to) t \<longleftrightarrow> from \<le> t \<and> t < to \<and> in_ivs ivs t"
    using clip by auto
qed

lemma merge_bounds:
  assumes "p \<in> set (mergeUsageIntervals ivs from to)"
  shows "from \<le> fst p \<and> snd p \<le> to \<and> fst p < snd p"
proof -
  from merge_correct(1) assms have proper: "fst p < snd p" by (auto simp: separated_def list_all_iff)
  have "in_ivs (mergeUsageIntervals ivs from to) t" if "fst p \<le> t" "t < snd p" for t
    using assms that by (auto simp: in_ivs_def list_ex_iff intro!: bexI [of _ p] split: prod.splits)
  from this [of "fst p"] this [of "snd p - 1"] proper merge_correct(2) show ?thesis by auto
qed

lemma search_correct:
  assumes "\<forall>i < low. fst (ivs ! i) \<le> v" and "\<forall>i. high \<le> i \<longrightarrow> i < length ivs \<longrightarrow> v < fst (ivs ! i)"
    and "sorted (map fst ivs)" and "low \<le> high" and "high \<le> length ivs"
  shows "search_from ivs v low high \<le> length ivs \<and> (\<forall>i < search_from ivs v low high. fst (ivs ! i) \<le> v) \<and>
    (\<forall>i. search_from ivs v low high \<le> i \<longrightarrow> i < length ivs \<longrightarrow> v < fst (ivs ! i))"
  using assms
proof (induction ivs v low high rule: search_from.induct)
  case (1 ivs v low high)
  have mono: "fst (ivs ! i) \<le> fst (ivs ! j)" if "i \<le> j" "j < length ivs" for i j
    using sorted_nth_mono [OF "1.prems"(3), of i j] that by simp
  show ?case
  proof (cases "low < high")
    case True
    let ?m = "(low + high) div 2"
    have m: "low \<le> ?m" "?m < high" using True by auto
    show ?thesis
    proof (cases "fst (ivs ! ?m) \<le> v")
      case yes: True
      have "fst (ivs ! i) \<le> v" if "i < ?m + 1" for i using mono [of i ?m] yes that m "1.prems"(5) by fastforce
      with "1.IH"(1) [OF True refl yes] "1.prems" m True yes show ?thesis
        by (subst (1 2 3) search_from.simps) (simp add: Let_def)
    next
      case no: False
      have "v < fst (ivs ! i)" if "?m \<le> i" "i < length ivs" for i using mono [of ?m i] no that by fastforce
      with "1.IH"(2) [OF True refl no] "1.prems" m True no show ?thesis
        by (subst (1 2 3) search_from.simps) (simp add: Let_def)
    qed
  next
    case False
    with "1.prems" show ?thesis by (subst (1 2 3) search_from.simps) simp
  qed
qed

lemma separated_sorted: "separated ivs \<Longrightarrow> sorted (map fst ivs)"
  by (induction ivs) (fastforce simp: separated_Cons)+

lemma contains_correct:
  assumes "separated ivs"
  shows "contains ivs v \<longleftrightarrow> in_ivs ivs v"
proof -
  define k where "k = search_from ivs v 0 (length ivs)"
  from search_correct [of 0 ivs v "length ivs"] separated_sorted [OF assms]
  have k: "k \<le> length ivs" "\<forall>i < k. fst (ivs ! i) \<le> v" "\<forall>i. k \<le> i \<longrightarrow> i < length ivs \<longrightarrow> v < fst (ivs ! i)" by (auto simp: k_def)
  have before: "snd (ivs ! i) < fst (ivs ! j)" if "i < j" "j < length ivs" for i j
    using assms that by (simp add: separated_def sorted_wrt_iff_nth_less)
  have "in_ivs ivs v \<longleftrightarrow> (\<exists>i < length ivs. fst (ivs ! i) \<le> v \<and> v < snd (ivs ! i))"
    unfolding in_ivs_iff by (metis in_set_conv_nth)
  also have "\<dots> \<longleftrightarrow> 0 < k \<and> v < snd (ivs ! (k - 1))"
  proof
    assume "\<exists>i < length ivs. fst (ivs ! i) \<le> v \<and> v < snd (ivs ! i)"
    then obtain i where i: "i < length ivs" "fst (ivs ! i) \<le> v" "v < snd (ivs ! i)" by blast
    with k(3) have "i < k" by (metis leD not_le_imp_less)
    moreover have "\<not> i < k - 1"
    proof
      assume less: "i < k - 1"
      with k(1) have "k - 1 < length ivs" "k - 1 < k" by linarith+
      with before [OF less] k(2) i(3) show False by force
    qed
    ultimately have "i = k - 1" "0 < k" by auto
    with i show "0 < k \<and> v < snd (ivs ! (k - 1))" by simp
  next
    assume last: "0 < k \<and> v < snd (ivs ! (k - 1))"
    then have "k - 1 < length ivs" "k - 1 < k" using k(1) by linarith+
    with k(2) last show "\<exists>i < length ivs. fst (ivs ! i) \<le> v \<and> v < snd (ivs ! i)" by blast
  qed
  finally show ?thesis by (simp add: contains_def k_def Let_def)
qed

section \<open>Filling buckets up to a moment\<close>

definition fill :: "(int \<Rightarrow> bool) \<Rightarrow> (int \<Rightarrow> int) \<Rightarrow> int \<Rightarrow> bucket \<Rightarrow> bucket" where
  "fill cov ht c b = (let ts = {t \<in> {bk_from b ..< min (bk_to b) c}. cov t} in
     b\<lparr>bk_covered := int (card ts), bk_held := sum ht ts, bk_peak := Max (insert 0 (ht ` ts))\<rparr>)"

lemma fill_more:
  assumes "bk_from b \<le> at" "at < nx" "nx \<le> bk_to b" and flat: "\<And>t. at \<le> t \<Longrightarrow> t < nx \<Longrightarrow> cov t \<and> ht t = h"
  shows "fill cov ht nx b = add_stretch h (nx - at) (fill cov ht at b)"
proof -
  let ?old = "{t \<in> {bk_from b ..< min (bk_to b) at}. cov t}"
  let ?new = "{t \<in> {bk_from b ..< min (bk_to b) nx}. cov t}"
  have split: "?new = ?old \<union> {at..<nx}" using assms by auto
  have disjoint: "?old \<inter> {at..<nx} = {}" by auto
  have fin: "finite ?old" by (rule finite_subset [of _ "{bk_from b ..< bk_to b}"]) auto
  have card: "int (card ?new) = int (card ?old) + (nx - at)"
    unfolding split using card_Un_disjoint [OF fin finite_atLeastLessThan_int disjoint] assms(2) by simp
  have "sum ht {at..<nx} = (\<Sum>t\<in>{at..<nx}. h)" using flat by (intro sum.cong) auto
  then have const: "sum ht {at..<nx} = h * (nx - at)" using assms(2) by (simp add: mult.commute)
  have sum: "sum ht ?new = sum ht ?old + h * (nx - at)"
    unfolding split using sum.union_disjoint [OF fin finite_atLeastLessThan_int disjoint, of ht] const by simp
  have "ht ` {at..<nx} = {h}" using flat assms(2) by force
  then have image: "insert 0 (ht ` ?new) = insert h (insert 0 (ht ` ?old))" unfolding split image_Un by auto
  have peak: "Max (insert 0 (ht ` ?new)) = max (Max (insert 0 (ht ` ?old))) h"
    unfolding image using fin by (simp add: max.commute)
  show ?thesis unfolding fill_def Let_def add_stretch_def card sum peak by simp
qed

lemma fill_same:
  assumes "\<And>t. bk_from b \<le> t \<Longrightarrow> t < bk_to b \<Longrightarrow> at \<le> t \<Longrightarrow> t < nx \<Longrightarrow> \<not> cov t" and "at \<le> nx"
  shows "fill cov ht nx b = fill cov ht at b"
proof -
  have "{t \<in> {bk_from b ..< min (bk_to b) nx}. cov t} = {t \<in> {bk_from b ..< min (bk_to b) at}. cov t}"
    using assms by (auto simp: not_less) (metis leI)+
  then show ?thesis unfolding fill_def by simp
qed

section \<open>Buckets\<close>

text \<open>Consecutive stretches from one moment to another.\<close>

fun chained :: "int \<Rightarrow> int \<Rightarrow> bucket list \<Rightarrow> bool" where
  "chained a z [] \<longleftrightarrow> a = z"
| "chained a z (b # bs) \<longleftrightarrow> bk_from b = a \<and> a < bk_to b \<and> chained (bk_to b) z bs"

lemma buckets_chained: "0 < step \<Longrightarrow> start \<le> to \<Longrightarrow> chained start to (buckets_from step start to)"
proof (induction step start to rule: buckets_from.induct)
  case (1 step start to)
  show ?case
  proof (cases "start < to")
    case True
    let ?e = "min to ((start div step + 1) * step)"
    have "start < ?e" using next_boundary [OF "1.prems"(1), of start] True by simp
    moreover have "chained ?e to (buckets_from step ?e to)"
      using "1.IH" [OF conjI [OF "1.prems"(1) True] refl] "1.prems"(1) by simp
    ultimately show ?thesis
      by (subst buckets_from.simps) (simp add: "1.prems" True Let_def empty_bucket_def)
  next
    case False
    with "1.prems" show ?thesis by (subst buckets_from.simps) simp
  qed
qed

lemma chained_le: "chained a z bs \<Longrightarrow> a \<le> z"
  by (induction bs arbitrary: a) force+

lemma chained_inside: "chained a z bs \<Longrightarrow> b \<in> set bs \<Longrightarrow> a \<le> bk_from b \<and> bk_from b < bk_to b \<and> bk_to b \<le> z"
proof (induction bs arbitrary: a)
  case (Cons c bs)
  then show ?case using chained_le [of "bk_to c" z bs] by fastforce
qed simp

lemma chained_next: "chained a z bs \<Longrightarrow> i < length bs \<Longrightarrow> bk_to (bs ! i) = (if i + 1 < length bs then bk_from (bs ! (i + 1)) else z)"
proof (induction bs arbitrary: a i)
  case (Cons b bs)
  show ?case
  proof (cases i)
    case 0
    with Cons.prems show ?thesis by (cases bs) auto
  next
    case (Suc j)
    with Cons show ?thesis by auto
  qed
qed simp

lemma chained_apart: "chained a z bs \<Longrightarrow> i < j \<Longrightarrow> j < length bs \<Longrightarrow> bk_to (bs ! i) \<le> bk_from (bs ! j)"
proof (induction bs arbitrary: a i j)
  case (Cons b bs)
  then obtain j' where j: "j = Suc j'" by (cases j) auto
  show ?case
  proof (cases i)
    case 0
    with Cons.prems j chained_inside [of "bk_to b" z bs "bs ! j'"] show ?thesis by simp
  next
    case (Suc i')
    with Cons j show ?thesis by auto
  qed
qed simp

lemma advance_correct:
  assumes "i < length bs" and "bk_from (bs ! i) \<le> at"
  shows "advance bs at i < length bs \<and> bk_from (bs ! advance bs at i) \<le> at \<and>
    (advance bs at i + 1 < length bs \<longrightarrow> at < bk_from (bs ! (advance bs at i + 1)))"
  using assms
proof (induction bs at i rule: advance.induct)
  case (1 bs at i)
  show ?case
  proof (cases "i + 1 < length bs \<and> bk_from (bs ! (i + 1)) \<le> at")
    case True
    with "1.IH" have "advance bs at (i + 1) < length bs \<and> bk_from (bs ! advance bs at (i + 1)) \<le> at \<and>
      (advance bs at (i + 1) + 1 < length bs \<longrightarrow> at < bk_from (bs ! (advance bs at (i + 1) + 1)))" by blast
    moreover have "advance bs at i = advance bs at (i + 1)" using True by (subst advance.simps) simp
    ultimately show ?thesis by simp
  next
    case False
    then have "advance bs at i = i" by (subst advance.simps) (simp only: if_False)
    with False "1.prems" show ?thesis by auto
  qed
qed

section \<open>The sweep\<close>

lemma flat_between:
  assumes "\<And>t. at < t \<Longrightarrow> t < nx \<Longrightarrow> f t = f (t - 1)" and "at \<le> t" "t < (nx :: int)"
  shows "f t = f at"
  using assms(2,3)
proof (induction t rule: int_ge_induct)
  case (step i)
  then show ?case using assms(1) [of "i + 1"] by simp
qed simp

text \<open>A moment at which nothing begins or ends.\<close>

definition quiet :: "(int \<Rightarrow> bool) \<Rightarrow> (int \<Rightarrow> int) \<Rightarrow> bucket list \<Rightarrow> int \<Rightarrow> bool" where
  "quiet cov ht bs t \<longleftrightarrow> cov t = cov (t - 1) \<and> ht t = ht (t - 1) \<and> (\<forall>b \<in> set bs. bk_from b \<noteq> t)"

lemma sweep_stretch:
  assumes chain: "chained a z bs" and i: "i < length bs" and last: "bk_from (bs ! i) \<le> at" "i + 1 < length bs \<longrightarrow> at < bk_from (bs ! (i + 1))"
    and gap: "at < nx" "nx \<le> z" "\<And>t. at < t \<Longrightarrow> t < nx \<Longrightarrow> quiet cov ht bs t"
  shows "(if cov at then (map (fill cov ht at) bs)[i := add_stretch (ht at) (nx - at) (map (fill cov ht at) bs ! i)]
    else map (fill cov ht at) bs) = map (fill cov ht nx) bs"
proof -
  have flat: "cov t = cov at" "ht t = ht at" if "at \<le> t" "t < nx" for t
    using flat_between [of at nx cov t] flat_between [of at nx ht t] gap(3) that by (auto simp: quiet_def)
  have inside: "nx \<le> bk_to (bs ! i)"
  proof (cases "i + 1 < length bs")
    case True
    then have "bs ! (i + 1) \<in> set bs" by simp
    then have "\<not> quiet cov ht bs (bk_from (bs ! (i + 1)))" by (auto simp: quiet_def)
    with gap(3) last(2) True have "nx \<le> bk_from (bs ! (i + 1))" by force
    with chained_next [OF chain i] True show ?thesis by simp
  next
    case False
    with chained_next [OF chain i] gap(2) show ?thesis by simp
  qed
  show ?thesis
  proof (cases "cov at")
    case True
    have "fill cov ht nx (bs ! j) = (if j = i then add_stretch (ht at) (nx - at) (fill cov ht at (bs ! i)) else fill cov ht at (bs ! j))"
      if "j < length bs" for j
    proof (cases "j = i")
      case j: True
      have "fill cov ht nx (bs ! i) = add_stretch (ht at) (nx - at) (fill cov ht at (bs ! i))"
      proof (rule fill_more [OF last(1) gap(1) inside])
        show "cov t \<and> ht t = ht at" if "at \<le> t" "t < nx" for t using flat [OF that] True by blast
      qed
      with j show ?thesis by simp
    next
      case other: False
      have out: "\<not> (bk_from (bs ! j) \<le> t \<and> t < bk_to (bs ! j))" if t: "at \<le> t" "t < nx" for t
      proof (cases "i < j")
        case True
        have "bk_to (bs ! i) \<le> bk_from (bs ! j)" using chained_apart [OF chain True \<open>j < length bs\<close>] .
        with inside t show ?thesis by linarith
      next
        case False
        with other have "j < i" by simp
        have "bk_to (bs ! j) \<le> bk_from (bs ! i)" using chained_apart [OF chain \<open>j < i\<close> i] .
        with last(1) t show ?thesis by linarith
      qed
      have "fill cov ht nx (bs ! j) = fill cov ht at (bs ! j)"
      proof (rule fill_same)
        show "\<not> cov t" if "bk_from (bs ! j) \<le> t" "t < bk_to (bs ! j)" "at \<le> t" "t < nx" for t
          using out [of t] that by blast
        show "at \<le> nx" using gap(1) by simp
      qed
      with other show ?thesis by simp
    qed
    then show ?thesis using True i by (auto intro!: nth_equalityI simp: nth_list_update)
  next
    case False
    have "fill cov ht nx b = fill cov ht at b" for b
    proof (rule fill_same)
      show "\<not> cov t" if "bk_from b \<le> t" "t < bk_to b" "at \<le> t" "t < nx" for t using flat(1) [OF that(3,4)] False by blast
      show "at \<le> nx" using gap(1) by simp
    qed
    with False show ?thesis by simp
  qed
qed

lemma fill_ends [simp]: "bk_from (fill cov ht c b) = bk_from b" "bk_to (fill cov ht c b) = bk_to b"
  by (simp_all add: fill_def Let_def)

lemma advance_fill: "advance (map (fill cov ht c) bs) at i = advance bs at i"
proof (induction bs at i rule: advance.induct)
  case (1 bs at i)
  then show ?case by (subst (1 2) advance.simps) auto
qed

lemma sweep_fills:
  assumes "chained a z bs" and "\<And>t. contains windows t = cov t"
    and "sorted_wrt (<) (map fst ps)" and "ps \<noteq> []" and "fst (last ps) = z"
    and "held = ht (fst (hd ps) - 1)" and "\<forall>p \<in> set ps. snd p = ht (fst p) - ht (fst p - 1)"
    and "\<forall>t. fst (hd ps) < t \<longrightarrow> t < z \<longrightarrow> t \<notin> fst ` set ps \<longrightarrow> quiet cov ht bs t"
    and "i < length bs" and "bk_from (bs ! i) \<le> fst (hd ps)"
  shows "sweep windows held i ps (map (fill cov ht (fst (hd ps))) bs) = map (fill cov ht z) bs"
  using assms
proof (induction ps arbitrary: held i)
  case (Cons p qs)
  show ?case
  proof (cases qs)
    case Nil
    with Cons.prems show ?thesis by (cases p) simp
  next
    case (Cons q rest)
    note prems = Cons.prems [unfolded Cons]
    let ?at = "fst p" and ?nx = "fst q"
    let ?i = "advance bs ?at i"
    have strict: "\<forall>r \<in> set (q # rest). ?at < fst r" "sorted_wrt (<) (map fst (q # rest))" using prems(3) by auto
    have later: "\<forall>r \<in> set (q # rest). ?nx \<le> fst r" using strict(2) by auto
    from later have upper: "?nx \<le> z" using prems(5) last_in_set [of "q # rest"] by fastforce
    have gap: "quiet cov ht bs t" if "?at < t" "t < ?nx" for t
      using prems(8) that upper later by fastforce
    have held: "held + snd p = ht ?at" using prems(6,7) by simp
    have adv: "?i < length bs" "bk_from (bs ! ?i) \<le> ?at" "?i + 1 < length bs \<longrightarrow> ?at < bk_from (bs ! (?i + 1))"
      using advance_correct [OF prems(9)] prems(10) by auto
    have before: "ht ?at = ht (?nx - 1)"
      using flat_between [of ?at ?nx ht "?nx - 1"] gap strict(1) by (simp add: quiet_def)
    have "sweep windows (ht ?at) ?i (q # rest) (map (fill cov ht ?nx) bs) = map (fill cov ht z) bs"
    proof (rule Cons.IH [unfolded Cons, simplified list.sel])
      show "\<forall>t. ?nx < t \<longrightarrow> t < z \<longrightarrow> t \<notin> fst ` set (q # rest) \<longrightarrow> quiet cov ht bs t"
        using prems(8) strict(1) by fastforce
    qed (use prems before adv strict upper in auto)
    moreover have "?at < ?nx" using strict(1) by simp
    note sweep_stretch [OF prems(1) adv this upper gap]
    moreover have "sweep windows held i (p # q # rest) (map (fill cov ht ?at) bs) =
        sweep windows (held + snd p) ?i (q # rest) (if cov ?at then (map (fill cov ht ?at) bs)[?i := add_stretch (held + snd p) (?nx - ?at)
          (map (fill cov ht ?at) bs ! ?i)] else map (fill cov ht ?at) bs)"
      by (cases p; cases q) (simp add: Let_def advance_fill prems(2))
    ultimately show ?thesis unfolding Cons held by (simp only: list.sel)
  qed
qed simp

section \<open>The event points\<close>

definition held_in :: "(int \<times> int) list \<Rightarrow> int \<Rightarrow> int" where
  "held_in rs t = sum_list (map (\<lambda>r. of_bool (fst r \<le> t \<and> t < snd r)) rs)"

lemma map_of_set_point: "map_of (set_point x v ps) = (map_of ps)(x \<mapsto> v)"
  by (induction ps) (auto simp: fun_eq_iff)

lemma keys_set_point [simp]: "fst ` set (set_point x v ps) = insert x (fst ` set ps)"
  by (induction ps) auto

lemma distinct_set_point [simp]: "distinct (map fst ps) \<Longrightarrow> distinct (map fst (set_point x v ps))"
proof (induction ps)
  case (Cons p ps)
  have "set (map fst (set_point x v ps)) = insert x (fst ` set ps)" by simp
  with Cons show ?case by auto
qed simp

lemma point_at_set: "point_at (set_point x v ps) y = (if y = x then v else point_at ps y)"
  by (simp add: point_at_def map_of_set_point)

definition proper_range :: "int \<times> int \<Rightarrow> bool" where
  "proper_range r \<longleftrightarrow> fst r < snd r"

definition ends_of :: "(int \<times> int) list \<Rightarrow> int set" where
  "ends_of rs = (\<Union>r \<in> {r \<in> set rs. proper_range r}. {fst r, snd r})"

lemma point_at_add_hold:
  "point_at (add_hold r ps) y = point_at ps y + (if proper_range r then of_bool (y = fst r) - of_bool (y = snd r) else 0)"
  by (auto simp: add_hold_def Let_def point_at_set proper_range_def)

lemma keys_add_hold: "fst ` set (add_hold r ps) = fst ` set ps \<union> ends_of [r]"
  by (auto simp: add_hold_def Let_def proper_range_def ends_of_def)

lemma fold_holds:
  "point_at (fold add_hold rs ps) y = point_at ps y + held_in rs y - held_in rs (y - 1)"
  "fst ` set (fold add_hold rs ps) = fst ` set ps \<union> ends_of rs"
proof (induction rs arbitrary: ps)
  case (Cons r rs)
  {
    case 1
    have "of_bool (fst r \<le> y \<and> y < snd r) - of_bool (fst r \<le> y - 1 \<and> y - 1 < snd r) =
        (if proper_range r then of_bool (y = fst r) - of_bool (y = snd r) else (0 :: int))"
      by (auto simp: proper_range_def)
    with Cons(1) show ?case by (simp add: point_at_add_hold held_in_def)
  next
    case 2
    show ?case using Cons(2) [of "add_hold r ps"] by (auto simp: keys_add_hold ends_of_def)
  }
qed (simp_all add: held_in_def ends_of_def)

lemma distinct_holds: "distinct (map fst ps) \<Longrightarrow> distinct (map fst (fold add_hold rs ps))"
  by (induction rs arbitrary: ps) (auto simp: add_hold_def Let_def)

definition zeroed :: "points \<Rightarrow> bool" where
  "zeroed ps \<longleftrightarrow> distinct (map fst ps) \<and> (\<forall>y. point_at ps y = 0)"

lemma zeroed_set: "zeroed ps \<Longrightarrow> zeroed (set_point x 0 ps)"
  by (simp add: zeroed_def point_at_set)

lemma fold_zeroed:
  assumes "zeroed ps"
  shows "zeroed (fold (\<lambda>b ps. set_point (g b) 0 (set_point (f b) 0 ps)) bs ps)"
    "fst ` set (fold (\<lambda>b ps. set_point (g b) 0 (set_point (f b) 0 ps)) bs ps) = fst ` set ps \<union> f ` set bs \<union> g ` set bs"
  using assms by (induction bs arbitrary: ps) (auto simp: zeroed_set)

lemma event_points_correct:
  fixes F T :: int and bs ws rs
  defines "ps \<equiv> event_points F T bs ws rs"
  shows "distinct (map fst ps)" "point_at ps y = held_in rs y - held_in rs (y - 1)"
    "fst ` set ps = {F, T} \<union> bk_from ` set bs \<union> bk_to ` set bs \<union> fst ` set ws \<union> snd ` set ws \<union> ends_of rs"
proof -
  let ?p0 = "set_point T 0 (set_point F 0 [])"
  let ?p1 = "fold (\<lambda>b ps. set_point (bk_to b) 0 (set_point (bk_from b) 0 ps)) bs ?p0"
  let ?p2 = "fold (\<lambda>r ps. set_point (snd r) 0 (set_point (fst r) 0 ps)) ws ?p1"
  have ps: "ps = fold add_hold rs ?p2" by (simp only: ps_def event_points_def Let_def)
  have "zeroed []" by (simp add: zeroed_def point_at_def)
  then have z0: "zeroed ?p0" by (intro zeroed_set)
  have z1: "zeroed ?p1" by (rule fold_zeroed(1) [OF z0])
  have z2: "zeroed ?p2" by (rule fold_zeroed(1) [OF z1])
  show "distinct (map fst ps)" using z2 unfolding ps zeroed_def by (intro distinct_holds) simp
  show "point_at ps y = held_in rs y - held_in rs (y - 1)" using z2 unfolding ps zeroed_def by (simp add: fold_holds(1))
  have "fst ` set ?p0 = {F, T}" by auto
  then show "fst ` set ps = {F, T} \<union> bk_from ` set bs \<union> bk_to ` set bs \<union> fst ` set ws \<union> snd ` set ws \<union> ends_of rs"
    unfolding ps fold_holds(2) fold_zeroed(2) [OF z1] fold_zeroed(2) [OF z0] by (simp only:)
qed

lemma held_change: "held_in rs t \<noteq> held_in rs (t - 1) \<Longrightarrow> t \<in> ends_of rs"
proof (induction rs)
  case (Cons r rs)
  have ends: "ends_of (r # rs) = ends_of [r] \<union> ends_of rs" by (auto simp: ends_of_def)
  show ?case
  proof (cases "held_in rs t = held_in rs (t - 1)")
    case True
    with Cons.prems have "(fst r \<le> t \<and> t < snd r) \<noteq> (fst r \<le> t - 1 \<and> t - 1 < snd r)" by (auto simp: held_in_def)
    then have "t \<in> ends_of [r]" by (auto simp: ends_of_def proper_range_def)
    with ends show ?thesis by simp
  next
    case False
    with Cons.IH ends show ?thesis by simp
  qed
qed (simp add: held_in_def)

lemma ivs_change: "in_ivs ivs t \<noteq> in_ivs ivs (t - 1) \<Longrightarrow> t \<in> fst ` set ivs \<union> snd ` set ivs"
proof (induction ivs)
  case (Cons p ivs)
  show ?case
  proof (cases "in_ivs ivs t = in_ivs ivs (t - 1)")
    case True
    with Cons.prems have "(fst p \<le> t \<and> t < snd p) \<noteq> (fst p \<le> t - 1 \<and> t - 1 < snd p)" by auto
    then have "t = fst p \<or> t = snd p" by arith
    then show ?thesis by auto
  next
    case False
    with Cons.IH show ?thesis by simp
  qed
qed simp

section \<open>The swept buckets\<close>

lemma ordered_points_correct:
  assumes "distinct (map fst ps)"
  shows "set (ordered_points F T ps) = {p \<in> set ps. F \<le> fst p \<and> fst p \<le> T}" and "sorted_wrt (<) (map fst (ordered_points F T ps))"
proof -
  let ?f = "filter (\<lambda>(at, d). F \<le> at \<and> at \<le> T) ps"
  show members: "set (ordered_points F T ps) = {p \<in> set ps. F \<le> fst p \<and> fst p \<le> T}"
    by (auto simp: ordered_points_def)
  have "distinct (map fst ?f)" using assms by (rule distinct_map_filter)
  then have "distinct (map fst (ordered_points F T ps))" by (simp add: distinct_map ordered_points_def)
  moreover have "sorted (map fst (ordered_points F T ps))" by (simp add: ordered_points_def)
  ultimately show "sorted_wrt (<) (map fst (ordered_points F T ps))" by (simp add: strict_sorted_iff)
qed

lemma point_at_member: "distinct (map fst ps) \<Longrightarrow> p \<in> set ps \<Longrightarrow> snd p = point_at ps (fst p)"
  by (cases p) (simp add: point_at_def)

lemma sorted_ends:
  assumes "sorted_wrt (<) (map fst ps)" and "\<forall>p \<in> set ps. F \<le> fst p \<and> fst p \<le> T" and "F \<in> fst ` set ps" "T \<in> fst ` set ps"
  shows "ps \<noteq> []" "fst (hd ps) = F" "fst (last ps) = (T :: int)"
proof -
  show "ps \<noteq> []" using assms(3) by auto
  then obtain p qs where ps: "ps = p # qs" by (cases ps) auto
  from assms(1-3) show "fst (hd ps) = F" unfolding ps by fastforce
  obtain rs q where rs: "ps = rs @ [q]" using \<open>ps \<noteq> []\<close> by (metis append_butlast_last_id)
  from assms(1,2,4) show "fst (last ps) = T" unfolding rs by (fastforce simp: sorted_wrt_append)
qed

lemma sweep_exact:
  assumes "F < T" "0 < step" and windows: "separated ws" and ranges: "\<forall>r \<in> set rs. F \<le> fst r"
  defines "bs \<equiv> buckets_from step F T"
  shows "sweep ws 0 0 (ordered_points F T (event_points F T bs ws rs)) bs = map (fill (in_ivs ws) (held_in rs) T) bs"
proof -
  let ?ev = "event_points F T bs ws rs"
  let ?ps = "ordered_points F T ?ev"
  note ev = event_points_correct [of F T bs ws rs]
  note ord = ordered_points_correct [OF ev(1), of F T]
  have keys: "fst ` set ?ps = fst ` set ?ev \<inter> {F..T}" unfolding ord(1) by auto
  have "F \<in> fst ` set ?ps" "T \<in> fst ` set ?ps" unfolding keys ev(3) using assms(1) by auto
  moreover have "\<forall>p \<in> set ?ps. F \<le> fst p \<and> fst p \<le> T" unfolding ord(1) by auto
  ultimately have ends: "?ps \<noteq> []" "fst (hd ?ps) = F" "fst (last ?ps) = T" using sorted_ends [OF ord(2)] by blast+
  have chain: "chained F T bs" unfolding bs_def using assms(1,2) by (intro buckets_chained) simp_all
  then have nonempty: "bs \<noteq> []" using assms(1) by auto
  have initial: "bs = map (fill (in_ivs ws) (held_in rs) F) bs"
  proof -
    have "fill (in_ivs ws) (held_in rs) F b = b" if "b \<in> set bs" for b
    proof -
      have "b \<in> set (buckets_from step F T) \<Longrightarrow> bk_covered b = 0 \<and> bk_held b = 0 \<and> bk_peak b = 0"
        by (induction step F T rule: buckets_from.induct) (subst (asm) (2) buckets_from.simps, auto simp: Let_def empty_bucket_def split: if_splits)
      with that chained_inside [OF chain that] show ?thesis by (simp add: fill_def Let_def bs_def)
    qed
    then show ?thesis by (simp add: map_idI)
  qed
  have below: "held_in rs (F - 1) = 0" using ranges by (induction rs) (auto simp: held_in_def)
  have "sweep ws 0 0 ?ps (map (fill (in_ivs ws) (held_in rs) (fst (hd ?ps))) bs) = map (fill (in_ivs ws) (held_in rs) T) bs"
  proof (rule sweep_fills [OF chain _ ord(2) ends(1,3)])
    show "contains ws t = in_ivs ws t" for t by (rule contains_correct [OF windows])
    show "0 = held_in rs (fst (hd ?ps) - 1)" using below ends(2) by simp
    show "\<forall>p \<in> set ?ps. snd p = held_in rs (fst p) - held_in rs (fst p - 1)"
      using point_at_member [OF ev(1)] ev(2) unfolding ord(1) by simp
    show "\<forall>t. fst (hd ?ps) < t \<longrightarrow> t < T \<longrightarrow> t \<notin> fst ` set ?ps \<longrightarrow> quiet (in_ivs ws) (held_in rs) bs t"
    proof (intro allI impI)
      fix t assume "fst (hd ?ps) < t" "t < T" "t \<notin> fst ` set ?ps"
      then have "t \<notin> fst ` set ?ev" unfolding keys using ends(2) by simp
      then have "t \<notin> bk_from ` set bs" "t \<notin> fst ` set ws \<union> snd ` set ws" "t \<notin> ends_of rs" unfolding ev(3) by auto
      then show "quiet (in_ivs ws) (held_in rs) bs t" using held_change ivs_change unfolding quiet_def by blast
    qed
    show "0 < length bs" using nonempty by simp
    show "bk_from (bs ! 0) \<le> fst (hd ?ps)" using chain nonempty ends(2) by (cases bs) auto
  qed
  with ends(2) initial show ?thesis by simp
qed

section \<open>The history by single milliseconds\<close>

text \<open>When the observer was running, and how many slots were held.\<close>

definition covered_at :: "usage_input \<Rightarrow> int \<Rightarrow> bool" where
  "covered_at x t \<longleftrightarrow> max (ui_from x) (ui_available_from x) \<le> t \<and> t < min (ui_to x) (ui_now x) \<and> in_ivs (ui_windows x) t"

definition held_at :: "usage_input \<Rightarrow> int \<Rightarrow> int" where
  "held_at x t = int (length (filter (\<lambda>h. uh_created h \<le> t \<and> t < (case uh_released h of Some r \<Rightarrow> r | None \<Rightarrow> ui_now x)) (ui_holds x)))"

definition covered_moments :: "usage_input \<Rightarrow> int \<Rightarrow> int \<Rightarrow> int list" where
  "covered_moments x a b = filter (covered_at x) [a..b - 1]"

definition peak_of :: "int list \<Rightarrow> int" where
  "peak_of hs = foldr max hs 0"

definition measured :: "usage_input \<Rightarrow> int \<Rightarrow> int \<Rightarrow> int \<times> int \<times> int" where
  "measured x a b = (let ms = covered_moments x a b in (int (length ms), sum_list (map (held_at x) ms), peak_of (map (held_at x) ms)))"

lemma in_windows: "in_ivs (usage_windows x) t = covered_at x t"
  by (simp add: usage_windows_def merge_correct(2) covered_at_def)

lemma held_in_ranges: "ui_from x \<le> t \<Longrightarrow> t < ui_to x \<Longrightarrow> held_in (hold_ranges x) t = held_at x t"
proof -
  assume t: "ui_from x \<le> t" "t < ui_to x"
  have "held_in (map (hold_range (ui_from x) (ui_to x) (ui_now x)) hs) t =
      int (length (filter (\<lambda>h. uh_created h \<le> t \<and> t < (case uh_released h of Some r \<Rightarrow> r | None \<Rightarrow> ui_now x)) hs))" for hs
    using t by (induction hs) (auto simp: held_in_def hold_range_def split: option.splits)
  then show ?thesis by (simp add: hold_ranges_def held_at_def)
qed

lemma peak_Max: "peak_of hs = Max (insert 0 (set hs))"
proof (induction hs)
  case (Cons h hs)
  have "Max (insert 0 (set (h # hs))) = max h (Max (insert 0 (set hs)))" by (simp add: insert_commute [of 0 h] del: Max_insert) simp
  with Cons show ?case by (simp add: peak_of_def)
qed (simp add: peak_of_def)

lemma fill_measured:
  assumes "bk_from b < bk_to b" "ui_from x \<le> bk_from b" "bk_to b \<le> ui_to x"
  shows "(case fill (in_ivs (usage_windows x)) (held_in (hold_ranges x)) (ui_to x) b of c \<Rightarrow> (bk_covered c, bk_held c, bk_peak c)) =
    measured x (bk_from b) (bk_to b)"
proof -
  let ?ms = "covered_moments x (bk_from b) (bk_to b)"
  have set: "{t \<in> {bk_from b ..< min (bk_to b) (ui_to x)}. in_ivs (usage_windows x) t} = set ?ms"
    using assms by (auto simp: covered_moments_def in_windows min_def)
  have distinct: "distinct ?ms" by (simp add: covered_moments_def)
  have held: "held_in (hold_ranges x) t = held_at x t" if "t \<in> set ?ms" for t
    using that assms by (intro held_in_ranges) (auto simp: covered_moments_def)
  have "sum (held_in (hold_ranges x)) (set ?ms) = sum (held_at x) (set ?ms)" using held by (rule sum.cong [OF refl])
  also have "\<dots> = sum_list (map (held_at x) ?ms)" using distinct by (simp add: sum_list_distinct_conv_sum_set)
  finally have sum: "sum (held_in (hold_ranges x)) (set ?ms) = sum_list (map (held_at x) ?ms)" .
  have image: "held_in (hold_ranges x) ` set ?ms = set (map (held_at x) ?ms)" using held by auto
  show ?thesis
    unfolding fill_def Let_def set sum image measured_def peak_Max using distinct by (simp add: distinct_card del: set_map)
qed

definition bucket_data :: "bucket \<Rightarrow> int \<times> int \<times> int \<times> int \<times> int" where
  "bucket_data b = (bk_from b, bk_to b, bk_covered b, bk_held b, bk_peak b)"

definition usage_bounds :: "usage_input \<Rightarrow> (int \<times> int) list" where
  "usage_bounds x = map (\<lambda>b. (bk_from b, bk_to b)) (buckets_from (usageResolutionMs (ui_resolution x)) (ui_from x) (ui_to x))"

lemma step_positive: "0 < usageResolutionMs r"
  by (cases r) simp_all

lemma swept_exact: "map bucket_data (swept_buckets x) = map (\<lambda>(a, b). (a, b, measured x a b)) (usage_bounds x)"
proof (cases "ui_from x < ui_to x")
  case True
  let ?bs = "buckets_from (usageResolutionMs (ui_resolution x)) (ui_from x) (ui_to x)"
  have chain: "chained (ui_from x) (ui_to x) ?bs" using buckets_chained [OF step_positive] True by simp
  have "separated (usage_windows x)" unfolding usage_windows_def by (rule merge_correct(1))
  moreover have "\<forall>r \<in> set (hold_ranges x). ui_from x \<le> fst r" by (auto simp: hold_ranges_def hold_range_def)
  ultimately have "swept_buckets x = map (fill (in_ivs (usage_windows x)) (held_in (hold_ranges x)) (ui_to x)) ?bs"
    unfolding swept_buckets_def Let_def by (rule sweep_exact [OF True step_positive])
  moreover have "bucket_data (fill (in_ivs (usage_windows x)) (held_in (hold_ranges x)) (ui_to x) b) = (bk_from b, bk_to b, measured x (bk_from b) (bk_to b))"
    if "b \<in> set ?bs" for b
    using fill_measured [of b x] chained_inside [OF chain that] by (simp add: bucket_data_def)
  ultimately show ?thesis by (simp add: usage_bounds_def)
next
  case False
  then have empty: "buckets_from (usageResolutionMs (ui_resolution x)) (ui_from x) (ui_to x) = []" by (subst buckets_from.simps) simp
  have "sweep ws h i ps [] = []" for ws h i ps
    by (induction ws h i ps "[] :: bucket list" rule: sweep.induct) (auto simp: Let_def)
  then show ?thesis by (simp add: swept_buckets_def usage_bounds_def empty Let_def)
qed

text \<open>Counting operations leaves the measurements alone.\<close>

lemma update_data:
  assumes "\<And>b. bucket_data (f b) = bucket_data b"
  shows "map bucket_data (bs[i := f (bs ! i)]) = map bucket_data bs"
proof (cases "i < length bs")
  case True
  with assms have "(map bucket_data bs)[i := bucket_data (f (bs ! i))] = map bucket_data bs"
    by (metis list_update_id nth_map)
  then show ?thesis by (simp only: map_update)
next
  case False
  then show ?thesis by (simp add: list_update_beyond)
qed

lemma count_data: "map bucket_data (fst (count_operation ws F T step n0 p (bs, t))) = map bucket_data bs"
proof -
  have data: "bucket_data (count_accepted p b) = bucket_data b" "bucket_data (count_outcome st b) = bucket_data b" for b st
    by (simp_all add: bucket_data_def count_accepted_def count_outcome_def)
  show ?thesis
    by (auto simp: count_operation_def Let_def update_data data split: option.splits)
qed

lemma counted_data: "map bucket_data (fst (counted x)) = map bucket_data (swept_buckets x)"
proof -
  have "map bucket_data (fst (fold (count_operation ws F T step n0) ps (bs, t))) = map bucket_data bs" for ws F T step n0 ps bs t
  proof (induction ps arbitrary: bs t)
    case (Cons p ps)
    obtain bs' t' where next_state: "count_operation ws F T step n0 p (bs, t) = (bs', t')" by fastforce
    with count_data [of ws F T step n0 p bs t] Cons.IH [of bs' t'] show ?case by simp
  qed simp
  then show ?thesis by (simp add: counted_def)
qed

section \<open>Totals\<close>

lemma covered_append: "a \<le> b \<Longrightarrow> b \<le> c \<Longrightarrow> covered_moments x a c = covered_moments x a b @ covered_moments x b c"
proof -
  assume "a \<le> b" "b \<le> c"
  then have "[a..c - 1] = [a..b - 1] @ [b..c - 1]"
    using upto_split1 [of a b "c - 1"] by (cases "b = c") (auto simp: upto_split1 [of a "b - 1" "c - 1"])
  then show ?thesis by (simp add: covered_moments_def)
qed

lemma covered_concat: "chained a z bs \<Longrightarrow> concat (map (\<lambda>b. covered_moments x (bk_from b) (bk_to b)) bs) = covered_moments x a z"
proof (induction bs arbitrary: a)
  case (Cons b bs)
  then show ?case using covered_append [of a "bk_to b" z x] chained_le [of "bk_to b" z bs] by simp
qed (simp add: covered_moments_def)

lemma peak_append: "peak_of (hs @ hs') = max (peak_of hs) (peak_of hs')"
proof (induction hs)
  case Nil
  have "0 \<le> peak_of hs'" by (induction hs') (auto simp: peak_of_def)
  then show ?case by (simp add: peak_of_def)
qed (simp add: peak_of_def)

text \<open>Summing over the buckets that were covered at all is summing over all of them.\<close>

definition sum_data :: "bucket list \<Rightarrow> int \<times> int \<times> int" where
  "sum_data bs = (let seen = filter (\<lambda>b. bk_covered b \<noteq> 0) bs in
     (sum_list (map bk_covered seen), sum_list (map bk_held seen), fold (\<lambda>b p. max p (bk_peak b)) seen 0))"

lemma sum_data_measured:
  assumes "map bucket_data bs = map (\<lambda>(a, b). (a, b, measured x a b)) ps"
  shows "sum_data bs = (let ms = concat (map (\<lambda>(a, b). covered_moments x a b) ps) in
    (int (length ms), sum_list (map (held_at x) ms), peak_of (map (held_at x) ms)))"
proof -
  have start: "fold (\<lambda>b p. max p (bk_peak b)) (filter (\<lambda>b. bk_covered b \<noteq> 0) bs) h =
      max h (peak_of (map (held_at x) (concat (map (\<lambda>(a, b). covered_moments x a b) ps))))" if "0 \<le> h" for h
    using assms that
  proof (induction ps arbitrary: bs h)
    case (Cons p ps)
    obtain a b where p: "p = (a, b)" by (cases p)
    from Cons.prems(1) obtain c cs where bs: "bs = c # cs" and data: "bucket_data c = (a, b, measured x a b)"
      and cs: "map bucket_data cs = map (\<lambda>(a, b). (a, b, measured x a b)) ps" by (auto simp: p map_eq_Cons_conv)
    have c: "bk_covered c = int (length (covered_moments x a b))" "bk_peak c = peak_of (map (held_at x) (covered_moments x a b))"
      using data by (simp_all add: bucket_data_def measured_def Let_def)
    show ?case
    proof (cases "covered_moments x a b = []")
      case True
      then show ?thesis using Cons.IH [OF cs Cons.prems(2)] c by (simp add: bs p)
    next
      case False
      have "0 \<le> max h (bk_peak c)" using Cons.prems(2) by simp
      from Cons.IH [OF cs this] False c show ?thesis by (simp add: bs p peak_append max.assoc)
    qed
  qed (simp add: peak_of_def)
  have sums: "sum_list (map bk_covered (filter (\<lambda>b. bk_covered b \<noteq> 0) bs)) = int (length (concat (map (\<lambda>(a, b). covered_moments x a b) ps))) \<and>
      sum_list (map bk_held (filter (\<lambda>b. bk_covered b \<noteq> 0) bs)) = sum_list (map (held_at x) (concat (map (\<lambda>(a, b). covered_moments x a b) ps)))"
    using assms
  proof (induction ps arbitrary: bs)
    case (Cons p ps)
    obtain a b where p: "p = (a, b)" by (cases p)
    from Cons.prems obtain c cs where bs: "bs = c # cs" and data: "bucket_data c = (a, b, measured x a b)"
      and cs: "map bucket_data cs = map (\<lambda>(a, b). (a, b, measured x a b)) ps" by (auto simp: p map_eq_Cons_conv)
    have c: "bk_covered c = int (length (covered_moments x a b))" "bk_held c = sum_list (map (held_at x) (covered_moments x a b))"
      using data by (simp_all add: bucket_data_def measured_def Let_def)
    from Cons.IH [OF cs] c show ?case by (cases "covered_moments x a b = []") (simp_all add: bs p)
  qed simp
  have "0 \<le> peak_of hs" for hs by (induction hs) (auto simp: peak_of_def)
  with start [of 0] sums show ?thesis by (simp add: sum_data_def Let_def)
qed

lemma bounds_concat: "concat (map (\<lambda>(a, b). covered_moments x a b) (usage_bounds x)) = covered_moments x (ui_from x) (ui_to x)"
proof (cases "ui_from x \<le> ui_to x")
  case True
  from covered_concat [OF buckets_chained [OF step_positive True], of x] show ?thesis by (simp add: usage_bounds_def comp_def)
next
  case False
  then have "buckets_from (usageResolutionMs (ui_resolution x)) (ui_from x) (ui_to x) = []" by (subst buckets_from.simps) simp
  with False show ?thesis by (simp add: usage_bounds_def covered_moments_def)
qed

lemma counted_sums: "sum_data (fst (counted x)) = measured x (ui_from x) (ui_to x)"
proof -
  have "map bucket_data (fst (counted x)) = map (\<lambda>(a, b). (a, b, measured x a b)) (usage_bounds x)"
    by (simp add: counted_data swept_exact)
  from sum_data_measured [OF this] show ?thesis by (simp add: bounds_concat measured_def Let_def)
qed

section \<open>Gaps\<close>

lemma gaps_correct:
  assumes "separated ws" and "\<forall>p \<in> set ws. c \<le> fst p" and "\<forall>p \<in> set ws. snd p \<le> z"
  shows "in_ivs (gaps_from z c ws) t \<longleftrightarrow> c \<le> t \<and> t < z \<and> \<not> in_ivs ws t"
  using assms
proof (induction ws arbitrary: c)
  case (Cons w ws)
  from Cons.prems(1) have w: "fst w < snd w" "\<forall>q \<in> set ws. snd w < fst q" "separated ws" by (auto simp: separated_Cons)
  have IH: "in_ivs (gaps_from z (snd w) ws) t \<longleftrightarrow> snd w \<le> t \<and> t < z \<and> \<not> in_ivs ws t"
    using w Cons.prems(3) by (intro Cons.IH) auto
  have early: "\<not> in_ivs ws t" if "t < snd w"
    using w(2) that by (fastforce simp: in_ivs_iff)
  have ends: "c \<le> fst w" "snd w \<le> z" using Cons.prems by auto
  show ?case
  proof (cases "t < snd w")
    case True
    with early w ends IH show ?thesis by (auto simp: in_ivs_def)
  next
    case False
    with w ends IH show ?thesis by (auto simp: in_ivs_def)
  qed
qed simp

end
