(* ===== verification/UsageCounts.thy ===== *)
theory UsageCounts
  imports UsageExact
begin

text \<open>
  The counts of the usage history: an operation is counted in the bucket whose stretch of time its
  acceptance or its completion falls into, when the observer was running then, and in no other.
\<close>

section \<open>The bucket of a moment\<close>

lemma bucket_index:
  assumes "0 < step" "start \<le> at" "at < to"
  shows "nat (at div step - start div step) < length (buckets_from step start to) \<and>
    bk_from (buckets_from step start to ! nat (at div step - start div step)) \<le> at \<and>
    at < bk_to (buckets_from step start to ! nat (at div step - start div step))"
  using assms
proof (induction step start to rule: buckets_from.induct)
  case (1 step start to)
  let ?e = "min to ((start div step + 1) * step)"
  have pos: "0 < step \<and> start < to" using "1.prems" by simp
  have bs: "buckets_from step start to = empty_bucket start ?e # buckets_from step ?e to"
    by (subst buckets_from.simps) (simp add: pos Let_def)
  show ?case
  proof (cases "at < ?e")
    case True
    then have "at < (start div step + 1) * step" by simp
    moreover have "at div step * step \<le> at" using pos by (simp add: minus_mod_eq_div_mult [symmetric])
    ultimately have "at div step * step < (start div step + 1) * step" by (rule order.strict_trans1 [rotated])
    then have "at div step < start div step + 1" using pos by (simp only: mult_less_cancel_right_pos)
    moreover have "start div step \<le> at div step" using pos "1.prems" by (intro zdiv_mono1) auto
    ultimately have "nat (at div step - start div step) = 0" by simp
    with True "1.prems" show ?thesis unfolding bs by (simp add: empty_bucket_def)
  next
    case False
    with "1.prems" have e: "?e = (start div step + 1) * step" "?e \<le> at" by auto
    have "?e div step = start div step + 1" unfolding e(1) using pos by simp
    moreover have "?e div step \<le> at div step" using pos e(2) by (intro zdiv_mono1) auto
    ultimately have "nat (at div step - start div step) = Suc (nat (at div step - ?e div step))" by simp
    moreover note "1.IH" [OF pos refl conjunct1 [OF pos] e(2) "1.prems"(3)]
    ultimately show ?thesis unfolding bs by simp
  qed
qed

lemma only_bucket:
  assumes "chained a z bs" "i < length bs" "j < length bs" and "bk_from (bs ! i) \<le> t" "t < bk_to (bs ! i)"
    and "bk_from (bs ! j) \<le> t" "t < bk_to (bs ! j)"
  shows "i = j"
proof (rule ccontr)
  assume "i \<noteq> j"
  then show False using chained_apart [OF assms(1), of i j] chained_apart [OF assms(1), of j i] assms(2-) by (cases "i < j") auto
qed

text \<open>Whether a moment is counted in the stretch from \<open>a\<close> to \<open>b\<close>.\<close>

definition counted_in :: "usage_input \<Rightarrow> int \<times> int \<Rightarrow> int \<Rightarrow> bool" where
  "counted_in x r t \<longleftrightarrow> fst r \<le> t \<and> t < snd r \<and> covered_at x t"

lemma find_bucket_correct:
  assumes "j < length (usage_bounds x)"
  shows "find_bucket (usage_windows x) (ui_from x) (ui_to x) (usageResolutionMs (ui_resolution x)) t = Some j \<longleftrightarrow>
    counted_in x (usage_bounds x ! j) t"
proof -
  let ?S = "usageResolutionMs (ui_resolution x)"
  let ?bs = "buckets_from ?S (ui_from x) (ui_to x)"
  have j: "j < length ?bs" using assms by (simp add: usage_bounds_def)
  then have "ui_from x < ui_to x" by (subst (asm) buckets_from.simps) (simp split: if_splits)
  then have chain: "chained (ui_from x) (ui_to x) ?bs" by (intro buckets_chained step_positive) simp
  have bound: "usage_bounds x ! j = (bk_from (?bs ! j), bk_to (?bs ! j))" using j by (simp add: usage_bounds_def)
  have "separated (usage_windows x)" unfolding usage_windows_def by (rule merge_correct(1))
  then have covered: "contains (usage_windows x) t = covered_at x t" by (simp add: contains_correct in_windows)
  show ?thesis
  proof (cases "ui_from x \<le> t \<and> t < ui_to x \<and> covered_at x t")
    case True
    note index = bucket_index [OF step_positive conjunct1 [OF True], of "ui_to x" "ui_resolution x"]
    show ?thesis
      using only_bucket [OF chain j, of "nat (t div ?S - ui_from x div ?S)" t] index True j
      by (auto simp: find_bucket_def covered bound counted_in_def)
  next
    case False
    have "\<not> counted_in x (usage_bounds x ! j) t"
      using False chained_inside [OF chain nth_mem [OF j]] by (auto simp: counted_in_def bound)
    with False covered show ?thesis by (auto simp: find_bucket_def)
  qed
qed

section \<open>Counts\<close>

definition unit_accepted :: "usage_operation \<Rightarrow> nat \<times> nat \<times> nat" where
  "unit_accepted p = (if uo_resume p then (0, 0, 1) else if uo_restored p then (0, 1, 0) else (1, 0, 0))"

definition unit_outcome :: "usage_operation \<Rightarrow> nat \<times> nat \<times> nat" where
  "unit_outcome p = (case uo_state p of Succeeded \<Rightarrow> (1, 0, 0) | Failed \<Rightarrow> (0, 1, 0) | Canceled \<Rightarrow> (0, 0, 1) | _ \<Rightarrow> (0, 0, 0))"

definition total3 :: "(nat \<times> nat \<times> nat) list \<Rightarrow> nat \<times> nat \<times> nat" where
  "total3 cs = foldr add3 cs (0, 0, 0)"

definition accepted_in :: "usage_input \<Rightarrow> int \<times> int \<Rightarrow> nat \<times> nat \<times> nat" where
  "accepted_in x r = total3 (map unit_accepted (filter (\<lambda>p. counted_in x r (uo_created p)) (ui_operations x)))"

definition completed_in :: "usage_input \<Rightarrow> int \<times> int \<Rightarrow> usage_operation \<Rightarrow> bool" where
  "completed_in x r p = (case uo_completed p of None \<Rightarrow> False | Some c \<Rightarrow> counted_in x r c)"

definition outcomes_in :: "usage_input \<Rightarrow> int \<times> int \<Rightarrow> nat \<times> nat \<times> nat" where
  "outcomes_in x r = total3 (map unit_outcome (filter (completed_in x r) (ui_operations x)))"

lemma add3_assoc: "add3 (add3 a b) c = add3 a (add3 b c)"
  by (cases a; cases b; cases c) (simp add: add3_def)

lemma add3_zero [simp]: "add3 a (0, 0, 0) = a" "add3 (0, 0, 0) a = a"
  by (cases a; simp add: add3_def)+

lemma count_accepted_of: "accepted_of (count_accepted p b) = add3 (accepted_of b) (unit_accepted p)" "outcomes_of (count_accepted p b) = outcomes_of b"
  by (simp_all add: accepted_of_def outcomes_of_def count_accepted_def unit_accepted_def add3_def)

lemma count_outcome_of:
  "accepted_of (count_outcome st b) = accepted_of b"
  "uo_state p \<in> {Succeeded, Failed, Canceled} \<Longrightarrow> outcomes_of (count_outcome (uo_state p) b) = add3 (outcomes_of b) (unit_outcome p)"
  by (auto simp: accepted_of_def outcomes_of_def count_outcome_def unit_outcome_def add3_def)

lemma nth_update_self: "j < length bs \<Longrightarrow> bs[i := f (bs ! i)] ! j = (if i = j then f (bs ! j) else bs ! j)"
  by (cases "i = j") simp_all

lemma count_one:
  fixes p :: usage_operation and t :: readiness_tally
  assumes "length bs = length (usage_bounds x)" and "j < length bs"
  defines "r \<equiv> usage_bounds x ! j"
  defines "bs' \<equiv> fst (count_operation (usage_windows x) (ui_from x) (ui_to x) (usageResolutionMs (ui_resolution x)) (ui_now x) p (bs, t))"
  shows "length bs' = length bs"
    "accepted_of (bs' ! j) = add3 (accepted_of (bs ! j)) (if counted_in x r (uo_created p) then unit_accepted p else (0, 0, 0))"
    "outcomes_of (bs' ! j) = add3 (outcomes_of (bs ! j)) (if completed_in x r p then unit_outcome p else (0, 0, 0))"
proof -
  let ?find = "find_bucket (usage_windows x) (ui_from x) (ui_to x) (usageResolutionMs (ui_resolution x))"
  have find: "?find t = Some j \<longleftrightarrow> counted_in x r t" for t
    using find_bucket_correct [of j x t] assms(1,2) by (simp add: r_def)
  define bs1 where "bs1 = (case ?find (uo_created p) of None \<Rightarrow> bs | Some i \<Rightarrow> bs[i := count_accepted p (bs ! i)])"
  have len1: "length bs1 = length bs" by (simp add: bs1_def split: option.splits)
  have acc1: "accepted_of (bs1 ! j) = add3 (accepted_of (bs ! j)) (if counted_in x r (uo_created p) then unit_accepted p else (0, 0, 0))"
    and out1: "outcomes_of (bs1 ! j) = outcomes_of (bs ! j)"
    unfolding find [symmetric] using assms(2)
    by (auto simp: bs1_def nth_update_self count_accepted_of split: option.splits)
  define ended where "ended \<longleftrightarrow> uo_state p = Succeeded \<or> uo_state p = Failed \<or> uo_state p = Canceled"
  have bs': "bs' = (case uo_completed p of None \<Rightarrow> bs1 | Some c \<Rightarrow> if ended then
      (case ?find c of None \<Rightarrow> bs1 | Some i \<Rightarrow> bs1[i := count_outcome (uo_state p) (bs1 ! i)]) else bs1)"
    by (auto simp: bs'_def count_operation_def bs1_def ended_def Let_def split: option.splits)
  show "length bs' = length bs" by (simp add: bs' len1 split: option.splits)
  have pending: "\<not> ended \<Longrightarrow> unit_outcome p = (0, 0, 0)" by (auto simp: ended_def unit_outcome_def split: operation_state.splits)
  show "accepted_of (bs' ! j) = add3 (accepted_of (bs ! j)) (if counted_in x r (uo_created p) then unit_accepted p else (0, 0, 0))"
    unfolding acc1 [symmetric] using assms(2) len1
    by (auto simp: bs' nth_update_self count_outcome_of(1) split: option.splits)
  show "outcomes_of (bs' ! j) = add3 (outcomes_of (bs ! j)) (if completed_in x r p then unit_outcome p else (0, 0, 0))"
    unfolding out1 [symmetric] completed_in_def
  proof (cases "uo_completed p")
    case None
    then show "outcomes_of (bs' ! j) = add3 (outcomes_of (bs1 ! j)) (if case uo_completed p of None \<Rightarrow> False | Some c \<Rightarrow> counted_in x r c then unit_outcome p else (0, 0, 0))"
      by (simp add: bs')
  next
    case (Some c)
    have state: "uo_state p \<in> {Succeeded, Failed, Canceled}" if ended using that by (simp add: ended_def)
    show "outcomes_of (bs' ! j) = add3 (outcomes_of (bs1 ! j)) (if case uo_completed p of None \<Rightarrow> False | Some c \<Rightarrow> counted_in x r c then unit_outcome p else (0, 0, 0))"
      using assms(2) len1 pending find [of c] count_outcome_of(2) [OF state]
      by (auto simp: bs' Some nth_update_self split: option.splits)
  qed
qed

lemma count_all:
  assumes "length bs = length (usage_bounds x)" and "j < length bs"
  defines "r \<equiv> usage_bounds x ! j"
  defines "res \<equiv> \<lambda>ps bs t. fst (fold (count_operation (usage_windows x) (ui_from x) (ui_to x) (usageResolutionMs (ui_resolution x)) (ui_now x)) ps (bs, t))"
  shows "accepted_of (res ps bs t ! j) = add3 (accepted_of (bs ! j)) (total3 (map unit_accepted (filter (\<lambda>p. counted_in x r (uo_created p)) ps))) \<and>
    outcomes_of (res ps bs t ! j) = add3 (outcomes_of (bs ! j)) (total3 (map unit_outcome (filter (completed_in x r) ps)))"
  using assms(1,2)
proof (induction ps arbitrary: bs t)
  case Nil
  then show ?case by (simp add: res_def total3_def)
next
  case (Cons p ps)
  obtain bs' t' where stp: "count_operation (usage_windows x) (ui_from x) (ui_to x) (usageResolutionMs (ui_resolution x)) (ui_now x) p (bs, t) = (bs', t')"
    by fastforce
  note one = count_one [OF Cons.prems, of p t, unfolded stp fst_conv, folded r_def]
  have "res (p # ps) bs t = res ps bs' t'" by (simp add: res_def stp)
  moreover note Cons.IH [of bs' t'] one Cons.prems
  ultimately show ?case by (simp add: total3_def add3_assoc)
qed

lemma swept_counts: "b \<in> set (swept_buckets x) \<Longrightarrow> accepted_of b = (0, 0, 0) \<and> outcomes_of b = (0, 0, 0)"
proof -
  have zero: "b \<in> set (buckets_from step F T) \<Longrightarrow> accepted_of b = (0, 0, 0) \<and> outcomes_of b = (0, 0, 0)" for step F T b
    by (induction step F T rule: buckets_from.induct)
      (subst (asm) (2) buckets_from.simps, auto simp: Let_def empty_bucket_def accepted_of_def outcomes_of_def split: if_splits)
  have "\<forall>b \<in> set bs. accepted_of b = (0, 0, 0) \<and> outcomes_of b = (0, 0, 0) \<Longrightarrow>
      \<forall>b \<in> set (sweep ws h i ps bs). accepted_of b = (0, 0, 0) \<and> outcomes_of b = (0, 0, 0)" for ws h i ps bs
  proof (induction ws h i ps bs rule: sweep.induct)
    case (1 ws h i at d nx d' rest bs)
    let ?i = "advance bs at i"
    let ?bs = "if contains ws at then bs[?i := add_stretch (h + d) (nx - at) (bs ! ?i)] else bs"
    have "\<forall>b \<in> set ?bs. accepted_of b = (0, 0, 0) \<and> outcomes_of b = (0, 0, 0)"
    proof (cases "?i < length bs")
      case True
      have "accepted_of (add_stretch (h + d) (nx - at) (bs ! ?i)) = (0, 0, 0)" "outcomes_of (add_stretch (h + d) (nx - at) (bs ! ?i)) = (0, 0, 0)"
        using "1.prems" nth_mem [OF True] by (auto simp: add_stretch_def accepted_of_def outcomes_of_def)
      with "1.prems" show ?thesis by (auto dest!: set_update_subset_insert [THEN subsetD])
    next
      case False
      with "1.prems" show ?thesis by (simp add: list_update_beyond)
    qed
    from "1.IH" [OF refl refl refl this] show ?case by (simp add: Let_def)
  qed simp_all
  then show "b \<in> set (swept_buckets x) \<Longrightarrow> accepted_of b = (0, 0, 0) \<and> outcomes_of b = (0, 0, 0)"
    using zero unfolding swept_buckets_def Let_def by blast
qed

lemma counted_counts:
  assumes "j < length (usage_bounds x)"
  shows "accepted_of (fst (counted x) ! j) = accepted_in x (usage_bounds x ! j)"
    "outcomes_of (fst (counted x) ! j) = outcomes_in x (usage_bounds x ! j)"
proof -
  have len: "length (swept_buckets x) = length (usage_bounds x)"
    using swept_exact [of x, THEN arg_cong [where f = length]] by simp
  with swept_counts [of "swept_buckets x ! j" x] assms
  have zero: "accepted_of (swept_buckets x ! j) = (0, 0, 0)" "outcomes_of (swept_buckets x ! j) = (0, 0, 0)" by auto
  from count_all [OF len, of j "ui_operations x" "\<lparr>rt_samples = [], rt_unobserved = 0, rt_unsupported = 0\<rparr>"] assms
  show "accepted_of (fst (counted x) ! j) = accepted_in x (usage_bounds x ! j)"
    "outcomes_of (fst (counted x) ! j) = outcomes_in x (usage_bounds x ! j)"
    by (simp_all add: counted_def zero len accepted_in_def outcomes_in_def)
qed

section \<open>The response\<close>

text \<open>The buckets a history should have, moment by moment.\<close>

definition exact_bucket :: "usage_input \<Rightarrow> int \<times> int \<Rightarrow> usage_bucket" where
  "exact_bucket x r = (case measured x (fst r) (snd r) of (c, h, p) \<Rightarrow>
     \<lparr>ub_from = fst r, ub_to = snd r,
      ub_coverage = (if c = 0 then Unavailable else if c = snd r - fst r then Complete else Partial), ub_covered = c,
      ub_held = when_covered c h, ub_average = when_covered c (h, c), ub_peak = when_covered c p,
      ub_accepted = when_covered c (accepted_in x r), ub_outcomes = when_covered c (outcomes_in x r)\<rparr>)"

lemma counted_length: "length (fst (counted x)) = length (usage_bounds x)"
  using counted_data [of x, THEN arg_cong [where f = length]] swept_exact [of x, THEN arg_cong [where f = length]] by simp

lemma history_buckets: "us_buckets (aggregateUsageHistory x) = map finish_bucket (fst (counted x))"
  by (simp add: aggregateUsageHistory_def Let_def split: prod.splits)

text \<open>
  C30. The buckets of a usage history are exact: they are the given stretches of the period, and
  each bucket has the milliseconds in which the observer was running, the slots held over them,
  summed and at their peak, and the operations accepted and completed in them by kind.
\<close>
theorem usage_exact: "us_buckets (aggregateUsageHistory x) = map (exact_bucket x) (usage_bounds x)"
proof (rule nth_equalityI)
  show "length (us_buckets (aggregateUsageHistory x)) = length (map (exact_bucket x) (usage_bounds x))"
    by (simp add: history_buckets counted_length)
  fix j assume "j < length (us_buckets (aggregateUsageHistory x))"
  then have j: "j < length (fst (counted x))" "j < length (usage_bounds x)" by (simp_all add: history_buckets counted_length)
  have "bucket_data (fst (counted x) ! j) = (case usage_bounds x ! j of (a, b) \<Rightarrow> (a, b, measured x a b))"
    using counted_data [of x] swept_exact [of x] j by (metis (no_types, lifting) nth_map)
  then obtain a b where ab: "usage_bounds x ! j = (a, b)" "bucket_data (fst (counted x) ! j) = (a, b, measured x a b)"
    by (cases "usage_bounds x ! j") simp
  with counted_counts [OF j(2)] j
  show "us_buckets (aggregateUsageHistory x) ! j = map (exact_bucket x) (usage_bounds x) ! j"
    by (cases "measured x a b") (simp add: history_buckets exact_bucket_def finish_bucket_def bucket_data_def when_covered_def)
qed

end
