(* ===== verification/Observer.thy ===== *)
theory Observer
  imports Readiness UsageCounts
begin

text \<open>
  The usage observer (\<open>services/usage-observer.ts\<close>) and the two readers of usage
  (\<open>getUsageHistory\<close>, \<open>getUsageSummary\<close>). A pass of the observer records a heartbeat, takes up
  accepted operations, probes the sandboxes of those that are due and records when each was first
  seen ready; every write to an observation is fenced by the claim of this pass. The statement and
  lock timeouts are not modelled; the abort signal is the argument \<open>aborted\<close>.
\<close>

section \<open>Tables\<close>

datatype observation_state = ObPending | ObReady | ObCensored | ObUnsupported

record observation_row =
  ob_operation :: string
  ob_org :: string
  ob_sandbox :: string
  ob_accepted_at :: time
  ob_state :: observation_state
  ob_ready_at :: "time option"
  ob_finished_at :: "time option"
  ob_probe :: "string option"
  ob_next_check_at :: time
  ob_claim :: "string option"
  ob_claim_until :: "time option"

fun readiness_text :: "readiness_status \<Rightarrow> string" where
  "readiness_text RdStarting = ''starting''"
| "readiness_text RdReady = ''ready''"
| "readiness_text RdNotRunning = ''not_running''"
| "readiness_text RdUnsupported = ''unsupported''"
| "readiness_text RdUnavailable = ''unavailable''"

record window_row =
  wn_id :: nat
  wn_from :: time
  wn_through :: time

text \<open>\<open>usage_collection_state\<close> is a single row; \<open>um_serial\<close> is the identity column of the windows.\<close>

record usage_store =
  um_db :: db
  um_collection :: "(time \<times> time option) option"
  um_windows :: "window_row list"
  um_serial :: nat
  um_observations :: "observation_row list"

type_synonym 'a umtx = "(usage_store, err, 'a) tx"
type_synonym ('p, 'a) umproc = "(usage_store, 'p, 'a) gproc"

section \<open>The heartbeat\<close>

definition max_id :: "window_row list \<Rightarrow> nat option" where
  "max_id ws = (if ws = [] then None else Some (foldr (\<lambda>w m. max (wn_id w) m) ws 0))"

text \<open>A heartbeat extends the last window when the previous one is at most thirty seconds ago.\<close>

definition beat :: "time \<Rightarrow> usage_store \<Rightarrow> usage_store" where
  "beat t s = (case um_collection s of
     None \<Rightarrow> s
   | Some (from, last_seen) \<Rightarrow>
       (case last_seen of
          Some l \<Rightarrow>
            if l \<le> t \<and> t - l \<le> 30000 then s\<lparr>um_windows := update_rows (\<lambda>w. Some (wn_id w) = max_id (um_windows s)) (\<lambda>w. w\<lparr>wn_through := t\<rparr>) (um_windows s)\<rparr>
            else s\<lparr>um_windows := um_windows s @ [\<lparr>wn_id = Suc (um_serial s), wn_from = t, wn_through = t\<rparr>], um_serial := Suc (um_serial s)\<rparr>
        | None \<Rightarrow> s\<lparr>um_windows := um_windows s @ [\<lparr>wn_id = Suc (um_serial s), wn_from = t, wn_through = t\<rparr>], um_serial := Suc (um_serial s)\<rparr>)
       \<lparr>um_collection := Some (from, Some t)\<rparr>)"

definition recordHeartbeat :: "(time \<times> time) umtx" where
  "recordHeartbeat =
     bindT (getsT um_collection) (\<lambda>row.
     bindT (someT row (PlainError ''Usage collection is not initialized'')) (\<lambda>c.
     bindT (getsT (\<lambda>s. clock (um_db s))) (\<lambda>t.
     bindT (modifyT (beat t)) (\<lambda>_.
     returnT (t, fst c)))))"

section \<open>Taking up and claiming\<close>

definition observable :: "operation \<Rightarrow> bool" where
  "observable p \<longleftrightarrow> (o_kind p = KProvision \<or> o_kind p = KResume) \<and> o_sandbox p \<noteq> None"

definition discovered :: "time \<Rightarrow> usage_store \<Rightarrow> operation list" where
  "discovered cutoff s = take 200 (sort_key o_created_at (sort_key o_id (filter (\<lambda>p. observable p \<and> cutoff \<le> o_created_at p \<and>
     \<not> (\<exists>r \<in> set (um_observations s). ob_operation r = o_id p)) (operations (um_db s)))))"

definition new_observation :: "time \<Rightarrow> operation \<Rightarrow> observation_row" where
  "new_observation t p = \<lparr>ob_operation = o_id p, ob_org = o_org p, ob_sandbox = the (o_sandbox p), ob_accepted_at = o_created_at p,
     ob_state = ObPending, ob_ready_at = None, ob_finished_at = None, ob_probe = None, ob_next_check_at = t,
     ob_claim = None, ob_claim_until = None\<rparr>"

definition discover :: "time \<Rightarrow> nat umtx" where
  "discover cutoff = bindT (getsT (discovered cutoff)) (\<lambda>ps.
     bindT (modifyT (\<lambda>s. s\<lparr>um_observations := um_observations s @ map (new_observation (clock (um_db s))) ps\<rparr>)) (\<lambda>_.
     returnT (length ps)))"

definition due_check :: "time \<Rightarrow> observation_row \<Rightarrow> bool" where
  "due_check t r \<longleftrightarrow> ob_state r = ObPending \<and> ob_next_check_at r \<le> t \<and> (case ob_claim_until r of None \<Rightarrow> True | Some u \<Rightarrow> u \<le> t)"

definition claim_due :: "string \<Rightarrow> observation_row list umtx" where
  "claim_due token = bindT (getsT (\<lambda>s. clock (um_db s))) (\<lambda>t.
     bindT (getsT (\<lambda>s. map ob_operation (take 8 (sort_key ob_next_check_at (sort_key ob_operation (filter (due_check t) (um_observations s))))))) (\<lambda>picked.
     bindT (modifyT (\<lambda>s. s\<lparr>um_observations := update_rows (\<lambda>r. ob_operation r \<in> set picked)
       (\<lambda>r. r\<lparr>ob_claim := Some token, ob_claim_until := Some (t + 30000)\<rparr>) (um_observations s)\<rparr>)) (\<lambda>_.
     getsT (\<lambda>s. filter (\<lambda>r. ob_operation r \<in> set picked) (um_observations s)))))"

text \<open>The condition under which this pass may still write an observation.\<close>

definition fenced :: "string \<Rightarrow> string \<Rightarrow> time \<Rightarrow> observation_row \<Rightarrow> bool" where
  "fenced op token t r \<longleftrightarrow> ob_operation r = op \<and> ob_claim r = Some token \<and>
     (case ob_claim_until r of None \<Rightarrow> False | Some u \<Rightarrow> t < u) \<and> ob_state r = ObPending"

definition write_observation :: "(usage_store \<Rightarrow> observation_row \<Rightarrow> bool) \<Rightarrow> (time \<Rightarrow> observation_row \<Rightarrow> observation_row) \<Rightarrow> nat umtx" where
  "write_observation P f = bindT (getsT (\<lambda>s. clock (um_db s))) (\<lambda>t.
     bindT (getsT (\<lambda>s. count_rows (P s) (um_observations s))) (\<lambda>n.
     bindT (modifyT (\<lambda>s. s\<lparr>um_observations := update_rows (P s) (f t) (um_observations s)\<rparr>)) (\<lambda>_. returnT n)))"

definition at_now :: "(time \<Rightarrow> observation_row \<Rightarrow> bool) \<Rightarrow> usage_store \<Rightarrow> observation_row \<Rightarrow> bool" where
  "at_now P s r \<longleftrightarrow> P (clock (um_db s)) r"

definition finish_observation :: "string \<Rightarrow> string \<Rightarrow> observation_state \<Rightarrow> string \<Rightarrow> nat umtx" where
  "finish_observation op token st reason = write_observation (at_now (fenced op token))
     (\<lambda>t r. r\<lparr>ob_state := st, ob_probe := Some reason, ob_finished_at := Some t, ob_claim := None, ob_claim_until := None\<rparr>)"

text \<open>The accepted cycle, checked again in the statement that records it as ready.\<close>

definition cycle_stands :: "int \<Rightarrow> string option \<Rightarrow> nat \<Rightarrow> usage_store \<Rightarrow> observation_row \<Rightarrow> bool" where
  "cycle_stands generation runtime version s r \<longleftrightarrow>
     list_ex (\<lambda>h. h_sandbox h = ob_sandbox r \<and> h_org h = ob_org r \<and> h_operation h = Some (ob_operation r) \<and>
       h_generation h = generation \<and> h_released_at h = None \<and>
       list_ex (\<lambda>b. s_id b = h_sandbox h \<and> is_up (s_status b) \<and> runtime \<noteq> None \<and> s_runtime_id b = runtime) (sandboxes (um_db s))) (holds (um_db s)) \<and>
     length (filter (\<lambda>e. e_sandbox e = ob_sandbox r) (effects (um_db s))) = version \<and>
     \<not> list_ex (\<lambda>e. e_sandbox e = ob_sandbox r \<and> e_settled_at e = None) (effects (um_db s))"

definition mark_ready :: "string \<Rightarrow> string \<Rightarrow> int \<Rightarrow> string option \<Rightarrow> nat \<Rightarrow> nat umtx" where
  "mark_ready op token generation runtime version = write_observation
     (\<lambda>s r. fenced op token (clock (um_db s)) r \<and> ob_accepted_at r \<le> clock (um_db s) \<and> cycle_stands generation runtime version s r)
     (\<lambda>t r. r\<lparr>ob_state := ObReady, ob_ready_at := Some t, ob_finished_at := Some t, ob_probe := Some (readiness_text RdReady), ob_claim := None, ob_claim_until := None\<rparr>)"

definition postpone :: "string \<Rightarrow> string \<Rightarrow> readiness_status \<Rightarrow> nat umtx" where
  "postpone op token st = write_observation (at_now (fenced op token))
     (\<lambda>t r. r\<lparr>ob_probe := Some (readiness_text st), ob_next_check_at := t + 10000, ob_claim := None, ob_claim_until := None\<rparr>)"

section \<open>One observation\<close>

record observer_report =
  rp_discovered :: nat
  rp_checked :: nat
  rp_ready :: nat
  rp_censored :: nat
  rp_unsupported :: nat
  rp_failed :: nat
  rp_pending :: nat
  rp_oldest :: int

text \<open>The accepted cycle of a sandbox: its live reservation, if any, and its runtime.\<close>

definition current_cycle :: "observation_row \<Rightarrow> (hold option \<times> string option \<times> bool) option umtx" where
  "current_cycle r = getsT (\<lambda>s. map_option (\<lambda>b.
       (first_row (filter (\<lambda>h. h_sandbox h = s_id b \<and> h_released_at h = None) (holds (um_db s))), s_runtime_id b,
        ob_accepted_at r + 600000 < clock (um_db s)))
     (first_row (filter (\<lambda>b. s_id b = ob_sandbox r \<and> s_org b = ob_org r) (sandboxes (um_db s)))))"

datatype outcome = Checked | WasReady | WasCensored | WasUnsupported

definition finish_as :: "observation_row \<Rightarrow> string \<Rightarrow> observation_state \<Rightarrow> string \<Rightarrow> ('p, outcome) umproc" where
  "finish_as r token st reason =
     bindP (atomic (finish_observation (ob_operation r) token st reason)) (\<lambda>n.
     retP (if n = 0 then Checked else if st = ObCensored then WasCensored else WasUnsupported))"

definition observe_row :: "'p probe option \<Rightarrow> string \<Rightarrow> observation_row \<Rightarrow> ('p, outcome) umproc" where
  "observe_row isReady token r =
     bindP (atomic (current_cycle r)) (\<lambda>current.
     case current of
       None \<Rightarrow> finish_as r token ObCensored ''cycle_finished_or_replaced''
     | Some (hold, runtime, elapsed) \<Rightarrow>
         if Option.bind hold h_operation \<noteq> Some (ob_operation r) then finish_as r token ObCensored ''cycle_finished_or_replaced''
         else if elapsed then finish_as r token ObCensored ''observation_window_elapsed''
         else
           bindP (atomic (reading um_db (readRuntimeFence (ob_sandbox r)))) (\<lambda>fence.
           bindP (getSandboxReadiness um_db isReady (ob_org r) (ob_sandbox r)) (\<lambda>reply.
           case reply of
             None \<Rightarrow> finish_as r token ObCensored ''not_running''
           | Some a \<Rightarrow>
               if rd_status a = RdNotRunning then finish_as r token ObCensored ''not_running''
               else if rd_status a = RdUnsupported then finish_as r token ObUnsupported ''unsupported''
               else
                 bindP (if rd_status a = RdReady \<and> \<not> f_busy fence
                     then atomic (mark_ready (ob_operation r) token (h_generation (the hold)) runtime (f_version fence))
                     else retP 0) (\<lambda>n.
                 if n \<noteq> 0 then retP WasReady
                 else bindP (atomic (postpone (ob_operation r) token (rd_status a))) (\<lambda>_. retP Checked)))))"

definition count_outcome_of :: "outcome \<Rightarrow> observer_report \<Rightarrow> observer_report" where
  "count_outcome_of c p = (case c of Checked \<Rightarrow> p
     | WasReady \<Rightarrow> p\<lparr>rp_ready := rp_ready p + 1\<rparr>
     | WasCensored \<Rightarrow> p\<lparr>rp_censored := rp_censored p + 1\<rparr>
     | WasUnsupported \<Rightarrow> p\<lparr>rp_unsupported := rp_unsupported p + 1\<rparr>)"

text \<open>\<open>consume\<close>: the rows one after another; what throws is counted and left for another pass.\<close>

fun consume :: "'p probe option \<Rightarrow> string \<Rightarrow> (nat \<Rightarrow> bool) \<Rightarrow> observation_row list \<Rightarrow> observer_report \<Rightarrow> ('p, observer_report) umproc" where
  "consume isReady token aborted [] p = retP p"
| "consume isReady token aborted (r # rs) p =
     (if aborted (length rs) then retP p
      else
        bindP (tryP (bindP (observe_row isReady token r) (\<lambda>c. retP (count_outcome_of c (p\<lparr>rp_checked := rp_checked p + 1\<rparr>))))
            (\<lambda>_. retP (p\<lparr>rp_checked := rp_checked p + 1, rp_failed := rp_failed p + 1\<rparr>))) (\<lambda>p.
        consume isReady token aborted rs p))"

section \<open>A pass\<close>

definition retention_cutoff :: "int \<Rightarrow> time \<Rightarrow> time" where
  "retention_cutoff days t = t - days * 86400000"

definition start_pass :: "int \<Rightarrow> string \<Rightarrow> (nat \<times> observation_row list) umtx" where
  "start_pass days token =
     bindT recordHeartbeat (\<lambda>(t, from).
     bindT (discover (max from (retention_cutoff days t))) (\<lambda>n.
     bindT (claim_due token) (\<lambda>rows.
     returnT (n, rows))))"

text \<open>The oldest rows beyond the retention, at most five hundred of them.\<close>

definition forget :: "time \<Rightarrow> usage_store \<Rightarrow> usage_store" where
  "forget cutoff s =
    (let obs = map ob_operation (take 500 (sort_key ob_accepted_at (filter (\<lambda>r. ob_accepted_at r < cutoff) (um_observations s))));
         wins = map wn_id (take 500 (sort_key wn_through (filter (\<lambda>w. wn_through w < cutoff) (um_windows s)))) in
     s\<lparr>um_observations := filter (\<lambda>r. ob_operation r \<notin> set obs) (um_observations s),
       um_windows := filter (\<lambda>w. wn_id w \<notin> set wins) (um_windows s)\<rparr>)"

definition end_pass :: "int \<Rightarrow> (nat \<times> int) umtx" where
  "end_pass days =
     bindT recordHeartbeat (\<lambda>(t, from).
     bindT (modifyT (forget (retention_cutoff days t))) (\<lambda>_.
     bindT (getsT (\<lambda>s. filter (\<lambda>r. ob_state r = ObPending) (um_observations s))) (\<lambda>rows.
     returnT (length rows, case rows of [] \<Rightarrow> 0 | r # rs \<Rightarrow> foldr (\<lambda>r m. min (ob_accepted_at r) m) rs (ob_accepted_at r)))))"

definition observeUsage :: "'p probe option \<Rightarrow> int \<Rightarrow> string \<Rightarrow> (nat \<Rightarrow> bool) \<Rightarrow> ('p, observer_report) umproc" where
  "observeUsage isReady days token aborted =
    (if days < 1 \<or> 30 < days then throwP (PlainError ''Invalid retention'')
     else
       bindP (atomic (start_pass days token)) (\<lambda>(n, rows).
       bindP (consume isReady token aborted rows \<lparr>rp_discovered = n, rp_checked = 0, rp_ready = 0, rp_censored = 0,
           rp_unsupported = 0, rp_failed = 0, rp_pending = 0, rp_oldest = 0\<rparr>) (\<lambda>p.
       bindP (atomic (end_pass days)) (\<lambda>(pending, oldest).
       retP (p\<lparr>rp_pending := pending, rp_oldest := oldest\<rparr>)))))"

section \<open>Reading usage\<close>

definition operation_of_usage :: "usage_store \<Rightarrow> operation \<Rightarrow> usage_operation" where
  "operation_of_usage s p =
    (let r = first_row (filter (\<lambda>r. ob_operation r = o_id p \<and> ob_org r = o_org p) (um_observations s)) in
     \<lparr>uo_resume = (o_kind p = KResume), uo_restored = list_ex (\<lambda>kv. fst kv = ''restoreSnapshotId'') (o_request p),
      uo_state = o_state p, uo_created = o_created_at p, uo_completed = o_completed_at p,
      uo_unsupported = (map_option ob_state r = Some ObUnsupported), uo_ready = Option.bind r ob_ready_at,
      uo_observed = Option.bind r ob_finished_at\<rparr>)"

definition within :: "time \<Rightarrow> time \<Rightarrow> time option \<Rightarrow> bool" where
  "within from to t = (case t of None \<Rightarrow> False | Some x \<Rightarrow> from \<le> x \<and> x < to)"

datatype usage_answer = UsageHistory usage_history | UsageUnavailable | UsageLimitExceeded | UsageInvalid

text \<open>\<open>getUsageHistory\<close>: one read-only snapshot of the tables.\<close>

definition usage_input_of :: "usage_store \<Rightarrow> time \<Rightarrow> time \<Rightarrow> usage_resolution \<Rightarrow> int \<Rightarrow> bool \<Rightarrow> string \<Rightarrow> time \<Rightarrow> time option \<Rightarrow> usage_input" where
  "usage_input_of s from to res days enabled org available seen =
     \<lparr>ui_from = from, ui_to = to, ui_resolution = res, ui_available_from = available, ui_observed_at = seen,
      ui_observer_enabled = enabled, ui_now = clock (um_db s), ui_retention = days,
      ui_windows = map (\<lambda>w. (wn_from w, wn_through w)) (sort_key wn_from (filter (\<lambda>w. from < wn_through w \<and> wn_from w < to) (um_windows s))),
      ui_holds = map (\<lambda>h. \<lparr>uh_created = h_created_at h, uh_released = h_released_at h\<rparr>)
        (filter (\<lambda>h. h_org h = org \<and> h_created_at h < to \<and> (case h_released_at h of None \<Rightarrow> True | Some x \<Rightarrow> from < x)) (holds (um_db s))),
      ui_operations = map (operation_of_usage s)
        (filter (\<lambda>p. o_org p = org \<and> (o_kind p = KProvision \<or> o_kind p = KResume) \<and>
           (within from to (Some (o_created_at p)) \<or> within from to (o_completed_at p))) (operations (um_db s)))\<rparr>"

definition getUsageHistory :: "int \<Rightarrow> bool \<Rightarrow> (string \<Rightarrow> time) \<Rightarrow> string \<Rightarrow> time \<Rightarrow> time \<Rightarrow> usage_resolution \<Rightarrow> usage_store \<Rightarrow> usage_answer" where
  "getUsageHistory days enabled org_created org from to res s =
    (if \<not> usageHistoryQuery from to res then UsageInvalid
     else if days < 1 \<or> 30 < days then UsageUnavailable
     else case (um_collection s, first_row (filter (\<lambda>g. org_id g = org) (orgs (um_db s)))) of
       (Some (available, seen), Some g) \<Rightarrow>
         let x = usage_input_of s from to res days enabled org
             (max available (max (org_created org) (retention_cutoff days (clock (um_db s))))) seen in
         if usageSourceRowLimit < length (ui_holds x) \<or> usageSourceRowLimit < length (ui_operations x) \<or>
           usageSourceRowLimit < length (ui_windows x) then UsageLimitExceeded
         else UsageHistory (aggregateUsageHistory x)
     | _ \<Rightarrow> UsageUnavailable)"

text \<open>\<open>getUsageSummary\<close>, without the numbers it reports as zero and the observation time.\<close>

record usage_summary =
  su_spawned :: nat
  su_running :: nat
  su_capacity :: organization_capacity
  su_templates :: "(string \<times> nat) list"
  su_statuses :: "(sandbox_status \<times> nat) list"
  su_enforced :: bool

text \<open>\<open>SELECT label, count(*) ... GROUP BY label\<close>.\<close>

definition group_counts :: "'a list \<Rightarrow> ('a \<times> nat) list" where
  "group_counts xs = map (\<lambda>x. (x, length (filter (\<lambda>y. y = x) xs))) (dedupe xs)"

definition getUsageSummary :: "string \<Rightarrow> usage_summary dbtx" where
  "getUsageSummary org =
     bindT (sel_sandboxes (\<lambda>s. s_org s = org)) (\<lambda>rows.
     let counts = group_counts (map s_status rows);
         top = take 5 (sort_key (\<lambda>p. - int (snd p)) (sort_key fst (group_counts (map s_template rows)))) in
     bindT (readOrganizationCapacity org) (\<lambda>capacity.
     returnT \<lparr>su_spawned = sum_list (map snd counts),
       su_running = (case map_of counts SRunning of None \<Rightarrow> 0 | Some n \<Rightarrow> n), su_capacity = capacity,
       su_templates = top, su_statuses = counts, su_enforced = (k_state capacity = Enforced)\<rparr>))"

lemma group_counts_total: "sum_list (map snd (group_counts xs)) = length xs"
proof -
  have "sum_list (map (\<lambda>x. length (filter (\<lambda>y. y = x) xs)) ys) = length (filter (\<lambda>x. x \<in> set ys) xs)" if "distinct ys" for ys
    using that
  proof (induction ys)
    case (Cons y ys)
    have "length (filter (\<lambda>x. x \<in> set (y # ys)) xs) = length (filter (\<lambda>x. x = y) xs) + length (filter (\<lambda>x. x \<in> set ys) xs)"
      using Cons.prems by (induction xs) auto
    with Cons show ?case by simp
  qed simp
  from this [of "dedupe xs"] show ?thesis by (simp add: group_counts_def comp_def)
qed

section \<open>What the windows cover\<close>

definition window_ivs :: "usage_store \<Rightarrow> usage_interval list" where
  "window_ivs s = map (\<lambda>w. (wn_from w, wn_through w)) (um_windows s)"

text \<open>Two heartbeats at most thirty seconds apart, one after the other, around a moment.\<close>

definition between_beats :: "time list \<Rightarrow> time \<Rightarrow> bool" where
  "between_beats ts t = list_ex (\<lambda>(a, b). a \<le> t \<and> t < b \<and> b - a \<le> 30000) (zip ts (tl ts))"

lemma between_snoc: "ts \<noteq> [] \<Longrightarrow> between_beats (ts @ [b]) t \<longleftrightarrow> between_beats ts t \<or> (last ts \<le> t \<and> t < b \<and> b - last ts \<le> 30000)"
proof (induction ts)
  case (Cons a ts)
  then show ?case by (cases ts) (auto simp: between_beats_def)
qed simp

definition beating :: "time list \<Rightarrow> usage_store \<Rightarrow> bool" where
  "beating ts s \<longleftrightarrow> (\<exists>c ws w. um_collection s = Some (c, Some (last ts)) \<and> um_windows s = ws @ [w] \<and> wn_id w = um_serial s \<and>
     (\<forall>v \<in> set ws. wn_id v < um_serial s) \<and> wn_from w \<le> last ts \<and> wn_through w = last ts \<and>
     (\<forall>t. in_ivs (window_ivs s) t \<longleftrightarrow> between_beats ts t))"

lemma max_id_last: "\<forall>v \<in> set ws. wn_id v < wn_id w \<Longrightarrow> max_id (ws @ [w]) = Some (wn_id w)"
proof -
  assume "\<forall>v \<in> set ws. wn_id v < wn_id w"
  then have "foldr (\<lambda>w m. max (wn_id w) m) ws (wn_id w) = wn_id w" by (induction ws) auto
  then show ?thesis by (simp add: max_id_def)
qed

lemma in_ivs_append: "in_ivs (xs @ ys) t \<longleftrightarrow> in_ivs xs t \<or> in_ivs ys t"
  by (simp add: in_ivs_def)

lemma beat_step:
  assumes "beating ts s" "ts \<noteq> []"
  shows "beating (ts @ [t]) (beat t s)"
proof -
  obtain c ws w where s: "um_collection s = Some (c, Some (last ts))" "um_windows s = ws @ [w]" "wn_id w = um_serial s"
      "\<forall>v \<in> set ws. wn_id v < um_serial s" "wn_from w \<le> last ts" "wn_through w = last ts"
      "\<And>t. in_ivs (window_ivs s) t \<longleftrightarrow> between_beats ts t"
    using assms(1) unfolding beating_def by blast
  have old: "in_ivs (map (\<lambda>w. (wn_from w, wn_through w)) ws) x \<or> (wn_from w \<le> x \<and> x < last ts) \<longleftrightarrow> between_beats ts x" for x
    using s(7) [of x] s(2,6) by (simp add: window_ivs_def in_ivs_append)
  show ?thesis
  proof (cases "last ts \<le> t \<and> t - last ts \<le> 30000")
    case True
    have "update_rows (\<lambda>v. Some (wn_id v) = max_id (ws @ [w])) (\<lambda>w. w\<lparr>wn_through := t\<rparr>) (ws @ [w]) = ws @ [w\<lparr>wn_through := t\<rparr>]"
      using s(3,4) max_id_last [of ws w] by (auto simp: update_rows_def intro!: map_idI)
    then have beat: "um_windows (beat t s) = ws @ [w\<lparr>wn_through := t\<rparr>]" "um_collection (beat t s) = Some (c, Some t)" "um_serial (beat t s) = um_serial s"
      using True s(1,2) by (simp_all add: beat_def)
    have "in_ivs (window_ivs (beat t s)) x \<longleftrightarrow> between_beats (ts @ [t]) x" for x
      using old [of x] True s(5) assms(2) by (auto simp: window_ivs_def beat(1) in_ivs_append between_snoc)
    then show ?thesis unfolding beating_def beat using s(3-5) True by (intro exI) auto
  next
    case False
    then have beat: "um_windows (beat t s) = um_windows s @ [\<lparr>wn_id = Suc (um_serial s), wn_from = t, wn_through = t\<rparr>]"
        "um_collection (beat t s) = Some (c, Some t)" "um_serial (beat t s) = Suc (um_serial s)"
      using s(1) by (auto simp: beat_def)
    have "in_ivs (window_ivs (beat t s)) x \<longleftrightarrow> between_beats (ts @ [t]) x" for x
      using s(7) [of x] False assms(2) by (auto simp: window_ivs_def beat(1) in_ivs_append between_snoc)
    then show ?thesis unfolding beating_def beat using s(2-4) by (intro exI) (auto intro: less_SucI)
  qed
qed

lemma beats:
  assumes "um_collection s = Some (c, None)" "um_windows s = []" "ts \<noteq> []"
  shows "beating ts (fold beat ts s)"
  using assms(3)
proof (induction ts rule: rev_induct)
  case (snoc t ts)
  show ?case
  proof (cases "ts = []")
    case True
    then show ?thesis using assms(1,2)
      by (simp add: beating_def beat_def window_ivs_def between_beats_def)
  next
    case False
    from beat_step [OF snoc.IH [OF False] False] show ?thesis by simp
  qed
qed simp

definition blank_usage :: "db \<Rightarrow> time \<Rightarrow> usage_store" where
  "blank_usage d from = \<lparr>um_db = d, um_collection = Some (from, None), um_windows = [], um_serial = 0, um_observations = []\<rparr>"

text \<open>
  C32. The observer's windows cover exactly the time between two consecutive heartbeats that are at
  most thirty seconds apart: whatever the moments of the heartbeats are, even when the clock goes
  back, no time in which the observer was silent for longer is ever counted as observed.
\<close>
theorem windows_are_attended:
  "in_ivs (window_ivs (fold beat ts (blank_usage d since))) t = between_beats ts t"
proof (cases "ts = []")
  case False
  from beats [of "blank_usage d since" since ts] False show ?thesis by (auto simp: blank_usage_def beating_def)
qed (simp add: window_ivs_def blank_usage_def between_beats_def)

section \<open>The totals of a history\<close>

text \<open>
  C31. The summary of a usage history is exact: the time covered, the slots held over it, summed and
  at their peak, are those of the single milliseconds of the period, and the gaps it lists are
  exactly the milliseconds of the period the observer did not cover.
\<close>
theorem usage_totals:
  "(case measured x (ui_from x) (ui_to x) of (c, h, p) \<Rightarrow>
     us_covered (aggregateUsageHistory x) = c \<and> us_held (aggregateUsageHistory x) = when_covered c h \<and>
     us_peak (aggregateUsageHistory x) = when_covered c p) \<and>
   filter (in_ivs (us_gaps (aggregateUsageHistory x))) [ui_from x..ui_to x - 1] =
   filter (\<lambda>t. \<not> covered_at x t) [ui_from x..ui_to x - 1]"
proof
  obtain bs t where bs: "counted x = (bs, t)" by fastforce
  from counted_sums [of x] show "case measured x (ui_from x) (ui_to x) of (c, h, p) \<Rightarrow>
     us_covered (aggregateUsageHistory x) = c \<and> us_held (aggregateUsageHistory x) = when_covered c h \<and>
     us_peak (aggregateUsageHistory x) = when_covered c p"
    by (auto simp: aggregateUsageHistory_def Let_def bs sum_data_def split: prod.splits)
  have gaps: "us_gaps (aggregateUsageHistory x) = gaps_from (ui_to x) (ui_from x) (usage_windows x)"
    by (simp add: aggregateUsageHistory_def Let_def bs)
  have windows: "separated (usage_windows x)" unfolding usage_windows_def by (rule merge_correct(1))
  have bounds: "\<forall>p \<in> set (usage_windows x). ui_from x \<le> fst p" "\<forall>p \<in> set (usage_windows x). snd p \<le> ui_to x"
    unfolding usage_windows_def using merge_bounds by fastforce+
  have "in_ivs (us_gaps (aggregateUsageHistory x)) t \<longleftrightarrow> ui_from x \<le> t \<and> t < ui_to x \<and> \<not> covered_at x t" for t
    unfolding gaps using gaps_correct [OF windows bounds] by (simp add: in_windows)
  then show "filter (in_ivs (us_gaps (aggregateUsageHistory x))) [ui_from x..ui_to x - 1] =
      filter (\<lambda>t. \<not> covered_at x t) [ui_from x..ui_to x - 1]"
    by (intro filter_cong) auto
qed

end
