(* ===== verification/Registry.thy ===== *)
theory Registry
  imports Prelude
begin

text \<open>
  Image references (\<open>registry.ts\<close>) and the policy on the images and resources of templates
  (\<open>template-policy.ts\<close>). Requests to a registry are not modelled; the digest a registry
  answers with is an argument where it is used.
\<close>

section \<open>References\<close>

text \<open>\<open>s.indexOf(c)\<close> and \<open>s.lastIndexOf(c)\<close> for one character, with -1 for none.\<close>

fun indexOf :: "char \<Rightarrow> string \<Rightarrow> int" where
  "indexOf c [] = -1"
| "indexOf c (x # xs) = (if x = c then 0 else let i = indexOf c xs in if i < 0 then -1 else i + 1)"

definition lastIndexOf :: "char \<Rightarrow> string \<Rightarrow> int" where
  "lastIndexOf c s = (let i = indexOf c (rev s) in if i < 0 then -1 else int (length s) - 1 - i)"

record image_ref =
  im_original :: string
  im_registry :: string
  im_display :: string
  im_repository :: string
  im_reference :: string
  im_digest :: bool

definition hasRegistry :: "string \<Rightarrow> bool" where
  "hasRegistry firstPart \<longleftrightarrow> CHR ''.'' \<in> set firstPart \<or> CHR '':'' \<in> set firstPart \<or> firstPart = ''localhost''"

definition docker_hub :: string where "docker_hub = ''registry-1.docker.io''"

text \<open>A reference cut at its digest, its registry and its tag.\<close>

definition split_digest :: "string \<Rightarrow> string \<times> string" where
  "split_digest original = (let atIndex = lastIndexOf (CHR ''@'') original in
     if 0 \<le> atIndex then (take (nat atIndex) original, drop (nat atIndex + 1) original) else (original, []))"

definition split_registry :: "string \<Rightarrow> string option \<times> string" where
  "split_registry before = (let slashIndex = indexOf (CHR ''/'') before in
     if 0 \<le> slashIndex \<and> hasRegistry (take (nat slashIndex) before)
     then (Some (take (nat slashIndex) before), drop (nat slashIndex + 1) before) else (None, before))"

definition split_tag :: "string \<Rightarrow> string \<times> string option" where
  "split_tag s = (let lastSlash = lastIndexOf (CHR ''/'') s; tagIndex = lastIndexOf (CHR '':'') s in
     if lastSlash < tagIndex then (trim (take (nat tagIndex) s), Some (drop (nat tagIndex + 1) s)) else (trim s, None))"

definition parseImageReference :: "string \<Rightarrow> string + image_ref" where
  "parseImageReference input =
    (let original = trim input in
     if original = [] then Inl ''image reference is required''
     else
       let (beforeDigest, digest) = split_digest original;
           (explicit, named) = split_registry beforeDigest;
           registry = (case explicit of Some r \<Rightarrow> r | None \<Rightarrow> docker_hub);
           (repository, tag) = split_tag named;
           normalized = (if registry = docker_hub \<and> CHR ''/'' \<notin> set repository then ''library/'' @ repository else repository);
           reference = (if digest \<noteq> [] then digest else case tag of Some t \<Rightarrow> t | None \<Rightarrow> ''latest'') in
       if normalized = [] \<or> reference = [] then Inl (''invalid image reference: '' @ input)
       else Inr \<lparr>im_original = original, im_registry = registry,
         im_display = (if registry = docker_hub then ''docker.io'' else registry),
         im_repository = normalized, im_reference = reference, im_digest = (digest \<noteq> [])\<rparr>)"

text \<open>\<open>${displayRegistry}/${repository}(@|:)${reference}\<close>, before it is lower-cased.\<close>

definition print_reference :: "image_ref \<Rightarrow> string" where
  "print_reference i = im_display i @ ''/'' @ im_repository i @ (if im_digest i then ''@'' else '':'') @ im_reference i"

definition normalizedImageReference :: "image_ref \<Rightarrow> string" where
  "normalizedImageReference i = to_lower (print_reference i)"

definition digestPinnedImageReference :: "string \<Rightarrow> string \<Rightarrow> string + string" where
  "digestPinnedImageReference imageRef digest =
    (case parseImageReference imageRef of Inl e \<Rightarrow> Inl e | Inr i \<Rightarrow> Inr (im_display i @ ''/'' @ im_repository i @ ''@'' @ digest))"

section \<open>The image policy\<close>

record image_policy =
  allowRegistries :: "string list"
  denyRegistries :: "string list"
  allowPrefixes :: "string list"
  denyPrefixes :: "string list"

datatype policy_reason =
  DynamicReference | InvalidReference | DeniedRegistry | RegistryNotAllowed | DeniedPrefix | PrefixNotAllowed

record policy_violation =
  vl_image :: string
  vl_normalized :: "string option"
  vl_registry :: "string option"
  vl_reason :: policy_reason

definition normalizedPolicyList :: "string list \<Rightarrow> string list" where
  "normalizedPolicyList values = filter (\<lambda>v. v \<noteq> []) (map (\<lambda>v. to_lower (trim v)) values)"

definition violation :: "string \<Rightarrow> image_ref \<Rightarrow> policy_reason \<Rightarrow> policy_violation" where
  "violation imageRef i r = \<lparr>vl_image = imageRef, vl_normalized = Some (normalizedImageReference i), vl_registry = Some (im_display i), vl_reason = r\<rparr>"

definition registryCandidates :: "image_ref \<Rightarrow> string list" where
  "registryCandidates i = [to_lower (im_registry i), to_lower (im_display i)]"

definition templateImagePolicyViolation :: "string \<Rightarrow> image_policy \<Rightarrow> bool \<Rightarrow> policy_violation option" where
  "templateImagePolicyViolation imageRef policy dynamic =
    (if dynamic then Some \<lparr>vl_image = imageRef, vl_normalized = None, vl_registry = None, vl_reason = DynamicReference\<rparr>
     else case parseImageReference imageRef of
       Inl e \<Rightarrow> Some \<lparr>vl_image = imageRef, vl_normalized = None, vl_registry = None, vl_reason = InvalidReference\<rparr>
     | Inr i \<Rightarrow>
         if list_ex (\<lambda>r. r \<in> set (registryCandidates i)) (normalizedPolicyList (denyRegistries policy)) then Some (violation imageRef i DeniedRegistry)
         else if normalizedPolicyList (allowRegistries policy) \<noteq> [] \<and>
             \<not> list_ex (\<lambda>r. r \<in> set (registryCandidates i)) (normalizedPolicyList (allowRegistries policy)) then Some (violation imageRef i RegistryNotAllowed)
         else if list_ex (\<lambda>p. starts_with p (normalizedImageReference i)) (normalizedPolicyList (denyPrefixes policy)) then Some (violation imageRef i DeniedPrefix)
         else if normalizedPolicyList (allowPrefixes policy) \<noteq> [] \<and>
             \<not> list_ex (\<lambda>p. starts_with p (normalizedImageReference i)) (normalizedPolicyList (allowPrefixes policy)) then Some (violation imageRef i PrefixNotAllowed)
         else None)"

section \<open>Resource limits\<close>

record resource_limits =
  maxCpuCount :: int
  maxMemoryMb :: int
  maxDefaultPorts :: nat

datatype resource_field = CpuCount | MemoryMb | DefaultPorts

definition templateResourceLimitViolations :: "int \<Rightarrow> int \<Rightarrow> int list \<Rightarrow> resource_limits \<Rightarrow> (resource_field \<times> int \<times> int) list" where
  "templateResourceLimitViolations cpuCount memoryMb defaultPorts limits =
     (if maxCpuCount limits < cpuCount then [(CpuCount, maxCpuCount limits, cpuCount)] else []) @
     (if maxMemoryMb limits < memoryMb then [(MemoryMb, maxMemoryMb limits, memoryMb)] else []) @
     (if maxDefaultPorts limits < length defaultPorts then [(DefaultPorts, int (maxDefaultPorts limits), int (length defaultPorts))] else [])"

definition buildConcurrencyLimitExceeded :: "nat \<Rightarrow> nat \<Rightarrow> bool" where
  "buildConcurrencyLimitExceeded active most \<longleftrightarrow> most \<le> active"

section \<open>Registry credentials\<close>

text \<open>\<open>.trim().replace(/^https?:\/\//, "").replace(/\/+$/g, "").toLowerCase()\<close>\<close>

definition normalizeRegistryHost :: "string \<Rightarrow> string" where
  "normalizeRegistryHost value =
    (let s = trim value;
         s = (if starts_with ''http://'' s then drop 7 s else if starts_with ''https://'' s then drop 8 s else s) in
     to_lower (rev (dropWhile (\<lambda>c. c = CHR ''/'') (rev s))))"

datatype credential_purpose = Pull | Push | PushPull

record registry_credential =
  rc_id :: string
  rc_org :: string
  rc_host :: string
  rc_purpose :: credential_purpose
  rc_prefix :: string
  rc_revoked :: bool
  rc_updated_at :: int

text \<open>
  Which stored credential is used for an image: the longest repository prefix, then the latest
  change. Prefixes are plain text, without the wildcards of LIKE; the time of the last use, which
  the lookup also stores, is not kept.
\<close>

definition covers_repository :: "string \<Rightarrow> string \<Rightarrow> bool" where
  "covers_repository prefix repository \<longleftrightarrow> prefix = [] \<or> repository = prefix \<or> starts_with (prefix @ ''/'') repository"

definition usable_credential :: "string \<Rightarrow> image_ref \<Rightarrow> bool \<Rightarrow> registry_credential \<Rightarrow> bool" where
  "usable_credential org i pull c \<longleftrightarrow> rc_org c = org \<and> \<not> rc_revoked c \<and> rc_host c = normalizeRegistryHost (im_display i) \<and>
     (rc_purpose c = PushPull \<or> rc_purpose c = (if pull then Pull else Push)) \<and> covers_repository (rc_prefix c) (im_repository i)"

definition registryCredentialForImage :: "registry_credential list \<Rightarrow> string \<Rightarrow> string \<Rightarrow> bool \<Rightarrow> registry_credential option" where
  "registryCredentialForImage rows org imageRef pull =
    (case parseImageReference imageRef of
       Inl e \<Rightarrow> None
     | Inr i \<Rightarrow> first_row (sort_key (\<lambda>c. - int (length (rc_prefix c))) (sort_key (\<lambda>c. - rc_updated_at c) (filter (usable_credential org i pull) rows))))"

section \<open>What parsing and policy guarantee\<close>

lemma indexOf_none: "c \<notin> set s \<Longrightarrow> indexOf c s = -1"
  by (induction s) auto

lemma indexOf_bounds: "-1 \<le> indexOf c s \<and> indexOf c s < int (length s)"
  by (induction s) (auto simp: Let_def)

lemma indexOf_first: "c \<notin> set a \<Longrightarrow> indexOf c (a @ c # b) = int (length a)"
  by (induction a) (auto simp: Let_def)

lemma lastIndexOf_none: "c \<notin> set s \<Longrightarrow> lastIndexOf c s = -1"
  by (simp add: lastIndexOf_def indexOf_none)

lemma lastIndexOf_last: "c \<notin> set b \<Longrightarrow> lastIndexOf c (a @ c # b) = int (length a)"
  using indexOf_first [of c "rev b" "rev a"] by (simp add: lastIndexOf_def Let_def)

lemma split_digest_with: "CHR ''@'' \<notin> set d \<Longrightarrow> split_digest (a @ ''@'' @ d) = (a, d)"
  by (simp add: split_digest_def lastIndexOf_last Let_def)

lemma split_digest_without: "CHR ''@'' \<notin> set a \<Longrightarrow> split_digest a = (a, [])"
  by (simp add: split_digest_def lastIndexOf_none)

lemma split_registry_with: "CHR ''/'' \<notin> set r \<Longrightarrow> hasRegistry r \<Longrightarrow> split_registry (r @ ''/'' @ s) = (Some r, s)"
  by (simp add: split_registry_def indexOf_first Let_def)

lemma split_tag_with: "CHR '':'' \<notin> set t \<Longrightarrow> CHR ''/'' \<notin> set t \<Longrightarrow> split_tag (s @ '':'' @ t) = (trim s, Some t)"
proof -
  assume t: "CHR '':'' \<notin> set t" "CHR ''/'' \<notin> set t"
  have "lastIndexOf (CHR ''/'') (s @ CHR '':'' # t) < int (length s)"
  proof (cases "CHR ''/'' \<in> set s")
    case True
    then obtain a b where s: "s = a @ CHR ''/'' # b" "CHR ''/'' \<notin> set b" by (metis split_list_last)
    with t(2) have "CHR ''/'' \<notin> set (b @ CHR '':'' # t)" by simp
    from lastIndexOf_last [OF this, of a] s(1) show ?thesis by simp
  next
    case False
    with t(2) have "CHR ''/'' \<notin> set (s @ CHR '':'' # t)" by simp
    then show ?thesis by (simp add: lastIndexOf_none)
  qed
  with t(1) show ?thesis by (simp add: split_tag_def lastIndexOf_last Let_def)
qed

lemma split_tag_without: "CHR '':'' \<notin> set s \<Longrightarrow> split_tag s = (trim s, None)"
proof -
  assume "CHR '':'' \<notin> set s"
  moreover have "-1 \<le> lastIndexOf (CHR ''/'') s"
    using indexOf_bounds [of "CHR ''/''" "rev s"] by (simp add: lastIndexOf_def Let_def)
  ultimately show ?thesis by (simp add: split_tag_def lastIndexOf_none Let_def)
qed

text \<open>
  A reference in plain spelling: a registry host, a repository and a tag or digest without the
  characters that separate them and without spaces at the ends.
\<close>

definition plain_reference :: "image_ref \<Rightarrow> bool" where
  "plain_reference i \<longleftrightarrow>
     hasRegistry (im_display i) \<and> im_display i \<noteq> docker_hub \<and> CHR ''/'' \<notin> set (im_display i) \<and> CHR ''@'' \<notin> set (im_display i) \<and>
     \<not> js_space (hd (im_display i)) \<and>
     im_repository i \<noteq> [] \<and> trim (im_repository i) = im_repository i \<and> CHR ''@'' \<notin> set (im_repository i) \<and> CHR '':'' \<notin> set (im_repository i) \<and>
     im_reference i \<noteq> [] \<and> CHR ''@'' \<notin> set (im_reference i) \<and> \<not> js_space (last (im_reference i)) \<and>
     (im_digest i \<or> (CHR '':'' \<notin> set (im_reference i) \<and> CHR ''/'' \<notin> set (im_reference i)))"

lemma trim_fixed: "s \<noteq> [] \<Longrightarrow> \<not> js_space (hd s) \<Longrightarrow> \<not> js_space (last s) \<Longrightarrow> trim s = s"
proof -
  assume s: "s \<noteq> []" "\<not> js_space (hd s)" "\<not> js_space (last s)"
  then have front: "dropWhile js_space s = s" by (cases s) auto
  from s have "\<not> js_space (hd (rev s))" "rev s \<noteq> []" by (simp_all add: hd_rev)
  then have "dropWhile js_space (rev s) = rev s" by (cases "rev s") auto
  with front show ?thesis by (simp add: trim_def)
qed


definition demo_reference :: image_ref where
  "demo_reference = \<lparr>im_original = [], im_registry = ''ghcr.io'', im_display = ''ghcr.io'', im_repository = ''acme/base'',
     im_reference = ''1.2'', im_digest = False\<rparr>"


text \<open>
  Other spellings of the same registry are other registries to the policy: a policy that denies
  Docker Hub by its name lets the host \<open>index.docker.io\<close> pass, and one that denies its library
  lets an image of the library pass that is named without the word.
\<close>

definition hub_denied :: image_policy where
  "hub_denied = \<lparr>allowRegistries = [], denyRegistries = [''docker.io''], allowPrefixes = [], denyPrefixes = []\<rparr>"

definition library_denied :: image_policy where
  "library_denied = \<lparr>allowRegistries = [], denyRegistries = [], allowPrefixes = [], denyPrefixes = [''docker.io/library/'']\<rparr>"

lemma hub_spellings:
  "templateImagePolicyViolation ''python:3'' hub_denied False \<noteq> None"
  "templateImagePolicyViolation ''index.docker.io/library/python:3'' hub_denied False = None"
  "templateImagePolicyViolation ''python:3'' library_denied False \<noteq> None"
  "templateImagePolicyViolation ''docker.io/python:3'' library_denied False = None"
  by code_simp+

end
