(* ===== verification/BuildContext.thy ===== *)
theory BuildContext
  imports Registry
begin

text \<open>
  Uploaded build contexts (\<open>build-context.ts\<close>): the checks of an upload, the reader of one file out
  of the tar archive, the safe paths, and the base images a Dockerfile names. An archive is the
  list of its bytes as characters; decompression, base64, SHA-256 and the decoding of UTF-8 are
  the platform's and arguments here.
\<close>

section \<open>The checks of an upload\<close>

record context_codec =
  base64_bytes :: "string \<Rightarrow> string"
  sha256_hex :: "string \<Rightarrow> string"
  gunzip :: "string \<Rightarrow> string + string"
  utf8_text :: "string \<Rightarrow> string"

record context_upload =
  up_archive :: string
  up_sha256 :: string
  up_size :: int
  up_format :: "string option"
  up_files :: "int option"

record build_context =
  bc_archive :: string
  bc_sha256 :: string
  bc_size :: int
  bc_files :: "int option"

definition hex_char :: "char \<Rightarrow> bool" where
  "hex_char c \<longleftrightarrow> is_digit c \<or> (let n = of_char c :: nat in 97 \<le> n \<and> n \<le> 102)"

text \<open>\<open>/^sha256:[a-f0-9]{64}$/\<close> and \<open>/^[A-Za-z0-9+/]+={0,2}$/\<close>.\<close>

definition sha256_shape :: "string \<Rightarrow> bool" where
  "sha256_shape s \<longleftrightarrow> starts_with ''sha256:'' s \<and> length s = 71 \<and> list_all hex_char (drop 7 s)"

definition base64_char :: "char \<Rightarrow> bool" where
  "base64_char c \<longleftrightarrow> alnum c \<or> is_upper c \<or> c = CHR ''+'' \<or> c = CHR ''/''"

definition base64_shape :: "string \<Rightarrow> bool" where
  "base64_shape s \<longleftrightarrow> (let body = takeWhile base64_char s; rest = dropWhile base64_char s in
     body \<noteq> [] \<and> length rest \<le> 2 \<and> list_all (\<lambda>c. c = CHR ''='') rest)"

definition decodeBuildContextUpload :: "context_codec \<Rightarrow> context_upload \<Rightarrow> int \<Rightarrow> string + build_context" where
  "decodeBuildContextUpload codec body maxBytes =
    (if up_format body \<noteq> None \<and> up_format body \<noteq> Some ''tar+gzip'' then Inl ''unsupported build context format''
     else if up_size body \<le> 0 then Inl ''build context sizeBytes must be a positive integer''
     else if maxBytes < up_size body then Inl (''build context exceeds '' @ show_int maxBytes @ '' bytes'')
     else if \<not> sha256_shape (up_sha256 body) then Inl ''build context sha256 must be sha256:<64 lowercase hex chars>''
     else if \<not> base64_shape (up_archive body) then Inl ''build context archiveBase64 is not valid base64''
     else let archive = base64_bytes codec (up_archive body) in
       if int (length archive) \<noteq> up_size body then Inl (''build context size mismatch: expected '' @ show_int (up_size body) @ '', got '' @ show_int (int (length archive)))
       else let actual = ''sha256:'' @ sha256_hex codec archive in
         if actual \<noteq> up_sha256 body then Inl (''build context sha256 mismatch: expected '' @ up_sha256 body @ '', got '' @ actual)
         else Inr \<lparr>bc_archive = archive, bc_sha256 = actual, bc_size = int (length archive), bc_files = up_files body\<rparr>)"

section \<open>Paths\<close>

text \<open>The parts of \<open>value.split(/[\\/]+/g)\<close> that are neither empty nor a dot.\<close>

fun words_by :: "(char \<Rightarrow> bool) \<Rightarrow> string \<Rightarrow> string \<Rightarrow> string list" where
  "words_by sep acc [] = (if acc = [] then [] else [acc])"
| "words_by sep acc (c # s) = (if sep c then (if acc = [] then [] else [acc]) @ words_by sep [] s else words_by sep (acc @ [c]) s)"

definition path_sep :: "char \<Rightarrow> bool" where
  "path_sep c \<longleftrightarrow> c = CHR ''/'' \<or> c = char_of (92 :: nat)"

definition tar_parts :: "string \<Rightarrow> string list" where
  "tar_parts value = filter (\<lambda>p. p \<noteq> ''.'') (words_by path_sep [] value)"

definition normalizeTarPath :: "string \<Rightarrow> string + string" where
  "normalizeTarPath value =
    (let normalized = join_with (CHR ''/'') (tar_parts value) in
     if normalized = [] \<or> normalized = ''..'' \<or> starts_with ''../'' normalized \<or> includes_str normalized ''/../'' \<or> starts_with ''/'' value
     then Inl (''unsafe build context path: '' @ value)
     else Inr normalized)"

text \<open>Where a path leads from a directory: \<open>..\<close> leaves the last directory entered.\<close>

fun resolve_parts :: "string list \<Rightarrow> string list \<Rightarrow> string list option" where
  "resolve_parts stack [] = Some stack"
| "resolve_parts stack (p # ps) =
    (if p = ''..'' then (case stack of [] \<Rightarrow> None | q # stack \<Rightarrow> resolve_parts stack ps) else resolve_parts (p # stack) ps)"

section \<open>Reading one file of the archive\<close>

text \<open>\<open>replace(/\0.*$/, "")\<close>: from the first NUL with no line end after it.\<close>

fun cut_nul :: "string \<Rightarrow> string" where
  "cut_nul [] = []"
| "cut_nul (c # s) = (if c = char_of (0 :: nat) \<and> \<not> list_ex (\<lambda>d. d = char_of (10 :: nat) \<or> d = char_of (13 :: nat)) s then [] else c # cut_nul s)"

definition slice :: "string \<Rightarrow> nat \<Rightarrow> nat \<Rightarrow> string" where
  "slice b offset len = take len (drop offset b)"

definition headerString :: "context_codec \<Rightarrow> string \<Rightarrow> nat \<Rightarrow> nat \<Rightarrow> string" where
  "headerString codec b offset len = cut_nul (utf8_text codec (slice b offset len))"

text \<open>\<open>Number.parseInt(raw, 8)\<close>: a sign, then octal digits as far as they go; None is NaN.\<close>

definition octal_digit :: "char \<Rightarrow> bool" where
  "octal_digit c \<longleftrightarrow> (let n = of_char c :: nat in 48 \<le> n \<and> n \<le> 55)"

definition octal_value :: "string \<Rightarrow> int" where
  "octal_value ds = foldl (\<lambda>v d. v * 8 + (of_char d - 48)) 0 ds"

definition parse_octal :: "string \<Rightarrow> int option" where
  "parse_octal raw =
    (let sign = (case raw of c # _ \<Rightarrow> if c = CHR ''-'' then -1 else 1 | [] \<Rightarrow> 1);
         rest = (case raw of c # s \<Rightarrow> if c = CHR ''-'' \<or> c = CHR ''+'' then s else raw | [] \<Rightarrow> []);
         ds = takeWhile octal_digit rest in
     if ds = [] then None else Some (sign * octal_value ds))"

definition headerOctal :: "context_codec \<Rightarrow> string \<Rightarrow> nat \<Rightarrow> nat \<Rightarrow> int option" where
  "headerOctal codec b offset len = (let raw = trim (headerString codec b offset len) in if raw = [] then Some 0 else parse_octal raw)"

definition relative_name :: "context_codec \<Rightarrow> string \<Rightarrow> string" where
  "relative_name codec header = join_with (CHR ''/'') (filter (\<lambda>s. s \<noteq> []) [headerString codec header 345 155, headerString codec header 0 100])"

definition is_file :: "context_codec \<Rightarrow> string \<Rightarrow> bool" where
  "is_file codec header = (let t = headerString codec header 156 1 in t = [] \<or> t = ''0'')"

text \<open>\<open>Math.ceil(size / blockSize) * blockSize\<close>\<close>

definition padded :: "int \<Rightarrow> int" where
  "padded bytes = - ((- bytes) div 512) * 512"

text \<open>
  What one turn of the loop does: it ends, throws, finds the file, or goes on at an offset. A size
  that is not a number compares as false, and makes the next offset not a number, which ends the
  loop. An offset before the start of the archive reads from its end (\<open>subarray\<close>).
\<close>

datatype turn = Ended | Threw string | Found string | GoOn int

definition subarray :: "string \<Rightarrow> int \<Rightarrow> int \<Rightarrow> string" where
  "subarray b from to =
    (let clip = (\<lambda>i. nat (if i < 0 then max 0 (int (length b) + i) else min (int (length b)) i)) in
     take (clip to - clip from) (drop (clip from) b))"

definition read_turn :: "context_codec \<Rightarrow> string \<Rightarrow> string \<Rightarrow> int \<Rightarrow> string \<Rightarrow> int \<Rightarrow> turn" where
  "read_turn codec wanted filePath maxBytes tar offset =
    (if int (length tar) < offset + 512 then Ended
     else let header = subarray tar offset (offset + 512) in
       if list_all (\<lambda>c. c = char_of (0 :: nat)) header then Ended
       else case normalizeTarPath (relative_name codec header) of
         Inl e \<Rightarrow> Threw e
       | Inr normalized \<Rightarrow>
           let here = is_file codec header \<and> normalized = wanted; start = offset + 512 in
           (case headerOctal codec header 124 12 of
              None \<Rightarrow> if here then Found (utf8_text codec []) else Ended
            | Some bytes \<Rightarrow>
                if int (length tar) < start + bytes then Threw (''truncated build context file: '' @ relative_name codec header)
                else if here then
                  (if maxBytes < bytes then Threw (filePath @ '' exceeds '' @ show_int maxBytes @ '' bytes'')
                   else Found (utf8_text codec (subarray tar start (start + bytes))))
                else GoOn (start + padded bytes)))"

partial_function (option) read_loop :: "context_codec \<Rightarrow> string \<Rightarrow> string \<Rightarrow> int \<Rightarrow> string \<Rightarrow> int \<Rightarrow> (string + string) option" where
  "read_loop codec wanted filePath maxBytes tar offset =
    (case read_turn codec wanted filePath maxBytes tar offset of
       Ended \<Rightarrow> Some (Inl (''missing build context file: '' @ filePath))
     | Threw e \<Rightarrow> Some (Inl e)
     | Found t \<Rightarrow> Some (Inr t)
     | GoOn n \<Rightarrow> read_loop codec wanted filePath maxBytes tar n)"

definition maxPolicyReadBytes :: int where "maxPolicyReadBytes = 256 * 1024"

text \<open>The outcome, or None when the function does not return.\<close>

definition readTextFileFromTarGzipBuildContext :: "context_codec \<Rightarrow> string \<Rightarrow> string \<Rightarrow> int \<Rightarrow> (string + string) option" where
  "readTextFileFromTarGzipBuildContext codec archive filePath maxBytes =
    (case normalizeTarPath filePath of
       Inl e \<Rightarrow> Some (Inl e)
     | Inr wanted \<Rightarrow> (case gunzip codec archive of Inl e \<Rightarrow> Some (Inl e) | Inr tar \<Rightarrow> read_loop codec wanted filePath maxBytes tar 0))"

section \<open>Base images\<close>

record base_image =
  bi_image :: string
  bi_line :: nat
  bi_dynamic :: bool

text \<open>\<open>/^FROM\s+(.+)$/i\<close> on a trimmed line: what follows the word and its spaces.\<close>

definition from_match :: "string \<Rightarrow> string option" where
  "from_match line =
    (let rest = drop 4 line in
     if to_lower (take 4 line) = ''from'' \<and> rest \<noteq> [] \<and> js_space (hd rest) \<and> dropWhile js_space rest \<noteq> [] \<and>
        char_of (13 :: nat) \<notin> set (dropWhile js_space rest)
     then Some (dropWhile js_space rest) else None)"

text \<open>The image and the stage name of a FROM line: the first word that is no option, the word after AS.\<close>

definition from_image :: "string list \<Rightarrow> (string \<times> string option) option" where
  "from_image tokens =
    (case dropWhile (starts_with ''--'') tokens of
       [] \<Rightarrow> None
     | img # rest \<Rightarrow> Some (img, case dropWhile (\<lambda>t. to_lower t \<noteq> ''as'') rest of a # name # _ \<Rightarrow> Some name | _ \<Rightarrow> None))"

definition from_line :: "string \<Rightarrow> (string \<times> string option) option" where
  "from_line rawLine =
    (let line = trim rawLine in
     if line = [] \<or> starts_with ''#'' line then None
     else case from_match line of None \<Rightarrow> None | Some rest \<Rightarrow> from_image (words_by js_space [] rest))"

fun base_images :: "nat \<Rightarrow> string list \<Rightarrow> string list \<Rightarrow> base_image list" where
  "base_images n aliases [] = []"
| "base_images n aliases (l # ls) =
    (case from_line l of
       None \<Rightarrow> base_images (Suc n) aliases ls
     | Some (img, name) \<Rightarrow>
         let aliases' = (case name of Some a \<Rightarrow> a # aliases | None \<Rightarrow> aliases) in
         (if img \<in> set aliases then [] else [\<lparr>bi_image = img, bi_line = Suc n, bi_dynamic = (CHR ''$'' \<in> set img)\<rparr>]) @
         base_images (Suc n) aliases' ls)"

text \<open>Lines end at a newline; the carriage return before it is a space that is trimmed away.\<close>

definition dockerfileBaseImages :: "string \<Rightarrow> base_image list" where
  "dockerfileBaseImages dockerfile = base_images 0 [] (split_on (char_of (10 :: nat)) dockerfile)"

section \<open>Every base image is seen\<close>

text \<open>The stages named by the lines before.\<close>

definition stages_of :: "string list \<Rightarrow> string list" where
  "stages_of ls = concat (map (\<lambda>l. case from_line l of Some (img, Some name) \<Rightarrow> [name] | _ \<Rightarrow> []) ls)"

lemma base_images_all:
  assumes "i < length ls" and "from_line (ls ! i) = Some (img, name)"
  shows "img \<in> set aliases \<or> img \<in> set (stages_of (take i ls)) \<or> \<lparr>bi_image = img, bi_line = Suc (n + i), bi_dynamic = (CHR ''$'' \<in> set img)\<rparr> \<in> set (base_images n aliases ls)"
  using assms
proof (induction ls arbitrary: n aliases i)
  case (Cons l ls)
  show ?case
  proof (cases i)
    case 0
    with Cons.prems show ?thesis by (simp add: Let_def)
  next
    case (Suc j)
    let ?aliases = "case from_line l of Some (im, Some a) \<Rightarrow> a # aliases | _ \<Rightarrow> aliases"
    have "j < length ls" "from_line (ls ! j) = Some (img, name)" using Cons.prems Suc by simp_all
    from Cons.IH [OF this, of ?aliases "Suc n"]
    show ?thesis using Suc by (auto simp: stages_of_def Let_def split: option.splits prod.splits)
  qed
qed simp


definition demo_dockerfile :: string where
  "demo_dockerfile = ''FROM node:22 AS build'' @ [char_of (10 :: nat)] @ ''FROM --platform=linux/amd64 debian:12''"


text \<open>
  A FROM instruction continued on the next line is not one line: the name checked is the backslash.
\<close>

lemma continued_from_unseen:
  "map bi_image (dockerfileBaseImages (''FROM '' @ [char_of (92 :: nat), char_of (10 :: nat)] @ ''denied.example/image:1'')) = [[char_of (92 :: nat)]]"
  by code_simp

section \<open>Paths stay inside the context\<close>

lemma words_by_sep: "\<forall>c \<in> set acc. \<not> sep c \<Longrightarrow> w \<in> set (words_by sep acc s) \<Longrightarrow> w \<noteq> [] \<and> (\<forall>c \<in> set w. \<not> sep c)"
proof (induction s arbitrary: acc)
  case Nil
  then show ?case by (simp split: if_splits)
next
  case (Cons c s)
  show ?case
  proof (cases "sep c")
    case True
    with Cons.prems(2) have "w = acc \<and> acc \<noteq> [] \<or> w \<in> set (words_by sep [] s)" by (auto split: if_splits)
    then show ?thesis
    proof
      assume "w = acc \<and> acc \<noteq> []"
      with Cons.prems(1) show ?thesis by blast
    next
      assume "w \<in> set (words_by sep [] s)"
      then show ?thesis by (intro Cons.IH [of "[]"]) simp_all
    qed
  next
    case False
    with Cons.prems have "\<forall>c \<in> set (acc @ [c]). \<not> sep c" "w \<in> set (words_by sep (acc @ [c]) s)" by auto
    then show ?thesis by (rule Cons.IH)
  qed
qed

lemma part_words: "p \<in> set (tar_parts v) \<Longrightarrow> p \<noteq> [] \<and> CHR ''/'' \<notin> set p"
proof -
  assume "p \<in> set (tar_parts v)"
  then have "p \<in> set (words_by path_sep [] v)" by (simp add: tar_parts_def)
  moreover have "\<forall>c \<in> set []. \<not> path_sep c" by simp
  ultimately have "p \<noteq> [] \<and> (\<forall>c \<in> set p. \<not> path_sep c)" by (rule words_by_sep [rotated])
  moreover have "path_sep (CHR ''/'')" unfolding path_sep_def by (rule disjI1) (rule refl)
  ultimately show ?thesis by blast
qed

lemma join_append: "ps \<noteq> [] \<Longrightarrow> qs \<noteq> [] \<Longrightarrow> join_with c (ps @ qs) = join_with c ps @ c # join_with c qs"
proof (induction ps)
  case (Cons p ps)
  then show ?case by (cases ps; cases qs) auto
qed simp

lemma includes_middle: "includes_str (a @ p @ b) p"
proof (induction a)
  case Nil
  have "starts_with p (p @ b)" by (simp add: starts_with_def)
  then show ?case by (cases "p @ b") simp_all
next
  case (Cons x a)
  then show ?case by simp
qed

lemma resolve_plain: "''..'' \<notin> set ps \<Longrightarrow> resolve_parts stack (ps @ qs) = resolve_parts (rev ps @ stack) qs"
  by (induction ps arbitrary: stack) auto

lemma includes_join:
  assumes "a \<noteq> []" "b \<noteq> []"
  shows "includes_str (join_with (CHR ''/'') (a @ [''..''] @ b)) ''/../''"
proof -
  have "join_with (CHR ''/'') (a @ [''..''] @ b) = join_with (CHR ''/'') a @ ''/../'' @ join_with (CHR ''/'') b"
    using assms by (cases b) (simp_all add: join_append)
  then show ?thesis by (simp only: includes_middle)
qed

text \<open>
  A path accepted in a build context leads to a place inside it: it is relative, and following
  it part by part never leaves the directory the context is unpacked in.
\<close>
lemma build_path_confined:
  assumes "normalizeTarPath v = Inr p"
  shows "\<not> starts_with ''/'' p \<and> (\<exists>dirs. resolve_parts [] (split_on (CHR ''/'') p) = Some dirs)"
proof -
  let ?ps = "tar_parts v"
  have p: "p = join_with (CHR ''/'') ?ps" "?ps \<noteq> []" "p \<noteq> ''..''" "\<not> starts_with ''../'' p" "\<not> includes_str p ''/../''"
    using assms by (auto simp: normalizeTarPath_def Let_def split: if_splits)
  have parts: "split_on (CHR ''/'') p = ?ps" unfolding p(1) using p(2) part_words by (intro split_join) auto
  obtain q qs where q: "?ps = q # qs" using p(2) by (cases ?ps) auto
  have "\<exists>dirs. resolve_parts [] ?ps = Some dirs"
  proof (cases "''..'' \<in> set ?ps")
    case False
    from resolve_plain [OF this, of "[]" "[]"] show ?thesis by simp
  next
    case True
    then obtain a b where ab: "?ps = a @ [''..''] @ b" "''..'' \<notin> set a" by (auto dest: split_list_first)
    have "a \<noteq> []"
    proof
      assume "a = []"
      with ab p show False by (cases b) (auto simp: starts_with_def)
    qed
    moreover have "b = []" using includes_join [OF \<open>a \<noteq> []\<close>, of b] p(1,5) ab(1) by metis
    ultimately show ?thesis using resolve_plain [OF ab(2), of "[]" "[''..'']"] ab(1) by (cases "rev a") auto
  qed
  moreover have "\<not> starts_with ''/'' p"
    using part_words [of q v] q by (cases q; cases qs) (auto simp: p(1) starts_with_def)
  ultimately show ?thesis using parts by simp
qed

section \<open>Whether the reader returns\<close>

text \<open>No entry of the archive makes the reader stand still or go back.\<close>

definition moves_on :: "context_codec \<Rightarrow> string \<Rightarrow> string \<Rightarrow> int \<Rightarrow> string \<Rightarrow> bool" where
  "moves_on codec wanted filePath maxBytes tar \<longleftrightarrow>
     list_all (\<lambda>n. case read_turn codec wanted filePath maxBytes tar (int n) of GoOn m \<Rightarrow> int n < m | _ \<Rightarrow> True) [0..<length tar]"

lemma read_returns:
  assumes "moves_on codec wanted filePath maxBytes tar"
  shows "\<exists>r. read_loop codec wanted filePath maxBytes tar (int n) = Some r"
proof (induction "length tar - n" arbitrary: n rule: less_induct)
  case less
  show ?case
  proof (cases "read_turn codec wanted filePath maxBytes tar (int n)")
    case (GoOn m)
    then have inside: "n < length tar" by (auto simp: read_turn_def split: if_splits)
    with assms GoOn have "int n < m" by (auto simp: moves_on_def list_all_iff dest: bspec [of _ _ n])
    then obtain k where k: "m = int k" "n < k" by (cases m) auto
    with inside have "length tar - k < length tar - n" by simp
    from less.hyps [OF this] k(1) GoOn show ?thesis by (subst read_loop.simps) simp
  qed (subst read_loop.simps; simp)+
qed

lemma read_stands:
  assumes "read_turn codec wanted filePath maxBytes tar n = GoOn n"
  shows "read_loop codec wanted filePath maxBytes tar n = None"
proof (rule ccontr)
  assume "read_loop codec wanted filePath maxBytes tar n \<noteq> None"
  then obtain r where r: "read_loop codec wanted filePath maxBytes tar n = Some r" by blast
  have "\<not> (codec = codec \<and> wanted = wanted \<and> filePath = filePath \<and> maxBytes = maxBytes \<and> tar = tar \<and> n = n)"
  proof (rule read_loop.raw_induct [where P = "\<lambda>c w f m t k r. \<not> (c = codec \<and> w = wanted \<and> f = filePath \<and> m = maxBytes \<and> t = tar \<and> k = n)", OF _ r])
    fix loop c w f m t k r
    assume IH: "\<And>c w f m t k r. loop c w f m t k = Some r \<Longrightarrow> \<not> (c = codec \<and> w = wanted \<and> f = filePath \<and> m = maxBytes \<and> t = tar \<and> k = n)"
      and body: "(case read_turn c w f m t k of Ended \<Rightarrow> Some (Inl (''missing build context file: '' @ f)) | Threw e \<Rightarrow> Some (Inl e)
        | Found x \<Rightarrow> Some (Inr x) | GoOn n \<Rightarrow> loop c w f m t n) = Some r"
    show "\<not> (c = codec \<and> w = wanted \<and> f = filePath \<and> m = maxBytes \<and> t = tar \<and> k = n)"
      using IH [of codec wanted filePath maxBytes tar n r] body assms by auto
  qed
  then show False by simp
qed


text \<open>An archive of one entry whose size is written as minus 1000 in octal, that is -512.\<close>

definition plain_context_codec :: context_codec where
  "plain_context_codec = \<lparr>base64_bytes = id, sha256_hex = id, gunzip = Inr, utf8_text = id\<rparr>"

definition nuls :: "nat \<Rightarrow> string" where "nuls n = replicate n (char_of (0 :: nat))"

definition stuck_archive :: string where
  "stuck_archive = ''a'' @ nuls 123 @ ''-1000'' @ nuls 383"

definition short_archive :: string where
  "short_archive = ''Dockerfile'' @ nuls 114 @ ''4'' @ nuls 387 @ ''FROM'' @ nuls 508"


text \<open>
  A member who uploads such an archive stops the server: the reader never returns, and it runs on
  the thread that serves every request.
\<close>

lemma context_read_hangs: "readTextFileFromTarGzipBuildContext plain_context_codec stuck_archive ''Dockerfile'' maxPolicyReadBytes = None"
proof -
  have "normalizeTarPath ''Dockerfile'' = Inr ''Dockerfile''" by code_simp
  moreover have "read_turn plain_context_codec ''Dockerfile'' ''Dockerfile'' maxPolicyReadBytes stuck_archive 0 = GoOn 0" by code_simp
  ultimately show ?thesis using read_stands by (simp add: readTextFileFromTarGzipBuildContext_def plain_context_codec_def)
qed

end
