(* ===== verification/Templates.thy ===== *)
theory Templates
  imports BuildContext Readiness OrgSettings Rely
begin

text \<open>
  Templates and their builds: the tables, the resolution of a reference
  (\<open>templates.ts\<close>), the services of the API (\<open>services/templates.ts\<close>,
  \<open>services/template-builds.ts\<close>, \<open>services/template-policies.ts\<close>). Build arguments, metadata,
  provenance and the text of logs are not kept; the organizations and sandboxes are those of the
  control plane's store.
\<close>

section \<open>Tables\<close>

datatype build_status = BuildQueued | BuildBuilding | BuildSuccess | BuildFailed | BuildCanceled

definition activeTemplateBuildStatuses :: "build_status list" where
  "activeTemplateBuildStatuses = [BuildQueued, BuildBuilding]"

definition terminalTemplateBuildStatuses :: "build_status list" where
  "terminalTemplateBuildStatuses = [BuildSuccess, BuildFailed, BuildCanceled]"

definition isActiveTemplateBuildStatus :: "build_status \<Rightarrow> bool" where
  "isActiveTemplateBuildStatus st \<longleftrightarrow> st \<in> set activeTemplateBuildStatuses"

definition canUploadTemplateBuildContext :: "build_status \<Rightarrow> bool" where
  "canUploadTemplateBuildContext st \<longleftrightarrow> st = BuildQueued"

record spec =
  sp_image :: string
  sp_digest :: "string option"
  sp_entrypoint :: "string list"
  sp_cpu :: int
  sp_memory :: int
  sp_workdir :: string
  sp_ports :: "int list"
  sp_egress :: "policy_input option"
  sp_slots :: obj

record template_rec =
  te_id :: string
  te_org :: "string option"
  te_name :: string
  te_aliases :: "string list"
  te_tags :: "string list"
  te_visibility :: template_visibility
  te_status :: string
  te_spec :: spec
  te_latest :: "string option"
  te_updated_at :: time

record version_rec =
  ve_id :: string
  ve_template :: string
  ve_org :: "string option"
  ve_build :: "string option"
  ve_number :: nat
  ve_aliases :: "string list"
  ve_status :: string
  ve_spec :: spec
  ve_scan :: string
  ve_created_at :: time
  ve_promoted_at :: "time option"

datatype build_source = FromImage | FromDockerfile

record build_rec =
  bu_id :: string
  bu_org :: string
  bu_template :: string
  bu_status :: build_status
  bu_source :: build_source
  bu_dockerfile :: "string option"
  bu_hash :: "string option"
  bu_image :: "string option"
  bu_digest :: "string option"
  bu_error :: "string option"
  bu_started_at :: "time option"
  bu_completed_at :: "time option"
  bu_created_at :: time
  bu_updated_at :: time

record tstore =
  ts_db :: db
  ts_templates :: "template_rec list"
  ts_versions :: "version_rec list"
  ts_builds :: "build_rec list"
  ts_contexts :: "(string \<times> build_context) list"
  ts_logs :: "(string \<times> string) list"
  ts_credentials :: "registry_credential list"
  ts_audits :: "(string \<times> string) list"

type_synonym 'a tstx = "(tstore, err, 'a) tx"
type_synonym ('p, 'a) tsproc = "(tstore, 'p, 'a) gproc"

definition ts_now :: "tstore \<Rightarrow> time" where "ts_now s = clock (ts_db s)"

definition ts_makeId :: "string \<Rightarrow> string tstx" where
  "ts_makeId prefix = (\<lambda>s. case makeId prefix (ts_db s) of Inl e \<Rightarrow> Inl e | Inr (i, d) \<Rightarrow> Inr (i, s\<lparr>ts_db := d\<rparr>))"

definition recordAudit :: "string \<Rightarrow> string \<Rightarrow> unit tstx" where
  "recordAudit action target = modifyT (\<lambda>s. s\<lparr>ts_audits := ts_audits s @ [(action, target)]\<rparr>)"

definition appendLog :: "string \<Rightarrow> string \<Rightarrow> unit tstx" where
  "appendLog build stream = bindT (getsT ts_builds) (\<lambda>bs.
     if list_ex (\<lambda>b. bu_id b = build) bs then modifyT (\<lambda>s. s\<lparr>ts_logs := ts_logs s @ [(build, stream)]\<rparr>)
     else throwT (DbError ''insert or update violates foreign key constraint''))"

definition upd_templates :: "(template_rec \<Rightarrow> bool) \<Rightarrow> (template_rec \<Rightarrow> template_rec) \<Rightarrow> unit tstx" where
  "upd_templates P f = modifyT (\<lambda>s. s\<lparr>ts_templates := update_rows P f (ts_templates s)\<rparr>)"

definition upd_versions :: "(version_rec \<Rightarrow> bool) \<Rightarrow> (version_rec \<Rightarrow> version_rec) \<Rightarrow> unit tstx" where
  "upd_versions P f = modifyT (\<lambda>s. s\<lparr>ts_versions := update_rows P f (ts_versions s)\<rparr>)"

definition upd_builds :: "(build_rec \<Rightarrow> bool) \<Rightarrow> (build_rec \<Rightarrow> build_rec) \<Rightarrow> unit tstx" where
  "upd_builds P f = modifyT (\<lambda>s. s\<lparr>ts_builds := update_rows P f (ts_builds s)\<rparr>)"

section \<open>Resolution\<close>

type_synonym template_view = "template_rec \<times> version_rec option"

definition canReadTemplateRow :: "template_rec \<Rightarrow> string \<Rightarrow> bool" where
  "canReadTemplateRow t org \<longleftrightarrow> te_org t = Some org \<or> (te_org t = None \<and> (te_visibility t = TPublic \<or> te_visibility t = TInternal))"

text \<open>\<open>ownerScope === "team"\<close>\<close>

definition canMutateTemplate :: "template_view \<Rightarrow> bool" where
  "canMutateTemplate v \<longleftrightarrow> te_org (fst v) \<noteq> None"

definition parseTemplateVersionAliasRef :: "string \<Rightarrow> (string \<times> string) option" where
  "parseTemplateVersionAliasRef r = (let index = lastIndexOf (CHR '':'') r in
     if index \<le> 0 \<or> index = int (length r) - 1 then None else Some (take (nat index) r, drop (nat index + 1) r))"

definition names_template :: "string \<Rightarrow> template_rec \<Rightarrow> bool" where
  "names_template r t \<longleftrightarrow> te_id t = r \<or> te_name t = r \<or> r \<in> set (te_aliases t)"

definition names_version :: "string \<Rightarrow> version_rec \<Rightarrow> bool" where
  "names_version r v \<longleftrightarrow> ve_id v = r \<or> r \<in> set (ve_aliases v)"

definition rankTemplateResolutionCandidate :: "string \<Rightarrow> template_rec \<Rightarrow> version_rec option \<Rightarrow> nat" where
  "rankTemplateResolutionCandidate r t v =
    (if te_id t = r then 0 else if te_name t = r then 1 else if r \<in> set (te_aliases t) then 2
     else case v of None \<Rightarrow> 5 | Some w \<Rightarrow> if ve_id w = r then 3 else if r \<in> set (ve_aliases w) then 4 else 5)"

definition scopeRank :: "string \<Rightarrow> template_rec \<Rightarrow> nat" where
  "scopeRank org t = (if te_org t = Some org then 0 else 1)"

definition latest_of :: "tstore \<Rightarrow> template_rec \<Rightarrow> version_rec option" where
  "latest_of s t = (case te_latest t of None \<Rightarrow> None | Some i \<Rightarrow> first_row (filter (\<lambda>v. ve_id v = i) (ts_versions s)))"

definition visible :: "string \<Rightarrow> template_rec \<Rightarrow> bool" where
  "visible org t \<longleftrightarrow> canReadTemplateRow t org \<and> te_status t \<noteq> ''archived''"

text \<open>\<open>name:alias\<close>: the ready version of that alias, of one's own organization first, the one promoted last.\<close>

definition by_alias :: "tstore \<Rightarrow> string \<Rightarrow> string \<Rightarrow> string \<Rightarrow> (template_rec \<times> version_rec) list" where
  "by_alias s org r a =
     sort_key (\<lambda>(t, v). scopeRank org t)
       (sort_key (\<lambda>(t, v). case ve_promoted_at v of None \<Rightarrow> (1 :: nat) | Some x \<Rightarrow> 0)
         (sort_key (\<lambda>(t, v). case ve_promoted_at v of None \<Rightarrow> 0 | Some x \<Rightarrow> - x)
           (sort_key (\<lambda>(t, v). - ve_created_at v)
             (concat (map (\<lambda>t. map (Pair t) (filter (\<lambda>v. ve_template v = te_id t \<and> a \<in> set (ve_aliases v) \<and> ve_status v = ''ready'') (ts_versions s)))
               (filter (\<lambda>t. visible org t \<and> names_template r t) (ts_templates s)))))))"

definition candidates :: "tstore \<Rightarrow> string \<Rightarrow> string \<Rightarrow> (template_rec \<times> version_rec option \<times> version_rec option) list" where
  "candidates s org r = filter (\<lambda>(t, m, v). visible org t \<and> (names_template r t \<or> m \<noteq> None))
     (concat (map (\<lambda>t. case filter (\<lambda>v. ve_template v = te_id t \<and> names_version r v) (ts_versions s) of
          [] \<Rightarrow> [(t, None, latest_of s t)]
        | vs \<Rightarrow> map (\<lambda>v. (t, Some v, Some v)) vs) (ts_templates s)))"

definition by_name :: "tstore \<Rightarrow> string \<Rightarrow> string \<Rightarrow> (template_rec \<times> version_rec option \<times> version_rec option) list" where
  "by_name s org r =
     sort_key (\<lambda>(t, m, v). scopeRank org t)
       (sort_key (\<lambda>(t, m, v). rankTemplateResolutionCandidate r t m)
         (sort_key (\<lambda>(t, m, v). - te_updated_at t) (candidates s org r)))"

text \<open>The templates the platform ships with, used when the tables have none of that name.\<close>

definition fallbackTemplate :: "template_rec list \<Rightarrow> string \<Rightarrow> template_view option" where
  "fallbackTemplate shipped r = (case first_row (filter (names_template r) shipped) of
     None \<Rightarrow> None | Some t \<Rightarrow> if te_visibility t = TPublic \<or> te_visibility t = TInternal then Some (t, None) else None)"

definition resolveTemplate :: "template_rec list \<Rightarrow> string \<Rightarrow> string \<Rightarrow> template_view option tstx" where
  "resolveTemplate shipped r org = getsT (\<lambda>s.
     let aliased = (case parseTemplateVersionAliasRef r of
         None \<Rightarrow> None | Some (n, a) \<Rightarrow> map_option (\<lambda>(t, v). (t, Some v)) (first_row (by_alias s org n a))) in
     case aliased of
       Some v \<Rightarrow> Some v
     | None \<Rightarrow> (case first_row (by_name s org r) of Some (t, m, v) \<Rightarrow> Some (t, v) | None \<Rightarrow> fallbackTemplate shipped r))"

text \<open>The fields of a version stand before those of its template.\<close>

definition view_spec :: "template_view \<Rightarrow> spec" where
  "view_spec v = (case snd v of None \<Rightarrow> te_spec (fst v)
     | Some w \<Rightarrow> (ve_spec w)\<lparr>sp_digest := coalesce (sp_digest (ve_spec w)) (sp_digest (te_spec (fst v))),
         sp_egress := coalesce (sp_egress (ve_spec w)) (sp_egress (te_spec (fst v)))\<rparr>)"

section \<open>Services of templates\<close>

record template_config =
  tc_limits :: resource_limits
  tc_policy :: image_policy
  tc_active_builds :: nat
  tc_shipped :: "template_rec list"

definition templateResourceLimitPayload :: "template_config \<Rightarrow> spec \<Rightarrow> (resource_field \<times> int \<times> int) list" where
  "templateResourceLimitPayload cfg sp = templateResourceLimitViolations (sp_cpu sp) (sp_memory sp) (sp_ports sp) (tc_limits cfg)"

definition templateImagePolicyPayload :: "template_config \<Rightarrow> (string \<times> bool) list \<Rightarrow> policy_violation list" where
  "templateImagePolicyPayload cfg images = List.map_filter (\<lambda>(i, dynamic). templateImagePolicyViolation i (tc_policy cfg) dynamic) images"

text \<open>The runs of other characters become one dash each; dashes at the ends go.\<close>

definition slug_char :: "char \<Rightarrow> bool" where
  "slug_char c \<longleftrightarrow> alnum c \<or> c = CHR ''.'' \<or> c = CHR ''_'' \<or> c = CHR ''-''"

text \<open>\<open>s.replace(/[^...]+/g, rep)\<close>, and the removal of a character at both ends.\<close>

fun collapse_others :: "(char \<Rightarrow> bool) \<Rightarrow> char \<Rightarrow> bool \<Rightarrow> string \<Rightarrow> string" where
  "collapse_others keep rep within_run [] = []"
| "collapse_others keep rep within_run (c # s) = (if keep c then c # collapse_others keep rep False s
     else (if within_run then [] else [rep]) @ collapse_others keep rep True s)"

definition strip_char :: "char \<Rightarrow> string \<Rightarrow> string" where
  "strip_char c s = rev (dropWhile (\<lambda>d. d = c) (rev (dropWhile (\<lambda>d. d = c) s)))"

definition slugFor :: "string \<Rightarrow> string tstx" where
  "slugFor v = (let slug = take 100 (strip_char (CHR ''-'') (collapse_others slug_char (CHR ''-'') False (to_lower v))) in
     if slug = [] then ts_makeId ''tpl'' else returnT slug)"

datatype template_answer =
    TemplateMade "template_view option"
  | TemplateArchived string "string list"
  | TemplateVersions "version_rec list"
  | ResourceLimit "(resource_field \<times> int \<times> int) list"
  | ImagePolicy "policy_violation list"
  | EgressRefused egress_validation
  | TemplateExists string
  | TemplateNotFound
  | TemplateNotMutable
  | VersionNotFound

record create_template_input =
  ci_id :: "string option"
  ci_name :: string
  ci_aliases :: "string list"
  ci_tags :: "string list"
  ci_visibility :: template_visibility
  ci_spec :: spec

definition insert_template :: "template_rec \<Rightarrow> unit tstx" where
  "insert_template t = bindT (getsT ts_templates) (\<lambda>ts.
     if list_ex (\<lambda>q. te_id q = te_id t) ts then throwT (DbError ''duplicate key value violates unique constraint'')
     else modifyT (\<lambda>s. s\<lparr>ts_templates := ts_templates s @ [t]\<rparr>))"

text \<open>\<open>templateCredentialSlotsFromInputs\<close> has run: the slots of the input are the ones it returns.\<close>

definition createTemplate :: "template_config \<Rightarrow> string \<Rightarrow> create_template_input \<Rightarrow> ('p, template_answer) tsproc" where
  "createTemplate cfg org body =
    (let limit = templateResourceLimitPayload cfg (ci_spec body);
         policy = templateImagePolicyPayload cfg [(sp_image (ci_spec body), False)] in
     if limit \<noteq> [] then retP (ResourceLimit limit)
     else if policy \<noteq> [] then retP (ImagePolicy policy)
     else
       bindP (atomic (reading ts_db (validateEgressPolicyForOrganization org (sp_egress (ci_spec body))))) (\<lambda>validation.
       case validation of
         ValidPolicy summary g \<Rightarrow>
           bindP (case ci_id body of Some i \<Rightarrow> retP i | None \<Rightarrow> atomic (slugFor (ci_name body))) (\<lambda>i.
           bindP (atomic (getsT (\<lambda>s. list_ex (\<lambda>t. te_id t = i) (ts_templates s)))) (\<lambda>exists.
           if exists then retP (TemplateExists i)
           else
             bindP (atomic (bindT (getsT ts_now) (\<lambda>t. insert_template
               \<lparr>te_id = i, te_org = Some org, te_name = ci_name body, te_aliases = ci_aliases body, te_tags = ci_tags body,
                te_visibility = ci_visibility body, te_status = ''building'',
                te_spec = (ci_spec body)\<lparr>sp_digest := None, sp_egress := Some (policyInputFromSummary summary)\<rparr>,
                te_latest = None, te_updated_at = t\<rparr>))) (\<lambda>_.
             bindP (atomic (recordAudit ''template.create'' i)) (\<lambda>_.
             bindP (atomic (resolveTemplate (tc_shipped cfg) i org)) (\<lambda>v.
             retP (TemplateMade v))))))
       | refused \<Rightarrow> retP (EgressRefused refused)))"

definition listTemplateVersions :: "template_config \<Rightarrow> string \<Rightarrow> string \<Rightarrow> ('p, template_answer) tsproc" where
  "listTemplateVersions cfg org r =
     bindP (atomic (resolveTemplate (tc_shipped cfg) r org)) (\<lambda>found.
     case found of
       None \<Rightarrow> retP TemplateNotFound
     | Some v \<Rightarrow>
         bindP (atomic (getsT (\<lambda>s. sort_key (\<lambda>w. - ve_created_at w)
           (filter (\<lambda>w. ve_template w = te_id (fst v) \<and> (ve_org w = None \<or> ve_org w = Some org)) (ts_versions s))))) (\<lambda>vs.
         retP (TemplateVersions vs)))"

definition promote_row :: "string \<Rightarrow> time \<Rightarrow> version_rec \<Rightarrow> version_rec" where
  "promote_row a t v = v\<lparr>ve_aliases := (if a \<in> set (ve_aliases v) then ve_aliases v else ve_aliases v @ [a]), ve_promoted_at := Some t\<rparr>"

definition promoteTemplate :: "template_config \<Rightarrow> string \<Rightarrow> string \<Rightarrow> string \<Rightarrow> string \<Rightarrow> ('p, template_answer) tsproc" where
  "promoteTemplate cfg org r version a =
     bindP (atomic (resolveTemplate (tc_shipped cfg) r org)) (\<lambda>found.
     case found of
       None \<Rightarrow> retP TemplateNotFound
     | Some v \<Rightarrow>
         if \<not> canMutateTemplate v then retP TemplateNotMutable
         else
           bindP (atomic (getsT (\<lambda>s. list_ex (\<lambda>w. ve_id w = version \<and> ve_template w = te_id (fst v) \<and> ve_status w = ''ready'' \<and>
             (ve_org w = None \<or> ve_org w = Some org)) (ts_versions s)))) (\<lambda>ready.
           if \<not> ready then retP VersionNotFound
           else
             bindP (atomic (bindT (getsT ts_now) (\<lambda>t. upd_versions (\<lambda>w. ve_id w = version) (promote_row a t)))) (\<lambda>_.
             bindP (atomic (bindT (getsT ts_now) (\<lambda>t. upd_templates (\<lambda>q. te_id q = te_id (fst v))
               (\<lambda>q. q\<lparr>te_latest := Some version, te_updated_at := t\<rparr>)))) (\<lambda>_.
             bindP (atomic (recordAudit ''template.promote'' (te_id (fst v)))) (\<lambda>_.
             bindP (atomic (resolveTemplate (tc_shipped cfg) version org)) (\<lambda>p.
             retP (TemplateMade p)))))))"

definition updateTemplateEgress :: "template_config \<Rightarrow> string \<Rightarrow> string \<Rightarrow> policy_input \<Rightarrow> ('p, template_answer) tsproc" where
  "updateTemplateEgress cfg org r policy =
     bindP (atomic (resolveTemplate (tc_shipped cfg) r org)) (\<lambda>found.
     case found of
       None \<Rightarrow> retP TemplateNotFound
     | Some v \<Rightarrow>
         if \<not> canMutateTemplate v then retP TemplateNotMutable
         else
           bindP (atomic (reading ts_db (validateEgressPolicyForOrganization org (Some policy)))) (\<lambda>validation.
           case validation of
             ValidPolicy summary g \<Rightarrow>
               let input = Some (policyInputFromSummary summary) in
               bindP (atomic (bindT (getsT ts_now) (\<lambda>t. upd_templates (\<lambda>q. te_id q = te_id (fst v) \<and> te_org q = Some org)
                 (\<lambda>q. q\<lparr>te_spec := (te_spec q)\<lparr>sp_egress := input\<rparr>, te_updated_at := t\<rparr>)))) (\<lambda>_.
               bindP (case snd v of None \<Rightarrow> retP ()
                 | Some w \<Rightarrow> atomic (upd_versions (\<lambda>q. ve_id q = ve_id w \<and> ve_template q = te_id (fst v) \<and> ve_org q = Some org)
                     (\<lambda>q. q\<lparr>ve_spec := (ve_spec q)\<lparr>sp_egress := input\<rparr>\<rparr>))) (\<lambda>_.
               bindP (atomic (recordAudit ''template.egress.updated'' (te_id (fst v)))) (\<lambda>_.
               bindP (atomic (resolveTemplate (tc_shipped cfg) (te_id (fst v)) org)) (\<lambda>u.
               retP (TemplateMade u)))))
           | refused \<Rightarrow> retP (EgressRefused refused)))"

text \<open>\<open>archiveTemplate\<close>: the UPDATE sets every template of that name, and its first row is the one returned.\<close>

definition archiveTemplate :: "string \<Rightarrow> string \<Rightarrow> string option tstx" where
  "archiveTemplate r org =
     bindT (getsT (\<lambda>s. filter (\<lambda>t. te_org t = Some org \<and> names_template r t) (ts_templates s))) (\<lambda>rows.
     bindT (getsT ts_now) (\<lambda>t.
     bindT (upd_templates (\<lambda>q. te_org q = Some org \<and> names_template r q) (\<lambda>q. q\<lparr>te_status := ''archived'', te_updated_at := t\<rparr>)) (\<lambda>_.
     returnT (map_option te_id (first_row rows)))))"

definition active_build :: "string \<Rightarrow> build_rec \<Rightarrow> bool" where
  "active_build org b \<longleftrightarrow> bu_org b = org \<and> isActiveTemplateBuildStatus (bu_status b)"

definition cancel_row :: "time \<Rightarrow> string \<Rightarrow> build_rec \<Rightarrow> build_rec" where
  "cancel_row t why b = b\<lparr>bu_status := BuildCanceled, bu_completed_at := coalesce (bu_completed_at b) (Some t),
     bu_error := coalesce (bu_error b) (Some why), bu_updated_at := t\<rparr>"

definition archiveTemplateForOrganization :: "string \<Rightarrow> string \<Rightarrow> ('p, template_answer) tsproc" where
  "archiveTemplateForOrganization org r =
     bindP (atomic (archiveTemplate r org)) (\<lambda>archived.
     case archived of
       None \<Rightarrow> retP TemplateNotFound
     | Some i \<Rightarrow>
         bindP (atomic (bindT (getsT ts_now) (\<lambda>t.
           bindT (getsT (\<lambda>s. map bu_id (filter (\<lambda>b. active_build org b \<and> bu_template b = i) (ts_builds s)))) (\<lambda>ids.
           bindT (upd_builds (\<lambda>b. active_build org b \<and> bu_template b = i) (cancel_row t ''canceled by template archive'')) (\<lambda>_.
           returnT ids))))) (\<lambda>ids.
         bindP (atomic (recordAudit ''template.archive'' i)) (\<lambda>_.
         retP (TemplateArchived i ids))))"

section \<open>Services of builds\<close>

datatype build_answer =
    BuildQueuedAs string
  | TooManyBuilds nat nat
  | BuildFound build_rec
  | BuildNotFound
  | ContextStored string
  | ContextNotSupported
  | ContextClosed
  | ContextInvalid string
  | ContextImagePolicy "policy_violation list"

text \<open>\<open>withTemplateBuildSlot\<close>: counting and inserting under the organization's advisory lock, in one transaction.\<close>

definition withTemplateBuildSlot :: "string \<Rightarrow> nat \<Rightarrow> unit tstx \<Rightarrow> (nat option) tstx" where
  "withTemplateBuildSlot org limit insertBuild =
     bindT (getsT (\<lambda>s. count_rows (active_build org) (ts_builds s))) (\<lambda>activeCount.
     if buildConcurrencyLimitExceeded activeCount limit then returnT (Some activeCount)
     else bindT insertBuild (\<lambda>_. returnT None))"

definition insert_build :: "build_rec \<Rightarrow> unit tstx" where
  "insert_build b = bindT (getsT id) (\<lambda>s.
     if list_ex (\<lambda>q. bu_id q = bu_id b) (ts_builds s) then throwT (DbError ''duplicate key value violates unique constraint'')
     else if \<not> list_ex (\<lambda>t. te_id t = bu_template b) (ts_templates s) then throwT (DbError ''insert or update violates foreign key constraint'')
     else modifyT (\<lambda>s. s\<lparr>ts_builds := ts_builds s @ [b]\<rparr>))"

record build_input =
  bn_template :: string
  bn_source :: build_source
  bn_hash :: "string option"
  bn_dockerfile :: "string option"
  bn_image :: "string option"

definition new_build :: "string \<Rightarrow> string \<Rightarrow> build_input \<Rightarrow> time \<Rightarrow> build_rec" where
  "new_build i org input t = \<lparr>bu_id = i, bu_org = org, bu_template = bn_template input, bu_status = BuildQueued, bu_source = bn_source input,
     bu_dockerfile = bn_dockerfile input, bu_hash = bn_hash input, bu_image = bn_image input, bu_digest = None, bu_error = None,
     bu_started_at = None, bu_completed_at = None, bu_created_at = t, bu_updated_at = t\<rparr>"

definition enqueueTemplateBuild :: "template_config \<Rightarrow> string \<Rightarrow> build_input \<Rightarrow> ('p, build_answer) tsproc" where
  "enqueueTemplateBuild cfg org input =
     bindP (atomic (ts_makeId ''bld'')) (\<lambda>i.
     bindP (atomic (bindT (getsT ts_now) (\<lambda>t.
       withTemplateBuildSlot org (tc_active_builds cfg) (insert_build (new_build i org input t))))) (\<lambda>slot.
     retP (case slot of None \<Rightarrow> BuildQueuedAs i | Some n \<Rightarrow> TooManyBuilds (tc_active_builds cfg) n)))"

definition getTemplateBuild :: "string \<Rightarrow> string \<Rightarrow> build_rec option tstx" where
  "getTemplateBuild org i = getsT (\<lambda>s. first_row (filter (\<lambda>b. bu_id b = i \<and> bu_org b = org) (ts_builds s)))"

definition cancel_active :: "time \<Rightarrow> build_rec \<Rightarrow> build_rec" where
  "cancel_active t b = (if isActiveTemplateBuildStatus (bu_status b)
     then b\<lparr>bu_status := BuildCanceled, bu_completed_at := Some t, bu_error := Some ''canceled by user'', bu_updated_at := t\<rparr>
     else b\<lparr>bu_updated_at := t\<rparr>)"

definition cancelTemplateBuild :: "string \<Rightarrow> string \<Rightarrow> ('p, build_answer) tsproc" where
  "cancelTemplateBuild org i =
     bindP (atomic (bindT (getTemplateBuild org i) (\<lambda>found. bindT (getsT ts_now) (\<lambda>t.
       bindT (upd_builds (\<lambda>b. bu_id b = i \<and> bu_org b = org) (cancel_active t)) (\<lambda>_. returnT (found \<noteq> None)))))) (\<lambda>found.
     if \<not> found then retP BuildNotFound
     else
       bindP (atomic (getTemplateBuild org i)) (\<lambda>b.
       retP (case b of None \<Rightarrow> BuildNotFound | Some r \<Rightarrow> BuildFound r)))"

text \<open>Storing an uploaded context; \<open>ON CONFLICT\<close> replaces the one a build had.\<close>

definition storeTemplateBuildContext :: "string \<Rightarrow> build_context \<Rightarrow> unit tstx" where
  "storeTemplateBuildContext i c = bindT (getsT ts_now) (\<lambda>t.
     bindT (modifyT (\<lambda>s. s\<lparr>ts_contexts := filter (\<lambda>p. fst p \<noteq> i) (ts_contexts s) @ [(i, c)]\<rparr>)) (\<lambda>_.
     bindT (upd_builds (\<lambda>b. bu_id b = i) (\<lambda>b. b\<lparr>bu_hash := Some (bc_sha256 c), bu_updated_at := t\<rparr>)) (\<lambda>_.
     appendLog i ''stdout'')))"

text \<open>
  The policy on the images of an uploaded Dockerfile, or None when reading it does not return.
\<close>

definition dockerfile_verdict :: "template_config \<Rightarrow> context_codec \<Rightarrow> build_rec \<Rightarrow> build_context \<Rightarrow> (build_answer option) option" where
  "dockerfile_verdict cfg codec b c =
    (if bu_source b \<noteq> FromDockerfile then Some None
     else case readTextFileFromTarGzipBuildContext codec (bc_archive c) (or_else (bu_dockerfile b) ''Dockerfile'') maxPolicyReadBytes of
       None \<Rightarrow> None
     | Some (Inl e) \<Rightarrow> Some (Some (ContextInvalid e))
     | Some (Inr dockerfile) \<Rightarrow>
         let policy = templateImagePolicyPayload cfg (map (\<lambda>i. (bi_image i, bi_dynamic i)) (dockerfileBaseImages dockerfile)) in
         Some (if policy \<noteq> [] then Some (ContextImagePolicy policy) else None))"

text \<open>None when the transaction does not return: then it holds its row lock for ever.\<close>

definition uploadTemplateBuildContext ::
    "template_config \<Rightarrow> context_codec \<Rightarrow> string \<Rightarrow> string \<Rightarrow> build_context \<Rightarrow> tstore \<Rightarrow> (err + build_answer \<times> tstore) option" where
  "uploadTemplateBuildContext cfg codec org i c s =
    (case first_row (filter (\<lambda>b. bu_id b = i \<and> bu_org b = org) (ts_builds s)) of
       None \<Rightarrow> Some (Inr (BuildNotFound, s))
     | Some b \<Rightarrow>
         if bu_source b = FromImage then Some (Inr (ContextNotSupported, s))
         else if \<not> canUploadTemplateBuildContext (bu_status b) then Some (Inr (ContextClosed, s))
         else (case dockerfile_verdict cfg codec b c of
             None \<Rightarrow> None
           | Some (Some refused) \<Rightarrow> Some (Inr (refused, s))
           | Some None \<Rightarrow> Some (case storeTemplateBuildContext i c s of Inl e \<Rightarrow> Inl e | Inr (u, s') \<Rightarrow> Inr (ContextStored (bc_sha256 c), s'))))"

end
