(* ===== verification/Builder.thy ===== *)
theory Builder
  imports Templates
begin

text \<open>
  The template builder (\<open>template-builder.ts\<close>) and the retention pass (\<open>template-retention.ts\<close>). The
  image builders, the cluster's pods, the scanner and the Kubernetes jobs are outside: a builder
  is a record of calls, each of which may throw. Of the pull of an image the decision on a pod's
  state and the polling loop are modelled.
\<close>

section \<open>Pulling an image\<close>

record pod_state =
  pd_image_id :: "string option"
  pd_running :: bool
  pd_terminated :: "string option option"
  pd_waiting :: "string option"
  pd_phase :: "string option"
  pd_reason :: "string option"

definition runtimePullFailureReasons :: "string list" where
  "runtimePullFailureReasons = [''ErrImagePull'', ''ImagePullBackOff'', ''InvalidImageName'', ''RegistryUnavailable'']"

definition postPullFailureReasons :: "string list" where
  "postPullFailureReasons = [''CreateContainerError'', ''RunContainerError'', ''ContainerCannotRun'', ''CrashLoopBackOff'']"

datatype pull_state = PullOk "string option" | PullFailed string | PullPending "string option"

definition runtimePullPreflightState :: "pod_state \<Rightarrow> pull_state" where
  "runtimePullPreflightState pod =
    (if truthy (pd_image_id pod) \<or> pd_running pod \<or> pd_terminated pod \<noteq> None then
       PullOk (coalesce (Option.bind (pd_terminated pod) id) (coalesce (pd_waiting pod) (pd_phase pod)))
     else if truthy (pd_waiting pod) \<and> the (pd_waiting pod) \<in> set runtimePullFailureReasons then PullFailed (the (pd_waiting pod))
     else if truthy (pd_waiting pod) \<and> the (pd_waiting pod) \<in> set postPullFailureReasons then PullOk (pd_waiting pod)
     else if pd_phase pod = Some ''Failed'' then PullFailed (or_else (coalesce (pd_reason pod) (pd_waiting pod)) ''PodFailed'')
     else PullPending (coalesce (pd_waiting pod) (pd_phase pod)))"

text \<open>
  The pods of the cluster: the process's clock, and calls that may throw. Deleting a pod first and
  last ignores its errors. The polling loop is given the number of looks it may take.
\<close>

record 'p pods_api =
  po_clock :: "'p \<Rightarrow> time"
  po_delete :: "string \<Rightarrow> 'p \<Rightarrow> (string + unit) \<times> 'p"
  po_create :: "string \<Rightarrow> string \<Rightarrow> string option \<Rightarrow> 'p \<Rightarrow> (string + unit) \<times> 'p"
  po_read :: "string \<Rightarrow> 'p \<Rightarrow> (string + pod_state) \<times> 'p"
  po_sleep :: "int \<Rightarrow> 'p \<Rightarrow> 'p"

definition clockP :: "'p pods_api \<Rightarrow> ('s, 'p, time) gproc" where
  "clockP api = callP (\<lambda>p. (Inr (po_clock api p), p))"

definition pauseP :: "'p pods_api \<Rightarrow> int \<Rightarrow> ('s, 'p, unit) gproc" where
  "pauseP api ms = callP (\<lambda>p. (Inr (), po_sleep api ms p))"

definition ignoreP :: "('s, 'p, unit) gproc \<Rightarrow> ('s, 'p, unit) gproc" where
  "ignoreP m = tryP m (\<lambda>e. retP ())"

text \<open>\<open>finally\<close>, whose part throws nothing here.\<close>

definition finallyP :: "('s, 'p, 'a) gproc \<Rightarrow> ('s, 'p, unit) gproc \<Rightarrow> ('s, 'p, 'a) gproc" where
  "finallyP m f = bindP (tryP (bindP m (\<lambda>a. retP (Inr a))) (\<lambda>e. retP (Inl e))) (\<lambda>r.
     bindP f (\<lambda>_. case r of Inl e \<Rightarrow> throwP e | Inr a \<Rightarrow> retP a))"

fun watch_pull :: "nat \<Rightarrow> 'p pods_api \<Rightarrow> string \<Rightarrow> time \<Rightarrow> int \<Rightarrow> ('s, 'p, string option option) gproc" where
  "watch_pull 0 api pod started timeoutMs = retP None"
| "watch_pull (Suc looks) api pod started timeoutMs =
     bindP (clockP api) (\<lambda>t.
     if t - started < timeoutMs then
       bindP (callP (po_read api pod)) (\<lambda>state.
       case runtimePullPreflightState state of
         PullOk reason \<Rightarrow> retP (Some reason)
       | PullFailed reason \<Rightarrow> throwP (PlainError (''runtime image pull failed: '' @ reason))
       | PullPending reason \<Rightarrow> bindP (pauseP api 1000) (\<lambda>_. watch_pull looks api pod started timeoutMs))
     else throwP (PlainError ''runtime image pull timed out''))"

text \<open>The loop ends: a sleep moves the clock by at least its length, and a read never turns it back.\<close>

lemma watch_pull_ends:
  assumes sleep: "\<And>p. po_clock api p + 1000 \<le> po_clock api (po_sleep api 1000 p)"
    and read: "\<And>p. po_clock api p \<le> po_clock api (snd (po_read api pod p))"
    and looks: "started + timeoutMs \<le> po_clock api (prv w) + 1000 * (int looks - 1)" "0 < looks"
  shows "fst (watch_pull looks api pod started timeoutMs w) \<noteq> Inr None"
  using looks
proof (induction looks arbitrary: w)
  case (Suc n)
  show ?case
  proof (cases "po_clock api (prv w) - started < timeoutMs")
    case True
    obtain r p where rp: "po_read api pod (prv w) = (r, p)" by (cases "po_read api pod (prv w)")
    show ?thesis
    proof (cases r)
      case (Inr state)
      from True Suc.prems have n: "0 < n" by (cases n) auto
      have "po_clock api (prv w) + 1000 \<le> po_clock api (po_sleep api 1000 p)"
        using read [of "prv w"] sleep [of p] by (simp add: rp)
      with Suc.prems have "started + timeoutMs \<le> po_clock api (po_sleep api 1000 p) + 1000 * (int n - 1)" by simp
      with True n Suc.IH [of "w\<lparr>prv := po_sleep api 1000 p\<rparr>"] rp Inr show ?thesis
        by (simp add: bindP_def clockP_def pauseP_def callP_def Let_def retP_def throwP_def split: pull_state.split)
    qed (use True rp in \<open>simp add: bindP_def clockP_def callP_def Let_def\<close>)
  qed (simp add: bindP_def clockP_def callP_def throwP_def Let_def)
qed simp

section \<open>Which templates are warmed\<close>

definition normalizeTag :: "string \<Rightarrow> string" where "normalizeTag v = to_lower (trim v)"

definition metadataFlagEnabled :: "js \<Rightarrow> bool" where
  "metadataFlagEnabled v = (case v of JBool b \<Rightarrow> b | JNum n \<Rightarrow> n = 1
     | JStr s \<Rightarrow> to_lower (trim s) \<in> set [''1'', ''true'', ''yes'', ''on''] | _ \<Rightarrow> False)"

definition templateShouldPrepull :: "string list \<Rightarrow> obj \<Rightarrow> string list \<Rightarrow> bool" where
  "templateShouldPrepull tags metadata hotTags =
    (let known = filter (\<lambda>t. t \<noteq> []) (map normalizeTag tags) in
     list_ex (\<lambda>t. t \<in> set known) (map normalizeTag hotTags) \<or>
     list_ex (\<lambda>k. metadataFlagEnabled (field metadata k)) [''prepull'', ''imagePrepull'', ''warm'', ''hot'', ''warmPool''])"

record node_state =
  nd_name :: "string option"
  nd_unschedulable :: bool
  nd_ready :: "string option"

definition nodeReady :: "node_state \<Rightarrow> bool" where
  "nodeReady n \<longleftrightarrow> \<not> nd_unschedulable n \<and> (case nd_ready n of None \<Rightarrow> True | Some s \<Rightarrow> s = ''True'')"

definition prepullableNodeNames :: "node_state list \<Rightarrow> string list" where
  "prepullableNodeNames nodes = List.map_filter (\<lambda>n. if truthy (nd_name n) then nd_name n else None) (filter nodeReady nodes)"

definition safeName :: "string \<Rightarrow> string" where
  "safeName v =
    (let s = take 54 (strip_char (CHR ''-'') (collapse_others (\<lambda>c. alnum c \<or> c = CHR ''.'' \<or> c = CHR ''-'') (CHR ''-'') False (to_lower v))) in
     if s = [] then ''template'' else s)"

definition preflightPodNameFor :: "string \<Rightarrow> string" where
  "preflightPodNameFor build = ''hkpull-'' @ safeName build"

definition prepullPodNameFor :: "string \<Rightarrow> string \<Rightarrow> nat \<Rightarrow> string" where
  "prepullPodNameFor build node index =
     rev (dropWhile (\<lambda>c. c = CHR ''-'') (rev (take 63
       (''hkprep-'' @ take 26 (safeName build) @ ''-'' @ nat_str index @ ''-'' @ take 20 (safeName node)))))"

record pull_config =
  pc_preflight :: bool
  pc_preflight_timeout :: int
  pc_prepull :: bool
  pc_hot_tags :: "string list"
  pc_prepull_timeout :: int
  pc_prepull_strict :: bool

text \<open>Of a pull only its status is kept: pods, nodes, image identities and durations are not.\<close>

definition preflightTemplateImagePull ::
    "nat \<Rightarrow> pull_config \<Rightarrow> 'p pods_api \<Rightarrow> string \<Rightarrow> string \<Rightarrow> string option \<Rightarrow> ('s, 'p, string option) gproc" where
  "preflightTemplateImagePull looks cfg api build uri secret =
    (if \<not> pc_preflight cfg then retP (Some ''skipped'')
     else
       bindP (clockP api) (\<lambda>started. let pod = preflightPodNameFor build in
       bindP (ignoreP (callP (po_delete api pod))) (\<lambda>_.
       bindP (callP (po_create api pod uri secret)) (\<lambda>_.
       finallyP (bindP (watch_pull looks api pod started (pc_preflight_timeout cfg)) (\<lambda>r. retP (map_option (\<lambda>_. ''ok'') r)))
         (ignoreP (callP (po_delete api pod)))))))"

definition normalizeScanStatus :: "js \<Rightarrow> string" where
  "normalizeScanStatus v = (case v of
     JStr raw \<Rightarrow>
       let s = take 64 (strip_char (CHR ''_'') (collapse_others (\<lambda>c. alnum c \<or> c = CHR ''_'' \<or> c = CHR ''-'') (CHR ''_'') False (to_lower (trim raw)))) in
       if s = [] then ''scanned'' else s
   | _ \<Rightarrow> ''scanned'')"

section \<open>One build\<close>

text \<open>
  What a builder is asked for: the image of the build or of its template, or the uploaded context
  and the path of the Dockerfile in it.
\<close>

datatype built_from = ImageSource string | DockerfileSource string string

definition ready_source :: "build_rec \<Rightarrow> template_rec \<Rightarrow> string option \<Rightarrow> built_from" where
  "ready_source b t sha = (case bu_source b of
     FromImage \<Rightarrow> ImageSource (or_else (bu_image b) (sp_image (te_spec t)))
   | FromDockerfile \<Rightarrow> DockerfileSource (or_else sha []) (or_else (bu_dockerfile b) ''Dockerfile''))"

record 'p image_builder =
  ib_build :: "build_rec \<Rightarrow> built_from \<Rightarrow> 'p \<Rightarrow> (string + (string \<times> string)) \<times> 'p"
  ib_preflight :: "build_rec \<Rightarrow> string \<Rightarrow> registry_credential option \<Rightarrow> 'p \<Rightarrow> (string + unit) \<times> 'p"
  ib_prepull :: "build_rec \<Rightarrow> string \<Rightarrow> string list \<Rightarrow> registry_credential option \<Rightarrow> 'p \<Rightarrow> (string + bool) \<times> 'p"
  ib_scanner :: "(build_rec \<Rightarrow> string \<Rightarrow> string \<Rightarrow> 'p \<Rightarrow> (string + bool \<times> js) \<times> 'p) option"
  ib_scan_strict :: bool

text \<open>
  The scan by a webhook, when one is configured: the call answers whether the response was ok and
  the status in its body, or throws (the request, its timeout, or the parsing of the body).
\<close>

definition scanTemplateImage :: "'p image_builder \<Rightarrow> build_rec \<Rightarrow> string \<Rightarrow> string \<Rightarrow> ('p, string) tsproc" where
  "scanTemplateImage ib b uri digest = (case ib_scanner ib of
     None \<Rightarrow> retP ''not_scanned''
   | Some webhook \<Rightarrow>
       tryP
         (bindP (callP (webhook b uri digest)) (\<lambda>(ok, status).
          if ok then retP (normalizeScanStatus status)
          else if ib_scan_strict ib then throwP (PlainError ''template scanner returned an error status'')
          else retP ''scan_failed''))
         (\<lambda>e. if ib_scan_strict ib then throwP (PlainError (''template scanner failed: '' @ err_message e)) else retP ''scan_failed''))"

definition claimable :: "tstore \<Rightarrow> build_source \<Rightarrow> build_rec \<Rightarrow> bool" where
  "claimable s src b \<longleftrightarrow> bu_status b = BuildQueued \<and> bu_source b = src \<and> list_ex (\<lambda>t. te_id t = bu_template b) (ts_templates s) \<and>
     (src \<noteq> FromDockerfile \<or> list_ex (\<lambda>c. fst c = bu_id b) (ts_contexts s))"

text \<open>The build with the columns of its template the row is joined with.\<close>

definition template_of :: "tstore \<Rightarrow> build_rec \<Rightarrow> template_rec option" where
  "template_of s b = first_row (filter (\<lambda>t. te_id t = bu_template b) (ts_templates s))"

definition context_of :: "tstore \<Rightarrow> build_rec \<Rightarrow> string option" where
  "context_of s b = map_option (\<lambda>c. bc_sha256 (snd c)) (first_row (filter (\<lambda>c. fst c = bu_id b) (ts_contexts s)))"

definition claimBuild :: "build_source \<Rightarrow> (build_rec \<times> template_rec option \<times> string option) option tstx" where
  "claimBuild src =
     bindT (getsT (\<lambda>s. map_option (\<lambda>b. (b, template_of s b, context_of s b)) (first_row (sort_key bu_created_at (filter (claimable s src) (ts_builds s)))))) (\<lambda>found.
     case found of
       None \<Rightarrow> returnT None
     | Some (b, t, c) \<Rightarrow>
         bindT (getsT ts_now) (\<lambda>n.
         bindT (upd_builds (\<lambda>q. bu_id q = bu_id b) (\<lambda>q. q\<lparr>bu_status := BuildBuilding, bu_started_at := coalesce (bu_started_at q) (Some n), bu_updated_at := n\<rparr>)) (\<lambda>_.
         bindT (appendLog (bu_id b) ''stdout'') (\<lambda>_. returnT found))))"

definition next_number :: "tstore \<Rightarrow> string \<Rightarrow> nat" where
  "next_number s template = foldr (\<lambda>v n. if ve_template v = template then max (ve_number v) n else n) (ts_versions s) 0 + 1"

definition insert_version :: "version_rec \<Rightarrow> unit tstx" where
  "insert_version v = bindT (getsT id) (\<lambda>s.
     if list_ex (\<lambda>q. ve_id q = ve_id v \<or> (ve_template q = ve_template v \<and> ve_number q = ve_number v)) (ts_versions s)
     then throwT (DbError ''duplicate key value violates unique constraint'')
     else if \<not> list_ex (\<lambda>t. te_id t = ve_template v) (ts_templates s) \<or>
       (case ve_build v of None \<Rightarrow> False | Some i \<Rightarrow> \<not> list_ex (\<lambda>b. bu_id b = i) (ts_builds s))
     then throwT (DbError ''insert or update violates foreign key constraint'')
     else modifyT (\<lambda>s. s\<lparr>ts_versions := ts_versions s @ [v]\<rparr>))"

definition new_version :: "build_rec \<Rightarrow> template_rec \<Rightarrow> string \<Rightarrow> nat \<Rightarrow> string \<Rightarrow> string \<Rightarrow> string \<Rightarrow> time \<Rightarrow> version_rec" where
  "new_version b t i n uri digest scan at = \<lparr>ve_id = i, ve_template = bu_template b, ve_org = Some (bu_org b), ve_build = Some (bu_id b),
     ve_number = n, ve_aliases = [''latest''], ve_status = ''ready'',
     ve_spec = (te_spec t)\<lparr>sp_image := uri, sp_digest := Some digest\<rparr>, ve_scan = scan, ve_created_at = at, ve_promoted_at = Some at\<rparr>"

definition set_latest :: "string \<Rightarrow> string \<Rightarrow> string \<Rightarrow> time \<Rightarrow> template_rec \<Rightarrow> template_rec" where
  "set_latest i uri digest at t = (if te_status t = ''archived'' then t\<lparr>te_updated_at := at\<rparr>
     else t\<lparr>te_latest := Some i, te_spec := (te_spec t)\<lparr>sp_image := uri, sp_digest := Some digest\<rparr>, te_status := ''ready'', te_updated_at := at\<rparr>)"

text \<open>
  The result of a build is published in one transaction, unless the build was canceled meanwhile.
  The columns of the template are those read when the build was claimed.
\<close>

definition publish :: "build_rec \<Rightarrow> template_rec \<Rightarrow> string \<Rightarrow> string \<Rightarrow> string \<Rightarrow> string option tstx" where
  "publish b t uri digest scan =
     bindT (getsT (\<lambda>s. first_row (filter (\<lambda>q. bu_id q = bu_id b \<and> list_ex (\<lambda>t. te_id t = bu_template q) (ts_templates s)) (ts_builds s)))) (\<lambda>current.
     if map_option bu_status current = Some BuildCanceled then bindT (appendLog (bu_id b) ''stdout'') (\<lambda>_. returnT None)
     else
       bindT (getsT (\<lambda>s. next_number s (bu_template b))) (\<lambda>n.
       bindT (ts_makeId ''tplv'') (\<lambda>i.
       bindT (getsT ts_now) (\<lambda>at.
       bindT (insert_version (new_version b t i n uri digest scan at)) (\<lambda>_.
       bindT (upd_templates (\<lambda>q. te_id q = bu_template b) (set_latest i uri digest at)) (\<lambda>_.
       bindT (upd_builds (\<lambda>q. bu_id q = bu_id b) (\<lambda>q. q\<lparr>bu_status := BuildSuccess, bu_image := Some uri, bu_digest := Some digest,
         bu_completed_at := Some at, bu_updated_at := at\<rparr>)) (\<lambda>_.
       bindT (appendLog (bu_id b) ''stdout'') (\<lambda>_.
       bindT (recordAudit ''template.build.success'' (bu_id b)) (\<lambda>_.
       returnT (Some i))))))))))"

definition completeBuild :: "'p image_builder \<Rightarrow> build_rec \<Rightarrow> template_rec \<Rightarrow> string \<Rightarrow> string \<Rightarrow> ('p, string option) tsproc" where
  "completeBuild ib b t uri digest =
     bindP (atomic (appendLog (bu_id b) ''stdout'')) (\<lambda>_.
     bindP (atomic (getsT (\<lambda>s. registryCredentialForImage (ts_credentials s) (bu_org b) uri True))) (\<lambda>credential.
     bindP (callP (ib_preflight ib b uri credential)) (\<lambda>_.
     bindP (callP (ib_prepull ib b uri (te_tags t) credential)) (\<lambda>failed.
     bindP (atomic (appendLog (bu_id b) ''stdout'')) (\<lambda>_.
     bindP (atomic (appendLog (bu_id b) (if failed then ''stderr'' else ''stdout''))) (\<lambda>_.
     bindP (scanTemplateImage ib b uri digest) (\<lambda>scan.
     atomic (publish b t uri digest scan))))))))"

definition failBuild :: "build_rec \<Rightarrow> string \<Rightarrow> unit tstx" where
  "failBuild b message =
     bindT (getsT (\<lambda>s. list_ex (\<lambda>q. bu_id q = bu_id b \<and> bu_status q \<noteq> BuildCanceled) (ts_builds s))) (\<lambda>failed.
     bindT (getsT ts_now) (\<lambda>t.
     bindT (upd_builds (\<lambda>q. bu_id q = bu_id b \<and> bu_status q \<noteq> BuildCanceled)
       (\<lambda>q. q\<lparr>bu_status := BuildFailed, bu_error := Some message, bu_completed_at := Some t, bu_updated_at := t\<rparr>)) (\<lambda>_.
     bindT (appendLog (bu_id b) ''stderr'') (\<lambda>_.
     whenT failed (recordAudit ''template.build.failed'' (bu_id b))))))"

definition processBuild :: "'p image_builder \<Rightarrow> build_source \<Rightarrow> ('p, string option option) tsproc" where
  "processBuild ib src =
     bindP (atomic (claimBuild src)) (\<lambda>found.
     case found of
       None \<Rightarrow> retP None
     | Some (b, None, c) \<Rightarrow> retP None
     | Some (b, Some t, c) \<Rightarrow>
         tryP
           (bindP (callP (ib_build ib b (ready_source b t c))) (\<lambda>(uri, digest).
            bindP (completeBuild ib b t uri digest) (\<lambda>r. retP (Some r))))
           (\<lambda>e. bindP (atomic (failBuild b (err_message e))) (\<lambda>_. retP None)))"

definition processNextTemplateBuild :: "'p image_builder \<Rightarrow> ('p, string option option) tsproc" where
  "processNextTemplateBuild ib = bindP (processBuild ib FromImage) (\<lambda>r. case r of Some x \<Rightarrow> retP (Some x) | None \<Rightarrow> processBuild ib FromDockerfile)"

section \<open>Retention\<close>

record retention_policy =
  tr_enabled :: bool
  tr_job_days :: int
  tr_delete_jobs :: bool
  tr_build_days :: int
  tr_log_days :: int
  tr_context_days :: int
  tr_version_days :: int

record retention_report =
  rr_logs :: nat
  rr_contexts :: nat
  rr_builds :: nat
  rr_versions :: nat
  rr_jobs :: nat

definition days_before :: "time \<Rightarrow> int \<Rightarrow> time" where
  "days_before t days = t - days * 86400000"

definition terminal_build :: "build_rec \<Rightarrow> bool" where
  "terminal_build b \<longleftrightarrow> bu_status b \<in> set terminalTemplateBuildStatuses"

definition completed_before :: "time \<Rightarrow> build_rec \<Rightarrow> bool" where
  "completed_before t b \<longleftrightarrow> terminal_build b \<and> (case bu_completed_at b of None \<Rightarrow> False | Some c \<Rightarrow> c < t)"

definition ended_builds :: "time \<Rightarrow> string list tstx" where
  "ended_builds t = getsT (\<lambda>s. map bu_id (filter (completed_before t) (ts_builds s)))"

definition delete_log :: "string \<Rightarrow> nat tstx" where
  "delete_log i = bindT (getsT (\<lambda>s. count_rows (\<lambda>l. fst l = i) (ts_logs s))) (\<lambda>n.
     bindT (modifyT (\<lambda>s. s\<lparr>ts_logs := filter (\<lambda>l. fst l \<noteq> i) (ts_logs s)\<rparr>)) (\<lambda>_. returnT n))"

definition delete_context :: "string \<Rightarrow> nat tstx" where
  "delete_context i = bindT (getsT (\<lambda>s. count_rows (\<lambda>c. fst c = i) (ts_contexts s))) (\<lambda>n.
     bindT (modifyT (\<lambda>s. s\<lparr>ts_contexts := filter (\<lambda>c. fst c \<noteq> i) (ts_contexts s)\<rparr>)) (\<lambda>_. returnT n))"

text \<open>One statement per build, and the sum of what they deleted.\<close>

fun each_deleted :: "(string \<Rightarrow> nat tstx) \<Rightarrow> string list \<Rightarrow> ('p, nat) tsproc" where
  "each_deleted remove [] = retP 0"
| "each_deleted remove (i # is) = bindP (atomic (remove i)) (\<lambda>n. bindP (each_deleted remove is) (\<lambda>m. retP (n + m)))"

text \<open>Deleting a build deletes its logs and its context with it (ON DELETE CASCADE).\<close>

definition old_build :: "tstore \<Rightarrow> time \<Rightarrow> build_rec \<Rightarrow> bool" where
  "old_build s t b \<longleftrightarrow> terminal_build b \<and> (case bu_completed_at b of Some c \<Rightarrow> c | None \<Rightarrow> bu_updated_at b) < t \<and>
     \<not> list_ex (\<lambda>v. ve_build v = Some (bu_id b)) (ts_versions s)"

definition delete_builds :: "time \<Rightarrow> nat tstx" where
  "delete_builds t = bindT (getsT (\<lambda>s. filter (old_build s t) (ts_builds s))) (\<lambda>rows.
     let gone = map bu_id rows in
     bindT (modifyT (\<lambda>s. s\<lparr>ts_builds := filter (\<lambda>b. \<not> old_build s t b) (ts_builds s),
       ts_logs := filter (\<lambda>l. fst l \<notin> set gone) (ts_logs s), ts_contexts := filter (\<lambda>c. fst c \<notin> set gone) (ts_contexts s)\<rparr>)) (\<lambda>_.
     returnT (length rows)))"

definition in_use :: "tstore \<Rightarrow> string \<Rightarrow> bool" where
  "in_use s i = list_ex (\<lambda>b. s_template_version b = Some i \<and> (s_status b = SPending \<or> s_status b = SRunning \<or> s_status b = SIdle)) (sandboxes (ts_db s))"

definition retirable :: "tstore \<Rightarrow> time \<Rightarrow> version_rec \<Rightarrow> bool" where
  "retirable s t v \<longleftrightarrow> ve_status v = ''ready'' \<and> ve_created_at v < t \<and>
     list_ex (\<lambda>q. te_id q = ve_template v \<and> te_latest q \<noteq> Some (ve_id v)) (ts_templates s) \<and>
     \<not> (''latest'' \<in> set (ve_aliases v) \<or> ''stable'' \<in> set (ve_aliases v)) \<and> \<not> in_use s (ve_id v)"

definition retire_row :: "version_rec \<Rightarrow> version_rec" where
  "retire_row v = v\<lparr>ve_status := ''retired'', ve_promoted_at := None\<rparr>"

definition retire_versions :: "time \<Rightarrow> version_rec list tstx" where
  "retire_versions t = bindT (getsT (\<lambda>s. filter (retirable s t) (ts_versions s))) (\<lambda>rows.
     bindT (modifyT (\<lambda>s. s\<lparr>ts_versions := update_rows (retirable s t) retire_row (ts_versions s)\<rparr>)) (\<lambda>_. returnT rows))"

fun audit_retired :: "version_rec list \<Rightarrow> ('p, unit) tsproc" where
  "audit_retired [] = retP ()"
| "audit_retired (v # vs) =
     bindP (if ve_org v = None then retP () else atomic (recordAudit ''template.version.retired'' (ve_id v))) (\<lambda>_. audit_retired vs)"

definition enabledDays :: "int \<Rightarrow> bool" where "enabledDays days \<longleftrightarrow> 0 < days"

section \<open>Kubernetes jobs\<close>

record job_state =
  jb_name :: "string option"
  jb_completed :: "time option"
  jb_conditions :: "(string \<times> time option) list"

definition jobFinishedAt :: "job_state \<Rightarrow> time option" where
  "jobFinishedAt j = coalesce (jb_completed j)
     (Option.bind (first_row (filter (\<lambda>c. fst c = ''Complete'' \<or> fst c = ''Failed'') (jb_conditions j))) snd)"

definition shouldDeleteTemplateBuilderJob :: "job_state \<Rightarrow> time \<Rightarrow> bool" where
  "shouldDeleteTemplateBuilderJob j cutoff \<longleftrightarrow> truthy (jb_name j) \<and> (case jobFinishedAt j of None \<Rightarrow> False | Some t \<Rightarrow> t < cutoff)"

record 'p jobs_api =
  jo_list :: "'p \<Rightarrow> (string + job_state list) \<times> 'p"
  jo_delete :: "string \<Rightarrow> 'p \<Rightarrow> (string + unit) \<times> 'p"

fun delete_jobs :: "'p jobs_api \<Rightarrow> time \<Rightarrow> job_state list \<Rightarrow> ('s, 'p, nat) gproc" where
  "delete_jobs api cutoff [] = retP 0"
| "delete_jobs api cutoff (j # js) =
     (if shouldDeleteTemplateBuilderJob j cutoff then
        bindP (callP (jo_delete api (the (jb_name j)))) (\<lambda>_. bindP (delete_jobs api cutoff js) (\<lambda>n. retP (Suc n)))
      else delete_jobs api cutoff js)"

definition cleanupTemplateBuilderJobs :: "'p jobs_api \<Rightarrow> retention_policy \<Rightarrow> time \<Rightarrow> ('s, 'p, nat) gproc" where
  "cleanupTemplateBuilderJobs api policy t =
    (if \<not> tr_delete_jobs policy \<or> \<not> enabledDays (tr_job_days policy) then retP 0
     else bindP (callP (jo_list api)) (delete_jobs api (days_before t (tr_job_days policy))))"

section \<open>The retention pass\<close>

definition cleanup_part :: "time \<Rightarrow> int \<Rightarrow> (time \<Rightarrow> ('p, nat) tsproc) \<Rightarrow> ('p, nat) tsproc" where
  "cleanup_part t days m = (if enabledDays days then m (days_before t days) else retP 0)"

definition cleanupTemplateRetention :: "'p jobs_api \<Rightarrow> retention_policy \<Rightarrow> time \<Rightarrow> ('p, retention_report) tsproc" where
  "cleanupTemplateRetention api policy t =
    (if \<not> tr_enabled policy then retP \<lparr>rr_logs = 0, rr_contexts = 0, rr_builds = 0, rr_versions = 0, rr_jobs = 0\<rparr>
     else
       bindP (cleanup_part t (tr_log_days policy) (\<lambda>d. bindP (atomic (ended_builds d)) (each_deleted delete_log))) (\<lambda>logs.
       bindP (cleanup_part t (tr_context_days policy) (\<lambda>d. bindP (atomic (ended_builds d)) (each_deleted delete_context))) (\<lambda>contexts.
       bindP (cleanup_part t (tr_build_days policy) (\<lambda>d. atomic (delete_builds d))) (\<lambda>builds.
       bindP (cleanup_part t (tr_version_days policy) (\<lambda>d.
         bindP (atomic (retire_versions d)) (\<lambda>rows. bindP (audit_retired rows) (\<lambda>_. retP (length rows))))) (\<lambda>versions.
       bindP (cleanupTemplateBuilderJobs api policy t) (\<lambda>jobs.
       retP \<lparr>rr_logs = logs, rr_contexts = contexts, rr_builds = builds, rr_versions = versions, rr_jobs = jobs\<rparr>))))))"

end
