(* ===== verification/TemplateSteps.thy ===== *)
theory TemplateSteps
  imports Builder
begin

text \<open>
  What any service of templates may do to the tables, one step at a time, in any interleaving; the
  invariants of these steps; and that every service keeps to them.
\<close>

section \<open>Transactions as steps\<close>

definition tx_steps :: "('s \<Rightarrow> 's \<Rightarrow> bool) \<Rightarrow> ('s, 'e, 'a) tx \<Rightarrow> bool" where
  "tx_steps R m \<longleftrightarrow> (\<forall>s a s'. m s = Inr (a, s') \<longrightarrow> R\<^sup>*\<^sup>* s s')"

named_theorems tx_steps_intro \<open>transactions made of steps\<close>

lemma tx_stepsD: "tx_steps R m \<Longrightarrow> m s = Inr (a, s') \<Longrightarrow> R\<^sup>*\<^sup>* s s'"
  by (auto simp: tx_steps_def)

lemma tx_steps_return [tx_steps_intro]: "tx_steps R (returnT a)"
  and tx_steps_throw [tx_steps_intro]: "tx_steps R (throwT e)"
  and tx_steps_gets [tx_steps_intro]: "tx_steps R (getsT f)"
  by (auto simp: tx_steps_def tx_defs)

lemma tx_steps_reading [tx_steps_intro]: "tx_steps R (reading get m)"
  by (auto simp: tx_steps_def dest: reading_Inr)

lemma tx_steps_bind [tx_steps_intro]:
  assumes "tx_steps R m" and "\<And>a. tx_steps R (f a)"
  shows "tx_steps R (bindT m f)"
  using assms unfolding tx_steps_def bindT_Inr_iff by (meson rtranclp_trans)

lemma tx_steps_if [tx_steps_intro]: "(b \<Longrightarrow> tx_steps R m) \<Longrightarrow> (\<not> b \<Longrightarrow> tx_steps R n) \<Longrightarrow> tx_steps R (if b then m else n)"
  by simp

lemma tx_steps_when [tx_steps_intro]: "tx_steps R m \<Longrightarrow> tx_steps R (whenT b m)"
  by (simp add: whenT_def tx_steps_return)

lemma tx_steps_let [tx_steps_intro]: "(\<And>x. x = e \<Longrightarrow> tx_steps R (f x)) \<Longrightarrow> tx_steps R (let x = e in f x)"
  by (simp add: Let_def)

lemma tx_steps_option [tx_steps_intro]:
  "(x = None \<Longrightarrow> tx_steps R m) \<Longrightarrow> (\<And>a. x = Some a \<Longrightarrow> tx_steps R (f a)) \<Longrightarrow> tx_steps R (case x of None \<Rightarrow> m | Some a \<Rightarrow> f a)"
  by (cases x) auto

lemma tx_steps_prod [tx_steps_intro]: "(\<And>a b. x = (a, b) \<Longrightarrow> tx_steps R (f a b)) \<Longrightarrow> tx_steps R (case x of (a, b) \<Rightarrow> f a b)"
  by (cases x) auto

lemma tx_steps_modify: "(\<And>s. R s (f s)) \<Longrightarrow> tx_steps R (modifyT f)"
  by (auto simp: tx_steps_def tx_defs)

lemma follows_tx: "tx_steps R m \<Longrightarrow> follows R (atomic m)"
  by (rule follows_atomic) (auto simp: tx_steps_def)

section \<open>The steps\<close>

definition version_of_template :: "tstore \<Rightarrow> string \<Rightarrow> string \<Rightarrow> bool" where
  "version_of_template s i template \<longleftrightarrow> (\<exists>v \<in> set (ts_versions s). ve_id v = i \<and> ve_template v = template)"

text \<open>What a change of a version may do: it never takes an alias away, and leaves a version alone that is called latest.\<close>

definition version_kept :: "version_rec \<Rightarrow> version_rec \<Rightarrow> bool" where
  "version_kept v w \<longleftrightarrow> ve_id w = ve_id v \<and> ve_template w = ve_template v \<and> ve_build w = ve_build v \<and> ve_number w = ve_number v \<and>
     set (ve_aliases v) \<subseteq> set (ve_aliases w) \<and> (''latest'' \<in> set (ve_aliases v) \<longrightarrow> ve_status w = ve_status v)"

text \<open>The moves of a build that is not being published: a canceled one stays canceled.\<close>

definition build_move :: "build_status \<Rightarrow> build_status \<Rightarrow> bool" where
  "build_move x y \<longleftrightarrow> y = x \<or> (x = BuildQueued \<and> y = BuildBuilding) \<or> (isActiveTemplateBuildStatus x \<and> y = BuildCanceled) \<or>
     (x \<noteq> BuildCanceled \<and> y = BuildFailed)"

definition same_build :: "build_rec \<Rightarrow> build_rec \<Rightarrow> bool" where
  "same_build b c \<longleftrightarrow> bu_id c = bu_id b \<and> bu_org c = bu_org b \<and> bu_template c = bu_template b"

inductive tp_step :: "nat \<Rightarrow> tstore \<Rightarrow> tstore \<Rightarrow> bool" for L :: nat where
  elsewhere: "tp_step L s (s\<lparr>ts_db := d, ts_logs := l, ts_audits := a, ts_contexts := c, ts_credentials := k\<rparr>)"
| template_added: "te_latest t = None \<Longrightarrow> tp_step L s (s\<lparr>ts_templates := ts_templates s @ [t]\<rparr>)"
| templates_changed: "(\<And>t. P t \<Longrightarrow> te_id (f t) = te_id t \<and>
      (te_latest (f t) = te_latest t \<or> (te_latest (f t) = Some i \<and> version_of_template s i (te_id t)))) \<Longrightarrow>
    tp_step L s (s\<lparr>ts_templates := update_rows P f (ts_templates s)\<rparr>)"
| versions_changed: "(\<And>v. P v \<Longrightarrow> version_kept v (f v)) \<Longrightarrow> tp_step L s (s\<lparr>ts_versions := update_rows P f (ts_versions s)\<rparr>)"
| build_added: "bu_status b = BuildQueued \<Longrightarrow> \<exists>t \<in> set (ts_templates s). te_id t = bu_template b \<Longrightarrow> \<forall>q \<in> set (ts_builds s). bu_id q \<noteq> bu_id b \<Longrightarrow> count_rows (active_build (bu_org b)) (ts_builds s) < L \<Longrightarrow>
    tp_step L s (s\<lparr>ts_builds := ts_builds s @ [b]\<rparr>)"
| builds_changed: "(\<And>b. b \<in> set (ts_builds s) \<Longrightarrow> P b \<Longrightarrow> same_build b (f b) \<and> build_move (bu_status b) (bu_status (f b))) \<Longrightarrow>
    tp_step L s (s\<lparr>ts_builds := update_rows P f (ts_builds s)\<rparr>)"
| build_published: "ve_build v = Some i \<Longrightarrow> ve_status v = ''ready'' \<Longrightarrow> ''latest'' \<in> set (ve_aliases v) \<Longrightarrow>
    \<forall>q \<in> set (ts_versions s). ve_id q \<noteq> ve_id v \<and> (ve_template q, ve_number q) \<noteq> (ve_template v, ve_number v) \<Longrightarrow>
    \<exists>b \<in> set (ts_builds s). bu_id b = i \<and> bu_status b \<noteq> BuildCanceled \<Longrightarrow>
    (\<And>b. same_build b (f b) \<and> bu_status (f b) = BuildSuccess) \<Longrightarrow>
    tp_step L s (s\<lparr>ts_versions := ts_versions s @ [v], ts_builds := update_rows (\<lambda>b. bu_id b = i) f (ts_builds s)\<rparr>)"
| builds_deleted: "(\<And>b. b \<in> set (ts_builds s) \<Longrightarrow> \<not> P b \<Longrightarrow> terminal_build b \<and> (\<forall>v \<in> set (ts_versions s). ve_build v \<noteq> Some (bu_id b))) \<Longrightarrow>
    tp_step L s (s\<lparr>ts_builds := filter P (ts_builds s)\<rparr>)"

section \<open>Invariants\<close>

definition builds_distinct :: "tstore \<Rightarrow> bool" where
  "builds_distinct s \<longleftrightarrow> distinct (map bu_id (ts_builds s))"

definition versions_distinct :: "tstore \<Rightarrow> bool" where
  "versions_distinct s \<longleftrightarrow> distinct (map ve_id (ts_versions s)) \<and> distinct (map (\<lambda>v. (ve_template v, ve_number v)) (ts_versions s))"

definition within_build_limit :: "nat \<Rightarrow> tstore \<Rightarrow> bool" where
  "within_build_limit L s \<longleftrightarrow> (\<forall>org. count_rows (active_build org) (ts_builds s) \<le> L)"

text \<open>Every version comes from a build that is there, and that was neither canceled nor left unfinished.\<close>

definition versions_built :: "tstore \<Rightarrow> bool" where
  "versions_built s \<longleftrightarrow> (\<forall>v \<in> set (ts_versions s). \<forall>i. ve_build v = Some i \<longrightarrow>
     (\<exists>b \<in> set (ts_builds s). bu_id b = i \<and> (bu_status b = BuildSuccess \<or> bu_status b = BuildFailed)))"

definition latest_owned :: "tstore \<Rightarrow> bool" where
  "latest_owned s \<longleftrightarrow> (\<forall>t \<in> set (ts_templates s). \<forall>i. te_latest t = Some i \<longrightarrow> version_of_template s i (te_id t))"

definition builds_owned :: "tstore \<Rightarrow> bool" where
  "builds_owned s \<longleftrightarrow> (\<forall>b \<in> set (ts_builds s). bu_template b \<in> set (map te_id (ts_templates s)))"

definition tp_ok :: "nat \<Rightarrow> tstore \<Rightarrow> bool" where
  "tp_ok L s \<longleftrightarrow> builds_distinct s \<and> versions_distinct s \<and> within_build_limit L s \<and> versions_built s \<and> latest_owned s \<and> builds_owned s"

lemmas tp_parts = tp_ok_def builds_distinct_def versions_distinct_def versions_built_def within_build_limit_def latest_owned_def
  version_of_template_def builds_owned_def

lemma update_keeps_key: "(\<And>r. P r \<Longrightarrow> key (f r) = key r) \<Longrightarrow> map key (update_rows P f rs) = map key rs"
  by (simp add: update_rows_def)

lemma active_le:
  assumes "\<And>b. b \<in> set bs \<Longrightarrow> P b \<Longrightarrow> bu_org (f b) = bu_org b \<and> (isActiveTemplateBuildStatus (bu_status (f b)) \<longrightarrow> isActiveTemplateBuildStatus (bu_status b))"
  shows "count_rows (active_build org) (update_rows P f bs) \<le> count_rows (active_build org) bs"
  using assms by (induction bs) (auto simp: count_rows_def update_rows_def active_build_def)

lemma versions_kept_distinct:
  assumes "\<And>v. P v \<Longrightarrow> version_kept v (f v)"
  shows "map ve_id (update_rows P f vs) = map ve_id vs" "map (\<lambda>v. (ve_template v, ve_number v)) (update_rows P f vs) = map (\<lambda>v. (ve_template v, ve_number v)) vs"
  using assms by (auto simp: update_rows_def version_kept_def)

lemma version_of_update:
  assumes "\<And>v. P v \<Longrightarrow> version_kept v (f v)"
  shows "version_of_template (s\<lparr>ts_versions := update_rows P f (ts_versions s)\<rparr>) i t \<longleftrightarrow> version_of_template s i t"
proof -
  have image: "version_of_template u i t \<longleftrightarrow> (i, t) \<in> set (map (\<lambda>v. (ve_id v, ve_template v)) (ts_versions u))" for u
    by (auto simp: version_of_template_def)
  have "map (\<lambda>v. (ve_id v, ve_template v)) (update_rows P f (ts_versions s)) = map (\<lambda>v. (ve_id v, ve_template v)) (ts_versions s)"
    using assms by (intro update_keeps_key) (simp add: version_kept_def)
  then show ?thesis by (simp add: image)
qed

lemma active_simps [simp]:
  "isActiveTemplateBuildStatus BuildQueued" "isActiveTemplateBuildStatus BuildBuilding" "\<not> isActiveTemplateBuildStatus BuildSuccess"
  "\<not> isActiveTemplateBuildStatus BuildFailed" "\<not> isActiveTemplateBuildStatus BuildCanceled"
  by (simp_all add: isActiveTemplateBuildStatus_def activeTemplateBuildStatuses_def)

text \<open>A step that only changes rows of builds.\<close>

lemma builds_update_ok:
  assumes ok: "tp_ok L s"
    and step: "\<And>b. b \<in> set (ts_builds s) \<Longrightarrow> P b \<Longrightarrow> same_build b (f b) \<and>
      (isActiveTemplateBuildStatus (bu_status (f b)) \<longrightarrow> isActiveTemplateBuildStatus (bu_status b)) \<and>
      (bu_status b = BuildSuccess \<or> bu_status b = BuildFailed \<longrightarrow> bu_status (f b) = BuildSuccess \<or> bu_status (f b) = BuildFailed)"
  shows "tp_ok L (s\<lparr>ts_builds := update_rows P f (ts_builds s)\<rparr>)"
proof -
  have ids: "map bu_id (update_rows P f (ts_builds s)) = map bu_id (ts_builds s)"
    using step by (auto simp: update_rows_def same_build_def)
  have owned: "builds_owned (s\<lparr>ts_builds := update_rows P f (ts_builds s)\<rparr>)"
    using ok step by (fastforce simp: tp_ok_def builds_owned_def update_rows_def same_build_def)
  have limit: "count_rows (active_build org) (update_rows P f (ts_builds s)) \<le> L" for org
    using active_le [of "ts_builds s" P f org] ok step
    by (fastforce simp: tp_ok_def within_build_limit_def same_build_def intro: order_trans)
  have "\<exists>c \<in> set (update_rows P f (ts_builds s)). bu_id c = i \<and> (bu_status c = BuildSuccess \<or> bu_status c = BuildFailed)"
    if "v \<in> set (ts_versions s)" "ve_build v = Some i" for v i
  proof -
    from ok that obtain b where b: "b \<in> set (ts_builds s)" "bu_id b = i" "bu_status b = BuildSuccess \<or> bu_status b = BuildFailed"
      unfolding tp_ok_def versions_built_def by blast
    then show ?thesis
      using step [OF b(1)] by (intro bexI [of _ "if P b then f b else b"]) (auto simp: update_rows_def same_build_def)
  qed
  with ok ids limit owned show ?thesis
    by (simp add: tp_parts)
qed

lemma builds_changed_ok:
  assumes "tp_ok L s"
    and "\<And>b. b \<in> set (ts_builds s) \<Longrightarrow> P b \<Longrightarrow> same_build b (f b) \<and> build_move (bu_status b) (bu_status (f b))"
  shows "tp_ok L (s\<lparr>ts_builds := update_rows P f (ts_builds s)\<rparr>)"
proof (rule builds_update_ok [OF assms(1)])
  fix b assume "b \<in> set (ts_builds s)" "P b"
  from assms(2) [OF this] show "same_build b (f b) \<and>
      (isActiveTemplateBuildStatus (bu_status (f b)) \<longrightarrow> isActiveTemplateBuildStatus (bu_status b)) \<and>
      (bu_status b = BuildSuccess \<or> bu_status b = BuildFailed \<longrightarrow> bu_status (f b) = BuildSuccess \<or> bu_status (f b) = BuildFailed)"
    by (auto simp: build_move_def)
qed

lemma tp_ok_elsewhere: "tp_ok L (s\<lparr>ts_db := d, ts_logs := l, ts_audits := a, ts_contexts := c, ts_credentials := k\<rparr>) = tp_ok L s"
  by (simp add: tp_parts)

lemma tp_ok_db [simp]: "tp_ok L (s\<lparr>ts_db := d\<rparr>) = tp_ok L s"
  by (simp add: tp_parts)

lemma tp_ok_templates:
  assumes "tp_ok L s" "set (map te_id (ts_templates s)) \<subseteq> set (map te_id ts)" "\<And>t j. t \<in> set ts \<Longrightarrow> te_latest t = Some j \<Longrightarrow> version_of_template s j (te_id t)"
  shows "tp_ok L (s\<lparr>ts_templates := ts\<rparr>)"
  using assms unfolding tp_parts by (simp add: subset_iff)

lemma tp_ok_versions:
  assumes ok: "tp_ok L s" and kept: "\<And>v. P v \<Longrightarrow> version_kept v (f v)"
  shows "tp_ok L (s\<lparr>ts_versions := update_rows P f (ts_versions s)\<rparr>)"
proof -
  have "\<exists>b \<in> set (ts_builds s). bu_id b = i \<and> (bu_status b = BuildSuccess \<or> bu_status b = BuildFailed)"
    if w: "w \<in> set (update_rows P f (ts_versions s))" "ve_build w = Some i" for w i
  proof -
    from w(1) obtain v where "v \<in> set (ts_versions s)" "w = (if P v then f v else v)" by (auto simp: in_update_rows)
    moreover from this kept [of v] have "ve_build w = ve_build v" by (auto simp: version_kept_def)
    ultimately show ?thesis using ok w(2) by (simp add: tp_ok_def versions_built_def)
  qed
  with ok show ?thesis
    unfolding tp_ok_def builds_distinct_def versions_distinct_def within_build_limit_def latest_owned_def versions_built_def builds_owned_def
    by (simp add: version_of_update [OF kept] versions_kept_distinct [OF kept])
qed

lemma tp_ok_build_added:
  assumes ok: "tp_ok L s" and b: "bu_status b = BuildQueued" "\<exists>t \<in> set (ts_templates s). te_id t = bu_template b" "\<forall>q \<in> set (ts_builds s). bu_id q \<noteq> bu_id b"
    "count_rows (active_build (bu_org b)) (ts_builds s) < L"
  shows "tp_ok L (s\<lparr>ts_builds := ts_builds s @ [b]\<rparr>)"
proof -
  have "count_rows (active_build org) (ts_builds s @ [b]) \<le> L" for org
    using ok b by (cases "org = bu_org b") (auto simp: tp_ok_def within_build_limit_def count_rows_def active_build_def)
  moreover have "builds_owned (s\<lparr>ts_builds := ts_builds s @ [b]\<rparr>)"
    using ok b(2) [THEN bexE] by (auto simp: tp_ok_def builds_owned_def intro: image_eqI [OF sym])
  moreover have "distinct (map bu_id (ts_builds s @ [b]))"
    using ok b(3) by (auto simp: tp_ok_def builds_distinct_def)
  ultimately show ?thesis
    using ok unfolding tp_ok_def versions_distinct_def latest_owned_def versions_built_def within_build_limit_def builds_distinct_def
    by (auto simp: version_of_template_def)
qed

lemma tp_ok_version_added:
  assumes ok: "tp_ok L s" and fresh: "\<forall>q \<in> set (ts_versions s). ve_id q \<noteq> ve_id v \<and> (ve_template q, ve_number q) \<noteq> (ve_template v, ve_number v)"
    and built: "ve_build v = Some i" "\<exists>b \<in> set (ts_builds s). bu_id b = i \<and> bu_status b = BuildSuccess"
  shows "tp_ok L (s\<lparr>ts_versions := ts_versions s @ [v]\<rparr>)"
proof -
  have "versions_distinct (s\<lparr>ts_versions := ts_versions s @ [v]\<rparr>)"
    using ok fresh by (auto simp: tp_ok_def versions_distinct_def)
  moreover have "versions_built (s\<lparr>ts_versions := ts_versions s @ [v]\<rparr>)"
    using ok built by (auto simp: tp_ok_def versions_built_def)
  ultimately show ?thesis
    using ok by (auto simp: tp_ok_def builds_distinct_def within_build_limit_def latest_owned_def version_of_template_def builds_owned_def)
qed

lemma count_filter_le: "count_rows p (filter q xs) \<le> count_rows p xs"
  by (induction xs) (simp_all add: count_rows_def)

lemma tp_ok_builds_deleted:
  assumes ok: "tp_ok L s" and unused: "\<And>b. b \<in> set (ts_builds s) \<Longrightarrow> \<not> P b \<Longrightarrow> \<forall>v \<in> set (ts_versions s). ve_build v \<noteq> Some (bu_id b)"
  shows "tp_ok L (s\<lparr>ts_builds := filter P (ts_builds s)\<rparr>)"
proof -
  have "count_rows (active_build org) (filter P (ts_builds s)) \<le> count_rows (active_build org) (ts_builds s)" for org
    by (rule count_filter_le)
  moreover have "distinct (map bu_id (filter P (ts_builds s)))"
    using ok by (simp add: tp_ok_def builds_distinct_def distinct_map_filter)
  moreover have "versions_built (s\<lparr>ts_builds := filter P (ts_builds s)\<rparr>)"
    using ok unused unfolding tp_ok_def versions_built_def by simp blast
  moreover have "builds_owned (s\<lparr>ts_builds := filter P (ts_builds s)\<rparr>)"
    using ok by (auto simp: tp_ok_def builds_owned_def)
  ultimately show ?thesis
    using ok by (auto simp: tp_ok_def builds_distinct_def versions_distinct_def within_build_limit_def latest_owned_def version_of_template_def
        intro: order_trans)
qed

lemma tp_step_keeps:
  assumes "tp_step L s s'" "tp_ok L s" shows "tp_ok L s'"
  using assms
proof (cases rule: tp_step.cases)
  case (template_added t)
  moreover have "te_latest u = Some j \<Longrightarrow> version_of_template s j (te_id u)" if "u \<in> set (ts_templates s @ [t])" for u j
    using that template_added(2) assms(2) by (auto simp: tp_ok_def latest_owned_def)
  ultimately show ?thesis using tp_ok_templates [OF assms(2), of "ts_templates s @ [t]"] by auto
next
  case (templates_changed P f i)
  have "version_of_template s j (te_id u)" if u: "u \<in> set (update_rows P f (ts_templates s))" "te_latest u = Some j" for u j
  proof -
    from u(1) obtain t where "t \<in> set (ts_templates s)" "u = (if P t then f t else t)" by (auto simp: in_update_rows)
    with templates_changed(2) [of t] assms(2) u(2) show ?thesis
      by (cases "P t") (auto simp: tp_ok_def latest_owned_def)
  qed
  moreover have "map te_id (update_rows P f (ts_templates s)) = map te_id (ts_templates s)"
    using templates_changed(2) by (intro update_keeps_key) blast
  ultimately have "tp_ok L (s\<lparr>ts_templates := update_rows P f (ts_templates s)\<rparr>)"
    by (intro tp_ok_templates [OF assms(2)]) simp_all
  with templates_changed(1) show ?thesis by simp
next
  case (build_published v i f)
  let ?b = "s\<lparr>ts_builds := update_rows (\<lambda>b. bu_id b = i) f (ts_builds s)\<rparr>"
  have "tp_ok L ?b" using build_published(7) by (intro builds_update_ok [OF assms(2)]) simp
  moreover have "\<exists>b \<in> set (ts_builds ?b). bu_id b = i \<and> bu_status b = BuildSuccess"
    using build_published(6,7) unfolding same_build_def by (force simp: update_rows_def)
  ultimately have "tp_ok L (?b\<lparr>ts_versions := ts_versions ?b @ [v]\<rparr>)"
    using build_published(2,5) by (intro tp_ok_version_added) auto
  moreover have "?b\<lparr>ts_versions := ts_versions ?b @ [v]\<rparr> = s'" by (simp add: build_published(1))
  ultimately show ?thesis by simp
qed (auto simp: tp_ok_elsewhere intro!: tp_ok_versions builds_changed_ok tp_ok_build_added tp_ok_builds_deleted)

end
