(* ===== verification/TemplateContract.thy ===== *)
theory TemplateContract
  imports TemplateSteps
begin

text \<open>
  Every service of templates and builds, the builder and the retention pass keep to the steps of
  \<open>TemplateSteps\<close>; what follows for any interleaving of them.
\<close>

section \<open>The statements are steps\<close>

lemma tp_stable: "stable (tp_step L) (tp_ok L)"
  by (simp add: stable_def tp_step_keeps)

lemma step_other: "tp_step L s (s\<lparr>ts_db := d\<rparr>)" "tp_step L s (s\<lparr>ts_logs := l\<rparr>)" "tp_step L s (s\<lparr>ts_audits := a\<rparr>)"
    "tp_step L s (s\<lparr>ts_contexts := c\<rparr>)"
  using tp_step.elsewhere [where L = L and s = s and d = d and l = "ts_logs s" and a = "ts_audits s" and c = "ts_contexts s" and k = "ts_credentials s"]
    tp_step.elsewhere [where L = L and s = s and d = "ts_db s" and l = l and a = "ts_audits s" and c = "ts_contexts s" and k = "ts_credentials s"]
    tp_step.elsewhere [where L = L and s = s and d = "ts_db s" and l = "ts_logs s" and a = a and c = "ts_contexts s" and k = "ts_credentials s"]
    tp_step.elsewhere [where L = L and s = s and d = "ts_db s" and l = "ts_logs s" and a = "ts_audits s" and c = c and k = "ts_credentials s"]
  by simp_all

lemma tx_audit [tx_steps_intro]: "tx_steps (tp_step L) (recordAudit a t)"
  unfolding recordAudit_def by (rule tx_steps_modify) (rule step_other)

lemma tx_makeId [tx_steps_intro]: "tx_steps (tp_step L) (ts_makeId p)"
  by (auto simp: tx_steps_def ts_makeId_def makeId_Inr intro: step_other)

lemma tx_log [tx_steps_intro]: "tx_steps (tp_step L) (appendLog b k)"
  unfolding appendLog_def by (intro tx_steps_intro tx_steps_modify step_other)

lemma tx_slug [tx_steps_intro]: "tx_steps (tp_step L) (slugFor v)"
  unfolding slugFor_def by (intro tx_steps_intro)

lemma tx_resolve [tx_steps_intro]: "tx_steps (tp_step L) (resolveTemplate shipped r org)"
  unfolding resolveTemplate_def by (intro tx_steps_intro)

lemma tx_versions: "(\<And>v. P v \<Longrightarrow> version_kept v (f v)) \<Longrightarrow> tx_steps (tp_step L) (upd_versions P f)"
  unfolding upd_versions_def by (intro tx_steps_modify tp_step.versions_changed)

lemma tx_templates: "(\<And>t. P t \<Longrightarrow> te_id (f t) = te_id t \<and> te_latest (f t) = te_latest t) \<Longrightarrow> tx_steps (tp_step L) (upd_templates P f)"
  unfolding upd_templates_def by (intro tx_steps_modify tp_step.templates_changed [where i = undefined]) blast

lemma tx_builds: "(\<And>b. P b \<Longrightarrow> same_build b (f b) \<and> build_move (bu_status b) (bu_status (f b))) \<Longrightarrow>
    tx_steps (tp_step L) (upd_builds P f)"
  unfolding upd_builds_def by (intro tx_steps_modify tp_step.builds_changed)

lemma tx_insert_template [tx_steps_intro]: "te_latest t = None \<Longrightarrow> tx_steps (tp_step L) (insert_template t)"
  unfolding insert_template_def by (intro tx_steps_intro tx_steps_modify tp_step.template_added)

lemma tx_archive [tx_steps_intro]: "tx_steps (tp_step L) (archiveTemplate r org)"
  unfolding archiveTemplate_def by (intro tx_steps_intro tx_templates) simp

lemma tx_find [tx_steps_intro]: "tx_steps (tp_step L) (getTemplateBuild org i)"
  unfolding getTemplateBuild_def by (intro tx_steps_intro)

lemma move_cancel: "isActiveTemplateBuildStatus x \<Longrightarrow> build_move x BuildCanceled"
  by (simp add: build_move_def)

lemma tx_fail [tx_steps_intro]: "tx_steps (tp_step L) (failBuild b m)"
  unfolding failBuild_def by (intro tx_steps_intro tx_builds) (simp add: build_move_def same_build_def)

lemma tx_store_context [tx_steps_intro]: "tx_steps (tp_step L) (storeTemplateBuildContext i c)"
  unfolding storeTemplateBuildContext_def
  by (intro tx_steps_intro tx_builds tx_steps_modify step_other) (simp add: build_move_def same_build_def)

lemma tx_delete_log [tx_steps_intro]: "tx_steps (tp_step L) (delete_log i)"
  unfolding delete_log_def by (intro tx_steps_intro tx_steps_modify step_other)

lemma tx_delete_context [tx_steps_intro]: "tx_steps (tp_step L) (delete_context i)"
  unfolding delete_context_def by (intro tx_steps_intro tx_steps_modify step_other)

lemma steps_then: "tp_step L s s1 \<Longrightarrow> tp_step L s1 s2 \<Longrightarrow> (tp_step L)\<^sup>*\<^sup>* s s2"
  by (meson converse_rtranclp_into_rtranclp r_into_rtranclp)

lemma delete_builds_Inr:
  "\<exists>l c. delete_builds t s = Inr (length (filter (old_build s t) (ts_builds s)),
     s\<lparr>ts_builds := filter (\<lambda>b. \<not> old_build s t b) (ts_builds s), ts_logs := l, ts_contexts := c\<rparr>)"
proof -
  let ?gone = "map bu_id (filter (old_build s t) (ts_builds s))"
  show ?thesis
    by (rule exI [of _ "filter (\<lambda>l. fst l \<notin> set ?gone) (ts_logs s)"], rule exI [of _ "filter (\<lambda>c. fst c \<notin> set ?gone) (ts_contexts s)"])
      (simp add: delete_builds_def bindT_def getsT_def modifyT_def returnT_def Let_def)
qed

lemma tx_delete_builds [tx_steps_intro]: "tx_steps (tp_step L) (delete_builds t)"
  unfolding tx_steps_def
proof (intro allI impI)
  fix s n s' assume "delete_builds t s = Inr (n, s')"
  then obtain l c where s': "s' = s\<lparr>ts_builds := filter (\<lambda>b. \<not> old_build s t b) (ts_builds s), ts_logs := l, ts_contexts := c\<rparr>"
    using delete_builds_Inr [of t s] by auto
  let ?b = "s\<lparr>ts_builds := filter (\<lambda>b. \<not> old_build s t b) (ts_builds s)\<rparr>"
  have 1: "tp_step L s ?b"
    by (rule tp_step.builds_deleted) (auto simp: old_build_def list_ex_iff)
  show "(tp_step L)\<^sup>*\<^sup>* s s'"
    unfolding s' by (rule converse_rtranclp_into_rtranclp [OF 1 steps_then]) (rule step_other)+
qed

lemma tx_retire [tx_steps_intro]: "tx_steps (tp_step L) (retire_versions t)"
  unfolding retire_versions_def
proof (intro tx_steps_intro tx_steps_modify)
  fix s show "tp_step L s (s\<lparr>ts_versions := update_rows (retirable s t) retire_row (ts_versions s)\<rparr>)"
    by (rule tp_step.versions_changed) (auto simp: version_kept_def retirable_def retire_row_def)
qed

lemma enqueue_step:
  assumes "withTemplateBuildSlot org L (insert_build (new_build i org input t)) s = Inr (r, s')"
  shows "(tp_step L)\<^sup>*\<^sup>* s s'"
  using assms
  by (auto simp: withTemplateBuildSlot_def insert_build_def tx_defs buildConcurrencyLimitExceeded_def list_ex_iff new_build_def
      split: if_splits intro!: r_into_rtranclp tp_step.build_added)

lemma same_id: "tp_ok L s \<Longrightarrow> b \<in> set (ts_builds s) \<Longrightarrow> q \<in> set (ts_builds s) \<Longrightarrow> bu_id q = bu_id b \<Longrightarrow> q = b"
  unfolding tp_ok_def builds_distinct_def distinct_map by (auto dest: inj_onD)

lemma first_row_in: "first_row xs = Some x \<Longrightarrow> x \<in> set xs"
  by (cases xs) auto

lemma claim_step:
  assumes ok: "tp_ok L s" and run: "claimBuild src s = Inr (r, s')"
  shows "(tp_step L)\<^sup>*\<^sup>* s s'"
proof (cases "first_row (sort_key bu_created_at (filter (claimable s src) (ts_builds s)))")
  case None
  with run show ?thesis by (simp add: claimBuild_def tx_defs)
next
  case (Some b)
  then have b: "b \<in> set (ts_builds s)" "bu_status b = BuildQueued" by (auto dest: first_row_in simp: claimable_def)
  let ?u = "upd_builds (\<lambda>q. bu_id q = bu_id b) (\<lambda>q. q\<lparr>bu_status := BuildBuilding, bu_started_at := coalesce (bu_started_at q) (Some (ts_now s)), bu_updated_at := ts_now s\<rparr>)"
  from Some run obtain s1 where s1: "?u s = Inr ((), s1)" "appendLog (bu_id b) ''stdout'' s1 = Inr ((), s')"
    by (auto simp: claimBuild_def bindT_Inr_iff getsT_def returnT_def)
  have "tp_step L s s1"
    using s1(1) b same_id [OF ok b(1)]
    by (fastforce simp: upd_builds_def modifyT_def build_move_def same_build_def intro!: tp_step.builds_changed)
  moreover have "(tp_step L)\<^sup>*\<^sup>* s1 s'" using tx_log s1(2) by (rule tx_stepsD)
  ultimately show ?thesis by (rule converse_rtranclp_into_rtranclp)
qed


lemma insert_version_Inr:
  assumes "insert_version v s = Inr (u, s')"
  shows "s' = s\<lparr>ts_versions := ts_versions s @ [v]\<rparr>"
    "\<forall>q \<in> set (ts_versions s). ve_id q \<noteq> ve_id v \<and> (ve_template q, ve_number q) \<noteq> (ve_template v, ve_number v)"
    "list_ex (\<lambda>t. te_id t = ve_template v) (ts_templates s)"
    "ve_build v = Some i \<Longrightarrow> list_ex (\<lambda>b. bu_id b = i) (ts_builds s)"
  using assms by (auto simp: insert_version_def tx_defs list_ex_iff split: if_splits)

text \<open>The publication of a build that was not canceled, seen as one step on versions and builds and one on the template.\<close>

lemma published_steps:
  assumes b: "\<exists>q \<in> set (ts_builds s). bu_id q = i \<and> bu_status q \<noteq> BuildCanceled"
    and v: "ve_build v = Some i" "ve_status v = ''ready''" "''latest'' \<in> set (ve_aliases v)"
      "\<forall>q \<in> set (ts_versions s). ve_id q \<noteq> ve_id v \<and> (ve_template q, ve_number q) \<noteq> (ve_template v, ve_number v)"
    and f: "\<And>q. same_build q (f q) \<and> bu_status (f q) = BuildSuccess"
    and g: "\<And>q. te_id q = ve_template v \<Longrightarrow> te_id (g q) = te_id q \<and> (te_latest (g q) = te_latest q \<or> te_latest (g q) = Some (ve_id v))"
  shows "(tp_step L)\<^sup>*\<^sup>* s (s\<lparr>ts_versions := ts_versions s @ [v], ts_templates := update_rows (\<lambda>q. te_id q = ve_template v) g (ts_templates s),
    ts_builds := update_rows (\<lambda>q. bu_id q = i) f (ts_builds s)\<rparr>)"
proof -
  let ?s = "s\<lparr>ts_versions := ts_versions s @ [v], ts_builds := update_rows (\<lambda>q. bu_id q = i) f (ts_builds s)\<rparr>"
  have "tp_step L s ?s" by (rule tp_step.build_published [OF v b f])
  moreover have "tp_step L ?s (?s\<lparr>ts_templates := update_rows (\<lambda>q. te_id q = ve_template v) g (ts_templates ?s)\<rparr>)"
    using g by (intro tp_step.templates_changed [where i = "ve_id v"]) (auto simp: version_of_template_def)
  moreover have "s\<lparr>ts_versions := ts_versions s @ [v], ts_templates := update_rows (\<lambda>q. te_id q = ve_template v) g (ts_templates s),
      ts_builds := update_rows (\<lambda>q. bu_id q = i) f (ts_builds s)\<rparr> =
    ?s\<lparr>ts_templates := update_rows (\<lambda>q. te_id q = ve_template v) g (ts_templates ?s)\<rparr>" by simp
  ultimately show ?thesis using steps_then by metis
qed

lemma current_build:
  assumes "tp_ok L s" "list_ex (\<lambda>q. bu_id q = i) (ts_builds s)"
    "map_option bu_status (first_row (filter (\<lambda>q. bu_id q = i \<and> list_ex (\<lambda>t. te_id t = bu_template q) (ts_templates s)) (ts_builds s))) \<noteq> Some BuildCanceled"
  shows "\<exists>q \<in> set (ts_builds s). bu_id q = i \<and> bu_status q \<noteq> BuildCanceled"
proof -
  from assms(2) obtain q where q: "q \<in> set (ts_builds s)" "bu_id q = i" by (auto simp: list_ex_iff)
  let ?f = "filter (\<lambda>q. bu_id q = i \<and> list_ex (\<lambda>t. te_id t = bu_template q) (ts_templates s)) (ts_builds s)"
  from q(1) assms(1) have "bu_template q \<in> te_id ` set (ts_templates s)" by (simp add: tp_ok_def builds_owned_def)
  then have "list_ex (\<lambda>t. te_id t = bu_template q) (ts_templates s)" unfolding list_ex_iff by (metis imageE)
  with q have "q \<in> set ?f" by simp
  then obtain c where c: "first_row ?f = Some c" by (cases ?f) auto
  then have "c \<in> set ?f" by (rule first_row_in)
  with c assms(3) show ?thesis by auto
qed

text \<open>The tables after a publication, seen from the tables before it.\<close>

definition success_row :: "string \<Rightarrow> string \<Rightarrow> time \<Rightarrow> build_rec \<Rightarrow> build_rec" where
  "success_row uri digest at q = q\<lparr>bu_status := BuildSuccess, bu_image := Some uri, bu_digest := Some digest, bu_completed_at := Some at, bu_updated_at := at\<rparr>"

definition published_store :: "build_rec \<Rightarrow> template_rec \<Rightarrow> string \<Rightarrow> string \<Rightarrow> string \<Rightarrow> string \<Rightarrow> tstore \<Rightarrow> tstore" where
  "published_store b t i uri digest scan s =
    s\<lparr>ts_versions := ts_versions s @ [new_version b t i (next_number s (bu_template b)) uri digest scan (ts_now s)],
      ts_templates := update_rows (\<lambda>q. te_id q = bu_template b) (set_latest i uri digest (ts_now s)) (ts_templates s),
      ts_builds := update_rows (\<lambda>q. bu_id q = bu_id b) (success_row uri digest (ts_now s)) (ts_builds s)\<rparr>"

lemma publish_parts:
  assumes run: "publish b t uri digest scan s = Inr (r, s')" and going: "map_option bu_status
      (first_row (filter (\<lambda>q. bu_id q = bu_id b \<and> list_ex (\<lambda>t. te_id t = bu_template q) (ts_templates s)) (ts_builds s))) \<noteq> Some BuildCanceled"
  obtains i d s5 where "r = Some i"
    "\<forall>q \<in> set (ts_versions s). ve_id q \<noteq> i \<and> (ve_template q, ve_number q) \<noteq> (bu_template b, next_number s (bu_template b))"
    "list_ex (\<lambda>q. bu_id q = bu_id b) (ts_builds s)"
    "appendLog (bu_id b) ''stdout'' (published_store b t i uri digest scan (s\<lparr>ts_db := d\<rparr>)) = Inr ((), s5)"
    "recordAudit ''template.build.success'' (bu_id b) s5 = Inr ((), s')"
proof -
  note run' = run [unfolded publish_def bindT_Inr [where m = "getsT f" for f, OF getsT_apply] if_not_P [OF going]]
  have "\<exists>i d. ts_makeId ''tplv'' s = Inr (i, s\<lparr>ts_db := d\<rparr>)" by (simp add: ts_makeId_def makeId_Inr) blast
  then obtain i d where i: "ts_makeId ''tplv'' s = Inr (i, s\<lparr>ts_db := d\<rparr>)" by blast
  let ?s1 = "s\<lparr>ts_db := d\<rparr>" let ?at = "ts_now ?s1" let ?n = "next_number s (bu_template b)"
  from run' obtain s2 s3 s4 s5 where
    ins: "insert_version (new_version b t i ?n uri digest scan ?at) ?s1 = Inr ((), s2)"
    and s3: "upd_templates (\<lambda>q. te_id q = bu_template b) (set_latest i uri digest ?at) s2 = Inr ((), s3)"
    and s4: "upd_builds (\<lambda>q. bu_id q = bu_id b) (success_row uri digest ?at) s3 = Inr ((), s4)"
    and s5: "appendLog (bu_id b) ''stdout'' s4 = Inr ((), s5)" "recordAudit ''template.build.success'' (bu_id b) s5 = Inr ((), s')"
    and r: "r = Some i"
    by (auto simp: i bindT_Inr_iff getsT_apply returnT_apply success_row_def [abs_def])
  note v = insert_version_Inr [OF ins]
  from s3 have s3e: "s3 = s2\<lparr>ts_templates := update_rows (\<lambda>q. te_id q = bu_template b) (set_latest i uri digest ?at) (ts_templates s2)\<rparr>"
    unfolding upd_templates_def modifyT_def by (elim sum.inject(2) [THEN iffD1, elim_format] prod.inject [THEN iffD1, elim_format]) simp
  from s4 have s4e: "s4 = s3\<lparr>ts_builds := update_rows (\<lambda>q. bu_id q = bu_id b) (success_row uri digest ?at) (ts_builds s3)\<rparr>"
    unfolding upd_builds_def modifyT_def by (elim sum.inject(2) [THEN iffD1, elim_format] prod.inject [THEN iffD1, elim_format]) simp
  have s4': "s4 = published_store b t i uri digest scan ?s1"
    unfolding s4e s3e v(1) published_store_def by (simp add: next_number_def)
  from v(2,3) v(4) [of "bu_id b"] show thesis
    by (intro that [OF r _ _ s5(1) [unfolded s4'] s5(2)]) (simp_all add: new_version_def)
qed

lemma publish_step:
  assumes ok: "tp_ok L s" and run: "publish b t uri digest scan s = Inr (r, s')"
  shows "(tp_step L)\<^sup>*\<^sup>* s s'"
proof -
  let ?current = "first_row (filter (\<lambda>q. bu_id q = bu_id b \<and> list_ex (\<lambda>t. te_id t = bu_template q) (ts_templates s)) (ts_builds s))"
  show ?thesis
  proof (cases "map_option bu_status ?current = Some BuildCanceled")
    case True
    with run have "\<exists>u. appendLog (bu_id b) ''stdout'' s = Inr (u, s')" by (auto simp: publish_def bindT_Inr_iff getsT_def returnT_def)
    then show ?thesis using tx_stepsD [OF tx_log] by blast
  next
    case False
    from run False obtain i d s5 where p: "\<forall>q \<in> set (ts_versions s). ve_id q \<noteq> i \<and> (ve_template q, ve_number q) \<noteq> (bu_template b, next_number s (bu_template b))"
      "list_ex (\<lambda>q. bu_id q = bu_id b) (ts_builds s)"
      "appendLog (bu_id b) ''stdout'' (published_store b t i uri digest scan (s\<lparr>ts_db := d\<rparr>)) = Inr ((), s5)"
      "recordAudit ''template.build.success'' (bu_id b) s5 = Inr ((), s')"
      by (rule publish_parts)
    let ?s1 = "s\<lparr>ts_db := d\<rparr>" let ?s4 = "published_store b t i uri digest scan ?s1"
    let ?v = "new_version b t i (next_number ?s1 (bu_template b)) uri digest scan (ts_now ?s1)"
    have v: "ve_template ?v = bu_template b" "ve_id ?v = i" "ve_number ?v = next_number s (bu_template b)" "ve_build ?v = Some (bu_id b)"
      "ve_status ?v = ''ready''" "''latest'' \<in> set (ve_aliases ?v)" by (simp_all add: new_version_def next_number_def)
    have s4: "?s4 = ?s1\<lparr>ts_versions := ts_versions ?s1 @ [?v],
        ts_templates := update_rows (\<lambda>q. te_id q = ve_template ?v) (set_latest i uri digest (ts_now ?s1)) (ts_templates ?s1),
        ts_builds := update_rows (\<lambda>q. bu_id q = bu_id b) (success_row uri digest (ts_now ?s1)) (ts_builds ?s1)\<rparr>"
      unfolding v(1) by (simp add: published_store_def)
    have "(tp_step L)\<^sup>*\<^sup>* ?s1 ?s4"
      unfolding s4
    proof (rule published_steps [OF _ v(4-6)])
      show "\<exists>q \<in> set (ts_builds ?s1). bu_id q = bu_id b \<and> bu_status q \<noteq> BuildCanceled"
        using current_build [of L ?s1 "bu_id b"] ok False p(2) by simp
    qed (use p(1) v in \<open>auto simp: set_latest_def same_build_def success_row_def\<close>)
    moreover have "(tp_step L)\<^sup>*\<^sup>* s ?s1" using step_other(1) by blast
    moreover have "(tp_step L)\<^sup>*\<^sup>* ?s4 s'" using tx_stepsD [OF tx_log p(3)] tx_stepsD [OF tx_audit p(4)] by (rule rtranclp_trans)
    ultimately show ?thesis by (meson rtranclp_trans)
  qed
qed

section \<open>The services keep to the steps\<close>

abbreviation tkept :: "nat \<Rightarrow> ('p, 'a) tsproc \<Rightarrow> bool" where
  "tkept L \<equiv> keeps_to (tp_step L) (tp_ok L)"

lemma tkept_tx [keeps_to_intro]: "tx_steps (tp_step L) m \<Longrightarrow> tkept L (atomic m)"
  by (rule keeps_to_atomic [OF tp_stable]) (rule tx_stepsD)

lemma tkept_try [keeps_to_intro]: "tkept L m \<Longrightarrow> (\<And>e. tkept L (h e)) \<Longrightarrow> tkept L (tryP m h)"
  by (rule keeps_to_try [OF _ _ tp_stable])

lemma tkept_publish [keeps_to_intro]: "tkept L (atomic (publish b t uri digest scan))"
  by (rule keeps_to_atomic [OF tp_stable publish_step])

lemma tkept_claim [keeps_to_intro]: "tkept L (atomic (claimBuild src))"
  by (rule keeps_to_atomic [OF tp_stable claim_step])

lemma tkept_validation [keeps_to_intro]:
  "(\<And>x g. v = ValidPolicy x g \<Longrightarrow> tkept L (m x g)) \<Longrightarrow> (\<And>e. tkept L (n e)) \<Longrightarrow>
   tkept L (case v of ValidPolicy x g \<Rightarrow> m x g | refused \<Rightarrow> n refused)"
  by (cases v) auto

lemma createTemplate_kept: "tkept L (createTemplate cfg org body)"
  unfolding createTemplate_def by (intro keeps_to_intro tx_steps_intro) simp_all

lemma listTemplateVersions_kept: "tkept L (listTemplateVersions cfg org r)"
  unfolding listTemplateVersions_def by (intro keeps_to_intro tx_steps_intro)

lemma updateTemplateEgress_kept: "tkept L (updateTemplateEgress cfg org r policy)"
  unfolding updateTemplateEgress_def
  by (intro keeps_to_intro tx_steps_intro tx_templates tx_versions) (auto simp: version_kept_def)

lemma archive_kept: "tkept L (archiveTemplateForOrganization org r)"
  unfolding archiveTemplateForOrganization_def
  by (intro keeps_to_intro tx_steps_intro tx_builds) (auto simp: same_build_def cancel_row_def active_build_def move_cancel)

lemma enqueue_kept: "tkept (tc_active_builds cfg) (enqueueTemplateBuild cfg org input)"
  unfolding enqueueTemplateBuild_def
  by (intro keeps_to_intro tx_steps_intro keeps_to_atomic [OF tp_stable])
    (auto simp: bindT_Inr_iff getsT_apply dest: enqueue_step)

lemma cancel_kept: "tkept L (cancelTemplateBuild org i)"
  unfolding cancelTemplateBuild_def
  by (intro keeps_to_intro tx_steps_intro tx_builds) (auto simp: same_build_def cancel_active_def move_cancel build_move_def)

lemma process_kept: "tkept L (processNextTemplateBuild ib)"
  unfolding processNextTemplateBuild_def processBuild_def completeBuild_def scanTemplateImage_def
  by (intro keeps_to_intro tx_steps_intro)

lemma each_deleted_kept [keeps_to_intro]: "(\<And>i. tx_steps (tp_step L) (remove i)) \<Longrightarrow> tkept L (each_deleted remove is)"
  by (induction "is") (auto intro: keeps_to_intro)

lemma audit_retired_kept [keeps_to_intro]: "tkept L (audit_retired vs)"
  by (induction vs) (auto intro!: keeps_to_intro tx_steps_intro)

lemma delete_jobs_kept [keeps_to_intro]: "tkept L (delete_jobs api cutoff js)"
  by (induction js) (auto intro!: keeps_to_intro)

lemma cleanup_part_kept [keeps_to_intro]: "tkept L (m (days_before t n)) \<Longrightarrow> tkept L (cleanup_part t n m)"
  unfolding cleanup_part_def by (intro keeps_to_intro)

lemma retention_kept: "tkept L (cleanupTemplateRetention api policy t)"
  unfolding cleanupTemplateRetention_def cleanupTemplateBuilderJobs_def ended_builds_def
  by (intro keeps_to_intro tx_steps_intro)

text \<open>A promotion points the template at a version it has found to be one of its own.\<close>

lemma version_stable: "stable (tp_step L) (\<lambda>s. version_of_template s i t)"
  unfolding stable_def
proof (intro allI impI)
  fix s s' assume "tp_step L s s'" and v: "version_of_template s i t"
  then show "version_of_template s' i t"
    by cases (auto simp: version_of_update, auto simp: version_of_template_def)
qed

text \<open>Something stable is read, and the rest runs only when it was so.\<close>

lemma keeps_to_check:
  assumes P: "stable R P" and I: "stable R I" and check: "\<And>s. check s \<Longrightarrow> I s"
    and m: "keeps_to R (\<lambda>s. P s \<and> I s) m" and n: "keeps_to R P n"
  shows "keeps_to R P (bindP (atomic (getsT check)) (\<lambda>ok. if \<not> ok then n else m))"
  unfolding keeps_to_def
proof (rule runs_bind)
  show "runs R P (atomic (getsT check)) (\<lambda>ok s. P s \<and> (ok \<longrightarrow> I s))"
    by (rule runs_atomic [OF P]) (auto simp: getsT_apply check)
  fix ok show "runs R (\<lambda>s. P s \<and> (ok \<longrightarrow> I s)) (if \<not> ok then n else m) (\<lambda>a. P)"
    using m n by (cases ok) (auto simp: keeps_to_def elim: runs_weaken)
qed

lemma promote_kept: "tkept L (promoteTemplate cfg org r version a)"
proof -
  have tail: "keeps_to (tp_step L) (\<lambda>s. tp_ok L s \<and> version_of_template s version t)
    (bindP (atomic (bindT (getsT ts_now) (\<lambda>n. upd_versions (\<lambda>w. ve_id w = version) (promote_row a n)))) (\<lambda>_.
     bindP (atomic (bindT (getsT ts_now) (\<lambda>n. upd_templates (\<lambda>q. te_id q = t) (\<lambda>q. q\<lparr>te_latest := Some version, te_updated_at := n\<rparr>)))) (\<lambda>_.
     bindP (atomic (recordAudit ''template.promote'' t)) (\<lambda>_.
     bindP (atomic (resolveTemplate (tc_shipped cfg) version org)) (\<lambda>p. retP (TemplateMade p))))))" (is "keeps_to _ ?I _") for t
  proof -
    have I: "stable (tp_step L) ?I" by (rule stable_conj [OF tp_stable version_stable])
    have tx: "keeps_to (tp_step L) ?I (atomic m)" if "tx_steps (tp_step L) m" for m :: "'x tstx"
      by (rule keeps_to_atomic [OF I]) (rule tx_stepsD [OF that])
    have "keeps_to (tp_step L) ?I (atomic (bindT (getsT ts_now) (\<lambda>n. upd_templates (\<lambda>q. te_id q = t)
        (\<lambda>q. q\<lparr>te_latest := Some version, te_updated_at := n\<rparr>))))"
      by (rule keeps_to_atomic [OF I])
        (auto simp: bindT_Inr_iff getsT_apply upd_templates_def modifyT_def intro!: tp_step.templates_changed [where i = version])
    note second = keeps_to_bind [OF this]
    show ?thesis
      by (rule keeps_to_bind [OF tx second])
        (intro keeps_to_bind tx tx_steps_intro tx_versions keeps_to_ret; auto simp: version_kept_def promote_row_def)+
  qed
  show ?thesis
    unfolding promoteTemplate_def
    by (intro keeps_to_bind [OF tkept_tx [OF tx_resolve]] keeps_to_option keeps_to_if keeps_to_ret
        keeps_to_check [OF tp_stable version_stable _ tail])
      (auto simp: list_ex_iff version_of_template_def)
qed


lemma tkept_run:
  assumes "tkept L m" "foreign_ok (tp_step L) w" "tp_ok L (wdb w)"
  shows "(tp_step L)\<^sup>*\<^sup>* (wdb w) (wdb (snd (m w)))" "tp_ok L (wdb (snd (m w)))"
proof -
  obtain r w' where m: "m w = (r, w')" by (cases "m w")
  from runsD [OF assms(1) [unfolded keeps_to_def] assms(2,3) m]
  show steps: "(tp_step L)\<^sup>*\<^sup>* (wdb w) (wdb (snd (m w)))" by (simp add: m)
  show "tp_ok L (wdb (snd (m w)))" by (rule stable_star [OF tp_stable steps assms(3)])
qed

lemma tp_steps_keep: "(tp_step L)\<^sup>*\<^sup>* s s' \<Longrightarrow> tp_ok L s \<Longrightarrow> tp_ok L s'"
  by (rule stable_star [OF tp_stable])

section \<open>What follows\<close>


text \<open>Any sequence of calls; a call that throws does not stop the ones after it.\<close>

datatype template_call =
    CreateCall string create_template_input
  | PromoteCall string string string string
  | EgressCall string string policy_input
  | ArchiveCall string string
  | EnqueueCall string build_input
  | CancelCall string string
  | BuilderTurn
  | RetentionPass retention_policy time

definition doneP :: "('s, 'p, 'a) gproc \<Rightarrow> ('s, 'p, unit) gproc" where
  "doneP m = tryP (bindP m (\<lambda>_. retP ())) (\<lambda>e. retP ())"

fun serve_template :: "template_config \<Rightarrow> 'p image_builder \<Rightarrow> 'p jobs_api \<Rightarrow> template_call \<Rightarrow> ('p, unit) tsproc" where
  "serve_template cfg ib jobs (CreateCall org body) = doneP (createTemplate cfg org body)"
| "serve_template cfg ib jobs (PromoteCall org ref version label) = doneP (promoteTemplate cfg org ref version label)"
| "serve_template cfg ib jobs (EgressCall org ref policy) = doneP (updateTemplateEgress cfg org ref policy)"
| "serve_template cfg ib jobs (ArchiveCall org ref) = doneP (archiveTemplateForOrganization org ref)"
| "serve_template cfg ib jobs (EnqueueCall org input) = doneP (enqueueTemplateBuild cfg org input)"
| "serve_template cfg ib jobs (CancelCall org build) = doneP (cancelTemplateBuild org build)"
| "serve_template cfg ib jobs BuilderTurn = doneP (processNextTemplateBuild ib)"
| "serve_template cfg ib jobs (RetentionPass policy t) = doneP (cleanupTemplateRetention jobs policy t)"

fun serve_templates :: "template_config \<Rightarrow> 'p image_builder \<Rightarrow> 'p jobs_api \<Rightarrow> template_call list \<Rightarrow> ('p, unit) tsproc" where
  "serve_templates cfg ib jobs [] = retP ()"
| "serve_templates cfg ib jobs (c # cs) = bindP (serve_template cfg ib jobs c) (\<lambda>_. serve_templates cfg ib jobs cs)"

lemma doneP_kept: "tkept L m \<Longrightarrow> tkept L (doneP m)"
  unfolding doneP_def by (intro keeps_to_intro)

lemma serve_kept: "tkept (tc_active_builds cfg) (serve_template cfg ib jobs c)"
  by (cases c) (auto intro: doneP_kept createTemplate_kept promote_kept updateTemplateEgress_kept archive_kept enqueue_kept
      cancel_kept process_kept retention_kept)

lemma serves_kept: "tkept (tc_active_builds cfg) (serve_templates cfg ib jobs cs)"
  by (induction cs) (auto intro!: keeps_to_intro serve_kept)

text \<open>
  C35. Builds of an organization. Whatever calls are served, with anything in between, an organization
  never has more unfinished builds than its limit; and no version was made by a build that was
  canceled, has not begun or still runs.
\<close>

theorem builds_limited:
  assumes "foreign_ok (tp_step (tc_active_builds cfg)) w" "tp_ok (tc_active_builds cfg) (wdb w)"
    and "after = wdb (snd (serve_templates cfg ib jobs calls w))"
  shows "count_rows (active_build org) (ts_builds after) \<le> tc_active_builds cfg \<and>
    list_all (\<lambda>v. list_all (\<lambda>b. ve_build v \<noteq> Some (bu_id b) \<or> bu_status b = BuildSuccess \<or> bu_status b = BuildFailed) (ts_builds after)) (ts_versions after)"
proof -
  have ok: "tp_ok (tc_active_builds cfg) after"
    unfolding assms(3) by (rule tkept_run(2) [OF serves_kept assms(1,2)])
  have built: "bu_status b = BuildSuccess \<or> bu_status b = BuildFailed"
    if v: "v \<in> set (ts_versions after)" "b \<in> set (ts_builds after)" "ve_build v = Some (bu_id b)" for v b
  proof -
    from ok v(1,3) obtain c where "c \<in> set (ts_builds after)" "bu_id c = bu_id b" "bu_status c = BuildSuccess \<or> bu_status c = BuildFailed"
      unfolding tp_ok_def versions_built_def by blast
    with same_id [OF ok v(2)] show ?thesis by blast
  qed
  with ok show ?thesis by (auto simp: tp_ok_def within_build_limit_def list_all_iff)
qed

definition still_latest :: "string \<Rightarrow> string \<Rightarrow> tstore \<Rightarrow> bool" where
  "still_latest i status s \<longleftrightarrow> list_ex (\<lambda>v. ve_id v = i \<and> ''latest'' \<in> set (ve_aliases v) \<and> ve_status v = status) (ts_versions s)"

lemma still_latest_step: "tp_step L s s' \<Longrightarrow> still_latest i x s \<Longrightarrow> still_latest i x s'"
proof (cases rule: tp_step.cases, assumption)
  fix P f assume a: "still_latest i x s" "s' = s\<lparr>ts_versions := update_rows P f (ts_versions s)\<rparr>" and kept: "\<And>v. P v \<Longrightarrow> version_kept v (f v)"
  then obtain v where v: "v \<in> set (ts_versions s)" "ve_id v = i" "''latest'' \<in> set (ve_aliases v)" "ve_status v = x"
    by (auto simp: still_latest_def list_ex_iff)
  then have "(if P v then f v else v) \<in> set (ts_versions s')" by (simp add: a(2) update_rows_def)
  moreover have "ve_id (if P v then f v else v) = i \<and> ''latest'' \<in> set (ve_aliases (if P v then f v else v)) \<and> ve_status (if P v then f v else v) = x"
    using v kept [of v] by (auto simp: version_kept_def)
  ultimately show ?thesis unfolding still_latest_def list_ex_iff by blast
qed (auto simp: still_latest_def list_ex_iff)


lemma next_number_above: "v \<in> set (ts_versions s) \<Longrightarrow> ve_template v = template \<Longrightarrow> ve_number v < next_number s template"
proof -
  have "v \<in> set vs \<Longrightarrow> ve_template v = template \<Longrightarrow> ve_number v \<le> foldr (\<lambda>v n. if ve_template v = template then max (ve_number v) n else n) vs 0" for vs
    by (induction vs) auto
  then show "v \<in> set (ts_versions s) \<Longrightarrow> ve_template v = template \<Longrightarrow> ve_number v < next_number s template"
    unfolding next_number_def by (simp add: less_Suc_eq_le)
qed

lemma not_published: "publish b t uri digest scan s = Inr (Some i, s') \<Longrightarrow> map_option bu_status
      (first_row (filter (\<lambda>q. bu_id q = bu_id b \<and> list_ex (\<lambda>t. te_id t = bu_template q) (ts_templates s)) (ts_builds s))) \<noteq> Some BuildCanceled"
  by (auto simp: publish_def bindT_Inr_iff getsT_apply returnT_apply)

lemma log_tables: "appendLog b k s = Inr (u, s') \<Longrightarrow> ts_versions s' = ts_versions s \<and> ts_templates s' = ts_templates s \<and> ts_builds s' = ts_builds s"
  by (auto simp: appendLog_def bindT_Inr_iff getsT_apply modifyT_def throwT_def split: if_splits)

lemma audit_tables: "recordAudit a t s = Inr (u, s') \<Longrightarrow> ts_versions s' = ts_versions s \<and> ts_templates s' = ts_templates s \<and> ts_builds s' = ts_builds s"
  by (auto simp: recordAudit_def modifyT_def)



section \<open>Witnesses\<close>

definition demo_spec :: spec where
  "demo_spec = \<lparr>sp_image = ''python:3'', sp_digest = None, sp_entrypoint = [], sp_cpu = 1, sp_memory = 512, sp_workdir = ''/workspace'',
     sp_ports = [], sp_egress = None, sp_slots = []\<rparr>"

definition demo_template :: template_rec where
  "demo_template = \<lparr>te_id = ''t'', te_org = Some ''o'', te_name = ''t'', te_aliases = [], te_tags = [], te_visibility = TPrivate,
     te_status = ''building'', te_spec = demo_spec, te_latest = None, te_updated_at = 0\<rparr>"

definition demo_build :: build_rec where
  "demo_build = new_build ''b'' ''o'' \<lparr>bn_template = ''t'', bn_source = FromImage, bn_hash = None, bn_dockerfile = None, bn_image = Some ''python:3''\<rparr> 0"

definition demo_templates :: tstore where
  "demo_templates = \<lparr>ts_db = empty_db, ts_templates = [demo_template], ts_versions = [], ts_builds = [demo_build], ts_contexts = [], ts_logs = [],
     ts_credentials = [], ts_audits = []\<rparr>"

definition demo_template_config :: template_config where
  "demo_template_config = \<lparr>tc_limits = \<lparr>maxCpuCount = 4, maxMemoryMb = 4096, maxDefaultPorts = 4\<rparr>,
     tc_policy = \<lparr>allowRegistries = [], denyRegistries = [], allowPrefixes = [], denyPrefixes = []\<rparr>, tc_active_builds = 1, tc_shipped = []\<rparr>"

definition demo_template_world :: "(tstore, unit) gworld" where
  "demo_template_world = \<lparr>wdb = demo_templates, prv = (), foreign = [\<lambda>s. s\<lparr>ts_logs := []\<rparr>]\<rparr>"

lemmas demo_template_defs = demo_templates_def demo_build_def demo_template_def demo_spec_def new_build_def

lemma demo_templates_ok: "tp_ok 1 demo_templates"
  by (auto simp: demo_template_defs tp_parts count_rows_def active_build_def)

lemma demo_templates_foreign: "foreign_ok (tp_step L) demo_template_world"
  by (auto simp: foreign_ok_def demo_template_world_def intro: step_other)


text \<open>A builder that answers at once, and a cluster without jobs.\<close>

definition demo_builder :: "unit image_builder" where
  "demo_builder = \<lparr>ib_build = (\<lambda>b src p. (Inr (''registry/python@sha'', ''sha''), p)), ib_preflight = (\<lambda>b uri c p. (Inr (), p)),
     ib_prepull = (\<lambda>b uri tags c p. (Inr False, p)), ib_scanner = None, ib_scan_strict = False\<rparr>"

definition demo_jobs :: "unit jobs_api" where
  "demo_jobs = \<lparr>jo_list = (\<lambda>p. (Inr [], p)), jo_delete = (\<lambda>j p. (Inr (), p))\<rparr>"

definition demo_template_calls :: "template_call list" where
  "demo_template_calls = [BuilderTurn, BuilderTurn, RetentionPass \<lparr>tr_enabled = True, tr_job_days = 1, tr_delete_jobs = True, tr_build_days = 1,
     tr_log_days = 1, tr_context_days = 1, tr_version_days = 1\<rparr> 1000000000]"

lemma demo_template_limit: "tc_active_builds demo_template_config = 1"
  by (simp add: demo_template_config_def)

lemma demo_template_world_ok: "tp_ok (tc_active_builds demo_template_config) (wdb demo_template_world)"
  using demo_templates_ok by (simp add: demo_template_config_def demo_template_world_def)

theorem builds_limited_witness:
  "count_rows (active_build ''o'') (ts_builds (wdb (snd (serve_templates demo_template_config demo_builder demo_jobs demo_template_calls demo_template_world)))) \<le> 1"
  using builds_limited [OF demo_templates_foreign demo_template_world_ok refl, of "''o''" demo_builder demo_jobs demo_template_calls] by (simp add: demo_template_limit)

lemma demo_publish:
  "\<exists>s'. publish demo_build demo_template ''registry/python@sha'' ''sha'' ''scanned'' demo_templates = Inr (Some (''tplv_'' @ nat_str 0), s')"
  by (simp add: publish_def demo_template_defs bindT_def getsT_def modifyT_def returnT_def throwT_def ts_makeId_def makeId_Inr empty_db_def ts_now_def insert_version_def
      new_version_def next_number_def upd_templates_def upd_builds_def appendLog_def recordAudit_def update_rows_def)



text \<open>An upload that returns has taken such steps too.\<close>

lemma upload_step:
  assumes "uploadTemplateBuildContext cfg codec org i c s = Some (Inr (r, s'))"
  shows "(tp_step L)\<^sup>*\<^sup>* s s'"
  using assms tx_stepsD [OF tx_store_context]
  by (fastforce simp: uploadTemplateBuildContext_def split: option.splits if_splits sum.splits)

end
